(* ===== verification/Shig_Prelude.thy ===== *)
theory Shig_Prelude
  imports Main "HOL-Library.AList" "HOL-Library.Word"
begin

text \<open>
  Shared vocabulary of the development: Go errors and their wrapping, the
  outcome of a call (it returns, it panics, it blocks for ever), Go maps as
  association lists whose list order stands for the iteration order of a
  \<^verbatim>\<open>range\<close> loop, identifiers, and the interface every keyed repository of
  the program satisfies, with the lemmas proved once for all of them.
\<close>

section \<open>Errors, results and outcomes\<close>

text \<open>A Go error: a sentinel or formatted error, or one wrapped by
  \<^verbatim>\<open>fmt.Errorf\<close> with a verb that keeps the cause, or two errors joined
  by \<^verbatim>\<open>errors.Join\<close>, or by \<^verbatim>\<open>fmt.Errorf\<close> with two such verbs and a
  text between them.\<close>

datatype go_error = Err string | Wrap string go_error | Join go_error go_error
  | Wrap_Both go_error string go_error

type_synonym 'a result = "go_error + 'a"

datatype 'a outcome = Ret 'a | Panic | Block

named_theorems outcome_simps
named_theorems gomap_simps
named_theorems inv_intros

fun error_text :: "go_error \<Rightarrow> string" where
  "error_text (Err s) = s"
| "error_text (Wrap s e) = s @ error_text e"
| "error_text (Join a b) = error_text a @ [CHR 0x0A] @ error_text b"
| "error_text (Wrap_Both a s b) = error_text a @ s @ error_text b"

fun errors_is :: "go_error \<Rightarrow> go_error \<Rightarrow> bool" where
  "errors_is (Err s) t = (Err s = t)"
| "errors_is (Wrap s e) t = (Wrap s e = t \<or> errors_is e t)"
| "errors_is (Join a b) t = (Join a b = t \<or> errors_is a t \<or> errors_is b t)"
| "errors_is (Wrap_Both a s b) t = (Wrap_Both a s b = t \<or> errors_is a t \<or> errors_is b t)"

lemma errors_is_refl [simp]: "errors_is e e"
  by (cases e) auto

lemma errors_is_Wrap: "errors_is e t \<Longrightarrow> errors_is (Wrap s e) t"
  by simp

definition is_ok :: "'a result \<Rightarrow> bool" where
  "is_ok r = (case r of Inl _ \<Rightarrow> False | Inr _ \<Rightarrow> True)"

lemma is_ok_simps [simp]: "is_ok (Inr x)" "\<not> is_ok (Inl e)"
  by (auto simp: is_ok_def)

lemma is_ok_iff: "is_ok r \<longleftrightarrow> (\<exists>x. r = Inr x)"
  by (cases r) auto

fun wrap_err :: "string \<Rightarrow> 'a result \<Rightarrow> 'a result" where
  "wrap_err s (Inl e) = Inl (Wrap s e)"
| "wrap_err s (Inr x) = Inr x"

lemma wrap_err_ok [simp]: "is_ok (wrap_err s r) = is_ok r"
  by (cases r) auto

fun outcome_bind :: "'a outcome \<Rightarrow> ('a \<Rightarrow> 'b outcome) \<Rightarrow> 'b outcome" where
  "outcome_bind (Ret x) f = f x"
| "outcome_bind Panic f = Panic"
| "outcome_bind Block f = Block"

lemma outcome_bind_Ret [outcome_simps]:
  "outcome_bind r f = Ret y \<longleftrightarrow> (\<exists>x. r = Ret x \<and> f x = Ret y)"
  by (cases r) auto

lemma outcome_bind_Panic [outcome_simps]:
  "outcome_bind r f = Panic \<longleftrightarrow> r = Panic \<or> (\<exists>x. r = Ret x \<and> f x = Panic)"
  by (cases r) auto

lemma outcome_bind_Block [outcome_simps]:
  "outcome_bind r f = Block \<longleftrightarrow> r = Block \<or> (\<exists>x. r = Ret x \<and> f x = Block)"
  by (cases r) auto

text \<open>Reading through a pointer that may be nil.\<close>

definition deref :: "'a option \<Rightarrow> 'a outcome" where
  "deref p = (case p of None \<Rightarrow> Panic | Some x \<Rightarrow> Ret x)"

lemma deref_simps [simp]: "deref (Some x) = Ret x" "deref None = Panic"
  by (simp_all add: deref_def)

lemma deref_Ret [outcome_simps]: "deref p = Ret x \<longleftrightarrow> p = Some x"
  by (cases p) simp_all

text \<open>What a call leaves alone: if it returns, an observation of the new state has a
  given value.  The rules follow the shape of a call.\<close>

definition keeps_frame :: "('w \<Rightarrow> 'x) \<Rightarrow> 'x \<Rightarrow> ('r \<times> 'w) outcome \<Rightarrow> bool" where
  "keeps_frame f c m = (\<forall>r w. m = Ret (r, w) \<longrightarrow> f w = c)"

named_theorems frame_intros

lemma keeps_frameD: "keeps_frame f c m \<Longrightarrow> m = Ret (r, w) \<Longrightarrow> f w = c"
  by (simp add: keeps_frame_def)

lemma keeps_Ret [frame_intros]: "f w = c \<Longrightarrow> keeps_frame f c (Ret (r, w))"
  by (simp add: keeps_frame_def)

lemma keeps_Panic [frame_intros, simp]: "keeps_frame f c Panic" "keeps_frame f c Block"
  by (simp_all add: keeps_frame_def)

lemma keeps_bind [frame_intros]:
  assumes "keeps_frame f c m" "\<And>r w. m = Ret (r, w) \<Longrightarrow> f w = c \<Longrightarrow> keeps_frame f c (k r w)"
  shows "keeps_frame f c (outcome_bind m (\<lambda>(r, w). k r w))"
  using assms by (cases m) (auto simp: keeps_frame_def)

lemma keeps_bind_value:
  "(\<And>x. m = Ret x \<Longrightarrow> keeps_frame f c (k x)) \<Longrightarrow> keeps_frame f c (outcome_bind m k)"
  by (cases m) (auto simp: keeps_frame_def)

lemma keeps_sum [frame_intros]:
  "(\<And>e. r = Inl e \<Longrightarrow> keeps_frame f c (a e)) \<Longrightarrow> (\<And>x. r = Inr x \<Longrightarrow> keeps_frame f c (b x)) \<Longrightarrow>
   keeps_frame f c (case r of Inl e \<Rightarrow> a e | Inr x \<Rightarrow> b x)"
  by (cases r) auto

lemma keeps_option [frame_intros]:
  "(r = None \<Longrightarrow> keeps_frame f c a) \<Longrightarrow> (\<And>x. r = Some x \<Longrightarrow> keeps_frame f c (b x)) \<Longrightarrow>
   keeps_frame f c (case r of None \<Rightarrow> a | Some x \<Rightarrow> b x)"
  by (cases r) auto

lemma keeps_if [frame_intros]:
  "(P \<Longrightarrow> keeps_frame f c a) \<Longrightarrow> (\<not> P \<Longrightarrow> keeps_frame f c b) \<Longrightarrow> keeps_frame f c (if P then a else b)"
  by auto

lemma keeps_prod [frame_intros]:
  "(\<And>a b. p = (a, b) \<Longrightarrow> keeps_frame f c (k a b)) \<Longrightarrow> keeps_frame f c (case p of (a, b) \<Rightarrow> k a b)"
  by (cases p) auto

text \<open>What holds of every value a computation returns.\<close>

definition returns_only :: "('a \<Rightarrow> bool) \<Rightarrow> 'a outcome \<Rightarrow> bool" where
  "returns_only Q m = (\<forall>x. m = Ret x \<longrightarrow> Q x)"

named_theorems ret_intros

lemma returns_onlyD: "returns_only Q m \<Longrightarrow> m = Ret x \<Longrightarrow> Q x"
  by (simp add: returns_only_def)

lemma returns_Ret [ret_intros]: "Q x \<Longrightarrow> returns_only Q (Ret x)"
  by (simp add: returns_only_def)

lemma returns_Panic [ret_intros, simp]: "returns_only Q Panic" "returns_only Q Block"
  by (simp_all add: returns_only_def)

lemma returns_bind [ret_intros]:
  "(\<And>x. m = Ret x \<Longrightarrow> returns_only Q (k x)) \<Longrightarrow> returns_only Q (outcome_bind m k)"
  by (cases m) (auto simp: returns_only_def)

lemma returns_sum [ret_intros]:
  "(\<And>e. r = Inl e \<Longrightarrow> returns_only Q (a e)) \<Longrightarrow> (\<And>x. r = Inr x \<Longrightarrow> returns_only Q (b x)) \<Longrightarrow>
   returns_only Q (case r of Inl e \<Rightarrow> a e | Inr x \<Rightarrow> b x)"
  by (cases r) auto

lemma returns_option [ret_intros]:
  "(r = None \<Longrightarrow> returns_only Q a) \<Longrightarrow> (\<And>x. r = Some x \<Longrightarrow> returns_only Q (b x)) \<Longrightarrow>
   returns_only Q (case r of None \<Rightarrow> a | Some x \<Rightarrow> b x)"
  by (cases r) auto

lemma returns_if [ret_intros]:
  "(P \<Longrightarrow> returns_only Q a) \<Longrightarrow> (\<not> P \<Longrightarrow> returns_only Q b) \<Longrightarrow> returns_only Q (if P then a else b)"
  by auto

lemma returns_prod [ret_intros]:
  "(\<And>a b. p = (a, b) \<Longrightarrow> returns_only Q (k a b)) \<Longrightarrow> returns_only Q (case p of (a, b) \<Rightarrow> k a b)"
  by (cases p) auto

section \<open>Identifiers\<close>

text \<open>A UUID is a sixteen byte array.\<close>

type_synonym uuid = "128 word"

abbreviation uuid_nil :: uuid where "uuid_nil \<equiv> 0"

section \<open>Go maps\<close>

text \<open>A Go map is an association list with distinct keys.  Its order is the
  order in which one \<^verbatim>\<open>range\<close> loop visits the entries; Go leaves that
  order open, so statements about loops are made for every association list
  with the same content.\<close>

type_synonym ('k, 'v) gomap = "('k \<times> 'v) list"

abbreviation wf_map :: "('k, 'v) gomap \<Rightarrow> bool" where
  "wf_map m \<equiv> distinct (map fst m)"

definition same_map :: "('k, 'v) gomap \<Rightarrow> ('k, 'v) gomap \<Rightarrow> bool" where
  "same_map m m' = (map_of m = map_of m')"

abbreviation has_key :: "('k, 'v) gomap \<Rightarrow> 'k \<Rightarrow> bool" where
  "has_key m k \<equiv> map_of m k \<noteq> None"

lemma map_of_upd [simp, gomap_simps]:
  "map_of (AList.update k v m) = (map_of m)(k \<mapsto> v)"
  by (simp add: update_conv')

lemma map_of_del [simp, gomap_simps]:
  "map_of (AList.delete k m) = (map_of m)(k := None)"
  by (simp add: delete_conv')

lemma wf_upd [simp, inv_intros]: "wf_map m \<Longrightarrow> wf_map (AList.update k v m)"
  by (rule distinct_update)

lemma wf_del [simp, inv_intros]: "wf_map m \<Longrightarrow> wf_map (AList.delete k m)"
  by (rule distinct_delete)

lemma wf_filter [simp, inv_intros]: "wf_map m \<Longrightarrow> wf_map (filter P m)"
  by (rule distinct_map_filter)

lemma length_upd:
  "length (AList.update k v m) = (if map_of m k = None then Suc (length m) else length m)"
  by (induction m) auto

lemma del_absent: "map_of m k = None \<Longrightarrow> AList.delete k m = m"
  by (induction m) (auto split: if_splits)

lemma length_del:
  "wf_map m \<Longrightarrow> length (AList.delete k m) = (if map_of m k = None then length m else length m - 1)"
proof (induction m)
  case (Cons a m)
  have nm: "map_of m (fst a) = None"
    using Cons.prems by (auto simp: map_of_eq_None_iff)
  show ?case
  proof (cases "fst a = k")
    case True
    then show ?thesis using nm del_absent[of m k] by (cases a) auto
  next
    case False
    have "length m > 0" if "map_of m k \<noteq> None" using that by (cases m) auto
    then show ?thesis using False Cons by (cases a) auto
  qed
qed simp

lemma map_of_filter:
  "wf_map m \<Longrightarrow> map_of (filter P m) k =
     (case map_of m k of None \<Rightarrow> None | Some v \<Rightarrow> if P (k, v) then Some v else None)"
proof (induction m)
  case (Cons a m)
  have nm: "map_of m (fst a) = None"
    using Cons.prems by (auto simp: map_of_eq_None_iff)
  then show ?case using Cons by (cases a) (auto split: option.splits)
qed simp

lemma wf_mem_iff: "wf_map m \<Longrightarrow> (k, v) \<in> set m \<longleftrightarrow> map_of m k = Some v"
  by (metis map_of_eq_Some_iff)

lemma same_map_set:
  assumes "wf_map m" "wf_map m'" "same_map m m'"
  shows "set m = set m'"
proof -
  have "(k, v) \<in> set m \<longleftrightarrow> (k, v) \<in> set m'" for k v
    using assms wf_mem_iff[of m k v] wf_mem_iff[of m' k v] by (simp only: same_map_def)
  then show ?thesis by auto
qed

lemma same_map_length:
  assumes "wf_map m" "wf_map m'" "same_map m m'"
  shows "length m = length m'"
proof -
  have "card (set m) = length m" "card (set m') = length m'"
    using assms(1,2) distinct_map distinct_card by blast+
  then show ?thesis using same_map_set[OF assms] by simp
qed

lemmas gomap_laws = map_of_upd map_of_del wf_upd wf_del length_upd length_del

section \<open>Range loops that search\<close>

text \<open>A loop that returns the first entry satisfying a test.\<close>

fun range_find :: "('k \<times> 'v \<Rightarrow> bool) \<Rightarrow> ('k, 'v) gomap \<Rightarrow> 'v option" where
  "range_find P [] = None"
| "range_find P (e # es) = (if P e then Some (snd e) else range_find P es)"

lemma range_find_None: "range_find P m = None \<longleftrightarrow> (\<forall>e\<in>set m. \<not> P e)"
  by (induction m) auto

lemma range_find_Some: "range_find P m = Some v \<Longrightarrow> \<exists>k. (k, v) \<in> set m \<and> P (k, v)"
  by (induction m) (auto split: if_splits)

lemma range_find_unique:
  assumes "(k, v) \<in> set m" "P (k, v)"
    and "\<And>e. e \<in> set m \<Longrightarrow> P e \<Longrightarrow> snd e = v"
  shows "range_find P m = Some v"
proof (cases "range_find P m")
  case None
  then show ?thesis using assms(1,2) range_find_None by metis
next
  case (Some w)
  then show ?thesis using range_find_Some[OF Some] assms(3) by fastforce
qed

text \<open>When at most one entry satisfies the test, the result does not depend on
  the iteration order.\<close>

lemma range_find_order:
  assumes "wf_map m" "wf_map m'" "same_map m m'"
    and uniq: "\<And>e e'. e \<in> set m \<Longrightarrow> e' \<in> set m \<Longrightarrow> P e \<Longrightarrow> P e' \<Longrightarrow> e = e'"
  shows "range_find P m = range_find P m'"
proof (cases "range_find P m'")
  case None
  then show ?thesis
    using same_map_set[OF assms(1-3)] range_find_None by metis
next
  case (Some v)
  obtain k where "(k, v) \<in> set m'" "P (k, v)" using range_find_Some[OF Some] by auto
  then have "(k, v) \<in> set m" using same_map_set[OF assms(1-3)] by simp
  then have "range_find P m = Some v"
    using \<open>P (k, v)\<close> uniq by (intro range_find_unique) fastforce+
  then show ?thesis using Some by simp
qed

section \<open>The interface of a keyed repository\<close>

text \<open>Every repository of the program is a table guarded by a lock, with a
  lookup, an insertion and a removal.  The laws are those the callers rely on.\<close>

locale keyed_store =
  fixes get :: "'s \<Rightarrow> 'k \<Rightarrow> 'v option"
    and put :: "'k \<Rightarrow> 'v \<Rightarrow> 's \<Rightarrow> 's"
    and del :: "'k \<Rightarrow> 's \<Rightarrow> 's"
    and inv :: "'s \<Rightarrow> bool"
  assumes get_put: "inv s \<Longrightarrow> get (put k v s) = (get s)(k \<mapsto> v)"
    and get_del: "inv s \<Longrightarrow> get (del k s) = (get s)(k := None)"
    and inv_put: "inv s \<Longrightarrow> inv (put k v s)"
    and inv_del: "inv s \<Longrightarrow> inv (del k s)"
begin

lemma get_put_same: "inv s \<Longrightarrow> get (put k v s) k = Some v"
  by (simp add: get_put)

lemma get_del_same: "inv s \<Longrightarrow> get (del k s) k = None"
  by (simp add: get_del)

lemma get_put_other: "inv s \<Longrightarrow> k \<noteq> k' \<Longrightarrow> get (put k v s) k' = get s k'"
  by (simp add: get_put)

lemma put_del_fresh: "inv s \<Longrightarrow> get s k = None \<Longrightarrow> get (del k (put k v s)) = get s"
  by (simp add: get_put get_del inv_put fun_upd_idem)

lemma inv_put_all: "inv s \<Longrightarrow> inv (fold (\<lambda>(k, v). put k v) kvs s)"
  by (induction kvs arbitrary: s) (auto simp: inv_put)

lemma get_put_all:
  "inv s \<Longrightarrow> get (fold (\<lambda>(k, v). put k v) kvs s) = get s ++ map_of (rev kvs)"
proof (induction kvs arbitrary: s)
  case (Cons e kvs)
  obtain k v where e: "e = (k, v)" by (cases e)
  have "get (fold (\<lambda>(k, v). put k v) kvs (put k v s)) = get (put k v s) ++ map_of (rev kvs)"
    using Cons inv_put by blast
  also have "\<dots> = get s ++ map_of (rev kvs @ [(k, v)])"
    using Cons.prems by (simp add: get_put map_add_upd_left map_add_assoc [symmetric]) 
  finally show ?case using e by simp
qed simp

end

text \<open>A repository that also reports its size.\<close>

locale counted_store = keyed_store get put del inv
  for get :: "'s \<Rightarrow> 'k \<Rightarrow> 'v option" and put del inv +
  fixes size_of :: "'s \<Rightarrow> nat"
  assumes size_put: "inv s \<Longrightarrow>
      size_of (put k v s) = (if get s k = None then Suc (size_of s) else size_of s)"
    and size_del: "inv s \<Longrightarrow>
      size_of (del k s) = (if get s k = None then size_of s else size_of s - 1)"
    and size_zero: "inv s \<Longrightarrow> size_of s = 0 \<longleftrightarrow> get s = (\<lambda>_. None)"
begin

lemma size_put_le: "inv s \<Longrightarrow> size_of (put k v s) \<le> Suc (size_of s)"
  by (simp add: size_put)

lemma size_pos: "inv s \<Longrightarrow> get s k = Some v \<Longrightarrow> 0 < size_of s"
  using size_zero[of s] by auto

lemma size_put_del: "inv s \<Longrightarrow> get s k = None \<Longrightarrow> size_of (del k (put k v s)) = size_of s"
  by (simp add: size_put size_del inv_put get_put)

end

text \<open>Plain association lists are the first instance; the repositories built on
  them reuse it.\<close>

lemma map_of_empty_iff: "length m = 0 \<longleftrightarrow> map_of m = (\<lambda>_. None)"
proof
  assume "map_of m = (\<lambda>_. None)"
  then show "length m = 0" by (cases m) (auto split: if_splits simp: fun_eq_iff)
qed simp

interpretation gomap: counted_store map_of AList.update AList.delete wf_map length
  by unfold_locales (simp_all add: length_upd length_del map_of_empty_iff del: length_0_conv)

end
