(* ===== verification/Go_Strings.thy ===== *)
theory Go_Strings
  imports Shig_Prelude "HOL-Library.Sublist"
begin

text \<open>
  The functions of Go's \<^verbatim>\<open>strings\<close> and \<^verbatim>\<open>fmt\<close> packages the program
  uses, on byte strings, with their laws: splitting at a separator byte, with
  and without keeping it, prefixes and suffixes, trimming, and the decimal
  verb.
\<close>

type_synonym bytes = "8 word list"

section \<open>Splitting\<close>

text \<open>\<^verbatim>\<open>strings.SplitAfter\<close> for a separator of one byte.\<close>

fun split_after :: "char \<Rightarrow> string \<Rightarrow> string list" where
  "split_after c [] = [[]]"
| "split_after c (x # xs) =
     (if x = c then [x] # split_after c xs
      else (x # hd (split_after c xs)) # tl (split_after c xs))"

text \<open>\<^verbatim>\<open>strings.Split\<close> for a separator of one byte.\<close>

fun split_on :: "char \<Rightarrow> string \<Rightarrow> string list" where
  "split_on c [] = [[]]"
| "split_on c (x # xs) =
     (if x = c then [] # split_on c xs
      else (x # hd (split_on c xs)) # tl (split_on c xs))"

lemma split_after_ne [simp]: "split_after c s \<noteq> []"
  by (cases s) auto

lemma split_on_ne [simp]: "split_on c s \<noteq> []"
  by (cases s) auto

lemma split_after_concat: "concat (split_after c s) = s"
proof (induction s)
  case (Cons x xs)
  then show ?case
    by (cases "split_after c xs") (auto)
qed simp

lemma split_after_free: "c \<notin> set s \<Longrightarrow> split_after c s = [s]"
  by (induction s) auto

lemma split_on_free: "c \<notin> set s \<Longrightarrow> split_on c s = [s]"
  by (induction s) auto

lemma split_after_app:
  "c \<notin> set s \<Longrightarrow> split_after c (s @ c # t) = (s @ [c]) # split_after c t"
  by (induction s) auto

lemma split_on_app:
  "c \<notin> set s \<Longrightarrow> split_on c (s @ c # t) = s # split_on c t"
  by (induction s) auto

lemma length_split_after: "length (split_after c s) = Suc (count_list s c)"
proof (induction s)
  case (Cons x xs)
  have "split_after c xs \<noteq> []" by simp
  then show ?case using Cons by (cases "split_after c xs") auto
qed simp

lemma length_split_on: "length (split_on c s) = Suc (count_list s c)"
proof (induction s)
  case (Cons x xs)
  have "split_on c xs \<noteq> []" by simp
  then show ?case using Cons by (cases "split_on c xs") auto
qed simp

lemma last_split_on_free: "c \<notin> set (last (split_on c s))"
proof (induction s)
  case (Cons x xs)
  have ne: "split_on c xs \<noteq> []" by simp
  then show ?case using Cons by (cases "split_on c xs") auto
qed simp

lemma last_split_on_app: "last (split_on c (s @ c # t)) = last (split_on c t)"
proof (induction s)
  case (Cons x xs)
  have "split_on c (xs @ c # t) \<noteq> []" by simp
  moreover have "tl (split_on c (xs @ c # t)) \<noteq> []"
    using length_split_on[of c "xs @ c # t"]
    by (cases "split_on c (xs @ c # t)") auto
  ultimately show ?case using Cons
    by (cases "split_on c (xs @ c # t)") auto
qed simp

section \<open>Prefixes, suffixes and substrings\<close>

definition has_prefix :: "string \<Rightarrow> string \<Rightarrow> bool" where
  "has_prefix s p = (take (length p) s = p)"

definition trim_prefix :: "string \<Rightarrow> string \<Rightarrow> string" where
  "trim_prefix s p = (if has_prefix s p then drop (length p) s else s)"

fun contains_str :: "string \<Rightarrow> string \<Rightarrow> bool" where
  "contains_str [] p = (p = [])"
| "contains_str (x # xs) p = (has_prefix (x # xs) p \<or> contains_str xs p)"

lemma has_prefix_iff: "has_prefix s p \<longleftrightarrow> (\<exists>t. s = p @ t)"
  unfolding has_prefix_def by (metis append_eq_conv_conj append_take_drop_id)

lemma has_prefix_prefix: "has_prefix s p \<longleftrightarrow> prefix p s"
  by (auto simp: has_prefix_iff prefix_def)

lemma trim_prefix_app [simp]: "trim_prefix (p @ t) p = t"
  by (auto simp: trim_prefix_def has_prefix_def)

lemma contains_empty [simp]: "contains_str s []"
  by (cases s) (auto simp: has_prefix_def)

lemma contains_iff: "contains_str s p \<longleftrightarrow> sublist p s"
proof (induction s)
  case (Cons x xs)
  then show ?case
    by (auto simp: has_prefix_prefix sublist_Cons_right)
qed (auto)

section \<open>Trimming\<close>

text \<open>The ASCII white space bytes of \<^verbatim>\<open>strings.TrimSpace\<close>.\<close>

definition is_space :: "char \<Rightarrow> bool" where
  "is_space c = (c \<in> set [CHR 0x09, CHR 0x0A, CHR 0x0B, CHR 0x0C, CHR 0x0D, CHR '' ''])"

definition trim_space :: "string \<Rightarrow> string" where
  "trim_space s = rev (dropWhile is_space (rev (dropWhile is_space s)))"

lemma is_space_blank [simp]: "is_space CHR '' ''"
  by (simp add: is_space_def)

lemma dropWhile_free: "\<forall>c\<in>set s. \<not> P c \<Longrightarrow> dropWhile P s = s"
  by (cases s) auto

lemma trim_space_free: "\<forall>c\<in>set s. \<not> is_space c \<Longrightarrow> trim_space s = s"
  by (simp add: trim_space_def dropWhile_free)

lemma trim_space_blank:
  assumes "\<forall>c\<in>set s. \<not> is_space c"
  shows "trim_space (s @ [CHR '' '']) = s"
proof (cases s)
  case (Cons a list)
  then have "dropWhile is_space (s @ [CHR '' '']) = s @ [CHR '' '']"
    using assms by auto
  moreover have "dropWhile is_space (rev s) = rev s"
    using assms by (cases "rev s") (auto simp: dropWhile_eq_self_iff)
  ultimately show ?thesis by (simp add: trim_space_def)
qed (simp add: trim_space_def)

section \<open>Decimal numbers\<close>

definition digit :: "nat \<Rightarrow> char" where
  "digit d = ''0123456789'' ! d"

fun show_nat :: "nat \<Rightarrow> string" where
  "show_nat n = (if n < 10 then [digit n] else show_nat (n div 10) @ [digit (n mod 10)])"

declare show_nat.simps [simp del]

definition show_int :: "int \<Rightarrow> string" where
  "show_int i = (if i < 0 then CHR ''-'' # show_nat (nat (- i)) else show_nat (nat i))"

definition digit_val :: "char \<Rightarrow> nat" where
  "digit_val c = of_char c - 48"

definition read_nat :: "string \<Rightarrow> nat" where
  "read_nat s = foldl (\<lambda>n c. n * 10 + digit_val c) 0 s"

lemma lt10_cases:
  "d < 10 \<Longrightarrow> d = 0 \<or> d = 1 \<or> d = 2 \<or> d = 3 \<or> d = 4 \<or> d = 5 \<or> d = 6 \<or> d = 7 \<or> d = 8 \<or> d = (9::nat)"
  by auto

lemma digit_val_digit [simp]: "d < 10 \<Longrightarrow> digit_val (digit d) = d"
  using lt10_cases[of d] by (auto simp: digit_val_def digit_def)

lemma digit_not_space: "d < 10 \<Longrightarrow> \<not> is_space (digit d)"
  using lt10_cases[of d] by (auto simp: is_space_def digit_def)

lemma digit_not_dash: "d < 10 \<Longrightarrow> digit d \<noteq> CHR ''-''"
  using lt10_cases[of d] by (auto simp: digit_def)

lemma read_show_nat: "read_nat (show_nat n) = n"
proof (induction n rule: show_nat.induct)
  case (1 n)
  then show ?case
    by (subst show_nat.simps) (auto simp: read_nat_def)
qed

lemma show_nat_inj: "show_nat m = show_nat n \<longleftrightarrow> m = n"
  by (metis read_show_nat)

lemma show_nat_digits: "c \<in> set (show_nat n) \<Longrightarrow> \<exists>d<10. c = digit d"
proof (induction n rule: show_nat.induct)
  case (1 n)
  show ?case
  proof (cases "n < 10")
    case True
    then show ?thesis using 1(2) by (auto simp: show_nat.simps)
  next
    case False
    then have "c \<in> set (show_nat (n div 10)) \<or> c = digit (n mod 10)"
      using 1(2) by (subst (asm) show_nat.simps) auto
    then show ?thesis using 1(1)[OF False] by (metis mod_less_divisor zero_less_numeral)
  qed
qed

lemma show_nat_no_space: "\<forall>c\<in>set (show_nat n). \<not> is_space c"
  using show_nat_digits digit_not_space by blast

lemma show_int_no_space: "\<forall>c\<in>set (show_int i). \<not> is_space c"
  using show_nat_no_space by (auto simp: show_int_def is_space_def)

lemma show_int_no_blank: "CHR '' '' \<notin> set (show_int i)"
  using show_int_no_space is_space_blank by blast

lemma show_int_inj: "show_int i = show_int j \<longleftrightarrow> i = j"
proof -
  have dash: "show_nat n \<noteq> CHR ''-'' # s" for n s
    using show_nat_digits[of "CHR ''-''" n] digit_not_dash by (metis list.set_intros(1))
  show ?thesis
    using dash dash[symmetric] by (auto simp: show_int_def show_nat_inj split: if_splits)
qed

lemma show_small [simp]: "show_int 1 = ''1''" "show_int 2 = ''2''"
  by (simp_all add: show_int_def show_nat.simps digit_def)

section \<open>Case\<close>

text \<open>\<^verbatim>\<open>strings.ToLower\<close> on ASCII.\<close>

definition lower_char :: "char \<Rightarrow> char" where
  "lower_char c = (case map_of (zip ''ABCDEFGHIJKLMNOPQRSTUVWXYZ'' ''abcdefghijklmnopqrstuvwxyz'') c of
     Some d \<Rightarrow> d | None \<Rightarrow> c)"

definition to_lower :: "string \<Rightarrow> string" where
  "to_lower s = map lower_char s"

end
