(* ===== verification/Track_Info.thy ===== *)
theory Track_Info
  imports Go_Strings
begin

text \<open>
  Track descriptions (\<^verbatim>\<open>internal/rtp/track_info.go\<close>,
  \<^verbatim>\<open>track_sdp_info.go\<close>) and the repository an endpoint keeps them in
  (\<^verbatim>\<open>track_sdp_info_repository.go\<close>).  The repository holds pointers; the
  setters that write through a pointer it handed out are written as updates of
  the entry.
\<close>

section \<open>Purposes and track descriptions\<close>

type_synonym purpose = int

definition purpose_guest :: purpose where "purpose_guest = 1"
definition purpose_main :: purpose where "purpose_main = 2"

definition purpose_to_string :: "purpose \<Rightarrow> string" where
  "purpose_to_string p =
     (if p = purpose_guest then ''guest'' else if p = purpose_main then ''main'' else ''guest'')"

record track_sdp_info =
  ti_id :: uuid
  ti_session_id :: uuid
  ti_ingress_mid :: string
  ti_ingress_track_id :: string
  ti_egress_mid :: string
  ti_egress_track_id :: string
  ti_purpose :: purpose
  ti_mute :: bool
  ti_info :: string

text \<open>The fresh identifier of \<^verbatim>\<open>uuid.New\<close> is an argument.\<close>

definition new_track_sdp_info :: "uuid \<Rightarrow> uuid \<Rightarrow> track_sdp_info" where
  "new_track_sdp_info i session_id =
     \<lparr> ti_id = i, ti_session_id = session_id, ti_ingress_mid = [], ti_ingress_track_id = [],
       ti_egress_mid = [], ti_egress_track_id = [], ti_purpose = purpose_guest,
       ti_mute = False, ti_info = ''Guest'' \<rparr>"

text \<open>A local track of the WebRTC library, as far as the program looks into it:
  its identifier, its stream identifier and its kind.\<close>

record local_track =
  lt_id :: string
  lt_stream_id :: string
  lt_kind :: string

record track_info =
  tk_sdp :: track_sdp_info
  tk_track :: local_track

definition new_track_info :: "local_track \<Rightarrow> track_sdp_info \<Rightarrow> track_info" where
  "new_track_info t i = \<lparr> tk_sdp = i, tk_track = t \<rparr>"

definition get_id :: "track_info \<Rightarrow> uuid" where "get_id t = ti_id (tk_sdp t)"
definition get_purpose :: "track_info \<Rightarrow> purpose" where "get_purpose t = ti_purpose (tk_sdp t)"
definition get_session_id :: "track_info \<Rightarrow> uuid" where "get_session_id t = ti_session_id (tk_sdp t)"
definition get_track_local :: "track_info \<Rightarrow> local_track" where "get_track_local t = tk_track t"
definition get_mute :: "track_info \<Rightarrow> bool" where "get_mute t = ti_mute (tk_sdp t)"
definition get_ingress_mid :: "track_info \<Rightarrow> string" where "get_ingress_mid t = ti_ingress_mid (tk_sdp t)"
definition get_egress_mid :: "track_info \<Rightarrow> string" where "get_egress_mid t = ti_egress_mid (tk_sdp t)"

definition set_mute :: "bool \<Rightarrow> track_info \<Rightarrow> track_info" where
  "set_mute b t = t\<lparr> tk_sdp := (tk_sdp t)\<lparr> ti_mute := b \<rparr> \<rparr>"

lemmas track_getters = get_id_def get_purpose_def get_session_id_def get_track_local_def
  get_mute_def get_ingress_mid_def get_egress_mid_def

lemma set_mute_frame [simp]:
  "get_mute (set_mute b t) = b" "get_id (set_mute b t) = get_id t"
  "get_purpose (set_mute b t) = get_purpose t" "get_session_id (set_mute b t) = get_session_id t"
  "get_track_local (set_mute b t) = get_track_local t"
  by (simp_all add: track_getters set_mute_def)

section \<open>The repository\<close>

type_synonym track_repo = "(uuid, track_sdp_info) gomap"

definition new_track_repo :: track_repo where "new_track_repo = []"

definition repo_set :: "uuid \<Rightarrow> track_sdp_info \<Rightarrow> track_repo \<Rightarrow> track_repo" where
  "repo_set i info r = AList.update i info r"

definition repo_get :: "track_repo \<Rightarrow> uuid \<Rightarrow> track_sdp_info option" where
  "repo_get r i = map_of r i"

definition repo_delete :: "uuid \<Rightarrow> track_repo \<Rightarrow> track_repo \<times> bool" where
  "repo_delete i r =
     (case map_of r i of None \<Rightarrow> (r, False) | Some _ \<Rightarrow> (AList.delete i r, True))"

definition repo_contains :: "track_repo \<Rightarrow> uuid \<Rightarrow> bool" where
  "repo_contains r i = (case map_of r i of None \<Rightarrow> False | Some _ \<Rightarrow> True)"

definition repo_len :: "track_repo \<Rightarrow> nat" where "repo_len r = length r"

text \<open>The copy of all entries; the loop inserts one entry after the other.\<close>

definition get_track_sdp_infos :: "track_repo \<Rightarrow> track_repo" where
  "get_track_sdp_infos r = fold (\<lambda>(i, info) acc. AList.update i info acc) r []"

definition by_egress_track_id :: "track_repo \<Rightarrow> string \<Rightarrow> track_sdp_info option" where
  "by_egress_track_id r t = range_find (\<lambda>(_, info). ti_egress_track_id info = t) r"

definition by_ingress_mid :: "track_repo \<Rightarrow> string \<Rightarrow> track_sdp_info option" where
  "by_ingress_mid r m = range_find (\<lambda>(_, info). ti_ingress_mid info = m) r"

definition by_ingress_track_id :: "track_repo \<Rightarrow> string \<Rightarrow> track_sdp_info option" where
  "by_ingress_track_id r t = range_find (\<lambda>(_, info). ti_ingress_track_id info = t) r"

text \<open>A write through the pointer the repository handed out.\<close>

definition repo_modify :: "uuid \<Rightarrow> (track_sdp_info \<Rightarrow> track_sdp_info) \<Rightarrow> track_repo \<Rightarrow> track_repo" where
  "repo_modify i f r = map (\<lambda>(k, v). if k = i then (k, f v) else (k, v)) r"

section \<open>Laws\<close>

text \<open>Every entry is filed under its own identifier.\<close>

definition repo_inv :: "track_repo \<Rightarrow> bool" where
  "repo_inv r = (wf_map r \<and> (\<forall>(k, v)\<in>set r. ti_id v = k))"

lemma repo_inv_new [simp, inv_intros]: "repo_inv new_track_repo"
  by (simp add: repo_inv_def new_track_repo_def)

lemma set_update_sub: "set (AList.update k v m) \<subseteq> insert (k, v) (set m)"
  by (induction m) auto

lemma repo_inv_set [inv_intros]:
  "repo_inv r \<Longrightarrow> ti_id info = i \<Longrightarrow> repo_inv (repo_set i info r)"
  using set_update_sub[of i info r] by (fastforce simp: repo_inv_def repo_set_def)

lemma set_delete_sub: "set (AList.delete k m) \<subseteq> set m"
  by (induction m) auto

lemma repo_inv_delete [inv_intros]: "repo_inv r \<Longrightarrow> repo_inv (fst (repo_delete i r))"
  using set_delete_sub[of i r]
  by (fastforce simp: repo_inv_def repo_delete_def split: option.splits)

lemma map_fst_modify: "map fst (repo_modify i f r) = map fst r"
  by (induction r) (auto simp: repo_modify_def)

lemma repo_inv_modify [inv_intros]:
  assumes "repo_inv r" "\<And>v. ti_id (f v) = ti_id v"
  shows "repo_inv (repo_modify i f r)"
proof -
  have "\<forall>(k, v)\<in>set (repo_modify i f r). ti_id v = k"
    using assms by (auto simp: repo_inv_def repo_modify_def split: if_splits)
  then show ?thesis using assms(1) by (simp add: repo_inv_def map_fst_modify)
qed

lemma repo_get_modify:
  "repo_get (repo_modify i f r) k = (if k = i then map_option f (repo_get r k) else repo_get r k)"
  by (induction r) (auto simp: repo_modify_def repo_get_def)

lemma repo_len_modify [simp]: "repo_len (repo_modify i f r) = repo_len r"
  by (simp add: repo_len_def repo_modify_def)

lemma repo_delete_fst: "fst (repo_delete i r) = AList.delete i r"
  by (auto simp: repo_delete_def del_absent split: option.splits)

interpretation track_store: counted_store repo_get repo_set "\<lambda>i r. fst (repo_delete i r)"
  wf_map repo_len
  by unfold_locales
    (auto simp: repo_get_def[abs_def] repo_set_def repo_len_def repo_delete_fst length_upd length_del
       map_of_empty_iff simp del: length_0_conv)

lemma repo_contains_iff: "repo_contains r i \<longleftrightarrow> repo_get r i \<noteq> None"
  by (auto simp: repo_contains_def repo_get_def split: option.splits)

text \<open>The copy has the content of the repository, so a caller that changes the
  copy's entries leaves the repository alone.\<close>

lemma map_of_rev: "wf_map m \<Longrightarrow> map_of (rev m) = map_of m"
proof (induction m)
  case (Cons a m)
  then have "map_of m (fst a) = None" by (auto simp: map_of_eq_None_iff)
  then show ?case using Cons by (cases a) (auto simp: map_add_def fun_eq_iff split: option.splits)
qed simp

lemma copy_same: "repo_inv r \<Longrightarrow> same_map (get_track_sdp_infos r) r"
  by (simp add: same_map_def get_track_sdp_infos_def gomap.get_put_all map_of_rev repo_inv_def)

text \<open>A search by a unique attribute finds its entry, whatever the order of
  the loop.\<close>

lemma by_attr_found:
  assumes "repo_get r i = Some info" "P info"
    and "\<And>k v. repo_get r k = Some v \<Longrightarrow> P v \<Longrightarrow> k = i" "wf_map r"
  shows "range_find (\<lambda>(_, v). P v) r = Some info"
proof (rule range_find_unique)
  show "(i, info) \<in> set r" using assms(1) by (simp add: repo_get_def map_of_SomeD)
next
  fix e assume e: "e \<in> set r" "case e of (_, v) \<Rightarrow> P v"
  obtain k v where kv: "e = (k, v)" by (cases e)
  have "repo_get r k = Some v" "P v" using e kv assms(4) by (simp_all add: repo_get_def)
  then show "snd e = info" using assms(1) assms(3)[of k v] kv by simp
qed (use assms(2) in simp)

lemmas by_egress_found = by_attr_found[where P = "\<lambda>v. ti_egress_track_id v = t" for t,
  folded by_egress_track_id_def]
lemmas by_ingress_found = by_attr_found[where P = "\<lambda>v. ti_ingress_track_id v = t" for t,
  folded by_ingress_track_id_def]

lemma by_egress_sound:
  "by_egress_track_id r t = Some info \<Longrightarrow>
     \<exists>i. (i, info) \<in> set r \<and> ti_egress_track_id info = t"
  unfolding by_egress_track_id_def by (drule range_find_Some) auto

lemma by_ingress_sound:
  "by_ingress_track_id r t = Some info \<Longrightarrow>
     \<exists>i. (i, info) \<in> set r \<and> ti_ingress_track_id info = t"
  unfolding by_ingress_track_id_def by (drule range_find_Some) auto

end
