(* ===== verification/Sdp.thy ===== *)
theory Sdp
  imports Track_Info
begin

text \<open>
  The track information carried in session descriptions
  (\<^verbatim>\<open>internal/rtp/sdp.go\<close>).  Unmarshalling and marshalling belong to the
  SDP library and are parameters; of an unmarshalled description the code reads
  the media sections: their media name, their title and single attributes.
  Everything else is kept in the polymorphic part of the record.
\<close>

record media_desc =
  md_media :: string
  md_title :: "string option"
  md_attribute :: "string \<Rightarrow> string option"

record 'r sdp_obj =
  so_media :: "media_desc list"
  so_rest :: 'r

datatype sdp_type = SdpOffer | SdpPranswer | SdpAnswer | SdpRollback

record session_description =
  sd_type :: sdp_type
  sd_sdp :: string

definition is_av :: "media_desc \<Rightarrow> bool" where
  "is_av d = (md_media d = ''video'' \<or> md_media d = ''audio'')"

text \<open>\<^verbatim>\<open>strings.SplitAfter(msid, \<close> blank \<^verbatim>\<open>)\<close> when it has two
  parts; the second is the track identifier.\<close>

definition msid_track :: "string \<Rightarrow> string option" where
  "msid_track msid = (case split_after CHR '' '' msid of [_, t] \<Rightarrow> Some t | _ \<Rightarrow> None)"

definition parse_sdp_information :: "string \<Rightarrow> track_sdp_info \<Rightarrow> track_sdp_info" where
  "parse_sdp_information s t =
     (case split_after CHR '' '' s of
        [a, b, c] \<Rightarrow>
          t\<lparr> ti_purpose := (if trim_space a = ''1'' then purpose_guest
                           else if trim_space a = ''2'' then purpose_main
                           else purpose_guest),
             ti_mute := (if trim_space b = ''1'' then True
                         else if trim_space b = ''2'' then False
                         else False),
             ti_info := c \<rparr>
      | _ \<Rightarrow> t)"

definition build_sdp_information :: "track_sdp_info \<Rightarrow> string" where
  "build_sdp_information t =
     show_int (ti_purpose t) @ '' '' @ (if ti_mute t then ''1'' else ''2'') @ '' '' @ ti_info t"

text \<open>The loop of \<^verbatim>\<open>getIngressTrackSdpInfo\<close>; every audio or video section
  draws a fresh identifier, whether or not it is registered.\<close>

fun ingress_sections ::
  "uuid \<Rightarrow> (nat \<Rightarrow> uuid) \<Rightarrow> nat \<Rightarrow> media_desc list \<Rightarrow> track_repo \<Rightarrow> track_repo" where
  "ingress_sections sess new_id n [] rep = rep"
| "ingress_sections sess new_id n (d # ds) rep =
     (if \<not> is_av d then ingress_sections sess new_id n ds rep
      else
        let t = new_track_sdp_info (new_id n) sess;
            info_string = (case md_title d of Some s \<Rightarrow> s | None \<Rightarrow> []);
            t = parse_sdp_information info_string t;
            rep' = (case md_attribute d ''msid'' of
                      Some msid \<Rightarrow>
                        (case msid_track msid of
                           Some track_id \<Rightarrow>
                             repo_set (ti_id t) (t\<lparr> ti_ingress_track_id := track_id \<rparr>) rep
                         | None \<Rightarrow> rep)
                    | None \<Rightarrow> rep)
        in ingress_sections sess new_id (Suc n) ds rep')"

definition get_ingress_track_sdp_info ::
  "(string \<Rightarrow> 'r sdp_obj result) \<Rightarrow> (nat \<Rightarrow> uuid) \<Rightarrow> session_description \<Rightarrow> uuid \<Rightarrow> track_repo
     \<Rightarrow> track_repo result" where
  "get_ingress_track_sdp_info unmarshal new_id sd sess rep =
     (case unmarshal (sd_sdp sd) of
        Inl e \<Rightarrow> Inl (Wrap ''unmarshal sdp: '' e)
      | Inr obj \<Rightarrow> Inr (ingress_sections sess new_id 0 (so_media obj) rep))"

definition mark_section :: "string \<Rightarrow> media_desc \<Rightarrow> media_desc" where
  "mark_section stream_id d =
     (if \<not> is_av d then d
      else case md_attribute d ''msid'' of
             Some msid \<Rightarrow> if contains_str msid stream_id
                         then d\<lparr> md_title := Some (show_int purpose_main) \<rparr> else d
           | None \<Rightarrow> d)"

definition mark_stream_as_main ::
  "(string \<Rightarrow> 'r sdp_obj result) \<Rightarrow> ('r sdp_obj \<Rightarrow> string result)
     \<Rightarrow> session_description \<Rightarrow> string \<Rightarrow> session_description result" where
  "mark_stream_as_main unmarshal marshal sd stream_id =
     (case unmarshal (sd_sdp sd) of
        Inl e \<Rightarrow> Inl (Wrap ''unmarshal sdp: '' e)
      | Inr obj \<Rightarrow>
          (case marshal (obj\<lparr> so_media := map (mark_section stream_id) (so_media obj) \<rparr>) of
             Inl e \<Rightarrow> Inl (Wrap ''marshal new sdp: '' e)
           | Inr s \<Rightarrow> Inr \<lparr> sd_type = sd_type sd, sd_sdp = s \<rparr>))"

text \<open>The loop of \<^verbatim>\<open>setEgressTrackInfo\<close> rewrites the sections and stores the
  egress media identifier in the repository's entry.\<close>

definition egress_section :: "media_desc \<Rightarrow> track_repo \<Rightarrow> media_desc \<times> track_repo" where
  "egress_section d rep =
     (if \<not> is_av d then (d, rep)
      else case md_attribute d ''msid'' of
             None \<Rightarrow> (d, rep)
           | Some msid \<Rightarrow>
               (case msid_track msid of
                  None \<Rightarrow> (d, rep)
                | Some track_id \<Rightarrow>
                    (case by_egress_track_id rep track_id of
                       None \<Rightarrow> (d, rep)
                     | Some t \<Rightarrow>
                         (d\<lparr> md_title := Some (build_sdp_information t) \<rparr>,
                          case md_attribute d ''mid'' of
                            Some mid \<Rightarrow> repo_modify (ti_id t) (\<lambda>v. v\<lparr> ti_egress_mid := mid \<rparr>) rep
                          | None \<Rightarrow> rep))))"

fun egress_sections ::
  "media_desc list \<Rightarrow> track_repo \<Rightarrow> media_desc list \<times> track_repo" where
  "egress_sections [] rep = ([], rep)"
| "egress_sections (d # ds) rep =
     (let (d', rep') = egress_section d rep;
          (ds', rep'') = egress_sections ds rep'
      in (d' # ds', rep''))"

definition set_egress_track_info ::
  "(string \<Rightarrow> 'r sdp_obj result) \<Rightarrow> ('r sdp_obj \<Rightarrow> string result)
     \<Rightarrow> session_description \<Rightarrow> track_repo \<Rightarrow> session_description result \<times> track_repo" where
  "set_egress_track_info unmarshal marshal sd rep =
     (case unmarshal (sd_sdp sd) of
        Inl e \<Rightarrow> (Inl (Wrap ''unmarshal sdp: '' e), rep)
      | Inr obj \<Rightarrow>
          (let (ds, rep') = egress_sections (so_media obj) rep in
           (case marshal (obj\<lparr> so_media := ds \<rparr>) of
              Inl e \<Rightarrow> (Inl (Wrap ''marshal new sdp: '' e), rep')
            | Inr s \<Rightarrow> (Inr \<lparr> sd_type = sd_type sd, sd_sdp = s \<rparr>, rep'))))"

section \<open>Helper lemmas\<close>

lemma split_three:
  assumes "CHR '' '' \<notin> set a" "CHR '' '' \<notin> set b" "CHR '' '' \<notin> set c"
  shows "split_after CHR '' '' (a @ '' '' @ b @ '' '' @ c) = [a @ '' '', b @ '' '', c]"
  using assms by (simp add: split_after_app split_after_free)

lemma parse_id [simp]: "ti_id (parse_sdp_information s t) = ti_id t"
  "ti_session_id (parse_sdp_information s t) = ti_session_id t"
  "ti_egress_track_id (parse_sdp_information s t) = ti_egress_track_id t"
  "ti_egress_mid (parse_sdp_information s t) = ti_egress_mid t"
  by (auto simp: parse_sdp_information_def split: list.splits)

lemma new_info_simps [simp]:
  "ti_id (new_track_sdp_info i s) = i" "ti_session_id (new_track_sdp_info i s) = s"
  "ti_purpose (new_track_sdp_info i s) = purpose_guest"
  by (simp_all add: new_track_sdp_info_def)

text \<open>The entry the loop makes of one section, when it makes one.\<close>

definition section_entry :: "uuid \<Rightarrow> uuid \<Rightarrow> media_desc \<Rightarrow> track_sdp_info option" where
  "section_entry sess i d =
     (if \<not> is_av d then None
      else map_option
        (\<lambda>t. (parse_sdp_information (case md_title d of Some s \<Rightarrow> s | None \<Rightarrow> [])
                (new_track_sdp_info i sess))\<lparr> ti_ingress_track_id := t \<rparr>)
        (Option.bind (md_attribute d ''msid'') msid_track))"

lemma ingress_sections_Cons:
  "ingress_sections sess new_id n (d # ds) rep =
     ingress_sections sess new_id (if is_av d then Suc n else n) ds
       (case section_entry sess (new_id n) d of Some t \<Rightarrow> repo_set (new_id n) t rep | None \<Rightarrow> rep)"
  by (auto simp: section_entry_def Let_def split: option.splits)

declare ingress_sections.simps(2) [simp del]

lemma section_entry_id: "section_entry sess i d = Some t \<Longrightarrow> ti_id t = i \<and> ti_session_id t = sess"
  by (auto simp: section_entry_def split: if_splits)

lemma ingress_inv:
  "repo_inv rep \<Longrightarrow> repo_inv (ingress_sections sess new_id n ds rep)"
proof (induction ds arbitrary: n rep)
  case (Cons d ds)
  have "repo_inv (case section_entry sess (new_id n) d of
      Some t \<Rightarrow> repo_set (new_id n) t rep | None \<Rightarrow> rep)"
    using Cons.prems by (auto split: option.splits dest: section_entry_id intro: inv_intros)
  then show ?case using Cons.IH by (simp add: ingress_sections_Cons)
qed simp

text \<open>The identifiers a list of sections draws.\<close>

definition drawn :: "nat \<Rightarrow> media_desc list \<Rightarrow> nat set" where
  "drawn n ds = {n..<n + length (filter is_av ds)}"

lemma drawn_simps [simp]:
  "drawn n [] = {}"
  "is_av d \<Longrightarrow> drawn n (d # ds) = insert n (drawn (Suc n) ds)"
  "\<not> is_av d \<Longrightarrow> drawn n (d # ds) = drawn n ds"
  by (auto simp: drawn_def)

lemma drawn_not_before [simp]: "n \<notin> drawn (Suc n) ds"
  by (simp add: drawn_def)

text \<open>Entries filed under other identifiers survive.\<close>

lemma ingress_keeps:
  "k \<notin> new_id ` drawn n ds \<Longrightarrow>
     repo_get (ingress_sections sess new_id n ds rep) k = repo_get rep k"
proof (induction ds arbitrary: n rep)
  case (Cons d ds)
  then show ?case
    by (cases "is_av d")
      (auto simp: ingress_sections_Cons repo_set_def repo_get_def section_entry_def split: option.splits)
qed simp

lemma ingress_len:
  assumes "inj_on new_id (drawn n ds)" "\<forall>m\<in>drawn n ds. repo_get rep (new_id m) = None"
  shows "repo_len (ingress_sections sess new_id n ds rep) =
     repo_len rep + length (filter (\<lambda>d. section_entry sess 0 d \<noteq> None) ds)"
  using assms
proof (induction ds arbitrary: n rep)
  case (Cons d ds)
  define rep' where "rep' = (case section_entry sess (new_id n) d of
      Some t \<Rightarrow> repo_set (new_id n) t rep | None \<Rightarrow> rep)"
  have fresh: "is_av d \<Longrightarrow> \<forall>m\<in>drawn (Suc n) ds. repo_get rep' (new_id m) = None"
  proof -
    assume av: "is_av d"
    then have "new_id m \<noteq> new_id n" if "m \<in> drawn (Suc n) ds" for m
      using Cons.prems(1) that by (auto simp: rev_image_eqI)
    then show ?thesis
      using Cons.prems(2) av by (auto simp: rep'_def repo_get_def repo_set_def split: option.splits)
  qed
  have same: "\<not> is_av d \<Longrightarrow> rep' = rep \<and> section_entry sess 0 d = None"
    by (simp add: rep'_def section_entry_def)
  have len: "is_av d \<Longrightarrow>
      repo_len rep' = repo_len rep + (if section_entry sess 0 d \<noteq> None then 1 else 0)"
    using Cons.prems
    by (auto simp: rep'_def repo_len_def repo_set_def repo_get_def section_entry_def length_upd
        split: option.splits if_splits)
  show ?case
  proof (cases "is_av d")
    case True
    then have "inj_on new_id (drawn (Suc n) ds)" using Cons.prems(1) by simp
    then show ?thesis using Cons.IH[of "Suc n" rep'] fresh[OF True] len[OF True] True
      by (simp add: ingress_sections_Cons rep'_def [symmetric])
  next
    case False
    then show ?thesis using Cons.IH[of n rep] Cons.prems same
      by (simp add: ingress_sections_Cons rep'_def [symmetric])
  qed
qed simp

lemma ingress_entry:
  assumes "inj_on new_id (drawn n ds)" "i < length ds" "is_av (ds ! i)"
    and "section_entry sess (new_id (n + length (filter is_av (take i ds)))) (ds ! i) = Some t"
  shows "repo_get (ingress_sections sess new_id n ds rep)
           (new_id (n + length (filter is_av (take i ds)))) = Some t"
  using assms
proof (induction ds arbitrary: i n rep)
  case (Cons d ds)
  show ?case
  proof (cases i)
    case 0
    then have "new_id n \<notin> new_id ` drawn (Suc n) ds" using Cons.prems by auto
    then have "repo_get (ingress_sections sess new_id (Suc n) ds (repo_set (new_id n) t rep)) (new_id n)
        = Some t"
      by (simp add: ingress_keeps) (simp add: repo_set_def repo_get_def)
    then show ?thesis using Cons.prems 0 by (simp add: ingress_sections_Cons)
  next
    case (Suc j)
    have "inj_on new_id (drawn (if is_av d then Suc n else n) ds)"
      using Cons.prems(1) by (cases "is_av d") simp_all
    then show ?thesis
      using Suc Cons.IH[of "if is_av d then Suc n else n" j] Cons.prems
      by (auto simp: ingress_sections_Cons split: if_splits)
  qed
qed simp

lemma egress_Cons [simp]:
  "fst (egress_sections (d # ds) rep) =
     fst (egress_section d rep) # fst (egress_sections ds (snd (egress_section d rep)))"
  "snd (egress_sections (d # ds) rep) = snd (egress_sections ds (snd (egress_section d rep)))"
  by (simp_all add: Let_def split: prod.splits)

declare egress_sections.simps(2) [simp del]

lemma egress_section_inv: "repo_inv rep \<Longrightarrow> repo_inv (snd (egress_section d rep))"
  by (auto simp: egress_section_def repo_inv_modify split: option.splits)

lemma egress_inv: "repo_inv rep \<Longrightarrow> repo_inv (snd (egress_sections ds rep))"
  by (induction ds arbitrary: rep) (simp_all add: egress_section_inv)

lemma egress_length: "length (fst (egress_sections ds rep)) = length ds"
  by (induction ds arbitrary: rep) simp_all

text \<open>The sections keep their media name and attributes; only titles change.\<close>

lemma egress_section_frame [simp]:
  "md_media (fst (egress_section d rep)) = md_media d"
  "md_attribute (fst (egress_section d rep)) = md_attribute d"
  by (simp_all add: egress_section_def split: option.splits)

lemma egress_frame:
  "map md_media (fst (egress_sections ds rep)) = map md_media ds"
  "map md_attribute (fst (egress_sections ds rep)) = map md_attribute ds"
  by (induction ds arbitrary: rep) simp_all

text \<open>What an entry says apart from its egress media identifier does not
  change.\<close>

definition but_mid :: "track_sdp_info \<Rightarrow> track_sdp_info" where
  "but_mid t = t\<lparr> ti_egress_mid := [] \<rparr>"

lemma egress_section_entry:
  "map_option but_mid (repo_get (snd (egress_section d rep)) k) = map_option but_mid (repo_get rep k)"
  by (cases "repo_get rep k")
    (auto simp: egress_section_def repo_get_modify but_mid_def split: option.splits)

lemma egress_entry:
  "map_option but_mid (repo_get (snd (egress_sections ds rep)) k) = map_option but_mid (repo_get rep k)"
  by (induction ds arbitrary: rep) (simp_all add: egress_section_entry)

lemma build_but_mid [simp]: "build_sdp_information (but_mid t) = build_sdp_information t"
  by (simp add: build_sdp_information_def but_mid_def)

lemma but_mid_egress [simp]: "ti_egress_track_id (but_mid t) = ti_egress_track_id t"
  by (simp add: but_mid_def)

text \<open>The only entry with the egress track identifier of a section decides its
  title.\<close>

definition sole_egress :: "track_repo \<Rightarrow> uuid \<Rightarrow> string \<Rightarrow> bool" where
  "sole_egress rep k tr = (\<forall>k' t'. repo_get rep k' = Some t' \<and> ti_egress_track_id t' = tr \<longrightarrow> k' = k)"

lemma sole_egress_section: "sole_egress rep k tr \<Longrightarrow> sole_egress (snd (egress_section d rep)) k tr"
  unfolding sole_egress_def
proof (intro allI impI)
  fix k' t'
  assume all: "\<forall>k' t'. repo_get rep k' = Some t' \<and> ti_egress_track_id t' = tr \<longrightarrow> k' = k"
    and t': "repo_get (snd (egress_section d rep)) k' = Some t' \<and> ti_egress_track_id t' = tr"
  obtain t where "repo_get rep k' = Some t" "but_mid t = but_mid t'"
    using egress_section_entry[of d rep k'] t' by (cases "repo_get rep k'") auto
  moreover have "ti_egress_track_id t = tr"
    using t' but_mid_egress[of t] but_mid_egress[of t'] calculation(2) by simp
  ultimately show "k' = k" using all by blast
qed

lemma egress_section_title:
  assumes "repo_inv rep" "repo_get rep k = Some t" "sole_egress rep k (ti_egress_track_id t)"
    and "is_av d" "Option.bind (md_attribute d ''msid'') msid_track = Some (ti_egress_track_id t)"
  shows "md_title (fst (egress_section d rep)) = Some (build_sdp_information t)"
proof -
  have "by_egress_track_id rep (ti_egress_track_id t) = Some t"
    using assms(1-3) by (intro by_egress_found) (auto simp: sole_egress_def repo_inv_def)
  then show ?thesis using assms(4,5) by (auto simp: egress_section_def Option.bind_eq_Some_conv)
qed

lemma egress_title:
  assumes "repo_inv rep"
  shows "i < length ds \<and> is_av (ds ! i) \<and> repo_get rep k = Some t \<and>
    Option.bind (md_attribute (ds ! i) ''msid'') msid_track = Some (ti_egress_track_id t) \<and>
    (\<forall>k' t'. repo_get rep k' = Some t' \<and> ti_egress_track_id t' = ti_egress_track_id t \<longrightarrow> k' = k) \<longrightarrow>
    md_title (fst (egress_sections ds rep) ! i) = Some (build_sdp_information t)"
  using assms unfolding sole_egress_def[symmetric]
proof (induction ds arbitrary: i rep t)
  case (Cons d ds)
  show ?case
  proof (cases i)
    case 0
    then show ?thesis using Cons.prems by (auto intro: egress_section_title)
  next
    case (Suc j)
    show ?thesis
    proof
      assume a: "i < length (d # ds) \<and> is_av ((d # ds) ! i) \<and> repo_get rep k = Some t \<and>
        Option.bind (md_attribute ((d # ds) ! i) ''msid'') msid_track = Some (ti_egress_track_id t) \<and>
        sole_egress rep k (ti_egress_track_id t)"
      obtain t1 where t1: "repo_get (snd (egress_section d rep)) k = Some t1" "but_mid t1 = but_mid t"
        using egress_section_entry[of d rep k] a by (cases "repo_get (snd (egress_section d rep)) k") auto
      have same: "ti_egress_track_id t1 = ti_egress_track_id t"
        "build_sdp_information t1 = build_sdp_information t"
        using t1(2) but_mid_egress[of t] but_mid_egress[of t1] build_but_mid[of t] build_but_mid[of t1]
        by simp_all
      show "md_title (fst (egress_sections (d # ds) rep) ! i) = Some (build_sdp_information t)"
        using Cons.IH[where i = j and t = t1, OF egress_section_inv[OF Cons.prems, of d]] a Suc t1(1) same
          sole_egress_section[of rep k "ti_egress_track_id t" d] by simp
    qed
  qed
qed simp

section \<open>Properties\<close>

text \<open>C26: the information line written into a title for a track with a known
  purpose and an information text without a blank is read back to the same
  purpose, mute flag and text, and nothing else of the receiving description
  changes.\<close>

theorem sdp_information_roundtrip:
  assumes "ti_purpose t = purpose_guest \<or> ti_purpose t = purpose_main"
    and "CHR '' '' \<notin> set (ti_info t)"
  shows "parse_sdp_information (build_sdp_information t) t0 =
    t0\<lparr> ti_purpose := ti_purpose t, ti_mute := ti_mute t, ti_info := ti_info t \<rparr>"
proof -
  have "split_after CHR '' '' (build_sdp_information t) =
      [show_int (ti_purpose t) @ '' '', (if ti_mute t then ''1'' else ''2'') @ '' '', ti_info t]"
    unfolding build_sdp_information_def using show_int_no_blank assms(2)
    by (intro split_three) auto
  moreover have "trim_space (show_int (ti_purpose t) @ '' '') = show_int (ti_purpose t)"
    using show_int_no_space by (rule trim_space_blank)
  moreover have "trim_space ((if ti_mute t then ''1'' else ''2'') @ '' '') = (if ti_mute t then ''1'' else ''2'')"
    by (rule trim_space_blank) (simp add: is_space_def)
  ultimately show ?thesis using assms(1)
    by (auto simp: parse_sdp_information_def purpose_guest_def purpose_main_def)
qed

lemma sdp_information_roundtrip_witness:
  "parse_sdp_information
     (build_sdp_information ((new_track_sdp_info 7 9)\<lparr> ti_purpose := purpose_main, ti_mute := True \<rparr>))
     (new_track_sdp_info 1 2) =
   (new_track_sdp_info 1 2)\<lparr> ti_purpose := purpose_main, ti_mute := True, ti_info := ''Guest'' \<rparr>"
  by (subst sdp_information_roundtrip) (simp_all add: new_track_sdp_info_def)

text \<open>C6: reading an offer registers every audio or video section that carries
  a two part msid, under the fresh identifier it draws, with the session, the
  track identifier of the msid and the purpose of its title; it registers
  nothing else, keeps what was registered and keeps the repository's
  invariant.\<close>

theorem ingress_sdp_registers:
  assumes "unmarshal (sd_sdp sd) = Inr obj" "repo_inv rep"
    and "inj_on new_id (drawn 0 (so_media obj))"
    and "\<forall>m\<in>drawn 0 (so_media obj). repo_get rep (new_id m) = None"
  shows "\<exists>rep'. get_ingress_track_sdp_info unmarshal new_id sd sess rep = Inr rep' \<and>
     repo_inv rep' \<and>
     (\<forall>k. k \<notin> new_id ` drawn 0 (so_media obj) \<longrightarrow> repo_get rep' k = repo_get rep k) \<and>
     repo_len rep' = repo_len rep +
       length (filter (\<lambda>d. is_av d \<and> Option.bind (md_attribute d ''msid'') msid_track \<noteq> None)
         (so_media obj)) \<and>
     (\<forall>i d track_id. i < length (so_media obj) \<and> so_media obj ! i = d \<and> is_av d \<and>
        Option.bind (md_attribute d ''msid'') msid_track = Some track_id \<longrightarrow>
        (let k = new_id (length (filter is_av (take i (so_media obj)))) in
         \<exists>t. repo_get rep' k = Some t \<and> ti_id t = k \<and> ti_session_id t = sess \<and>
           ti_ingress_track_id t = track_id \<and>
           ti_purpose t = ti_purpose (parse_sdp_information
             (case md_title d of Some s \<Rightarrow> s | None \<Rightarrow> []) (new_track_sdp_info k sess))))"
proof -
  let ?rep = "ingress_sections sess new_id 0 (so_media obj) rep"
  have ent: "section_entry sess 0 d \<noteq> None \<longleftrightarrow>
      is_av d \<and> Option.bind (md_attribute d ''msid'') msid_track \<noteq> None" for d
    by (auto simp: section_entry_def)
  have len: "repo_len ?rep = repo_len rep +
      length (filter (\<lambda>d. is_av d \<and> Option.bind (md_attribute d ''msid'') msid_track \<noteq> None)
        (so_media obj))"
    using ingress_len[OF assms(3,4), of sess] by (simp only: ent simp_thms)
  have entry: "let k = new_id (length (filter is_av (take i (so_media obj)))) in
         \<exists>t. repo_get ?rep k = Some t \<and> ti_id t = k \<and> ti_session_id t = sess \<and>
           ti_ingress_track_id t = track_id \<and>
           ti_purpose t = ti_purpose (parse_sdp_information
             (case md_title d of Some s \<Rightarrow> s | None \<Rightarrow> []) (new_track_sdp_info k sess))"
    if *: "i < length (so_media obj) \<and> so_media obj ! i = d \<and> is_av d \<and>
        Option.bind (md_attribute d ''msid'') msid_track = Some track_id" for i d track_id
  proof -
    have se: "section_entry sess k d = Some ((parse_sdp_information
        (case md_title d of Some s \<Rightarrow> s | None \<Rightarrow> []) (new_track_sdp_info k sess))
          \<lparr> ti_ingress_track_id := track_id \<rparr>)" for k
      using * by (simp add: section_entry_def)
    show ?thesis
      using ingress_entry[OF assms(3), where i = i] * se
      by (simp add: Let_def)
  qed
  have "get_ingress_track_sdp_info unmarshal new_id sd sess rep = Inr ?rep"
    using assms(1) by (simp add: get_ingress_track_sdp_info_def)
  moreover have "\<forall>k. k \<notin> new_id ` drawn 0 (so_media obj) \<longrightarrow> repo_get ?rep k = repo_get rep k"
    by (simp add: ingress_keeps)
  ultimately show ?thesis
    using ingress_inv[OF assms(2)] len entry by blast
qed

definition sample_section :: "string \<Rightarrow> string option \<Rightarrow> string \<Rightarrow> media_desc" where
  "sample_section media title msid =
     \<lparr> md_media = media, md_title = title,
       md_attribute = (\<lambda>k. if k = ''msid'' then Some msid else if k = ''mid'' then Some ''0'' else None) \<rparr>"

definition sample_offer :: "unit sdp_obj" where
  "sample_offer = \<lparr> so_media = [sample_section ''application'' None ''x'',
     sample_section ''audio'' (Some ''2 1 Main'') ''s a''], so_rest = () \<rparr>"

lemma sample_av [simp]: "is_av (sample_section m t i) \<longleftrightarrow> m = ''video'' \<or> m = ''audio''"
  by (simp add: is_av_def sample_section_def)

lemma ingress_sdp_registers_witness:
  "\<exists>rep'. get_ingress_track_sdp_info (\<lambda>_. Inr sample_offer) of_nat
     \<lparr> sd_type = SdpOffer, sd_sdp = ''v=0'' \<rparr> 5 new_track_repo = Inr rep' \<and> repo_inv rep'"
proof -
  have "inj_on (of_nat :: nat \<Rightarrow> uuid) (drawn 0 (so_media sample_offer))"
    by (simp add: sample_offer_def)
  moreover have "\<forall>m\<in>drawn 0 (so_media sample_offer). repo_get new_track_repo (of_nat m) = None"
    by (simp add: new_track_repo_def repo_get_def)
  ultimately show ?thesis
    using ingress_sdp_registers[where unmarshal = "\<lambda>_. Inr sample_offer" and new_id = of_nat
        and obj = sample_offer, OF refl repo_inv_new]
    by blast
qed

text \<open>The title with which a stream is marked as main has one field only and
  the reader wants three, so a section marked by \<^verbatim>\<open>MarkStreamAsMain\<close> is
  registered with the purpose guest all the same.\<close>

theorem main_mark_not_read_back:
  assumes "is_av d" "md_attribute d ''msid'' = Some msid" "contains_str msid stream_id"
    and "section_entry sess i (mark_section stream_id d) = Some t"
  shows "ti_purpose t = purpose_guest"
  using assms by (auto simp: mark_section_def section_entry_def purpose_main_def
      parse_sdp_information_def is_av_def)

lemma main_mark_not_read_back_witness:
  "ti_purpose (the (section_entry 5 1 (mark_section ''s'' (sample_section ''video'' None ''s v'')))) =
     purpose_guest"
proof (rule main_mark_not_read_back[where msid = "''s v''"])
  show "section_entry 5 1 (mark_section ''s'' (sample_section ''video'' None ''s v'')) =
      Some (the (section_entry 5 1 (mark_section ''s'' (sample_section ''video'' None ''s v''))))"
    by (simp add: section_entry_def mark_section_def sample_section_def is_av_def msid_track_def)
qed (simp_all add: sample_section_def is_av_def has_prefix_def)

text \<open>Announcing the egress tracks writes into the title of every audio or
  video section whose track the repository knows the line the other side reads
  back to the purpose of that track; sections and entries are otherwise left
  alone, apart from the egress media identifier of the entries.\<close>

theorem egress_sdp_titles:
  assumes "unmarshal (sd_sdp sd) = Inr obj" "repo_inv rep"
    and "marshal (obj\<lparr> so_media := ds' \<rparr>) = Inr s" "ds' = fst (egress_sections (so_media obj) rep)"
  shows "fst (set_egress_track_info unmarshal marshal sd rep) = Inr \<lparr> sd_type = sd_type sd, sd_sdp = s \<rparr> \<and>
    repo_inv (snd (set_egress_track_info unmarshal marshal sd rep)) \<and>
    (\<forall>k. map_option but_mid (repo_get (snd (set_egress_track_info unmarshal marshal sd rep)) k) =
         map_option but_mid (repo_get rep k)) \<and>
    map md_attribute ds' = map md_attribute (so_media obj) \<and>
    (\<forall>i k t. i < length (so_media obj) \<and> is_av (so_media obj ! i) \<and> repo_get rep k = Some t \<and>
       Option.bind (md_attribute (so_media obj ! i) ''msid'') msid_track = Some (ti_egress_track_id t) \<and>
       (\<forall>k' t'. repo_get rep k' = Some t' \<and> ti_egress_track_id t' = ti_egress_track_id t \<longrightarrow> k' = k) \<longrightarrow>
       md_title (ds' ! i) = Some (build_sdp_information t))"
proof -
  have set: "set_egress_track_info unmarshal marshal sd rep =
      (Inr \<lparr> sd_type = sd_type sd, sd_sdp = s \<rparr>, snd (egress_sections (so_media obj) rep))"
    using assms(1,3) unfolding assms(4)
    by (cases "egress_sections (so_media obj) rep") (simp add: set_egress_track_info_def)
  show ?thesis
    unfolding set fst_conv snd_conv
    using egress_inv[OF assms(2)] egress_entry egress_frame(2) egress_title[OF assms(2)]
    unfolding assms(4) by blast
qed

definition sample_repo :: track_repo where
  "sample_repo = [(3, (new_track_sdp_info 3 9)\<lparr> ti_egress_track_id := ''a'' \<rparr>)]"

lemma egress_sdp_titles_witness:
  "md_title (fst (egress_sections (so_media sample_offer) sample_repo) ! 1) =
     Some (build_sdp_information ((new_track_sdp_info 3 9)\<lparr> ti_egress_track_id := ''a'' \<rparr>))"
proof -
  have "repo_inv sample_repo" by (simp add: repo_inv_def sample_repo_def)
  note egress_sdp_titles[where unmarshal = "\<lambda>_. Inr sample_offer" and marshal = "\<lambda>_. Inr ''v=1''"
      and obj = sample_offer and s = "''v=1''", OF refl this refl refl]
  then have "1 < length (so_media sample_offer) \<and> is_av (so_media sample_offer ! 1) \<and>
      repo_get sample_repo 3 = Some ((new_track_sdp_info 3 9)\<lparr> ti_egress_track_id := ''a'' \<rparr>) \<and>
      Option.bind (md_attribute (so_media sample_offer ! 1) ''msid'') msid_track = Some ''a'' \<and>
      (\<forall>k' t'. repo_get sample_repo k' = Some t' \<and> ti_egress_track_id t' = ''a'' \<longrightarrow> k' = 3) \<longrightarrow>
    ?thesis" by fastforce
  then show ?thesis
    by (auto simp: sample_repo_def repo_get_def sample_offer_def msid_track_def sample_section_def
        is_av_def split: if_splits)
qed

end
