(* ===== verification/Stats_Registry.thy ===== *)
theory Stats_Registry
  imports Go_Strings
begin

text \<open>
  The registry of statistics workers of a session
  (\<^verbatim>\<open>internal/rtp/stats/registry.go\<close>, \<^verbatim>\<open>worker.go\<close>).  The lock is
  part of the state, because one path returns with the lock held; an operation
  that waits for a lock nobody releases blocks.
\<close>

section \<open>State and operations\<close>

type_synonym ssrc = "32 word"
type_synonym labels = "(string, string) gomap"

record registry =
  rg_locked :: bool
  rg_session :: string
  rg_stats :: "(ssrc, nat) gomap"
  rg_next :: nat
  rg_running :: "(nat, labels) gomap"
  rg_closed :: "nat list"

text \<open>\<^verbatim>\<open>rg_stats\<close> holds the cancel channels, numbered in the order they are
  made; \<^verbatim>\<open>rg_running\<close> the labels a worker is started with (the program hands
  the map on, so workers started with one map share later changes of it),
  \<^verbatim>\<open>rg_closed\<close> the channels closed so far.\<close>

definition err_track_already_registered :: go_error where
  "err_track_already_registered = Err ''track source already registered''"

definition ssrc_to_string :: "ssrc \<Rightarrow> string" where
  "ssrc_to_string s = show_nat (unat s)"

definition new_registry :: "string \<Rightarrow> registry" where
  "new_registry session =
     \<lparr> rg_locked = False, rg_session = session, rg_stats = [], rg_next = 0, rg_running = [], rg_closed = [] \<rparr>"

definition start_worker :: "labels \<Rightarrow> ssrc \<Rightarrow> registry \<Rightarrow> (unit result \<times> registry) outcome" where
  "start_worker labels ssrc r =
     (if rg_locked r then Block
      else case map_of (rg_stats r) ssrc of
             Some _ \<Rightarrow> Ret (Inl err_track_already_registered, r\<lparr> rg_locked := True \<rparr>)
           | None \<Rightarrow>
               let cancel = rg_next r;
                   labels' = AList.update ''ssrc'' (ssrc_to_string ssrc)
                     (AList.update ''session'' (rg_session r) labels)
               in Ret (Inr (), r\<lparr> rg_stats := AList.update ssrc cancel (rg_stats r),
                                 rg_next := Suc cancel,
                                 rg_running := AList.update cancel labels' (rg_running r) \<rparr>))"

definition stop_worker :: "ssrc \<Rightarrow> registry \<Rightarrow> registry outcome" where
  "stop_worker ssrc r =
     (if rg_locked r then Block
      else case map_of (rg_stats r) ssrc of
             Some cancel \<Rightarrow> Ret (r\<lparr> rg_stats := AList.delete ssrc (rg_stats r),
                                    rg_closed := rg_closed r @ [cancel] \<rparr>)
           | None \<Rightarrow> Ret r)"

definition stop_all_worker :: "registry \<Rightarrow> registry outcome" where
  "stop_all_worker r =
     (if rg_locked r then Block
      else Ret (r\<lparr> rg_closed := rg_closed r @ map snd (rg_stats r), rg_stats := [] \<rparr>))"

text \<open>A worker whose channel is closed leaves its loop and removes its labels.\<close>

definition worker_exit :: "nat \<Rightarrow> registry \<Rightarrow> registry" where
  "worker_exit c r = (if c \<in> set (rg_closed r) then r\<lparr> rg_running := AList.delete c (rg_running r) \<rparr> else r)"

section \<open>Invariant\<close>

text \<open>Channels are numbered apart, a registered channel is open and has a worker,
  and no channel is closed twice, which would panic.\<close>

definition chans :: "registry \<Rightarrow> nat list" where
  "chans r = map snd (rg_stats r)"

definition registry_inv :: "registry \<Rightarrow> bool" where
  "registry_inv r = (wf_map (rg_stats r) \<and> distinct (chans r @ rg_closed r) \<and>
     (\<forall>c\<in>set (chans r @ rg_closed r). c < rg_next r) \<and>
     (\<forall>c\<in>set (chans r). has_key (rg_running r) c))"

lemma registry_inv_new [inv_intros]: "registry_inv (new_registry s)"
  by (simp add: registry_inv_def new_registry_def chans_def)

lemma update_new: "map_of m k = None \<Longrightarrow> AList.update k v m = m @ [(k, v)]"
  by (induction m) (auto split: if_splits)

lemma delete_filter: "AList.delete k m = filter (\<lambda>e. fst e \<noteq> k) m"
  by (induction m) auto

lemma registry_inv_start [inv_intros]:
  assumes "registry_inv r" "start_worker labels ssrc r = Ret (res, r')"
  shows "registry_inv r'"
proof (cases "map_of (rg_stats r) ssrc")
  case None
  obtain L where r': "r' = r\<lparr> rg_stats := rg_stats r @ [(ssrc, rg_next r)], rg_next := Suc (rg_next r),
      rg_running := AList.update (rg_next r) L (rg_running r) \<rparr>"
    using assms(2) None update_new[OF None] by (auto simp: start_worker_def Let_def split: if_splits)
  have "wf_map (rg_stats r')"
    using assms(1) None by (auto simp: r' registry_inv_def map_of_eq_None_iff)
  moreover have "chans r' = chans r @ [rg_next r]" "rg_next r' = Suc (rg_next r)"
    "rg_closed r' = rg_closed r"
    "\<And>c. has_key (rg_running r') c \<longleftrightarrow> has_key (rg_running r) c \<or> c = rg_next r"
    by (auto simp: r' chans_def)
  moreover have "rg_next r \<notin> set (chans r @ rg_closed r)"
    using assms(1) unfolding registry_inv_def by blast
  ultimately show ?thesis using assms(1) unfolding registry_inv_def
    by (simp add: less_Suc_eq)
next
  case (Some c)
  then have "r' = r\<lparr> rg_locked := True \<rparr>"
    using assms(2) by (simp add: start_worker_def split: if_splits)
  then show ?thesis using assms(1) by (simp add: registry_inv_def chans_def)
qed

lemma delete_snd:
  "wf_map m \<Longrightarrow> distinct (map snd m) \<Longrightarrow> map_of m k = Some c \<Longrightarrow>
     distinct (map snd (AList.delete k m)) \<and> set (map snd (AList.delete k m)) = set (map snd m) - {c}"
proof (induction m)
  case (Cons e m)
  show ?case
  proof (cases "fst e = k")
    case True
    then have "map_of m k = None" using Cons.prems by (auto simp: map_of_eq_None_iff)
    then show ?thesis using True Cons.prems by (cases e) (auto simp: del_absent)
  next
    case False
    then have "map_of m k = Some c" using Cons.prems by (cases e) auto
    moreover from this have "c \<in> snd ` set m" by (force dest: map_of_SomeD)
    ultimately show ?thesis using False Cons by (cases e) auto
  qed
qed simp

lemma registry_inv_stop [inv_intros]:
  assumes "registry_inv r" "stop_worker ssrc r = Ret r'"
  shows "registry_inv r'"
proof (cases "map_of (rg_stats r) ssrc")
  case None
  then show ?thesis using assms by (auto simp: stop_worker_def split: if_splits)
next
  case (Some c)
  have wf: "wf_map (rg_stats r)" and ds: "distinct (chans r)"
    using assms(1) by (simp_all add: registry_inv_def)
  have r': "r' = r\<lparr> rg_stats := AList.delete ssrc (rg_stats r), rg_closed := rg_closed r @ [c] \<rparr>"
    using assms(2) Some by (auto simp: stop_worker_def split: if_splits)
  have ch: "distinct (chans r')" "set (chans r') = set (chans r) - {c}"
    using delete_snd[OF wf _ Some] ds by (simp_all add: chans_def r')
  have "c \<in> set (chans r)" using Some by (force simp: chans_def dest: map_of_SomeD)
  then show ?thesis
    using assms(1) ch wf_del[OF wf] by (auto simp: registry_inv_def r')
qed

lemma registry_inv_stop_all [inv_intros]:
  assumes "registry_inv r" "stop_all_worker r = Ret r'"
  shows "registry_inv r'"
proof -
  have "chans r' = []" "rg_closed r' = rg_closed r @ chans r" "rg_next r' = rg_next r" "rg_stats r' = []"
    using assms(2) by (auto simp: stop_all_worker_def chans_def split: if_splits)
  then show ?thesis using assms(1) by (auto simp: registry_inv_def)
qed

lemma registry_inv_exit [inv_intros]: "registry_inv r \<Longrightarrow> registry_inv (worker_exit c r)"
proof (cases "c \<in> set (rg_closed r)")
  case True
  assume inv: "registry_inv r"
  then have "c \<notin> set (chans r)" using True by (auto simp: registry_inv_def)
  then show ?thesis using inv True
    by (simp add: registry_inv_def worker_exit_def chans_def) force
qed (simp add: worker_exit_def)

section \<open>Runs\<close>

datatype reg_op = Start labels ssrc | Stop ssrc | Stop_All | Exit nat

definition reg_step :: "reg_op \<Rightarrow> registry \<Rightarrow> registry outcome" where
  "reg_step a r = (case a of
      Start l s \<Rightarrow> outcome_bind (start_worker l s r) (\<lambda>(_, r'). Ret r')
    | Stop s \<Rightarrow> stop_worker s r
    | Stop_All \<Rightarrow> stop_all_worker r
    | Exit c \<Rightarrow> Ret (worker_exit c r))"

fun reg_run :: "reg_op list \<Rightarrow> registry \<Rightarrow> registry outcome" where
  "reg_run [] r = Ret r"
| "reg_run (a # as) r = outcome_bind (reg_step a r) (reg_run as)"

lemma reg_step_inv: "registry_inv r \<Longrightarrow> reg_step a r = Ret r' \<Longrightarrow> registry_inv r'"
  by (cases a) (auto simp: reg_step_def outcome_simps intro: inv_intros)

lemma reg_run_inv: "registry_inv r \<Longrightarrow> reg_run as r = Ret r' \<Longrightarrow> registry_inv r'"
  by (induction as arbitrary: r) (auto simp: outcome_simps dest: reg_step_inv)

section \<open>Properties\<close>

text \<open>C29: in every run from a new registry no cancel channel is closed twice, and
  every registered source has a worker that is not cancelled.\<close>

theorem registry_safe:
  assumes "reg_run as (new_registry session) = Ret r"
  shows "distinct (rg_closed r) \<and>
    (\<forall>ssrc c. map_of (rg_stats r) ssrc = Some c \<longrightarrow>
       c \<notin> set (rg_closed r) \<and> has_key (rg_running r) c)"
  using reg_run_inv[OF registry_inv_new assms]
  by (force simp: registry_inv_def chans_def dest: map_of_SomeD)

lemma registry_safe_witness:
  "distinct (rg_closed (\<lparr> rg_locked = False, rg_session = ''s'', rg_stats = [], rg_next = 1,
     rg_running = [(0, [(''session'', ''s''), (''ssrc'', ''7'')])], rg_closed = [0] \<rparr>))"
  using registry_safe[of "[Start [] 7, Stop 7]" "''s''"
      "\<lparr> rg_locked = False, rg_session = ''s'', rg_stats = [], rg_next = 1,
         rg_running = [(0, [(''session'', ''s''), (''ssrc'', ''7'')])], rg_closed = [0] \<rparr>"]
  by (simp add: reg_step_def start_worker_def stop_worker_def new_registry_def ssrc_to_string_def
      show_nat.simps digit_def)

text \<open>Registering a source twice returns an error with the lock still held:
  every later start or stop of a worker blocks for ever.\<close>

theorem double_registration_deadlocks:
  assumes "start_worker labels ssrc r = Ret (Inl e, r')"
  shows "e = err_track_already_registered \<and> has_key (rg_stats r) ssrc \<and>
    start_worker labels' ssrc' r' = Block \<and> stop_worker ssrc' r' = Block \<and> stop_all_worker r' = Block"
  using assms
  by (auto simp: start_worker_def stop_worker_def stop_all_worker_def Let_def split: if_splits option.splits)

lemma double_registration_deadlocks_witness:
  "stop_all_worker ((new_registry ''s'')\<lparr> rg_stats := [(7, 0)], rg_locked := True \<rparr>) = Block"
  using double_registration_deadlocks[of "[]" 7 "(new_registry ''s'')\<lparr> rg_stats := [(7, 0)] \<rparr>"
      err_track_already_registered "(new_registry ''s'')\<lparr> rg_stats := [(7, 0)], rg_locked := True \<rparr>" "[]" 0]
  by (simp add: start_worker_def new_registry_def)

end
