(* ===== verification/Media_Stream.thy ===== *)
theory Media_Stream
  imports Sdp Stats_Registry
begin

text \<open>
  Incoming media (\<^verbatim>\<open>internal/rtp/media_writer.go\<close>,
  \<^verbatim>\<open>media_stream.go\<close>, \<^verbatim>\<open>receiver.go\<close>): the loop that copies packets
  of a remote track to a local one, the streams that hold the local tracks of a
  session and the receiver that turns a new remote track into a track of the
  lobby.  A receiver shares the repository of track descriptions and the
  statistics registry with its endpoint, so its operations take and return both.
\<close>

section \<open>The copying loop\<close>


definition err_eof :: go_error where "err_eof = Err ''EOF''"
definition err_closed_pipe :: go_error where "err_closed_pipe = Err ''io: read/write on closed pipe''"

record media_writer =
  mw_id :: string
  mw_quit :: bool

definition new_media_writer :: "string \<Rightarrow> media_writer" where
  "new_media_writer i = \<lparr> mw_id = i, mw_quit = False \<rparr>"

definition writer_close :: "bool \<Rightarrow> media_writer \<Rightarrow> media_writer" where
  "writer_close session_done w =
     (if session_done then w else if mw_quit w then w else w\<lparr> mw_quit := True \<rparr>)"

definition is_running :: "bool \<Rightarrow> media_writer \<Rightarrow> bool" where
  "is_running session_done w = (\<not> session_done \<and> \<not> mw_quit w)"

text \<open>What the environment contributes to one iteration: whether the session is
  done when the loop looks, what the remote track gives, what writing to the
  local track answers, and whether the session is done when the writer closes.\<close>

record io_step =
  io_done :: bool
  io_read :: "bytes result"
  io_write :: "go_error option"
  io_done_at_close :: bool

text \<open>The loop over the steps of the environment: it still runs when they are
  used up, or it returned.\<close>

datatype loop_state =
    Running media_writer "bytes list"
  | Returned "unit result" media_writer "bytes list"

fun write_rtp :: "media_writer \<Rightarrow> io_step list \<Rightarrow> bytes list \<Rightarrow> loop_state" where
  "write_rtp w [] out = Running w out"
| "write_rtp w (s # ss) out =
     (if io_done s then Returned (Inr ()) w out
      else if mw_quit w then Returned (Inr ()) w out
      else case io_read s of
             Inl e \<Rightarrow>
               if errors_is e err_eof then Returned (Inr ()) (writer_close (io_done_at_close s) w) out
               else Returned (Inl (Wrap ''reading rtp buffer: '' e)) (writer_close (io_done_at_close s) w) out
           | Inr pkt \<Rightarrow>
               (case io_write s of
                  None \<Rightarrow> write_rtp w ss (out @ [pkt])
                | Some e \<Rightarrow>
                    if \<not> errors_is e err_closed_pipe
                    then Returned (Inl (Wrap ''bug-1: reading rtp buffer: '' e))
                           (writer_close (io_done_at_close s) w) out
                    else write_rtp w ss out))"

definition written :: "loop_state \<Rightarrow> bytes list" where
  "written st = (case st of Running _ out \<Rightarrow> out | Returned _ _ out \<Rightarrow> out)"

text \<open>The packets of the steps that neither end the loop nor hit a closed pipe.\<close>

definition passes :: "io_step \<Rightarrow> bool" where
  "passes s = (\<not> io_done s \<and> (\<exists>pkt. io_read s = Inr pkt) \<and>
     (case io_write s of None \<Rightarrow> True | Some e \<Rightarrow> errors_is e err_closed_pipe))"

definition delivered :: "io_step list \<Rightarrow> bytes list" where
  "delivered ss = map (\<lambda>s. projr (io_read s)) (filter (\<lambda>s. io_write s = None) ss)"

lemma write_rtp_written:
  "\<not> mw_quit w \<Longrightarrow> written (write_rtp w ss out) = out @ delivered (takeWhile passes ss)"
  by (induction ss arbitrary: out)
    (auto simp: written_def passes_def delivered_def split: sum.splits option.splits)

lemma write_rtp_running:
  "\<not> mw_quit w \<Longrightarrow> (\<exists>w' out'. write_rtp w ss out = Running w' out') \<longleftrightarrow> (\<forall>s\<in>set ss. passes s)"
  by (induction ss arbitrary: out) (auto simp: passes_def split: sum.splits option.splits)

lemma write_rtp_stopped:
  "write_rtp w ss out = Returned res w' out' \<Longrightarrow> \<not> mw_quit w \<Longrightarrow>
     mw_quit w' \<or> (\<exists>s\<in>set ss. io_done s \<or> io_done_at_close s)"
  by (induction ss arbitrary: out)
    (auto simp: writer_close_def split: sum.splits option.splits if_splits)

section \<open>Media streams\<close>

record media_stream =
  ms_id :: uuid
  ms_remote_id :: string
  ms_session_id :: uuid
  ms_audio_info :: track_sdp_info
  ms_video_info :: track_sdp_info
  ms_audio_track :: "local_track option"
  ms_video_track :: "local_track option"
  ms_audio_writer :: "media_writer option"
  ms_video_writer :: "media_writer option"
  ms_purpose :: purpose

definition zero_info :: track_sdp_info where
  "zero_info = \<lparr> ti_id = 0, ti_session_id = 0, ti_ingress_mid = [], ti_ingress_track_id = [],
     ti_egress_mid = [], ti_egress_track_id = [], ti_purpose = 0, ti_mute = False, ti_info = [] \<rparr>"

definition new_media_stream :: "uuid \<Rightarrow> string \<Rightarrow> uuid \<Rightarrow> purpose \<Rightarrow> media_stream" where
  "new_media_stream i remote_id session_id p =
     \<lparr> ms_id = i, ms_remote_id = remote_id, ms_session_id = session_id, ms_audio_info = zero_info,
       ms_video_info = zero_info, ms_audio_track = None, ms_video_track = None,
       ms_audio_writer = None, ms_video_writer = None, ms_purpose = p \<rparr>"

record remote_track =
  rt_id :: string
  rt_stream_id :: string
  rt_kind :: string
  rt_mime :: string
  rt_ssrc :: ssrc

text \<open>Making a local track is the library's: it takes the codec of the remote
  track, a fresh identifier and the stream's identifier.\<close>

type_synonym new_local = "remote_track \<Rightarrow> string \<Rightarrow> uuid \<Rightarrow> local_track result"

definition create_new_audio_local_track ::
  "(uuid \<Rightarrow> string) \<Rightarrow> new_local \<Rightarrow> string \<Rightarrow> remote_track \<Rightarrow> media_stream \<Rightarrow> local_track result" where
  "create_new_audio_local_track us mk new_id rt s =
     (case ms_audio_track s of
        Some _ \<Rightarrow> Inl (Err ''has already audio track'')
      | None \<Rightarrow> wrap_err (''creating new local audio track for local stream '' @ us (ms_id s) @ '': '') (mk rt new_id (ms_id s)))"

definition create_new_video_local_track ::
  "(uuid \<Rightarrow> string) \<Rightarrow> new_local \<Rightarrow> string \<Rightarrow> remote_track \<Rightarrow> media_stream \<Rightarrow> local_track result" where
  "create_new_video_local_track us mk new_id rt s =
     (case ms_video_track s of
        Some _ \<Rightarrow> Inl (Err ''has already video track'')
      | None \<Rightarrow> wrap_err (''creating new local video track for local stream '' @ us (ms_id s) @ '': '') (mk rt new_id (ms_id s)))"

text \<open>Writing starts a goroutine; its deferred call names the track and the
  description of the moment it starts, the second component of the result.\<close>

definition write_audio_rtp ::
  "(uuid \<Rightarrow> string) \<Rightarrow> new_local \<Rightarrow> string \<Rightarrow> remote_track \<Rightarrow> media_stream \<Rightarrow> (media_stream \<times> track_info) result" where
  "write_audio_rtp us mk new_id rt s =
     (case create_new_audio_local_track us mk new_id rt s of
        Inl e \<Rightarrow> Inl (Wrap (''adding audio remote track ('' @ rt_id rt @ '':'' @ rt_stream_id rt @ '') to local stream: '') e)
      | Inr audio \<Rightarrow>
          let s' = s\<lparr> ms_audio_track := Some audio, ms_audio_writer := Some (new_media_writer (lt_id audio)) \<rparr>
          in Inr (s', new_track_info audio (ms_audio_info s')))"

definition write_video_rtp ::
  "(uuid \<Rightarrow> string) \<Rightarrow> new_local \<Rightarrow> string \<Rightarrow> remote_track \<Rightarrow> media_stream \<Rightarrow> (media_stream \<times> track_info) result" where
  "write_video_rtp us mk new_id rt s =
     (case create_new_video_local_track us mk new_id rt s of
        Inl e \<Rightarrow> Inl (Wrap (''adding video remote track ('' @ rt_id rt @ '':'' @ rt_stream_id rt @ '') to local stream: '') e)
      | Inr video \<Rightarrow>
          let s' = s\<lparr> ms_video_track := Some video, ms_video_writer := Some (new_media_writer (lt_id video)) \<rparr>
          in Inr (s', new_track_info video (ms_video_info s')))"

definition set_audio_sdp_info :: "track_sdp_info \<Rightarrow> media_stream \<Rightarrow> media_stream" where
  "set_audio_sdp_info i s = s\<lparr> ms_audio_info := i \<rparr>"

definition set_video_sdp_info :: "track_sdp_info \<Rightarrow> media_stream \<Rightarrow> media_stream" where
  "set_video_sdp_info i s = s\<lparr> ms_video_info := i \<rparr>"

section \<open>The receiver\<close>

record receiver =
  rc_id :: uuid
  rc_live_stream :: uuid
  rc_streams :: "(string, media_stream) gomap"

definition new_receiver :: "uuid \<Rightarrow> uuid \<Rightarrow> receiver" where
  "new_receiver session_id live_stream = \<lparr> rc_id = session_id, rc_live_stream = live_stream, rc_streams = [] \<rparr>"

definition receiver_track_info ::
  "uuid \<Rightarrow> string \<Rightarrow> receiver \<Rightarrow> track_repo \<Rightarrow> track_sdp_info \<times> track_repo" where
  "receiver_track_info new_id ingress_track_id r rep =
     (case by_ingress_track_id rep ingress_track_id of
        Some info \<Rightarrow> (info, rep)
      | None \<Rightarrow>
          let info = (new_track_sdp_info new_id (rc_id r))\<lparr> ti_purpose := purpose_guest \<rparr>
          in (info, repo_set (ti_id info) info rep))"

definition get_stream ::
  "uuid \<Rightarrow> string \<Rightarrow> track_sdp_info \<Rightarrow> string \<Rightarrow> receiver \<Rightarrow> media_stream \<times> receiver" where
  "get_stream new_id stream_id info kind r =
     (let s0 = (case map_of (rc_streams r) stream_id of
                  Some s \<Rightarrow> s
                | None \<Rightarrow> new_media_stream new_id stream_id (rc_id r) (ti_purpose info));
          s1 = (if kind = ''video'' then set_video_sdp_info info s0 else s0);
          s2 = (if kind = ''audio'' then set_audio_sdp_info info s1 else s1)
      in (s2, r\<lparr> rc_streams := AList.update stream_id s2 (rc_streams r) \<rparr>))"

text \<open>The fresh values one call of \<^verbatim>\<open>onTrack\<close> may draw, and what the library
  says of the remote track.\<close>

record on_track_env =
  ot_info_id :: uuid
  ot_stream_uuid :: uuid
  ot_track_id :: string
  ot_mid :: string
  ot_new_local :: new_local
  ot_uuid_str :: "uuid \<Rightarrow> string"

text \<open>The result: the receiver, the repository, the registry, the track dispatched
  to the lobby and the track the writing goroutine removes at its end.  An error
  ends the handler without a dispatch.\<close>

record on_track_result =
  or_receiver :: receiver
  or_repo :: track_repo
  or_stats :: "registry option"
  or_added :: "track_info option"
  or_removal :: "track_info option"

definition track_labels ::
  "on_track_env \<Rightarrow> remote_track \<Rightarrow> receiver \<Rightarrow> media_stream \<Rightarrow> labels" where
  "track_labels env rt r s =
     [(''stream'', ot_uuid_str env (rc_live_stream r)), (''mediastream'', rt_stream_id rt),
      (''track'', rt_id rt), (''kind'', rt_kind rt),
      (''purpose'', purpose_to_string (ms_purpose s)), (''direction'', ''ingress'')]"

definition start_stats :: "labels \<Rightarrow> ssrc \<Rightarrow> registry option \<Rightarrow> registry option outcome" where
  "start_stats labels ssrc st =
     (case st of
        None \<Rightarrow> Ret None
      | Some reg \<Rightarrow> outcome_bind (start_worker labels ssrc reg) (\<lambda>(_, reg'). Ret (Some reg')))"

definition on_track_media ::
  "on_track_env \<Rightarrow> remote_track \<Rightarrow> track_sdp_info \<Rightarrow> media_stream \<Rightarrow> receiver \<Rightarrow> track_repo
     \<Rightarrow> registry option \<Rightarrow> on_track_result outcome" where
  "on_track_media env rt info s r rep st =
     (let is_audio = has_prefix (rt_mime rt) ''audio'';
          is_video = has_prefix (rt_mime rt) ''video'';
          res = \<lparr> or_receiver = r, or_repo = rep, or_stats = st, or_added = None, or_removal = None \<rparr>;
          store = (\<lambda>s' i rem. res\<lparr> or_receiver := r\<lparr> rc_streams := AList.update (rt_stream_id rt) s' (rc_streams r) \<rparr>,
                                   or_added := Some i, or_removal := Some rem \<rparr>)
      in if is_audio then
           (case write_audio_rtp (ot_uuid_str env) (ot_new_local env) (ot_track_id env) rt s of
              Inl _ \<Rightarrow> Ret res
            | Inr (s', rem) \<Rightarrow> Ret (store s' (new_track_info (the (ms_audio_track s')) info) rem))
         else if is_video then
           (case write_video_rtp (ot_uuid_str env) (ot_new_local env) (ot_track_id env) rt s of
              Inl _ \<Rightarrow> Ret res
            | Inr (s', rem) \<Rightarrow> Ret (store s' (new_track_info (the (ms_video_track s')) info) rem))
         else Panic)"

definition on_track ::
  "on_track_env \<Rightarrow> remote_track \<Rightarrow> receiver \<Rightarrow> track_repo \<Rightarrow> registry option
     \<Rightarrow> on_track_result outcome" where
  "on_track env rt r rep st =
     (let (info0, rep0) = receiver_track_info (ot_info_id env) (rt_id rt) r rep;
          info = info0\<lparr> ti_ingress_mid := ot_mid env \<rparr>;
          rep1 = repo_modify (ti_id info0) (\<lambda>v. v\<lparr> ti_ingress_mid := ot_mid env \<rparr>) rep0;
          (s, r1) = get_stream (ot_stream_uuid env) (rt_stream_id rt) info (rt_kind rt) r
      in outcome_bind (start_stats (track_labels env rt r1 s) (rt_ssrc rt) st)
           (on_track_media env rt info s r1 rep1))"

section \<open>Helper lemmas\<close>

lemma receiver_info_spec:
  assumes "repo_inv rep" "receiver_track_info new_id tid r rep = (info, rep')"
  shows "repo_inv rep' \<and> repo_get rep' (ti_id info) = Some info \<and>
    (by_ingress_track_id rep tid = None \<longrightarrow>
       ti_session_id info = rc_id r \<and> ti_purpose info = purpose_guest)"
proof (cases "by_ingress_track_id rep tid")
  case None
  then show ?thesis using assms
    by (auto simp: receiver_track_info_def Let_def repo_get_def repo_set_def
        intro: repo_inv_set[unfolded repo_set_def])
next
  case (Some i)
  then obtain k where "(k, i) \<in> set rep" using by_ingress_sound by blast
  then have "repo_get rep (ti_id i) = Some i"
    using assms(1) by (auto simp: repo_inv_def repo_get_def)
  then show ?thesis using Some assms by (simp add: receiver_track_info_def)
qed

lemma get_stream_infos:
  assumes "get_stream new_id sid info kind r = (s, r')"
  shows "map_of (rc_streams r') sid = Some s" "kind = ''audio'' \<Longrightarrow> ms_audio_info s = info"
    "kind = ''video'' \<Longrightarrow> ms_video_info s = info" "rc_id r' = rc_id r"
  using assms by (auto simp: get_stream_def Let_def set_audio_sdp_info_def set_video_sdp_info_def)

lemma prefix_excl: "has_prefix s ''video'' \<Longrightarrow> \<not> has_prefix s ''audio''"
  by (auto simp: has_prefix_iff)

lemma on_track_media_added:
  assumes "on_track_media env rt info s r rep st = Ret res" "or_added res = Some ti"
  shows "tk_sdp ti = info \<and> or_repo res = rep \<and> or_stats res = st \<and>
    (has_prefix (rt_mime rt) ''audio'' \<longrightarrow> or_removal res = Some (new_track_info (tk_track ti) (ms_audio_info s))) \<and>
    (has_prefix (rt_mime rt) ''video'' \<longrightarrow> or_removal res = Some (new_track_info (tk_track ti) (ms_video_info s)))"
  using assms prefix_excl[of "rt_mime rt"]
  by (auto simp: on_track_media_def Let_def write_audio_rtp_def write_video_rtp_def new_track_info_def
      split: if_splits sum.splits)

section \<open>Properties\<close>

text \<open>The copying loop delivers exactly the packets read before the first
  step that ends it (session done, end of stream, read or write error), in
  order and without those that hit a closed pipe; it goes on while no such step
  occurs, and when it stops it has closed its writer unless the session is
  done.\<close>

theorem write_rtp_copies:
  assumes "\<not> mw_quit w"
  shows "written (write_rtp w ss []) = delivered (takeWhile passes ss) \<and>
    ((\<exists>w' out. write_rtp w ss [] = Running w' out) = (\<forall>s\<in>set ss. passes s)) \<and>
    (\<forall>res w' out. write_rtp w ss [] = Returned res w' out \<longrightarrow>
       mw_quit w' \<or> (\<exists>s\<in>set ss. io_done s \<or> io_done_at_close s))"
  using write_rtp_written[OF assms, of ss "[]"] write_rtp_running[OF assms, of ss "[]"]
    write_rtp_stopped[OF _ assms, of ss "[]"] by auto

lemma write_rtp_copies_witness:
  "written (write_rtp (new_media_writer ''t'')
     [\<lparr> io_done = False, io_read = Inr [1, 2], io_write = None, io_done_at_close = False \<rparr>,
      \<lparr> io_done = False, io_read = Inr [3], io_write = Some err_closed_pipe, io_done_at_close = False \<rparr>,
      \<lparr> io_done = False, io_read = Inl err_eof, io_write = None, io_done_at_close = False \<rparr>] []) = [[1, 2]]"
  by (subst write_rtp_copies [THEN conjunct1])
    (simp_all add: new_media_writer_def passes_def delivered_def)

text \<open>A remote track whose kind agrees with its codec is dispatched to the
  lobby with the description filed under its track identifier, with the media
  identifier of the transceiver; and what the copying goroutine removes at its
  end is that very track with that very description.\<close>

theorem on_track_dispatches:
  assumes "on_track env rt r rep st = Ret res" "or_added res = Some ti" "repo_inv rep"
    and "rt_kind rt = ''audio'' \<and> has_prefix (rt_mime rt) ''audio'' \<or>
         rt_kind rt = ''video'' \<and> has_prefix (rt_mime rt) ''video''"
  shows "or_removal res = Some ti \<and> repo_get (or_repo res) (get_id ti) = Some (tk_sdp ti) \<and>
    get_ingress_mid ti = ot_mid env \<and>
    (by_ingress_track_id rep (rt_id rt) = None \<longrightarrow>
       get_session_id ti = rc_id r \<and> get_purpose ti = purpose_guest)"
proof -
  obtain info0 rep0 where i0: "receiver_track_info (ot_info_id env) (rt_id rt) r rep = (info0, rep0)"
    by (cases "receiver_track_info (ot_info_id env) (rt_id rt) r rep")
  define info where "info = info0\<lparr> ti_ingress_mid := ot_mid env \<rparr>"
  obtain s r1 where s: "get_stream (ot_stream_uuid env) (rt_stream_id rt) info (rt_kind rt) r = (s, r1)"
    by (cases "get_stream (ot_stream_uuid env) (rt_stream_id rt) info (rt_kind rt) r")
  define rep1 where "rep1 = repo_modify (ti_id info0) (\<lambda>v. v\<lparr> ti_ingress_mid := ot_mid env \<rparr>) rep0"
  obtain st' where m: "on_track_media env rt info s r1 rep1 st' = Ret res"
    using assms(1) by (auto simp: on_track_def i0 s rep1_def Let_def outcome_simps simp flip: info_def)
  have spec: "repo_get rep0 (ti_id info0) = Some info0"
    "by_ingress_track_id rep (rt_id rt) = None \<longrightarrow>
       ti_session_id info0 = rc_id r \<and> ti_purpose info0 = purpose_guest"
    using receiver_info_spec[OF assms(3) i0] by auto
  have ti: "tk_sdp ti = info" "or_repo res = rep1"
    using on_track_media_added[OF m assms(2)] by auto
  have "ti = new_track_info (tk_track ti) info"
    using ti(1) by (simp add: new_track_info_def)
  then have "or_removal res = Some ti"
    using on_track_media_added[OF m assms(2)] assms(4) get_stream_infos[OF s] by auto
  then show ?thesis
    using ti spec by (simp add: track_getters info_def rep1_def repo_get_modify)
qed

definition sample_env :: on_track_env where
  "sample_env = \<lparr> ot_info_id = 3, ot_stream_uuid = 4, ot_track_id = ''l'', ot_mid = ''0'',
     ot_new_local = (\<lambda>rt i s. Inr \<lparr> lt_id = i, lt_stream_id = ''s'', lt_kind = rt_kind rt \<rparr>),
     ot_uuid_str = (\<lambda>_. ''u'') \<rparr>"

definition sample_remote :: remote_track where
  "sample_remote = \<lparr> rt_id = ''a'', rt_stream_id = ''ms'', rt_kind = ''audio'', rt_mime = ''audio/opus'', rt_ssrc = 7 \<rparr>"

lemmas on_track_defs = on_track_def on_track_media_def receiver_track_info_def get_stream_def
  start_stats_def write_audio_rtp_def create_new_audio_local_track_def

lemma on_track_dispatches_witness:
  "\<exists>res ti. on_track sample_env sample_remote (new_receiver 9 8) new_track_repo None = Ret res \<and>
     or_added res = Some ti \<and> or_removal res = Some ti \<and> get_session_id ti = 9"
proof -
  obtain res where res: "on_track sample_env sample_remote (new_receiver 9 8) new_track_repo None = Ret res"
    and add: "or_added res \<noteq> None"
    by (simp add: on_track_defs sample_env_def sample_remote_def new_receiver_def
        new_track_repo_def by_ingress_track_id_def new_media_stream_def has_prefix_def
        set_audio_sdp_info_def Let_def)
  obtain ti where "or_added res = Some ti" using add by blast
  from on_track_dispatches[OF res this repo_inv_new] this res show ?thesis
    by (simp add: sample_remote_def has_prefix_def new_track_repo_def by_ingress_track_id_def
        new_receiver_def)
qed

text \<open>A remote track that is neither audio nor video makes the handler
  dereference a missing track.\<close>

theorem on_track_unknown_codec_panics:
  assumes "\<not> has_prefix (rt_mime rt) ''audio''" "\<not> has_prefix (rt_mime rt) ''video''"
  shows "on_track env rt r rep None = Panic"
  using assms by (auto simp: on_track_def start_stats_def on_track_media_def Let_def split: prod.splits)

lemma on_track_unknown_codec_panics_witness:
  "on_track sample_env (sample_remote\<lparr> rt_mime := ''application/x'' \<rparr>) (new_receiver 9 8) new_track_repo None
     = Panic"
  by (rule on_track_unknown_codec_panics) (simp_all add: sample_remote_def has_prefix_def)

end
