(* ===== verification/Metric_Graph.thy ===== *)
theory Metric_Graph
  imports Go_Strings
begin

text \<open>
  The node graph metric (\<^verbatim>\<open>internal/metric/node_graph.go\<close>).  The gauges
  belong to the metrics library; the model records the calls made on them.  The
  set of label tuples a gauge vector shows after the calls (\<^verbatim>\<open>Inc\<close> makes
  an entry, \<^verbatim>\<open>Delete\<close> removes it) is what the lemmas speak about.
\<close>

section \<open>Nodes, edges and calls\<close>

record graph_node =
  gn_id :: string
  gn_title :: string
  gn_subtitle :: string
  gn_stream :: string
  gn_tracks :: int
  gn_main_tracks :: int

record graph_edge =
  ge_id :: string
  ge_source :: string
  ge_target :: string
  ge_stream :: string

datatype gauge_call = Node_Inc graph_node | Node_Delete graph_node | Edge_Inc graph_edge | Edge_Delete graph_edge

text \<open>Whether the metric exists, and the calls so far.\<close>

record graph =
  gr_on :: bool
  gr_calls :: "gauge_call list"

definition build_node :: "string \<Rightarrow> string \<Rightarrow> string \<Rightarrow> graph_node" where
  "build_node session_id live_stream_id node_type =
     \<lparr> gn_id = node_type @ ''-'' @ session_id, gn_title = node_type, gn_subtitle = session_id,
       gn_stream = live_stream_id, gn_tracks = 0, gn_main_tracks = 0 \<rparr>"

definition build_edge :: "string \<Rightarrow> string \<Rightarrow> string \<Rightarrow> graph_edge" where
  "build_edge session_id live_stream_id node_type =
     (let endpoint = node_type @ ''-'' @ session_id;
          hub = ''hub-'' @ live_stream_id
      in \<lparr> ge_id = ''edge-'' @ endpoint,
           ge_source = (if node_type = ''egress'' then hub
                        else if node_type = ''ingress'' then endpoint else ''unknown''),
           ge_target = (if node_type = ''egress'' then endpoint
                        else if node_type = ''ingress'' then hub else ''unknown''),
           ge_stream = live_stream_id \<rparr>)"

definition graph_call :: "gauge_call \<Rightarrow> graph \<Rightarrow> graph" where
  "graph_call c g = (if gr_on g then g\<lparr> gr_calls := gr_calls g @ [c] \<rparr> else g)"

text \<open>The label set of a node has the right cardinality, so looking it up does not
  fail.\<close>

definition graph_node_update :: "graph_node \<Rightarrow> graph \<Rightarrow> graph_node \<times> graph" where
  "graph_node_update node g = (node, graph_call (Node_Inc node) g)"

definition graph_node_delete :: "graph_node \<Rightarrow> graph \<Rightarrow> graph" where
  "graph_node_delete node g = graph_call (Node_Delete node) g"

definition graph_node_update_inc :: "graph_node \<Rightarrow> string \<Rightarrow> graph \<Rightarrow> graph_node \<times> graph" where
  "graph_node_update_inc node purpose g =
     (if gr_on g then
        let g' = graph_node_delete node g;
            node' = (if purpose = ''main'' then node\<lparr> gn_main_tracks := gn_main_tracks node + 1 \<rparr>
                     else node\<lparr> gn_tracks := gn_tracks node + 1 \<rparr>)
        in graph_node_update node' g'
      else (node, g))"

definition graph_node_update_dec :: "graph_node \<Rightarrow> string \<Rightarrow> graph \<Rightarrow> graph_node \<times> graph" where
  "graph_node_update_dec node purpose g =
     (if gr_on g then
        let g' = graph_node_delete node g;
            node' = (if purpose = ''main'' then node\<lparr> gn_main_tracks := gn_main_tracks node - 1 \<rparr>
                     else node\<lparr> gn_tracks := gn_tracks node - 1 \<rparr>)
        in graph_node_update node' g'
      else (node, g))"

definition graph_add_edge :: "string \<Rightarrow> string \<Rightarrow> string \<Rightarrow> graph \<Rightarrow> graph" where
  "graph_add_edge session_id live_stream_id node_type g =
     graph_call (Edge_Inc (build_edge session_id live_stream_id node_type)) g"

definition graph_delete_edge :: "string \<Rightarrow> string \<Rightarrow> string \<Rightarrow> graph \<Rightarrow> graph" where
  "graph_delete_edge session_id live_stream_id node_type g =
     graph_call (Edge_Delete (build_edge session_id live_stream_id node_type)) g"

section \<open>What the gauges show\<close>

definition apply_call :: "gauge_call \<Rightarrow> graph_node set \<times> graph_edge set \<Rightarrow> graph_node set \<times> graph_edge set" where
  "apply_call c s = (case c of
      Node_Inc n \<Rightarrow> (insert n (fst s), snd s)
    | Node_Delete n \<Rightarrow> (fst s - {n}, snd s)
    | Edge_Inc e \<Rightarrow> (fst s, insert e (snd s))
    | Edge_Delete e \<Rightarrow> (fst s, snd s - {e}))"

definition shown :: "graph \<Rightarrow> graph_node set \<times> graph_edge set" where
  "shown g = fold apply_call (gr_calls g) ({}, {})"

definition shown_nodes :: "graph \<Rightarrow> string \<Rightarrow> graph_node set" where
  "shown_nodes g i = {n \<in> fst (shown g). gn_id n = i}"

lemma shown_call:
  "shown (graph_call c g) = (if gr_on g then apply_call c (shown g) else shown g)"
  by (simp add: shown_def graph_call_def)

lemma graph_on [simp]:
  "gr_on (graph_call c g) = gr_on g"
  "gr_on (graph_node_delete n g) = gr_on g"
  "gr_on (snd (graph_node_update n g)) = gr_on g"
  "gr_on (snd (graph_node_update_inc n p g)) = gr_on g"
  "gr_on (snd (graph_node_update_dec n p g)) = gr_on g"
  by (simp_all add: graph_call_def graph_node_delete_def graph_node_update_def
      graph_node_update_inc_def graph_node_update_dec_def Let_def)

lemma update_id [simp]:
  "gn_id (fst (graph_node_update_inc n p g)) = gn_id n"
  "gn_id (fst (graph_node_update_dec n p g)) = gn_id n"
  by (simp_all add: graph_node_update_inc_def graph_node_update_dec_def graph_node_update_def Let_def)

text \<open>Counting up or down replaces the entry of the node by the one with the new
  numbers and touches no other entry.\<close>

lemma update_inc_shown:
  assumes "gr_on g"
  shows "shown (snd (graph_node_update_inc n p g)) =
     (insert (fst (graph_node_update_inc n p g)) (fst (shown g) - {n}), snd (shown g))"
  using assms by (simp add: graph_node_update_inc_def graph_node_update_def graph_node_delete_def
      Let_def shown_call apply_call_def)

lemma update_dec_shown:
  assumes "gr_on g"
  shows "shown (snd (graph_node_update_dec n p g)) =
     (insert (fst (graph_node_update_dec n p g)) (fst (shown g) - {n}), snd (shown g))"
  using assms by (simp add: graph_node_update_dec_def graph_node_update_def graph_node_delete_def
      Let_def shown_call apply_call_def)

lemma inc_dec_inverse:
  "gr_on g \<Longrightarrow> gr_on g' \<Longrightarrow>
     fst (graph_node_update_dec (fst (graph_node_update_inc n p g)) p g') = n"
  by (simp add: graph_node_update_dec_def graph_node_update_inc_def graph_node_update_def Let_def)

lemma shown_nodes_replace:
  assumes "fst (shown g') = insert n' (fst (shown g) - {n})" "gn_id n' = gn_id n"
    and "shown_nodes g (gn_id n) = {n}"
  shows "shown_nodes g' (gn_id n) = {n'}" "i \<noteq> gn_id n \<Longrightarrow> shown_nodes g' i = shown_nodes g i"
proof -
  have "\<And>m. m \<in> fst (shown g) \<and> gn_id m = gn_id n \<longleftrightarrow> m = n"
    using assms(3) by (simp add: shown_nodes_def set_eq_iff)
  then show "shown_nodes g' (gn_id n) = {n'}"
    using assms(1,2) by (simp add: shown_nodes_def set_eq_iff) blast
  show "i \<noteq> gn_id n \<Longrightarrow> shown_nodes g' i = shown_nodes g i"
    using assms(1,2) by (simp add: shown_nodes_def set_eq_iff) metis
qed

section \<open>Properties\<close>

text \<open>A node that shows once with its numbers shows once with the new numbers
  after a track is counted in or out; the entries of other nodes and the edges
  stay.\<close>

theorem node_gauge_single:
  assumes "gr_on g" "shown_nodes g (gn_id n) = {n}"
  shows "shown_nodes (snd (graph_node_update_inc n p g)) (gn_id n) = {fst (graph_node_update_inc n p g)} \<and>
    shown_nodes (snd (graph_node_update_dec n p g)) (gn_id n) = {fst (graph_node_update_dec n p g)} \<and>
    (\<forall>i. i \<noteq> gn_id n \<longrightarrow> shown_nodes (snd (graph_node_update_inc n p g)) i = shown_nodes g i \<and>
       shown_nodes (snd (graph_node_update_dec n p g)) i = shown_nodes g i) \<and>
    snd (shown (snd (graph_node_update_inc n p g))) = snd (shown g)"
  using shown_nodes_replace[OF _ _ assms(2), of "snd (graph_node_update_inc n p g)"]
    shown_nodes_replace[OF _ _ assms(2), of "snd (graph_node_update_dec n p g)"]
  by (simp add: update_inc_shown[OF assms(1)] update_dec_shown[OF assms(1)])

lemma node_gauge_single_witness:
  "shown_nodes (snd (graph_node_update_inc (build_node ''a'' ''s'' ''egress'') ''main''
      \<lparr> gr_on = True, gr_calls = [Node_Inc (build_node ''a'' ''s'' ''egress'')] \<rparr>)) ''egress-a'' =
   {(build_node ''a'' ''s'' ''egress'')\<lparr> gn_main_tracks := 1 \<rparr>}"
proof -
  have "shown_nodes \<lparr> gr_on = True, gr_calls = [Node_Inc (build_node ''a'' ''s'' ''egress'')] \<rparr>
      (gn_id (build_node ''a'' ''s'' ''egress'')) = {build_node ''a'' ''s'' ''egress''}"
    by (auto simp: shown_nodes_def shown_def apply_call_def)
  note node_gauge_single[OF _ this, of "''main''"]
  then show ?thesis
    by (simp add: graph_node_update_inc_def graph_node_update_def build_node_def Let_def)
qed

end
