(* ===== verification/Endpoint.thy ===== *)
theory Endpoint
  imports Media_Stream Metric_Graph
begin

text \<open>
  RTP endpoints (\<^verbatim>\<open>internal/rtp/endpoint.go\<close>, \<^verbatim>\<open>endpoint_option.go\<close>,
  \<^verbatim>\<open>establish_endpoint.go\<close>, the API set-up of \<^verbatim>\<open>engine.go\<close>).  The peer
  connection and the SDP library are parameters, gathered in one record of
  functions over an abstract connection state.  A wait over several channels
  takes the event that ended it as an argument, because Go chooses freely among
  the channels that are ready.
\<close>

section \<open>The libraries\<close>

record sender =
  sn_id :: nat
  sn_track :: "local_track option"
  sn_ssrcs :: "ssrc list"

record 'pc lib =
  lb_uuid_str :: "uuid \<Rightarrow> string"
  lb_parse_uuid :: "string \<Rightarrow> uuid option"
  lb_unmarshal :: "string \<Rightarrow> string sdp_obj result"
  lb_marshal :: "string sdp_obj \<Rightarrow> string result"
  lb_register_codecs :: "go_error option"
  lb_new_stats_interceptor :: "go_error option"
  lb_register_interceptors :: "go_error option"
  lb_new_pli :: "go_error option"
  lb_new_pc :: "'pc result"
  lb_senders :: "'pc \<Rightarrow> sender list"
  lb_mids :: "'pc \<Rightarrow> (nat \<times> string) list"
  lb_add_track :: "local_track \<Rightarrow> 'pc \<Rightarrow> sender result \<times> 'pc"
  lb_remove_track :: "sender \<Rightarrow> 'pc \<Rightarrow> go_error option \<times> 'pc"
  lb_local_desc :: "'pc \<Rightarrow> session_description"
  lb_set_local :: "session_description \<Rightarrow> 'pc \<Rightarrow> go_error option \<times> 'pc"
  lb_set_remote :: "session_description \<Rightarrow> 'pc \<Rightarrow> go_error option \<times> 'pc"
  lb_create_offer :: "'pc \<Rightarrow> session_description result"
  lb_create_answer :: "'pc \<Rightarrow> session_description result"
  lb_stop_senders :: "'pc \<Rightarrow> 'pc"
  lb_close :: "'pc \<Rightarrow> go_error option \<times> 'pc"

text \<open>The documented behaviour the properties rely on: adding a track that
  succeeds leaves a sender with that track besides those there were; removing a
  sender's track leaves no sender with it if it was the only one.\<close>

definition sender_tracks :: "'pc lib \<Rightarrow> 'pc \<Rightarrow> string set" where
  "sender_tracks L pc = {lt_id t | t s. s \<in> set (lb_senders L pc) \<and> sn_track s = Some t}"

definition lib_tracks_ok :: "'pc lib \<Rightarrow> bool" where
  "lib_tracks_ok L =
     ((\<forall>t pc s pc'. lb_add_track L t pc = (Inr s, pc') \<longrightarrow>
         sn_track s = Some t \<and> sender_tracks L pc' = insert (lt_id t) (sender_tracks L pc)) \<and>
      (\<forall>t pc e pc'. lb_add_track L t pc = (Inl e, pc') \<longrightarrow> sender_tracks L pc' = sender_tracks L pc) \<and>
      (\<forall>s t pc pc'. sn_track s = Some t \<longrightarrow> lb_remove_track L s pc = (None, pc') \<longrightarrow>
         sender_tracks L pc' = sender_tracks L pc - {lt_id t}))"

section \<open>Endpoints and their options\<close>

type_synonym endpoint_type = int

definition ingress_endpoint :: endpoint_type where "ingress_endpoint = 1"
definition egress_endpoint :: endpoint_type where "egress_endpoint = 2"

definition endpoint_type_to_string :: "endpoint_type \<Rightarrow> string" where
  "endpoint_type_to_string t =
     (if t = ingress_endpoint then ''ingress'' else if t = egress_endpoint then ''egress'' else ''unknown'')"

text \<open>The callbacks the program hands to an endpoint, by name.\<close>

datatype callback =
    Hub_Track_List | Hub_Dispatcher | Silent_Channel | Sender_Channel | Lost_Connection
  | Negotiation_Needed | Other_Callback nat

record 'pc endpoint =
  ep_session_id :: string
  ep_live_stream_id :: string
  ep_type :: endpoint_type
  ep_pc :: "'pc option"
  ep_receiver :: "receiver option"
  ep_repo :: track_repo
  ep_gather :: bool
  ep_init :: bool
  ep_stats :: "registry option"
  ep_on_channel :: "callback option"
  ep_on_established :: "callback option"
  ep_on_negotiation :: "callback option"
  ep_wait_onn :: "callback option"
  ep_on_lost :: "callback option"
  ep_on_ice_connected :: "callback option"
  ep_get_tracks :: "callback option"
  ep_init_tracks :: "(purpose \<times> local_track) list"
  ep_dispatcher :: "callback option"

datatype endpoint_option =
    With_Track local_track purpose
  | With_Get_Current_Track_Cbk callback
  | With_On_Established callback
  | With_Negotiation_Needed callback
  | With_ONN_Setup_Trigger callback
  | With_Lost_Connection callback
  | With_Ice_Connected callback
  | With_Data_Channel callback
  | With_Track_Dispatcher callback

fun apply_option :: "endpoint_option \<Rightarrow> 'pc endpoint \<Rightarrow> 'pc endpoint" where
  "apply_option (With_Track t p) e = e\<lparr> ep_init_tracks := ep_init_tracks e @ [(p, t)] \<rparr>"
| "apply_option (With_Get_Current_Track_Cbk c) e =
     (case ep_get_tracks e of None \<Rightarrow> e\<lparr> ep_get_tracks := Some c \<rparr> | Some _ \<Rightarrow> e)"
| "apply_option (With_On_Established c) e = e\<lparr> ep_on_established := Some c \<rparr>"
| "apply_option (With_Negotiation_Needed c) e = e\<lparr> ep_on_negotiation := Some c \<rparr>"
| "apply_option (With_ONN_Setup_Trigger c) e = e\<lparr> ep_wait_onn := Some c \<rparr>"
| "apply_option (With_Lost_Connection c) e = e\<lparr> ep_on_lost := Some c \<rparr>"
| "apply_option (With_Ice_Connected c) e = e\<lparr> ep_on_ice_connected := Some c \<rparr>"
| "apply_option (With_Data_Channel c) e = e\<lparr> ep_on_channel := Some c \<rparr>"
| "apply_option (With_Track_Dispatcher c) e = e\<lparr> ep_dispatcher := Some c \<rparr>"

definition empty_endpoint :: "string \<Rightarrow> string \<Rightarrow> endpoint_type \<Rightarrow> 'pc endpoint" where
  "empty_endpoint session_id live_stream_id ty =
     \<lparr> ep_session_id = session_id, ep_live_stream_id = live_stream_id, ep_type = ty, ep_pc = None,
       ep_receiver = None, ep_repo = new_track_repo, ep_gather = False, ep_init = False,
       ep_stats = None, ep_on_channel = None, ep_on_established = None, ep_on_negotiation = None,
       ep_wait_onn = None, ep_on_lost = None, ep_on_ice_connected = None, ep_get_tracks = None,
       ep_init_tracks = [], ep_dispatcher = None \<rparr>"

definition new_endpoint ::
  "string \<Rightarrow> string \<Rightarrow> endpoint_type \<Rightarrow> endpoint_option list \<Rightarrow> 'pc endpoint" where
  "new_endpoint session_id live_stream_id ty opts =
     fold apply_option opts (empty_endpoint session_id live_stream_id ty)"

section \<open>Descriptions and initialisation\<close>

definition err_ice_gathering :: go_error where
  "err_ice_gathering = Err ''getting ice gathering interrupted''"
definition err_session_closed :: go_error where
  "err_session_closed = Err ''process interrupted because session closed''"
definition err_dtls_closed :: go_error where "err_dtls_closed = Err ''conn is closed''"

datatype wait_event = Gathered | Session_Done | Ctx_Done

text \<open>On an egress endpoint a failure of the SDP rewriting leaves no description,
  and the debug output that follows reads it.\<close>

definition get_local_description ::
  "'pc lib \<Rightarrow> wait_event \<Rightarrow> 'pc endpoint \<Rightarrow> (session_description result \<times> 'pc endpoint) outcome" where
  "get_local_description L ev e =
     (case ev of
        Session_Done \<Rightarrow> Ret (Inl err_session_closed, e)
      | Ctx_Done \<Rightarrow> Ret (Inl err_ice_gathering, e)
      | Gathered \<Rightarrow>
          (case ep_pc e of
             None \<Rightarrow> Panic
           | Some pc \<Rightarrow>
               if ep_type e = egress_endpoint then
                 (case set_egress_track_info (lb_unmarshal L) (lb_marshal L) (lb_local_desc L pc) (ep_repo e) of
                    (Inl _, rep) \<Rightarrow> Panic
                  | (Inr d, rep) \<Rightarrow> Ret (Inr d, e\<lparr> ep_repo := rep \<rparr>))
               else Ret (Inr (lb_local_desc L pc), e)))"

definition set_answer :: "'pc lib \<Rightarrow> session_description \<Rightarrow> 'pc endpoint \<Rightarrow> (unit result \<times> 'pc endpoint) outcome" where
  "set_answer L sdp e =
     (case ep_pc e of
        None \<Rightarrow> Panic
      | Some pc \<Rightarrow>
          (case lb_set_remote L sdp pc of
             (Some err, pc') \<Rightarrow> Ret (Inl err, e\<lparr> ep_pc := Some pc' \<rparr>)
           | (None, pc') \<Rightarrow> Ret (Inr (), e\<lparr> ep_pc := Some pc' \<rparr>)))"

definition set_new_offer ::
  "'pc lib \<Rightarrow> (nat \<Rightarrow> uuid) \<Rightarrow> session_description \<Rightarrow> 'pc endpoint
     \<Rightarrow> (session_description result \<times> 'pc endpoint) outcome" where
  "set_new_offer L new_id sdp e =
     (case lb_parse_uuid L (ep_session_id e) of
        None \<Rightarrow> Panic
      | Some sess \<Rightarrow>
          let e1 = (case get_ingress_track_sdp_info (lb_unmarshal L) new_id sdp sess (ep_repo e) of
                      Inl _ \<Rightarrow> e
                    | Inr rep \<Rightarrow> e\<lparr> ep_repo := rep \<rparr>)
          in case ep_pc e1 of
               None \<Rightarrow> Panic
             | Some pc \<Rightarrow>
                 (case lb_set_remote L sdp pc of
                    (Some err, pc1) \<Rightarrow> Ret (Inl (Wrap ''set new offer: '' err), e1\<lparr> ep_pc := Some pc1 \<rparr>)
                  | (None, pc1) \<Rightarrow>
                      (case lb_create_answer L pc1 of
                         Inl err \<Rightarrow> Ret (Inl err, e1\<lparr> ep_pc := Some pc1 \<rparr>)
                       | Inr answer \<Rightarrow>
                           (case lb_set_local L answer pc1 of
                              (Some err, pc2) \<Rightarrow> Ret (Inl err, e1\<lparr> ep_pc := Some pc2 \<rparr>)
                            | (None, pc2) \<Rightarrow> Ret (Inr answer, e1\<lparr> ep_pc := Some pc2 \<rparr>)))))"

definition set_init_complete :: "bool \<Rightarrow> 'pc endpoint \<Rightarrow> 'pc endpoint" where
  "set_init_complete session_done e =
     (if ep_init e then e else if session_done then e else e\<lparr> ep_init := True \<rparr>)"

text \<open>When the endpoint is initialised and the session is done, either case of the
  wait may be taken; the argument says which.\<close>

definition is_init_complete :: "bool \<Rightarrow> bool \<Rightarrow> 'pc endpoint \<Rightarrow> bool" where
  "is_init_complete pick session_done e =
     (if ep_init e \<and> session_done then pick else if ep_init e then True else False)"

section \<open>Tracks\<close>

definition find_sender :: "'pc lib \<Rightarrow> local_track \<Rightarrow> 'pc endpoint \<Rightarrow> sender option" where
  "find_sender L track e =
     (case ep_pc e of
        None \<Rightarrow> None
      | Some pc \<Rightarrow>
          List.find (\<lambda>s. case sn_track s of None \<Rightarrow> False | Some t \<Rightarrow> lt_id t = lt_id track) (lb_senders L pc))"

definition has_track :: "'pc lib \<Rightarrow> local_track \<Rightarrow> 'pc endpoint \<Rightarrow> bool" where
  "has_track L track e = (find_sender L track e \<noteq> None)"

definition endpoint_labels :: "track_info \<Rightarrow> 'pc endpoint \<Rightarrow> labels" where
  "endpoint_labels info e =
     [(''stream'', ep_live_stream_id e), (''mediastream'', lt_stream_id (get_track_local info)),
      (''track'', lt_id (get_track_local info)), (''kind'', lt_kind (get_track_local info)),
      (''purpose'', purpose_to_string (get_purpose info)), (''direction'', endpoint_type_to_string (ep_type e))]"

fun start_workers :: "labels \<Rightarrow> ssrc list \<Rightarrow> registry option \<Rightarrow> registry option outcome" where
  "start_workers l [] st = Ret st"
| "start_workers l (s # ss) st = outcome_bind (start_stats l s st) (start_workers l ss)"

fun stop_workers :: "ssrc list \<Rightarrow> registry option \<Rightarrow> registry option outcome" where
  "stop_workers [] st = Ret st"
| "stop_workers (s # ss) st =
     (case st of
        None \<Rightarrow> Ret None
      | Some reg \<Rightarrow> outcome_bind (stop_worker s reg) (\<lambda>reg'. stop_workers ss (Some reg')))"

definition add_track :: "'pc lib \<Rightarrow> track_info \<Rightarrow> 'pc endpoint \<Rightarrow> 'pc endpoint outcome" where
  "add_track L info e =
     (case ep_pc e of
        None \<Rightarrow> Panic
      | Some pc \<Rightarrow>
          if has_track L (get_track_local info) e then Ret e
          else
            (case lb_add_track L (get_track_local info) pc of
               (Inl _, pc') \<Rightarrow> Ret (e\<lparr> ep_pc := Some pc' \<rparr>)
             | (Inr snd_r, pc') \<Rightarrow>
                 (case sn_track snd_r of
                    None \<Rightarrow> Panic
                  | Some t \<Rightarrow>
                      let sdp = (tk_sdp info)\<lparr> ti_egress_track_id := lt_id t \<rparr>;
                          sdp = (case map_of (lb_mids L pc') (sn_id snd_r) of
                                   Some mid \<Rightarrow> sdp\<lparr> ti_egress_mid := mid \<rparr> | None \<Rightarrow> sdp);
                          e1 = e\<lparr> ep_pc := Some pc', ep_repo := repo_set (get_id info) sdp (ep_repo e) \<rparr>
                      in outcome_bind (start_workers (endpoint_labels info e) (sn_ssrcs snd_r) (ep_stats e1))
                           (\<lambda>st. Ret (e1\<lparr> ep_stats := st \<rparr>)))))"

definition remove_track :: "'pc lib \<Rightarrow> track_info \<Rightarrow> 'pc endpoint \<Rightarrow> 'pc endpoint outcome" where
  "remove_track L info e =
     (case ep_pc e of
        None \<Rightarrow> Panic
      | Some pc \<Rightarrow>
          (case find_sender L (get_track_local info) e of
             None \<Rightarrow> Ret e
           | Some s \<Rightarrow>
               let e1 = e\<lparr> ep_repo := fst (repo_delete (get_id info) (ep_repo e)),
                           ep_pc := Some (snd (lb_remove_track L s pc)) \<rparr>
               in outcome_bind (stop_workers (sn_ssrcs s) (ep_stats e1))
                    (\<lambda>st. Ret (e1\<lparr> ep_stats := st \<rparr>))))"

text \<open>A description handed out for a mute event carries no track.\<close>

definition nil_track :: local_track where
  "nil_track = \<lparr> lt_id = [], lt_stream_id = [], lt_kind = [] \<rparr>"

definition set_ingress_mute :: "string \<Rightarrow> bool \<Rightarrow> 'pc endpoint \<Rightarrow> track_info option \<times> 'pc endpoint" where
  "set_ingress_mute mid mute e =
     (case by_ingress_mid (ep_repo e) mid of
        None \<Rightarrow> (None, e)
      | Some info \<Rightarrow>
          (Some (new_track_info nil_track (info\<lparr> ti_mute := mute \<rparr>)),
           e\<lparr> ep_repo := repo_modify (ti_id info) (\<lambda>v. v\<lparr> ti_mute := mute \<rparr>) (ep_repo e) \<rparr>))"

definition set_egress_mute :: "uuid \<Rightarrow> bool \<Rightarrow> 'pc endpoint \<Rightarrow> track_info option \<times> 'pc endpoint" where
  "set_egress_mute info_id mute e =
     (case repo_get (ep_repo e) info_id of
        None \<Rightarrow> (None, e)
      | Some info \<Rightarrow>
          (Some (new_track_info nil_track (info\<lparr> ti_mute := mute \<rparr>)),
           e\<lparr> ep_repo := repo_modify info_id (\<lambda>v. v\<lparr> ti_mute := mute \<rparr>) (ep_repo e) \<rparr>))"

section \<open>Renegotiation, connection state, destruction\<close>

text \<open>The two flags say that the wait for initialisation, and the wait for the
  gathering, ended with the session.  The result is the offer handed to the
  callback, if there is one.\<close>

definition do_renegotiation ::
  "'pc lib \<Rightarrow> bool \<Rightarrow> bool \<Rightarrow> 'pc endpoint \<Rightarrow> (session_description option \<times> 'pc endpoint) outcome" where
  "do_renegotiation L stop_init stop_gather e =
     (case ep_on_negotiation e of
        None \<Rightarrow> Ret (None, e)
      | Some _ \<Rightarrow>
          if stop_init then Ret (None, e)
          else if \<not> ep_init e then Block
          else
            (case ep_pc e of
               None \<Rightarrow> Panic
             | Some pc \<Rightarrow>
                 (case lb_create_offer L pc of
                    Inl _ \<Rightarrow> Ret (None, e)
                  | Inr offer \<Rightarrow>
                      let pc1 = snd (lb_set_local L offer pc);
                          e1 = e\<lparr> ep_pc := Some pc1 \<rparr>
                      in if stop_gather then Ret (None, e1)
                         else
                           (case set_egress_track_info (lb_unmarshal L) (lb_marshal L) (lb_local_desc L pc1) (ep_repo e1) of
                              (Inl _, rep) \<Rightarrow> Panic
                            | (Inr d, rep) \<Rightarrow> Ret (Some d, e1\<lparr> ep_repo := rep \<rparr>)))))"

datatype ice_state = Ice_New | Ice_Checking | Ice_Connected | Ice_Completed | Ice_Failed | Ice_Disconnected | Ice_Closed

text \<open>The callbacks run for a new connection state.\<close>

definition on_ice_connection_state_change :: "ice_state \<Rightarrow> 'pc endpoint \<Rightarrow> callback list" where
  "on_ice_connection_state_change st e =
     (if st = Ice_Failed then []
      else
        (if st = Ice_Disconnected \<or> st = Ice_Closed
         then (case ep_on_lost e of Some c \<Rightarrow> [c] | None \<Rightarrow> []) else []) @
        (if st = Ice_Connected
         then (case ep_on_ice_connected e of Some c \<Rightarrow> [c] | None \<Rightarrow> []) else []))"

definition destruct :: "'pc lib \<Rightarrow> 'pc endpoint \<Rightarrow> graph \<Rightarrow> (unit result \<times> 'pc endpoint \<times> graph) outcome" where
  "destruct L e g =
     outcome_bind (case ep_stats e of
                     None \<Rightarrow> Ret e
                   | Some reg \<Rightarrow> outcome_bind (stop_all_worker reg) (\<lambda>reg'. Ret (e\<lparr> ep_stats := Some reg' \<rparr>)))
       (\<lambda>e1.
          let g1 = (if ep_session_id e1 \<noteq> [] \<and> ep_live_stream_id e1 \<noteq> []
                    then graph_node_delete (build_node (ep_session_id e1) (ep_live_stream_id e1)
                           (endpoint_type_to_string (ep_type e1))) g
                    else g)
          in case ep_pc e1 of
               None \<Rightarrow> Ret (Inr (), e1, g1)
             | Some pc \<Rightarrow>
                 (case lb_close L (lb_stop_senders L pc) of
                    (Some err, pc') \<Rightarrow>
                      if \<not> errors_is err err_dtls_closed
                      then Ret (Inl (Wrap ''closing peer connection: '' err), e1\<lparr> ep_pc := Some pc' \<rparr>, g1)
                      else Ret (Inr (), e1\<lparr> ep_pc := Some pc' \<rparr>, g1)
                  | (None, pc') \<Rightarrow> Ret (Inr (), e1\<lparr> ep_pc := Some pc' \<rparr>, g1)))"

section \<open>Establishing an endpoint\<close>

text \<open>The API is built from the library's parts; the statistics interceptor is
  wanted when a getter callback is given.\<close>

definition create_api :: "'pc lib \<Rightarrow> bool \<Rightarrow> unit result" where
  "create_api L with_stats =
     (case lb_register_codecs L of
        Some e \<Rightarrow> Inl (Wrap ''register  default codecs: '' e)
      | None \<Rightarrow>
          (case (if with_stats then lb_new_stats_interceptor L else None) of
             Some e \<Rightarrow> Inl (Wrap ''create stats interceptor factory: '' e)
           | None \<Rightarrow>
               (case lb_register_interceptors L of
                  Some e \<Rightarrow> Inl (Wrap ''register default interceptors: '' e)
                | None \<Rightarrow>
                    (case lb_new_pli L of
                       Some e \<Rightarrow> Inl (Wrap ''create interval Pli factory: '' e)
                     | None \<Rightarrow> Inr ()))))"

definition setup_ingress ::
  "'pc lib \<Rightarrow> (nat \<Rightarrow> uuid) \<Rightarrow> uuid \<Rightarrow> uuid \<Rightarrow> session_description \<Rightarrow> 'pc endpoint \<Rightarrow> 'pc endpoint result" where
  "setup_ingress L new_id session_id live_stream offer e =
     (case get_ingress_track_sdp_info (lb_unmarshal L) new_id offer session_id (ep_repo e) of
        Inl err \<Rightarrow> Inl (Wrap ''parsing track info: '' err)
      | Inr rep \<Rightarrow>
          (case ep_dispatcher e of
             None \<Rightarrow> Inl (Wrap ''setup ingress endpoint: '' (Err ''no track dispatcher found''))
           | Some _ \<Rightarrow> Inr (e\<lparr> ep_repo := rep, ep_receiver := Some (new_receiver session_id live_stream) \<rparr>)))"

definition negotiate_answer ::
  "'pc lib \<Rightarrow> bool \<Rightarrow> session_description \<Rightarrow> 'pc endpoint \<Rightarrow> 'pc \<Rightarrow> 'pc endpoint result" where
  "negotiate_answer L session_done offer e pc =
     (case lb_set_remote L offer pc of
        (Some err, _) \<Rightarrow> Inl (Wrap ''setup offer: '' err)
      | (None, pc1) \<Rightarrow>
          (case lb_create_answer L pc1 of
             Inl err \<Rightarrow> Inl (Wrap ''create answer: '' err)
           | Inr answer \<Rightarrow>
               (case lb_set_local L answer pc1 of
                  (Some err, _) \<Rightarrow> Inl (Wrap ''setup answer: '' err)
                | (None, pc2) \<Rightarrow> Inr (set_init_complete session_done (e\<lparr> ep_pc := Some pc2 \<rparr>)))))"

definition establish_endpoint ::
  "'pc lib \<Rightarrow> (nat \<Rightarrow> uuid) \<Rightarrow> bool \<Rightarrow> uuid \<Rightarrow> uuid \<Rightarrow> session_description \<Rightarrow> endpoint_type
     \<Rightarrow> endpoint_option list \<Rightarrow> graph \<Rightarrow> 'pc endpoint result \<times> graph" where
  "establish_endpoint L new_id session_done session_id live_stream offer ty opts g =
     (let sid = lb_uuid_str L session_id;
          lid = lb_uuid_str L live_stream;
          g1 = snd (graph_node_update (build_node sid lid (endpoint_type_to_string ty)) g);
          e0 = new_endpoint sid lid ty opts
      in case (if ty = ingress_endpoint then setup_ingress L new_id session_id live_stream offer e0 else Inr e0) of
           Inl err \<Rightarrow> (Inl err, g1)
         | Inr e1 \<Rightarrow>
             (case create_api L True of
                Inl err \<Rightarrow> (Inl (Wrap ''creating api: '' err), g1)
              | Inr _ \<Rightarrow>
                  (case lb_new_pc L of
                     Inl err \<Rightarrow> (Inl (Wrap ''create  peer connection: '' err), g1)
                   | Inr pc \<Rightarrow>
                       (negotiate_answer L session_done offer
                          (e1\<lparr> ep_stats := Some (new_registry sid), ep_gather := True \<rparr>) pc, g1))))"

text \<open>The engine's counterpart for offering an endpoint gives neither an endpoint
  nor an error.\<close>

definition offer_endpoint :: "'pc lib \<Rightarrow> endpoint_option list \<Rightarrow> 'pc endpoint option result" where
  "offer_endpoint L opts = Inr None"

text \<open>The goroutine started for an egress endpoint: once the endpoint is
  initialised it adds the tracks the callback returns.\<close>

fun add_tracks :: "'pc lib \<Rightarrow> track_info list \<Rightarrow> 'pc endpoint \<Rightarrow> 'pc endpoint outcome" where
  "add_tracks L [] e = Ret e"
| "add_tracks L (t # ts) e = outcome_bind (add_track L t e) (add_tracks L ts)"

definition setup_tracks ::
  "'pc lib \<Rightarrow> bool \<Rightarrow> track_info list result \<Rightarrow> 'pc endpoint \<Rightarrow> 'pc endpoint outcome" where
  "setup_tracks L session_done tracks e =
     (case ep_get_tracks e of
        None \<Rightarrow> Ret e
      | Some _ \<Rightarrow>
          if session_done then Ret e
          else if \<not> ep_init e then Block
          else case tracks of Inl _ \<Rightarrow> Ret e | Inr ts \<Rightarrow> add_tracks L ts e)"

section \<open>Helper lemmas\<close>

lemma has_track_iff:
  "ep_pc e = Some pc \<Longrightarrow> has_track L t e \<longleftrightarrow> lt_id t \<in> sender_tracks L pc"
  by (auto simp: has_track_def find_sender_def sender_tracks_def find_None_iff split: option.splits)
    metis

lemma find_sender_Some:
  "ep_pc e = Some pc \<Longrightarrow> find_sender L t e = Some s \<Longrightarrow>
     \<exists>t'. sn_track s = Some t' \<and> lt_id t' = lt_id t"
  by (auto simp: find_sender_def find_Some_iff split: option.splits)

lemma add_track_present [simp]: "has_track L (get_track_local i) e \<Longrightarrow> ep_pc e \<noteq> None \<Longrightarrow> add_track L i e = Ret e"
  by (auto simp: add_track_def split: option.splits)

lemma add_track_frame:
  assumes "add_track L i e = Ret e'"
  shows "ep_type e' = ep_type e \<and> ep_session_id e' = ep_session_id e \<and> ep_init e' = ep_init e \<and>
    (\<forall>k. k \<noteq> get_id i \<longrightarrow> repo_get (ep_repo e') k = repo_get (ep_repo e) k)"
  using assms
  by (auto simp: add_track_def Let_def outcome_simps repo_get_def repo_set_def split: option.splits sum.splits if_splits prod.splits)

text \<open>Adding a track the connection does not have: either the library refuses,
  or the entry is filed.\<close>

lemma add_track_new:
  assumes "add_track L i e = Ret e'" "ep_pc e = Some pc" "\<not> has_track L (get_track_local i) e"
    and "lib_tracks_ok L"
  shows "\<exists>pc'. ep_pc e' = Some pc' \<and>
    ((\<exists>err. lb_add_track L (get_track_local i) pc = (Inl err, pc')) \<and> ep_repo e' = ep_repo e \<or>
     sender_tracks L pc' = insert (lt_id (get_track_local i)) (sender_tracks L pc) \<and>
     (\<exists>info. repo_get (ep_repo e') (get_id i) = Some info \<and>
        ti_egress_track_id info = lt_id (get_track_local i) \<and>
        ti_mute info = get_mute i \<and> ti_purpose info = get_purpose i))"
proof -
  obtain r pc' where lib: "lb_add_track L (get_track_local i) pc = (r, pc')"
    by (cases "lb_add_track L (get_track_local i) pc")
  show ?thesis
  proof (cases r)
    case (Inl err)
    then show ?thesis using assms(1-3) lib by (auto simp: add_track_def)
  next
    case (Inr s)
    have s: "sn_track s = Some (get_track_local i)"
      "sender_tracks L pc' = insert (lt_id (get_track_local i)) (sender_tracks L pc)"
      using assms(4) lib Inr by (auto simp: lib_tracks_ok_def)
    have "ep_pc e' = Some pc' \<and> (\<exists>info. repo_get (ep_repo e') (get_id i) = Some info \<and>
        ti_egress_track_id info = lt_id (get_track_local i) \<and>
        ti_mute info = get_mute i \<and> ti_purpose info = get_purpose i)"
      using assms(1-3) lib Inr s(1)
      by (auto simp: add_track_def Let_def outcome_simps repo_get_def repo_set_def get_mute_def
          get_purpose_def split: option.splits)
    then show ?thesis using s(2) by auto
  qed
qed

lemma fold_options_keep:
  "(\<And>x. x \<in> set opts \<Longrightarrow> \<forall>e. f (apply_option x e) = f e) \<Longrightarrow> f (fold apply_option opts e) = f e"
  by (induction opts arbitrary: e) auto

lemma apply_option_fixed [simp]:
  "ep_type (apply_option x e) = ep_type e" "ep_session_id (apply_option x e) = ep_session_id e"
  "ep_live_stream_id (apply_option x e) = ep_live_stream_id e"
  "ep_repo (apply_option x e) = ep_repo e" "ep_init (apply_option x e) = ep_init e"
  "ep_pc (apply_option x e) = ep_pc e" "ep_receiver (apply_option x e) = ep_receiver e"
  by (cases x; auto split: option.splits)+

lemma new_endpoint_fixed [simp]:
  "ep_type (new_endpoint s l ty opts) = ty" "ep_session_id (new_endpoint s l ty opts) = s"
  "ep_live_stream_id (new_endpoint s l ty opts) = l"
  "ep_repo (new_endpoint s l ty opts) = []" "ep_receiver (new_endpoint s l ty opts) = None"
  unfolding new_endpoint_def
  by (subst fold_options_keep; simp add: empty_endpoint_def new_track_repo_def)+

lemma dispatcher_given:
  "ep_dispatcher (fold apply_option opts e) \<noteq> None \<longleftrightarrow>
     ep_dispatcher e \<noteq> None \<or> (\<exists>c. With_Track_Dispatcher c \<in> set opts)"
proof (induction opts arbitrary: e)
  case (Cons x opts)
  have "ep_dispatcher (apply_option x e) \<noteq> None \<longleftrightarrow>
      ep_dispatcher e \<noteq> None \<or> (\<exists>c. x = With_Track_Dispatcher c)"
    by (cases x) (auto split: option.splits)
  then show ?case using Cons by auto
qed simp

section \<open>Properties\<close>

text \<open>Adding a track to an endpoint either is refused by the library, or
  leaves the connection with that track besides those it had and a description
  with the track's egress identifier, mute flag and purpose under the track's
  identifier; adding it again then changes nothing.\<close>

theorem add_track_registers:
  assumes "add_track L i e = Ret e'" "ep_pc e = Some pc" "\<not> has_track L (get_track_local i) e"
    and "lib_tracks_ok L" "\<forall>err pc'. lb_add_track L (get_track_local i) pc \<noteq> (Inl err, pc')"
  shows "has_track L (get_track_local i) e' \<and> add_track L i e' = Ret e' \<and>
    (\<exists>info. repo_get (ep_repo e') (get_id i) = Some info \<and>
       ti_egress_track_id info = lt_id (get_track_local i) \<and>
       ti_mute info = get_mute i \<and> ti_purpose info = get_purpose i) \<and>
    (\<forall>k. k \<noteq> get_id i \<longrightarrow> repo_get (ep_repo e') k = repo_get (ep_repo e) k) \<and>
    (\<forall>t. lt_id t \<noteq> lt_id (get_track_local i) \<longrightarrow> has_track L t e' = has_track L t e)"
proof -
  obtain pc' where pc': "ep_pc e' = Some pc'"
    "sender_tracks L pc' = insert (lt_id (get_track_local i)) (sender_tracks L pc)"
    "\<exists>info. repo_get (ep_repo e') (get_id i) = Some info \<and>
       ti_egress_track_id info = lt_id (get_track_local i) \<and>
       ti_mute info = get_mute i \<and> ti_purpose info = get_purpose i"
    using add_track_new[OF assms(1-4)] assms(5) by blast
  have has: "has_track L t e' \<longleftrightarrow> lt_id t = lt_id (get_track_local i) \<or> has_track L t e" for t
    using pc'(1,2) assms(2) by (simp add: has_track_iff)
  then have "add_track L i e' = Ret e'" using pc'(1) by simp
  then show ?thesis using has pc'(3) add_track_frame[OF assms(1)] by simp
qed

text \<open>A connection that is the list of the tracks sent over it serves as an
  example of the library.\<close>

definition list_lib :: "local_track list lib" where
  "list_lib = \<lparr> lb_uuid_str = (\<lambda>u. show_nat (unat u)), lb_parse_uuid = (\<lambda>s. Some (of_nat (read_nat s))),
     lb_unmarshal = (\<lambda>_. Inr \<lparr> so_media = [], so_rest = [] \<rparr>), lb_marshal = (\<lambda>_. Inr ''v=0''),
     lb_register_codecs = None, lb_new_stats_interceptor = None, lb_register_interceptors = None,
     lb_new_pli = None, lb_new_pc = Inr [],
     lb_senders = map (\<lambda>t. \<lparr> sn_id = length (lt_id t), sn_track = Some t, sn_ssrcs = [] \<rparr>),
     lb_mids = (\<lambda>_. []),
     lb_add_track = (\<lambda>t pc. (Inr \<lparr> sn_id = length (lt_id t), sn_track = Some t, sn_ssrcs = [] \<rparr>, t # pc)),
     lb_remove_track = (\<lambda>s pc. (None, filter (\<lambda>t. map_option lt_id (sn_track s) \<noteq> Some (lt_id t)) pc)),
     lb_local_desc = (\<lambda>_. \<lparr> sd_type = SdpAnswer, sd_sdp = ''v=0'' \<rparr>),
     lb_set_local = (\<lambda>_ pc. (None, pc)), lb_set_remote = (\<lambda>_ pc. (None, pc)),
     lb_create_offer = (\<lambda>_. Inr \<lparr> sd_type = SdpOffer, sd_sdp = ''v=0'' \<rparr>),
     lb_create_answer = (\<lambda>_. Inr \<lparr> sd_type = SdpAnswer, sd_sdp = ''v=0'' \<rparr>),
     lb_stop_senders = (\<lambda>pc. pc), lb_close = (\<lambda>pc. (None, [])) \<rparr>"

lemma list_lib_tracks: "sender_tracks list_lib pc = lt_id ` set pc"
  by (auto simp: sender_tracks_def list_lib_def)

lemma list_lib_ok: "lib_tracks_ok list_lib"
  unfolding lib_tracks_ok_def list_lib_tracks by (auto simp: list_lib_def)

definition sample_track :: track_info where
  "sample_track = new_track_info \<lparr> lt_id = ''l'', lt_stream_id = ''s'', lt_kind = ''audio'' \<rparr>
     ((new_track_sdp_info 3 9)\<lparr> ti_mute := True \<rparr>)"

definition sample_endpoint :: "local_track list endpoint" where
  "sample_endpoint = (new_endpoint ''9'' ''8'' egress_endpoint [])\<lparr> ep_pc := Some [] \<rparr>"

lemma sample_no_track [simp]: "\<not> has_track list_lib t sample_endpoint"
  by (simp add: sample_endpoint_def has_track_iff list_lib_tracks)

lemma sample_added: "\<exists>e'. add_track list_lib sample_track sample_endpoint = Ret e'"
  by (simp add: add_track_def sample_endpoint_def list_lib_def has_track_def find_sender_def
      new_endpoint_def empty_endpoint_def Let_def sample_track_def get_track_local_def new_track_info_def)

lemma add_track_registers_witness:
  "\<exists>e'. add_track list_lib sample_track sample_endpoint = Ret e' \<and>
     add_track list_lib sample_track e' = Ret e'"
proof -
  obtain e' where e': "add_track list_lib sample_track sample_endpoint = Ret e'"
    using sample_added by blast
  have "ep_pc sample_endpoint = Some []" by (simp add: sample_endpoint_def)
  moreover have "\<forall>err pc'. lb_add_track list_lib (get_track_local sample_track) [] \<noteq> (Inl err, pc')"
    by (simp add: list_lib_def)
  ultimately show ?thesis
    using add_track_registers[OF e' _ sample_no_track list_lib_ok] e' by blast
qed

text \<open>Removing a track the connection has takes it off the connection, with
  its description, and leaves the other tracks and descriptions.\<close>

theorem remove_track_unregisters:
  assumes "remove_track L i e = Ret e'" "ep_pc e = Some pc" "has_track L (get_track_local i) e"
    and "lib_tracks_ok L" "wf_map (ep_repo e)" "\<And>s. fst (lb_remove_track L s pc) = None"
  shows "\<not> has_track L (get_track_local i) e' \<and> repo_get (ep_repo e') (get_id i) = None \<and>
    (\<forall>k. k \<noteq> get_id i \<longrightarrow> repo_get (ep_repo e') k = repo_get (ep_repo e) k) \<and>
    (\<forall>t. lt_id t \<noteq> lt_id (get_track_local i) \<longrightarrow> has_track L t e' = has_track L t e)"
proof -
  obtain s where s: "find_sender L (get_track_local i) e = Some s"
    using assms(3) by (auto simp: has_track_def)
  obtain t where t: "sn_track s = Some t" "lt_id t = lt_id (get_track_local i)"
    using find_sender_Some[OF assms(2) s] by blast
  obtain pc' where lib: "lb_remove_track L s pc = (None, pc')"
    using assms(6)[of s] by (cases "lb_remove_track L s pc") simp
  then have st: "sender_tracks L pc' = sender_tracks L pc - {lt_id t}"
    using assms(4) t(1) by (simp add: lib_tracks_ok_def)
  have e': "ep_pc e' = Some pc'" "ep_repo e' = AList.delete (get_id i) (ep_repo e)"
    using assms(1,2) s lib
    by (auto simp: remove_track_def Let_def outcome_simps repo_delete_fst)
  then show ?thesis
    using st t(2) assms(2) by (auto simp: has_track_iff repo_get_def)
qed

lemma remove_track_unregisters_witness:
  "\<exists>e e'. add_track list_lib sample_track sample_endpoint = Ret e \<and>
     remove_track list_lib sample_track e = Ret e' \<and> \<not> has_track list_lib (get_track_local sample_track) e'"
proof -
  let ?e = "sample_endpoint\<lparr> ep_pc := Some [get_track_local sample_track],
    ep_repo := [(3, (tk_sdp sample_track)\<lparr> ti_egress_track_id := ''l'' \<rparr>)] \<rparr>"
  have add: "add_track list_lib sample_track sample_endpoint = Ret ?e"
    by (simp add: add_track_def sample_endpoint_def list_lib_def has_track_def find_sender_def
        new_endpoint_def empty_endpoint_def Let_def sample_track_def track_getters new_track_info_def
        repo_set_def new_track_repo_def new_track_sdp_info_def)
  obtain e' where rem: "remove_track list_lib sample_track ?e = Ret e'"
    by (simp add: remove_track_def find_sender_def list_lib_def Let_def sample_endpoint_def
        new_endpoint_def empty_endpoint_def)
  have "\<not> has_track list_lib (get_track_local sample_track) e'"
    using remove_track_unregisters[OF rem _ _ list_lib_ok, of "[get_track_local sample_track]"]
    by (simp add: has_track_iff list_lib_tracks) (simp add: list_lib_def)
  then show ?thesis using add rem by blast
qed

text \<open>C25: an endpoint that is established for a live session is initialised, has a
  connection and a statistics registry and belongs to the session and stream
  it was asked for; an ingress endpoint has a receiver for the session, which
  it only gets with a track dispatcher, and an egress endpoint has none.\<close>

theorem establish_endpoint_wellformed:
  assumes "establish_endpoint L new_id False sess live offer ty opts g = (Inr e, g')"
  shows "ep_init e \<and> ep_gather e \<and> ep_pc e \<noteq> None \<and> ep_type e = ty \<and>
    ep_session_id e = lb_uuid_str L sess \<and> ep_live_stream_id e = lb_uuid_str L live \<and>
    ep_stats e = Some (new_registry (lb_uuid_str L sess)) \<and>
    (ty = ingress_endpoint \<longrightarrow> ep_receiver e = Some (new_receiver sess live) \<and>
       (\<exists>c. With_Track_Dispatcher c \<in> set opts)) \<and>
    (ty \<noteq> ingress_endpoint \<longrightarrow> ep_receiver e = None \<and> ep_repo e = [])"
proof -
  let ?e0 = "new_endpoint (lb_uuid_str L sess) (lb_uuid_str L live) ty opts"
  obtain e1 pc where e1: "(if ty = ingress_endpoint then setup_ingress L new_id sess live offer ?e0
      else Inr ?e0) = Inr e1"
    and n: "negotiate_answer L False offer
      (e1\<lparr> ep_stats := Some (new_registry (lb_uuid_str L sess)), ep_gather := True \<rparr>) pc = Inr e"
    using assms by (auto simp: establish_endpoint_def Let_def split: sum.splits)
  obtain pc2 where e: "e = set_init_complete False (e1\<lparr> ep_stats := Some (new_registry (lb_uuid_str L sess)),
      ep_gather := True, ep_pc := Some pc2 \<rparr>)"
    using n by (auto simp: negotiate_answer_def split: prod.splits option.splits sum.splits)
  have "ep_dispatcher ?e0 \<noteq> None \<longleftrightarrow> (\<exists>c. With_Track_Dispatcher c \<in> set opts)"
    unfolding new_endpoint_def dispatcher_given by (simp add: empty_endpoint_def)
  then show ?thesis using e1
    by (auto simp: e set_init_complete_def setup_ingress_def split: if_splits sum.splits option.splits)
qed

lemma establish_endpoint_wellformed_witness:
  "\<exists>e g'. establish_endpoint list_lib of_nat False 9 8 \<lparr> sd_type = SdpOffer, sd_sdp = ''v=0'' \<rparr>
       ingress_endpoint [With_Track_Dispatcher Hub_Dispatcher] \<lparr> gr_on = False, gr_calls = [] \<rparr> = (Inr e, g') \<and>
     ep_receiver e = Some (new_receiver 9 8)"
proof -
  obtain e g' where e: "establish_endpoint list_lib of_nat False 9 8 \<lparr> sd_type = SdpOffer, sd_sdp = ''v=0'' \<rparr>
       ingress_endpoint [With_Track_Dispatcher Hub_Dispatcher] \<lparr> gr_on = False, gr_calls = [] \<rparr> = (Inr e, g')"
    by (simp add: establish_endpoint_def setup_ingress_def get_ingress_track_sdp_info_def list_lib_def
        new_endpoint_def empty_endpoint_def create_api_def negotiate_answer_def Let_def)
  from establish_endpoint_wellformed[OF e] e show ?thesis by blast
qed

text \<open>When the rewriting of an egress endpoint's description fails, the error
  is not returned: the debug output dereferences the missing description, both
  when the description is asked for and when it is renegotiated.\<close>

theorem description_rewrite_failure_panics:
  assumes "ep_type e = egress_endpoint" "ep_pc e = Some pc"
    and "\<And>s. lb_unmarshal L s = Inl err"
  shows "get_local_description L Gathered e = Panic \<and>
    (\<forall>c offer. ep_on_negotiation e = Some c \<and> ep_init e \<and> lb_create_offer L pc = Inr offer \<longrightarrow>
       do_renegotiation L False False e = Panic)"
  using assms
  by (simp add: get_local_description_def do_renegotiation_def set_egress_track_info_def Let_def)

lemma description_rewrite_failure_panics_witness:
  "get_local_description (list_lib\<lparr> lb_unmarshal := (\<lambda>_. Inl (Err ''sdp'')) \<rparr>) Gathered sample_endpoint = Panic"
  using description_rewrite_failure_panics[of sample_endpoint "[]"
      "list_lib\<lparr> lb_unmarshal := (\<lambda>_. Inl (Err ''sdp'')) \<rparr>"]
  by (simp add: sample_endpoint_def)

end
