(* ===== verification/Messenger.thy ===== *)
theory Messenger
  imports Sdp
begin

text \<open>
  Data channel messages (\<^verbatim>\<open>pkg/message\<close>) and the messenger that sends and
  dispatches them (\<^verbatim>\<open>internal/lobby/clients/messenger.go\<close>).  The JSON
  codec is a parameter.  Of the sending worker the model keeps whether it runs:
  the queue is unbuffered, so without a worker a sender waits until the
  messenger quits.
\<close>

section \<open>Messages\<close>

type_synonym msg_type = int

definition offer_msg :: msg_type where "offer_msg = 1"
definition answer_msg :: msg_type where "answer_msg = 2"
definition mute_msg :: msg_type where "mute_msg = 3"

record mute =
  mu_mid :: string
  mu_mute :: bool

record sdp_msg =
  sm_number :: "32 word"
  sm_sdp :: "session_description option"

text \<open>The payload of a message: what the program puts into it, or other JSON.\<close>

datatype msg_data = Sdp_Data sdp_msg | Mute_Data mute | Json_Data string

record channel_msg =
  cm_id :: "32 word"
  cm_data :: msg_data
  cm_type :: msg_type

record codec =
  cd_marshal :: "channel_msg \<Rightarrow> bytes result"
  cd_unmarshal :: "bytes \<Rightarrow> channel_msg result"
  cd_to_sdp :: "msg_data \<Rightarrow> sdp_msg result"
  cd_to_mute :: "msg_data \<Rightarrow> mute result"

text \<open>The documented behaviour of the codec: what was encoded is decoded.\<close>

definition codec_ok :: "codec \<Rightarrow> bool" where
  "codec_ok C = ((\<forall>m b. cd_marshal C m = Inr b \<longrightarrow> cd_unmarshal C b = Inr m) \<and>
     (\<forall>s. cd_to_sdp C (Sdp_Data s) = Inr s) \<and> (\<forall>m. cd_to_mute C (Mute_Data m) = Inr m))"

definition msg_unmarshal :: "codec \<Rightarrow> bytes \<Rightarrow> channel_msg result" where
  "msg_unmarshal C b = cd_unmarshal C b"

definition msg_marshal :: "codec \<Rightarrow> channel_msg \<Rightarrow> bytes result" where
  "msg_marshal C m = cd_marshal C m"

definition sdp_unmarshal :: "codec \<Rightarrow> msg_data \<Rightarrow> sdp_msg result" where
  "sdp_unmarshal C d = cd_to_sdp C d"

definition mute_unmarshal :: "codec \<Rightarrow> msg_data \<Rightarrow> mute result" where
  "mute_unmarshal C d = cd_to_mute C d"

section \<open>The messenger\<close>

datatype observer_call =
    On_Answer "session_description option" "32 word"
  | On_Offer "session_description option" "32 word" "32 word"
  | On_Mute mute

record messenger =
  mg_counter :: "32 word"
  mg_observers :: "(uuid, unit) gomap"
  mg_worker :: bool
  mg_quit :: bool
  mg_sent :: "bytes list"

definition new_messenger :: messenger where
  "new_messenger = \<lparr> mg_counter = 0, mg_observers = [], mg_worker = False, mg_quit = False, mg_sent = [] \<rparr>"

text \<open>The channel opens and the worker starts.\<close>

definition on_open :: "messenger \<Rightarrow> messenger" where
  "on_open m = m\<lparr> mg_worker := True \<rparr>"

definition count :: "messenger \<Rightarrow> 32 word" where "count m = mg_counter m"

definition enqueue :: "bytes \<Rightarrow> messenger \<Rightarrow> messenger outcome" where
  "enqueue b m =
     (if mg_quit m then Ret m
      else if mg_worker m then Ret (m\<lparr> mg_sent := mg_sent m @ [b] \<rparr>)
      else Block)"

definition send_sdp ::
  "codec \<Rightarrow> session_description option \<Rightarrow> 32 word \<Rightarrow> 32 word \<Rightarrow> messenger
     \<Rightarrow> (32 word result \<times> messenger) outcome" where
  "send_sdp C sdp i number m =
     (case sdp of
        None \<Rightarrow> Panic
      | Some d \<Rightarrow>
          let ty = (case sd_type d of SdpOffer \<Rightarrow> offer_msg | SdpAnswer \<Rightarrow> answer_msg | _ \<Rightarrow> 0);
              msg = \<lparr> cm_id = i, cm_data = Sdp_Data \<lparr> sm_number = number, sm_sdp = sdp \<rparr>, cm_type = ty \<rparr>
          in case msg_marshal C msg of
               Inl e \<Rightarrow> Ret (Inl (Wrap (''marshaling offer message (msgId '' @ show_nat (unat i) @ '' sdp '' @
                              show_nat (unat number) @ ''): '') e), m)
             | Inr b \<Rightarrow> outcome_bind (enqueue b m) (\<lambda>m'. Ret (Inr i, m')))"

definition send_offer ::
  "codec \<Rightarrow> session_description option \<Rightarrow> 32 word \<Rightarrow> messenger \<Rightarrow> (32 word result \<times> messenger) outcome" where
  "send_offer C offer number m = send_sdp C offer (count m) number m"

definition send_answer ::
  "codec \<Rightarrow> session_description option \<Rightarrow> 32 word \<Rightarrow> 32 word \<Rightarrow> messenger
     \<Rightarrow> (32 word result \<times> messenger) outcome" where
  "send_answer C sdp i number m = send_sdp C sdp i number m"

definition send_mute :: "codec \<Rightarrow> mute \<Rightarrow> messenger \<Rightarrow> (unit result \<times> messenger) outcome" where
  "send_mute C mu m =
     (case msg_marshal C \<lparr> cm_id = 0, cm_data = Mute_Data mu, cm_type = mute_msg \<rparr> of
        Inl e \<Rightarrow> Ret (Inl (Wrap ''marshaling mute message: '' e), m)
      | Inr b \<Rightarrow> outcome_bind (enqueue b m) (\<lambda>m'. Ret (Inr (), m')))"

definition register :: "uuid \<Rightarrow> messenger \<Rightarrow> messenger" where
  "register i m = (case map_of (mg_observers m) i of
      None \<Rightarrow> m\<lparr> mg_observers := AList.update i () (mg_observers m) \<rparr> | Some _ \<Rightarrow> m)"

definition deregister :: "uuid \<Rightarrow> messenger \<Rightarrow> messenger" where
  "deregister i m = (case map_of (mg_observers m) i of
      Some _ \<Rightarrow> m\<lparr> mg_observers := AList.delete i (mg_observers m) \<rparr> | None \<Rightarrow> m)"

definition close :: "messenger \<Rightarrow> messenger" where
  "close m = (if mg_quit m then m else m\<lparr> mg_quit := True \<rparr>)"

definition unmarshal_sdp :: "codec \<Rightarrow> channel_msg \<Rightarrow> sdp_msg result" where
  "unmarshal_sdp C msg = wrap_err ''unmarshal sdp of mesge: '' (sdp_unmarshal C (cm_data msg))"

definition observers :: "messenger \<Rightarrow> uuid list" where
  "observers m = map fst (mg_observers m)"

text \<open>A payload that cannot be decoded is only logged; the handlers then read the
  missing value once per observer.\<close>

definition handle_answer_msg :: "codec \<Rightarrow> channel_msg \<Rightarrow> messenger \<Rightarrow> (uuid \<times> observer_call) list outcome" where
  "handle_answer_msg C msg m =
     (case unmarshal_sdp C msg of
        Inl _ \<Rightarrow> (if observers m = [] then Ret [] else Panic)
      | Inr a \<Rightarrow> Ret (map (\<lambda>o'. (o', On_Answer (sm_sdp a) (sm_number a))) (observers m)))"

definition handle_offer_msg :: "codec \<Rightarrow> channel_msg \<Rightarrow> messenger \<Rightarrow> (uuid \<times> observer_call) list outcome" where
  "handle_offer_msg C msg m =
     (case unmarshal_sdp C msg of
        Inl _ \<Rightarrow> (if observers m = [] then Ret [] else Panic)
      | Inr a \<Rightarrow> Ret (map (\<lambda>o'. (o', On_Offer (sm_sdp a) (cm_id msg) (sm_number a))) (observers m)))"

text \<open>The mute handlers get a missing value, and read it.\<close>

definition handle_mute_msg :: "codec \<Rightarrow> channel_msg \<Rightarrow> messenger \<Rightarrow> (uuid \<times> observer_call) list outcome" where
  "handle_mute_msg C msg m =
     (case mute_unmarshal C (cm_data msg) of
        Inl _ \<Rightarrow> (if observers m = [] then Ret [] else Panic)
      | Inr mu \<Rightarrow> Ret (map (\<lambda>o'. (o', On_Mute mu)) (observers m)))"

definition notify_all :: "codec \<Rightarrow> channel_msg \<Rightarrow> messenger \<Rightarrow> (uuid \<times> observer_call) list outcome" where
  "notify_all C msg m =
     (if cm_type msg = answer_msg then handle_answer_msg C msg m
      else if cm_type msg = offer_msg then handle_offer_msg C msg m
      else if cm_type msg = mute_msg then handle_mute_msg C msg m
      else Ret [])"

definition on_messages :: "codec \<Rightarrow> bool \<Rightarrow> bytes \<Rightarrow> messenger \<Rightarrow> (uuid \<times> observer_call) list outcome" where
  "on_messages C is_string b m =
     (if is_string then Ret []
      else case msg_unmarshal C b of
             Inl _ \<Rightarrow> Panic
           | Inr msg \<Rightarrow> notify_all C msg m)"

section \<open>Helper lemmas\<close>

lemma msg_types [simp]: "offer_msg \<noteq> answer_msg" "answer_msg \<noteq> offer_msg" "mute_msg \<noteq> answer_msg" "mute_msg \<noteq> offer_msg"
  "answer_msg \<noteq> mute_msg" "offer_msg \<noteq> mute_msg"
  by (simp_all add: offer_msg_def answer_msg_def mute_msg_def)

lemma enqueue_Ret:
  "enqueue b m = Ret m' \<Longrightarrow> \<not> mg_quit m \<Longrightarrow> mg_sent m' = mg_sent m @ [b] \<and> mg_counter m' = mg_counter m \<and>
     mg_observers m' = mg_observers m \<and> mg_worker m' = mg_worker m"
  by (auto simp: enqueue_def split: if_splits)

lemma send_sdp_sent:
  assumes "send_sdp C (Some d) i n m = Ret (Inr j, m')" "\<not> mg_quit m" "codec_ok C"
  shows "j = i \<and> (\<exists>b msg. mg_sent m' = mg_sent m @ [b] \<and> cd_unmarshal C b = Inr msg \<and> cm_id msg = i \<and>
    cm_data msg = Sdp_Data \<lparr> sm_number = n, sm_sdp = Some d \<rparr> \<and>
    (sd_type d = SdpOffer \<longrightarrow> cm_type msg = offer_msg) \<and> (sd_type d = SdpAnswer \<longrightarrow> cm_type msg = answer_msg))"
proof -
  let ?ty = "case sd_type d of SdpOffer \<Rightarrow> offer_msg | SdpAnswer \<Rightarrow> answer_msg | _ \<Rightarrow> 0"
  let ?msg = "\<lparr> cm_id = i, cm_data = Sdp_Data \<lparr> sm_number = n, sm_sdp = Some d \<rparr>, cm_type = ?ty \<rparr>"
  obtain b where b: "cd_marshal C ?msg = Inr b" "enqueue b m = Ret m'" "j = i"
    using assms(1) by (auto simp: send_sdp_def msg_marshal_def Let_def outcome_simps split: sum.splits)
  have "cd_unmarshal C b = Inr ?msg" using assms(3) b(1) by (simp add: codec_ok_def)
  then show ?thesis using enqueue_Ret[OF b(2) assms(2)] b(3)
    by (intro conjI exI[of _ b] exI[of _ ?msg]) auto
qed

section \<open>Properties\<close>

text \<open>C21: what one messenger sends, the messenger at the other end hands to every
  observer: an offer with its number and description, an answer likewise, a
  mute with its media identifier and flag.\<close>

theorem messenger_delivers:
  assumes "codec_ok C" "\<not> mg_quit m"
  shows "(\<forall>d n i m'. sd_type d = SdpOffer \<and> send_offer C (Some d) n m = Ret (Inr i, m') \<longrightarrow>
      (\<exists>b. mg_sent m' = mg_sent m @ [b] \<and>
         on_messages C False b r = Ret (map (\<lambda>x. (x, On_Offer (Some d) i n)) (observers r)))) \<and>
    (\<forall>d n i j m'. sd_type d = SdpAnswer \<and> send_answer C (Some d) i n m = Ret (Inr j, m') \<longrightarrow>
      (\<exists>b. mg_sent m' = mg_sent m @ [b] \<and>
         on_messages C False b r = Ret (map (\<lambda>x. (x, On_Answer (Some d) n)) (observers r)))) \<and>
    (\<forall>mu m'. send_mute C mu m = Ret (Inr (), m') \<longrightarrow>
      (\<exists>b. mg_sent m' = mg_sent m @ [b] \<and>
         on_messages C False b r = Ret (map (\<lambda>x. (x, On_Mute mu)) (observers r))))"
proof (intro conjI allI impI)
  fix d n i m' assume a: "sd_type d = SdpOffer \<and> send_offer C (Some d) n m = Ret (Inr i, m')"
  then show "\<exists>b. mg_sent m' = mg_sent m @ [b] \<and>
         on_messages C False b r = Ret (map (\<lambda>x. (x, On_Offer (Some d) i n)) (observers r))"
    using send_sdp_sent[of C d "count m" n m i m'] assms
    by (auto simp: send_offer_def on_messages_def msg_unmarshal_def notify_all_def handle_offer_msg_def
        unmarshal_sdp_def sdp_unmarshal_def codec_ok_def)
next
  fix d n i j m' assume a: "sd_type d = SdpAnswer \<and> send_answer C (Some d) i n m = Ret (Inr j, m')"
  then show "\<exists>b. mg_sent m' = mg_sent m @ [b] \<and>
         on_messages C False b r = Ret (map (\<lambda>x. (x, On_Answer (Some d) n)) (observers r))"
    using send_sdp_sent[of C d i n m j m'] assms
    by (auto simp: send_answer_def on_messages_def msg_unmarshal_def notify_all_def handle_answer_msg_def
        unmarshal_sdp_def sdp_unmarshal_def codec_ok_def)
next
  fix mu m' assume "send_mute C mu m = Ret (Inr (), m')"
  then obtain b where b: "cd_marshal C \<lparr> cm_id = 0, cm_data = Mute_Data mu, cm_type = mute_msg \<rparr> = Inr b"
    "enqueue b m = Ret m'"
    by (auto simp: send_mute_def msg_marshal_def outcome_simps split: sum.splits)
  then show "\<exists>b. mg_sent m' = mg_sent m @ [b] \<and>
         on_messages C False b r = Ret (map (\<lambda>x. (x, On_Mute mu)) (observers r))"
    using enqueue_Ret[OF b(2) assms(2)] assms(1)
    by (auto simp: on_messages_def msg_unmarshal_def notify_all_def handle_mute_msg_def mute_unmarshal_def
        codec_ok_def)
qed

text \<open>A codec with one message is enough to show the hypotheses can hold.\<close>

definition mute_codec :: "mute \<Rightarrow> codec" where
  "mute_codec mu =
     \<lparr> cd_marshal = (\<lambda>m. if m = \<lparr> cm_id = 0, cm_data = Mute_Data mu, cm_type = mute_msg \<rparr> then Inr [1]
                          else Inl (Err ''json'')),
       cd_unmarshal = (\<lambda>b. if b = [1] then Inr \<lparr> cm_id = 0, cm_data = Mute_Data mu, cm_type = mute_msg \<rparr>
                          else Inl (Err ''json'')),
       cd_to_sdp = (\<lambda>d. case d of Sdp_Data s \<Rightarrow> Inr s | _ \<Rightarrow> Inl (Err ''json'')),
       cd_to_mute = (\<lambda>d. case d of Mute_Data m \<Rightarrow> Inr m | _ \<Rightarrow> Inl (Err ''json'')) \<rparr>"

lemma mute_codec_ok: "codec_ok (mute_codec mu)"
  by (auto simp: codec_ok_def mute_codec_def split: if_splits)

lemma messenger_delivers_witness:
  "\<exists>b. mg_sent (on_open new_messenger \<lparr> mg_sent := [[1]] \<rparr>) = [b] \<and>
     on_messages (mute_codec \<lparr> mu_mid = ''0'', mu_mute = True \<rparr>) False b (register 4 new_messenger) =
       Ret [(4, On_Mute \<lparr> mu_mid = ''0'', mu_mute = True \<rparr>)]"
proof -
  let ?mu = "\<lparr> mu_mid = ''0'', mu_mute = True \<rparr>"
  have "send_mute (mute_codec ?mu) ?mu (on_open new_messenger) =
      Ret (Inr (), (on_open new_messenger)\<lparr> mg_sent := [[1]] \<rparr>)"
    by (simp add: send_mute_def msg_marshal_def mute_codec_def enqueue_def on_open_def new_messenger_def)
  moreover have "\<not> mg_quit (on_open new_messenger)" by (simp add: on_open_def new_messenger_def)
  ultimately have "\<exists>b. mg_sent ((on_open new_messenger)\<lparr> mg_sent := [[1]] \<rparr>) = mg_sent (on_open new_messenger) @ [b] \<and>
     on_messages (mute_codec ?mu) False b (register 4 new_messenger) =
       Ret (map (\<lambda>x. (x, On_Mute ?mu)) (observers (register 4 new_messenger)))"
    using messenger_delivers[OF mute_codec_ok] by blast
  then show ?thesis
    by (simp add: register_def new_messenger_def observers_def on_open_def)
qed

text \<open>A binary message that is not well formed, or one of a known type with a
  payload that does not decode, panics in the handler once somebody observes
  the channel; only unknown types and text are ignored.\<close>

theorem malformed_message_panics:
  "(\<forall>b e. cd_unmarshal C b = Inl e \<longrightarrow> on_messages C False b m = Panic) \<and>
   (\<forall>b msg e. cd_unmarshal C b = Inr msg \<and> observers m \<noteq> [] \<and>
      (cm_type msg \<in> {offer_msg, answer_msg} \<and> cd_to_sdp C (cm_data msg) = Inl e \<or>
       cm_type msg = mute_msg \<and> cd_to_mute C (cm_data msg) = Inl e) \<longrightarrow>
      on_messages C False b m = Panic) \<and>
   (\<forall>b. on_messages C True b m = Ret [])"
  by (auto simp: on_messages_def msg_unmarshal_def notify_all_def handle_answer_msg_def handle_offer_msg_def
      handle_mute_msg_def unmarshal_sdp_def sdp_unmarshal_def mute_unmarshal_def)

lemma malformed_message_panics_witness:
  "on_messages (mute_codec \<lparr> mu_mid = ''0'', mu_mute = True \<rparr>) False [7] new_messenger = Panic"
  using malformed_message_panics[of "mute_codec \<lparr> mu_mid = ''0'', mu_mute = True \<rparr>" new_messenger]
  by (auto simp: mute_codec_def)

text \<open>A run of offers over one messenger, with the identifiers they get.\<close>

fun send_offers ::
  "codec \<Rightarrow> (session_description \<times> 32 word) list \<Rightarrow> messenger \<Rightarrow> (32 word result list \<times> messenger) outcome" where
  "send_offers C [] m = Ret ([], m)"
| "send_offers C ((d, n) # ds) m =
     outcome_bind (send_offer C (Some d) n m) (\<lambda>(i, m').
       outcome_bind (send_offers C ds m') (\<lambda>(is, m''). Ret (i # is, m'')))"

lemma send_offer_counter: "send_offer C d n m = Ret (r, m') \<Longrightarrow> mg_counter m' = mg_counter m \<and> (\<forall>i. r = Inr i \<longrightarrow> i = mg_counter m)"
  by (auto simp: send_offer_def send_sdp_def count_def Let_def outcome_simps enqueue_def
      split: option.splits sum.splits if_splits)

lemma send_offers_counter:
  "send_offers C ds m = Ret (rs, m') \<Longrightarrow> \<forall>i. Inr i \<in> set rs \<longrightarrow> i = mg_counter m"
proof (induction ds arbitrary: m rs)
  case (Cons x ds)
  obtain d n where x: "x = (d, n)" by (cases x)
  obtain r m1 rs' where r: "send_offer C (Some d) n m = Ret (r, m1)"
    "send_offers C ds m1 = Ret (rs', m')" "rs = r # rs'"
    using Cons.prems by (auto simp: x outcome_simps)
  show ?case using Cons.IH[OF r(2)] send_offer_counter[OF r(1)] r(3) by auto
qed simp

text \<open>The counter behind the message identifiers never moves: however many
  offers a new messenger sends, all of them carry the identifier zero.\<close>

theorem offers_share_identifier:
  assumes "send_offers C ds (on_open new_messenger) = Ret (rs, m')"
  shows "\<forall>i. Inr i \<in> set rs \<longrightarrow> i = 0"
  using send_offers_counter[OF assms] by (simp add: on_open_def new_messenger_def)

lemma offers_share_identifier_witness:
  "\<exists>rs m'. send_offers (mute_codec \<lparr> mu_mid = [], mu_mute = True \<rparr>\<lparr> cd_marshal := (\<lambda>_. Inr [7]) \<rparr>)
     [(\<lparr> sd_type = SdpOffer, sd_sdp = ''a'' \<rparr>, 1), (\<lparr> sd_type = SdpOffer, sd_sdp = ''b'' \<rparr>, 2)]
     (on_open new_messenger) = Ret (rs, m') \<and> length rs = 2 \<and> (\<forall>i. Inr i \<in> set rs \<longrightarrow> i = 0)"
proof -
  obtain rs m' where r: "send_offers (mute_codec \<lparr> mu_mid = [], mu_mute = True \<rparr>\<lparr> cd_marshal := (\<lambda>_. Inr [7]) \<rparr>)
     [(\<lparr> sd_type = SdpOffer, sd_sdp = ''a'' \<rparr>, 1), (\<lparr> sd_type = SdpOffer, sd_sdp = ''b'' \<rparr>, 2)]
     (on_open new_messenger) = Ret (rs, m')" "length rs = 2"
    by (simp add: send_offer_def send_sdp_def msg_marshal_def enqueue_def on_open_def new_messenger_def)
  show ?thesis using offers_share_identifier[OF r(1)] r by blast
qed

end
