(* ===== verification/Session.thy ===== *)
theory Session
  imports Endpoint Messenger
begin

text \<open>
  Sessions and their signalling (\<^verbatim>\<open>internal/lobby/sessions/session.go\<close>,
  \<^verbatim>\<open>signal.go\<close>, \<^verbatim>\<open>signal_builder.go\<close>, \<^verbatim>\<open>item.go\<close>,
  \<^verbatim>\<open>session_type.go\<close>).  A session owns an ingress and an egress endpoint;
  its signaller talks to the peer over the messenger.  The signaller's offerer
  is a pointer to the session's egress endpoint and is kept as a flag; the
  context's end is the flag \<^verbatim>\<open>ss_done\<close>, and the write lock held by another
  call the flag \<^verbatim>\<open>ss_locked\<close>.
\<close>

section \<open>The signaller\<close>

type_synonym signal_kind = int

definition silent_signal_channel :: signal_kind where "silent_signal_channel = 1"
definition unidirectional_signal_channel :: signal_kind where "unidirectional_signal_channel = 2"
definition bidirectional_signal_channel :: signal_kind where "bidirectional_signal_channel = 3"

definition build_signal_data_channel_cbk :: "signal_kind \<Rightarrow> callback" where
  "build_signal_data_channel_cbk kind =
     (if kind = silent_signal_channel then Silent_Channel else Sender_Channel)"

record signal =
  sg_id :: uuid
  sg_session :: uuid
  sg_user :: uuid
  sg_offerer :: bool
  sg_answerer :: bool
  sg_mute_cbk :: bool
  sg_messenger :: "messenger option"
  sg_number :: "32 word"
  sg_received :: bool

definition err_timeout_messenger :: go_error where
  "err_timeout_messenger = Err ''timeout by waiting for messenger''"
definition err_closed_messenger :: go_error where
  "err_closed_messenger = Err ''session closed by waiting for messenger''"

definition new_signal :: "uuid \<Rightarrow> uuid \<Rightarrow> uuid \<Rightarrow> signal" where
  "new_signal i session user =
     \<lparr> sg_id = i, sg_session = session, sg_user = user, sg_offerer = False, sg_answerer = False,
       sg_mute_cbk = False, sg_messenger = None, sg_number = 0, sg_received = False \<rparr>"

definition stop_waiting_for_messenger :: "signal \<Rightarrow> signal" where
  "stop_waiting_for_messenger s = (if sg_received s then s else s\<lparr> sg_received := True \<rparr>)"

definition on_sender_channel :: "signal \<Rightarrow> signal" where
  "on_sender_channel s =
     stop_waiting_for_messenger (s\<lparr> sg_messenger := Some (register (sg_id s) new_messenger) \<rparr>)"

definition on_silent_channel :: "signal \<Rightarrow> signal" where
  "on_silent_channel s = s"

definition set_answerer :: "bool \<Rightarrow> signal \<Rightarrow> signal" where
  "set_answerer b s = s\<lparr> sg_answerer := b \<rparr>"

definition set_offerer :: "bool \<Rightarrow> signal \<Rightarrow> signal" where
  "set_offerer b s = s\<lparr> sg_offerer := b, sg_number := 0 \<rparr>"

definition next_offer :: "signal \<Rightarrow> 32 word \<times> signal" where
  "next_offer s = (sg_number s + 1, s\<lparr> sg_number := sg_number s + 1 \<rparr>)"

definition current_offer :: "signal \<Rightarrow> 32 word" where
  "current_offer s = sg_number s"

definition on_negotiation_needed :: "codec \<Rightarrow> session_description \<Rightarrow> signal \<Rightarrow> signal outcome" where
  "on_negotiation_needed C offer s =
     (let (n, s1) = next_offer s in
      case sg_messenger s1 of
        None \<Rightarrow> Panic
      | Some m \<Rightarrow> outcome_bind (send_offer C (Some offer) n m) (\<lambda>(_, m'). Ret (s1\<lparr> sg_messenger := Some m' \<rparr>)))"

text \<open>The answer takes effect on the offerer, the session's egress endpoint.\<close>

definition on_answer ::
  "'pc lib \<Rightarrow> bool \<Rightarrow> session_description option \<Rightarrow> 32 word \<Rightarrow> signal \<Rightarrow> 'pc endpoint \<Rightarrow> 'pc endpoint outcome" where
  "on_answer L session_done sdp number s e =
     (if \<not> sg_offerer s then Ret e
      else if current_offer s \<noteq> number then Ret e
      else case sdp of
             None \<Rightarrow> Panic
           | Some d \<Rightarrow> outcome_bind (set_answer L d e) (\<lambda>(_, e'). Ret (set_init_complete session_done e')))"

text \<open>The offer is answered by the answerer, the session's ingress endpoint; an
  error leaves no answer to send, and sending reads it.\<close>

definition on_offer ::
  "'pc lib \<Rightarrow> codec \<Rightarrow> (nat \<Rightarrow> uuid) \<Rightarrow> session_description option \<Rightarrow> 32 word \<Rightarrow> 32 word \<Rightarrow> signal
     \<Rightarrow> 'pc endpoint \<Rightarrow> (signal \<times> 'pc endpoint) outcome" where
  "on_offer L C new_id sdp response_id number s e =
     (if \<not> sg_answerer s then Ret (s, e)
      else case sdp of
             None \<Rightarrow> Panic
           | Some d \<Rightarrow>
               outcome_bind (set_new_offer L new_id d e) (\<lambda>(r, e').
                 case (r, sg_messenger s) of
                   (Inr answer, Some m) \<Rightarrow>
                     outcome_bind (send_answer C (Some answer) response_id number m)
                       (\<lambda>(_, m'). Ret (s\<lparr> sg_messenger := Some m' \<rparr>, e'))
                 | _ \<Rightarrow> Panic))"

section \<open>Sessions\<close>

type_synonym session_type = int

definition user_session :: session_type where "user_session = 1"
definition instance_session :: session_type where "instance_session = 2"
definition remote_instance_session :: session_type where "remote_instance_session = 3"

record item =
  it_user :: uuid
  it_type :: session_type

definition new_item :: "uuid \<Rightarrow> item" where
  "new_item user = \<lparr> it_user = user, it_type = user_session \<rparr>"

definition err_session_already_closed :: go_error where
  "err_session_already_closed = Err ''session already closed''"
definition err_ingress_already_exists :: go_error where
  "err_ingress_already_exists = Err ''ingress resource already exists in session''"
definition err_egress_already_exists :: go_error where
  "err_egress_already_exists = Err ''egress resource already exists in session''"
definition err_no_signal_channel :: go_error where
  "err_no_signal_channel = Err ''no signal channel connection exists in session''"
definition err_waiting_timeout :: go_error where
  "err_waiting_timeout = Err ''session process waiting timeout''"

text \<open>The engine interface of the session.\<close>

record 'pc engine =
  en_establish :: "bool \<Rightarrow> uuid \<Rightarrow> uuid \<Rightarrow> session_description \<Rightarrow> endpoint_type \<Rightarrow> endpoint_option list
     \<Rightarrow> graph \<Rightarrow> 'pc endpoint result \<times> graph"
  en_offer :: "uuid \<Rightarrow> uuid \<Rightarrow> endpoint_type \<Rightarrow> endpoint_option list \<Rightarrow> 'pc endpoint option result"

record 'pc session =
  ss_id :: uuid
  ss_user :: uuid
  ss_type :: session_type
  ss_live :: uuid
  ss_ingress :: "'pc endpoint option"
  ss_egress :: "'pc endpoint option"
  ss_signal :: signal
  ss_done :: bool
  ss_locked :: bool

text \<open>The fresh identifiers of the session and of its signaller are arguments.\<close>

definition new_session :: "uuid \<Rightarrow> uuid \<Rightarrow> uuid \<Rightarrow> uuid \<Rightarrow> session_type \<Rightarrow> 'pc session" where
  "new_session session_id signal_id user live ty =
     \<lparr> ss_id = session_id, ss_user = user, ss_type = ty, ss_live = live, ss_ingress = None,
       ss_egress = None, ss_signal = (new_signal signal_id session_id user)\<lparr> sg_mute_cbk := True \<rparr>,
       ss_done = False, ss_locked = False \<rparr>"

definition is_done :: "'pc session \<Rightarrow> bool" where "is_done s = ss_done s"
definition get_type :: "'pc session \<Rightarrow> session_type" where "get_type s = ss_type s"

definition ingress_options :: "signal_kind \<Rightarrow> endpoint_option list" where
  "ingress_options kind =
     [With_Data_Channel (build_signal_data_channel_cbk kind), With_Lost_Connection Lost_Connection,
      With_Track_Dispatcher Hub_Dispatcher]"

definition egress_options :: "signal_kind \<Rightarrow> endpoint_option list" where
  "egress_options kind =
     [With_Get_Current_Track_Cbk Hub_Track_List, With_Data_Channel (build_signal_data_channel_cbk kind),
      With_Negotiation_Needed Negotiation_Needed, With_Lost_Connection Lost_Connection]"

type_synonym 'pc endpoint_call = "(session_description result \<times> 'pc session \<times> graph) outcome"

definition create_ingress_endpoint ::
  "'pc lib \<Rightarrow> 'pc engine \<Rightarrow> wait_event \<Rightarrow> session_description \<Rightarrow> signal_kind \<Rightarrow> 'pc session \<Rightarrow> graph
     \<Rightarrow> 'pc endpoint_call" where
  "create_ingress_endpoint L E ev offer kind s g =
     (if is_done s then Ret (Inl err_session_already_closed, s, g)
      else if ss_ingress s \<noteq> None then Ret (Inl err_ingress_already_exists, s, g)
      else case en_establish E (ss_done s) (ss_id s) (ss_live s) offer ingress_endpoint (ingress_options kind) g of
             (Inl e, g') \<Rightarrow> Ret (Inl (Wrap ''create rtp endpoint: '' e), s, g')
           | (Inr ep, g') \<Rightarrow>
               outcome_bind (get_local_description L ev ep) (\<lambda>(r, ep').
                 Ret (wrap_err ''create ingress answer resource: '' r, s\<lparr> ss_ingress := Some ep' \<rparr>, g')))"

definition offer_ingress_endpoint ::
  "'pc lib \<Rightarrow> 'pc engine \<Rightarrow> wait_event \<Rightarrow> signal_kind \<Rightarrow> 'pc session \<Rightarrow> graph \<Rightarrow> 'pc endpoint_call" where
  "offer_ingress_endpoint L E ev kind s g =
     (if is_done s then Ret (Inl err_session_already_closed, s, g)
      else if ss_ingress s \<noteq> None then Ret (Inl err_ingress_already_exists, s, g)
      else case en_offer E (ss_id s) (ss_live s) ingress_endpoint (ingress_options kind) of
             Inl e \<Rightarrow> Ret (Inl (Wrap ''create rtp endpoint: '' e), s, g)
           | Inr None \<Rightarrow> Panic
           | Inr (Some ep) \<Rightarrow>
               outcome_bind (get_local_description L ev ep) (\<lambda>(r, ep').
                 Ret (wrap_err ''create ingress answer resource: '' r, s\<lparr> ss_ingress := Some ep' \<rparr>, g)))"

text \<open>What ends the wait for the signal channel.\<close>

datatype signal_event = Messenger_Ready | Messenger_Closed | Messenger_Timeout | Session_Closed | Process_Timeout

definition wait_for_signal_channel :: "signal_event \<Rightarrow> 'pc session \<Rightarrow> unit result outcome" where
  "wait_for_signal_channel ev s =
     (if ss_ingress s = None then Ret (Inl err_no_signal_channel)
      else case ev of
             Messenger_Ready \<Rightarrow> (if sg_received (ss_signal s) then Ret (Inr ()) else Block)
           | Messenger_Closed \<Rightarrow> Ret (Inl (Wrap ''waiting for messenger: '' err_closed_messenger))
           | Messenger_Timeout \<Rightarrow> Ret (Inl (Wrap ''waiting for messenger: '' err_timeout_messenger))
           | Session_Closed \<Rightarrow> Ret (Inl err_session_already_closed)
           | Process_Timeout \<Rightarrow> Ret (Inl err_waiting_timeout))"

definition create_egress_endpoint ::
  "'pc lib \<Rightarrow> 'pc engine \<Rightarrow> signal_event \<Rightarrow> wait_event \<Rightarrow> session_description \<Rightarrow> signal_kind
     \<Rightarrow> 'pc session \<Rightarrow> graph \<Rightarrow> 'pc endpoint_call" where
  "create_egress_endpoint L E sev ev offer kind s g =
     (if is_done s then Ret (Inl err_session_already_closed, s, g)
      else if ss_egress s \<noteq> None then Ret (Inl err_egress_already_exists, s, g)
      else outcome_bind (wait_for_signal_channel sev s) (\<lambda>w. case w of
             Inl e \<Rightarrow> Ret (Inl (Wrap ''waiting for signal channel: '' e), s, g)
           | Inr _ \<Rightarrow>
               (case en_establish E (ss_done s) (ss_id s) (ss_live s) offer egress_endpoint (egress_options kind) g of
                  (Inl e, g') \<Rightarrow> Ret (Inl (Wrap ''create rtp endpoint: '' e), s, g')
                | (Inr ep, g') \<Rightarrow>
                    outcome_bind (get_local_description L ev ep) (\<lambda>(r, ep').
                      Ret (wrap_err ''create egress answer resource: '' r,
                           s\<lparr> ss_egress := Some ep', ss_signal := set_offerer True (ss_signal s) \<rparr>, g')))))"

definition offer_egress_endpoint ::
  "'pc lib \<Rightarrow> 'pc engine \<Rightarrow> signal_event \<Rightarrow> wait_event \<Rightarrow> signal_kind \<Rightarrow> 'pc session \<Rightarrow> graph
     \<Rightarrow> 'pc endpoint_call" where
  "offer_egress_endpoint L E sev ev kind s g =
     (if is_done s then Ret (Inl err_session_already_closed, s, g)
      else if ss_egress s \<noteq> None then Ret (Inl err_egress_already_exists, s, g)
      else outcome_bind (wait_for_signal_channel sev s) (\<lambda>w. case w of
             Inl e \<Rightarrow> Ret (Inl (Wrap ''waiting for signal channel: '' e), s, g)
           | Inr _ \<Rightarrow>
               (case en_offer E (ss_id s) (ss_live s) egress_endpoint (egress_options kind) of
                  Inl e \<Rightarrow> Ret (Inl (Wrap ''create rtp endpoint: '' e), s, g)
                | Inr None \<Rightarrow> Panic
                | Inr (Some ep) \<Rightarrow>
                    outcome_bind (get_local_description L ev ep) (\<lambda>(r, ep').
                      Ret (wrap_err ''create egress answer resource: '' r,
                           s\<lparr> ss_egress := Some ep', ss_signal := set_offerer True (ss_signal s) \<rparr>, g)))))"

text \<open>The data channel of an endpoint opens: its callback decides what becomes of
  it.\<close>

definition data_channel :: "'pc endpoint \<Rightarrow> 'pc session \<Rightarrow> 'pc session" where
  "data_channel e s =
     (case ep_on_channel e of
        Some Sender_Channel \<Rightarrow> s\<lparr> ss_signal := on_sender_channel (ss_signal s) \<rparr>
      | Some Silent_Channel \<Rightarrow> s\<lparr> ss_signal := on_silent_channel (ss_signal s) \<rparr>
      | _ \<Rightarrow> s)"

text \<open>A lost connection hands an item to the lobby's sequencer, unless the session
  is done; when the sequencer takes it the session stops.\<close>

definition on_lost_connection :: "'pc session \<Rightarrow> item option" where
  "on_lost_connection s = (if ss_done s then None else Some (new_item (ss_user s)))"

definition stop_session :: "'pc session \<Rightarrow> 'pc session" where
  "stop_session s = s\<lparr> ss_done := True \<rparr>"

definition session_add_track :: "'pc lib \<Rightarrow> track_info \<Rightarrow> 'pc session \<Rightarrow> 'pc session outcome" where
  "session_add_track L t s =
     (if ss_locked s then Block
      else case ss_egress s of
             None \<Rightarrow> Ret s
           | Some e \<Rightarrow> outcome_bind (add_track L t e) (\<lambda>e'. Ret (s\<lparr> ss_egress := Some e' \<rparr>)))"

definition session_remove_track :: "'pc lib \<Rightarrow> track_info \<Rightarrow> 'pc session \<Rightarrow> 'pc session outcome" where
  "session_remove_track L t s =
     (if ss_locked s then Block
      else case ss_egress s of
             None \<Rightarrow> Ret s
           | Some e \<Rightarrow> outcome_bind (remove_track L t e) (\<lambda>e'. Ret (s\<lparr> ss_egress := Some e' \<rparr>)))"

definition session_mute_track :: "codec \<Rightarrow> track_info \<Rightarrow> 'pc session \<Rightarrow> 'pc session outcome" where
  "session_mute_track C t s =
     (if ss_locked s then Block
      else case ss_egress s of
             None \<Rightarrow> Ret s
           | Some e \<Rightarrow>
               (case set_egress_mute (get_id t) (get_mute t) e of
                  (None, e') \<Rightarrow> Ret (s\<lparr> ss_egress := Some e' \<rparr>)
                | (Some info, e') \<Rightarrow>
                    (case sg_messenger (ss_signal s) of
                       None \<Rightarrow> Panic
                     | Some m \<Rightarrow>
                         outcome_bind (send_mute C \<lparr> mu_mid = get_egress_mid info, mu_mute = get_mute info \<rparr> m)
                           (\<lambda>(_, m'). Ret (s\<lparr> ss_egress := Some e',
                                             ss_signal := (ss_signal s)\<lparr> sg_messenger := Some m' \<rparr> \<rparr>)))))"

text \<open>A mute message of the peer: the track to dispatch to the hub, if the ingress
  endpoint knows the media identifier.\<close>

definition on_mute_track :: "mute \<Rightarrow> 'pc session \<Rightarrow> (track_info option \<times> 'pc session) outcome" where
  "on_mute_track mu s =
     (case ss_ingress s of
        None \<Rightarrow> Panic
      | Some e \<Rightarrow>
          (let (t, e') = set_ingress_mute (mu_mid mu) (mu_mute mu) e
           in Ret (t, s\<lparr> ss_ingress := Some e' \<rparr>)))"

definition on_mute :: "mute \<Rightarrow> 'pc session \<Rightarrow> (track_info option \<times> 'pc session) outcome" where
  "on_mute mu s = (if sg_mute_cbk (ss_signal s) then on_mute_track mu s else Ret (None, s))"

definition init_complete :: "bool \<Rightarrow> 'pc session \<Rightarrow> bool" where
  "init_complete pick s =
     (if ss_locked s then False
      else case ss_egress s of Some e \<Rightarrow> is_init_complete pick (ss_done s) e | None \<Rightarrow> False)"

text \<open>The channel returned for a remote answer is new, and nobody closes it.\<close>

definition set_egress_answer :: "session_description \<Rightarrow> 'pc session \<Rightarrow> bool" where
  "set_egress_answer answer s = False"

definition set_ingress_answer :: "session_description \<Rightarrow> 'pc session \<Rightarrow> bool" where
  "set_ingress_answer answer s = False"

section \<open>The engine interface\<close>

text \<open>What a session relies on: an established endpoint belongs to the session, has
  the wanted type and channel callback and is ready.\<close>

locale rtp_engine =
  fixes establish :: "bool \<Rightarrow> uuid \<Rightarrow> uuid \<Rightarrow> session_description \<Rightarrow> endpoint_type \<Rightarrow> endpoint_option list
     \<Rightarrow> graph \<Rightarrow> 'pc endpoint result \<times> graph"
  assumes established_type: "establish d i l offer ty opts g = (Inr e, g') \<Longrightarrow> ep_type e = ty"
    and established_init: "establish False i l offer ty opts g = (Inr e, g') \<Longrightarrow> ep_init e \<and> ep_pc e \<noteq> None"
    and established_channel: "establish d i l offer ty opts g = (Inr e, g') \<Longrightarrow>
      ep_on_channel e = ep_on_channel (fold apply_option opts (empty_endpoint s' l' ty' :: 'pc endpoint))"
begin

lemma description_keeps:
  "get_local_description L ev e = Ret (r, e') \<Longrightarrow>
     ep_type e' = ep_type e \<and> ep_init e' = ep_init e \<and> ep_on_channel e' = ep_on_channel e \<and> ep_pc e' = ep_pc e"
  by (auto simp: get_local_description_def split: wait_event.splits option.splits if_splits prod.splits sum.splits)

lemma create_ingress_installs:
  assumes "create_ingress_endpoint L E ev offer kind s g = Ret (r, s', g')" "en_establish E = establish"
  shows "s' = s \<or> (\<exists>e. ss_ingress s = None \<and> s' = s\<lparr> ss_ingress := Some e \<rparr> \<and> ep_type e = ingress_endpoint \<and>
    ep_init e \<and> ep_pc e \<noteq> None \<and> ep_on_channel e = Some (build_signal_data_channel_cbk kind))"
proof (cases "is_done s \<or> ss_ingress s \<noteq> None")
  case False
  obtain x g1 where est: "establish False (ss_id s) (ss_live s) offer ingress_endpoint (ingress_options kind) g = (x, g1)"
    by (cases "establish False (ss_id s) (ss_live s) offer ingress_endpoint (ingress_options kind) g")
  show ?thesis
  proof (cases x)
    case (Inr e)
    have e: "ep_type e = ingress_endpoint" "ep_init e" "ep_pc e \<noteq> None"
      "ep_on_channel e = Some (build_signal_data_channel_cbk kind)"
      using established_type[OF est[unfolded Inr]] established_init[OF est[unfolded Inr]]
        established_channel[OF est[unfolded Inr], of _ _ _]
      by (auto simp: ingress_options_def empty_endpoint_def)
    obtain r0 e' where "get_local_description L ev e = Ret (r0, e')" "s' = s\<lparr> ss_ingress := Some e' \<rparr>"
      using assms False est Inr by (auto simp: create_ingress_endpoint_def is_done_def outcome_simps)
    moreover from this have "ep_type e' = ep_type e" "ep_init e' = ep_init e"
        "ep_on_channel e' = ep_on_channel e" "ep_pc e' = ep_pc e"
      using description_keeps by blast+
    ultimately show ?thesis using e False by (intro disjI2 exI[of _ e']) auto
  qed (use assms False est in \<open>auto simp: create_ingress_endpoint_def is_done_def\<close>)
qed (use assms in \<open>auto simp: create_ingress_endpoint_def split: if_splits\<close>)

end

lemma channel_callback_fold:
  "ep_on_channel e = ep_on_channel e' \<Longrightarrow>
     ep_on_channel (fold apply_option opts e) = ep_on_channel (fold apply_option opts e')"
proof (induction opts arbitrary: e e')
  case (Cons x opts)
  have "ep_on_channel (apply_option x e) = ep_on_channel (apply_option x e')"
    using Cons.prems by (cases x) (auto split: option.splits)
  then show ?case using Cons.IH by simp
qed simp

lemma new_endpoint_not_init [simp]: "\<not> ep_init (new_endpoint s l ty opts)"
  unfolding new_endpoint_def by (subst fold_options_keep) (simp_all add: empty_endpoint_def)

lemma set_init_complete_simps [simp]:
  "ep_type (set_init_complete d e) = ep_type e" "ep_pc (set_init_complete d e) = ep_pc e"
  "ep_on_channel (set_init_complete d e) = ep_on_channel e"
  "ep_init (set_init_complete d e) \<longleftrightarrow> ep_init e \<or> \<not> d"
  by (simp_all add: set_init_complete_def)

lemma establish_fields:
  fixes L :: "'pc lib"
  assumes "establish_endpoint L new_id d i l offer ty opts g = (Inr e, g')"
  shows "ep_type e = ty \<and> ep_pc e \<noteq> None \<and> (\<not> d \<longrightarrow> ep_init e) \<and>
    ep_on_channel e = ep_on_channel (new_endpoint (lb_uuid_str L i) (lb_uuid_str L l) ty opts :: 'pc endpoint)"
proof -
  let ?e0 = "new_endpoint (lb_uuid_str L i) (lb_uuid_str L l) ty opts :: 'pc endpoint"
  obtain e1 pc where e1: "(if ty = ingress_endpoint then setup_ingress L new_id i l offer ?e0
      else Inr ?e0) = Inr e1"
    and n: "negotiate_answer L d offer
      (e1\<lparr> ep_stats := Some (new_registry (lb_uuid_str L i)), ep_gather := True \<rparr>) pc = Inr e"
    using assms by (auto simp: establish_endpoint_def Let_def split: sum.splits)
  obtain pc2 where e: "e = set_init_complete d (e1\<lparr> ep_stats := Some (new_registry (lb_uuid_str L i)),
      ep_gather := True, ep_pc := Some pc2 \<rparr>)"
    using n by (auto simp: negotiate_answer_def split: prod.splits option.splits sum.splits)
  have "ep_type e1 = ty" "ep_on_channel e1 = ep_on_channel ?e0"
    using e1 by (auto simp: setup_ingress_def split: if_splits sum.splits option.splits)
  then show ?thesis by (simp add: e)
qed

interpretation rtp: rtp_engine "establish_endpoint L new_id" for L :: "'pc lib" and new_id
proof unfold_locales
  fix d i l offer ty opts g e g' s' l' ty'
  assume a: "establish_endpoint L new_id d i l offer ty opts g = (Inr e, g')"
  show "ep_type e = ty" using establish_fields[OF a] by blast
  show "ep_on_channel e = ep_on_channel (fold apply_option opts (empty_endpoint s' l' ty' :: 'pc endpoint))"
  proof -
    have "ep_on_channel (new_endpoint (lb_uuid_str L i) (lb_uuid_str L l) ty opts :: 'pc endpoint) =
        ep_on_channel (fold apply_option opts (empty_endpoint s' l' ty' :: 'pc endpoint))"
      unfolding new_endpoint_def by (rule channel_callback_fold) (simp add: empty_endpoint_def)
    then show ?thesis using establish_fields[OF a] by simp
  qed
next
  fix i l offer ty opts g e g'
  assume "establish_endpoint L new_id False i l offer ty opts g = (Inr e, g')"
  from establish_fields[OF this] show "ep_init e \<and> ep_pc e \<noteq> None" by blast
qed

text \<open>The engine of the program.\<close>

definition shig_engine :: "'pc lib \<Rightarrow> (nat \<Rightarrow> uuid) \<Rightarrow> 'pc engine" where
  "shig_engine L new_id =
     \<lparr> en_establish = establish_endpoint L new_id, en_offer = (\<lambda>_ _ _ opts. offer_endpoint L opts) \<rparr>"

section \<open>Steps of a session\<close>

text \<open>Everything that can happen to a session of the program, with the kinds of
  signal channel its ingress endpoints may be asked for.\<close>

inductive session_step ::
  "'pc lib \<Rightarrow> (nat \<Rightarrow> uuid) \<Rightarrow> codec \<Rightarrow> signal_kind set \<Rightarrow> 'pc session \<Rightarrow> 'pc session \<Rightarrow> bool"
  for L new_id C kinds where
  create_ingress: "kind \<in> kinds \<Longrightarrow>
    create_ingress_endpoint L (shig_engine L new_id) ev offer kind s g = Ret (r, s', g') \<Longrightarrow>
    session_step L new_id C kinds s s'"
| create_egress: "create_egress_endpoint L (shig_engine L new_id) sev ev offer kind s g = Ret (r, s', g') \<Longrightarrow>
    session_step L new_id C kinds s s'"
| ingress_channel: "ss_ingress s = Some e \<Longrightarrow> session_step L new_id C kinds s (data_channel e s)"
| egress_channel: "ss_egress s = Some e \<Longrightarrow> session_step L new_id C kinds s (data_channel e s)"
| added: "session_add_track L t s = Ret s' \<Longrightarrow> session_step L new_id C kinds s s'"
| removed: "session_remove_track L t s = Ret s' \<Longrightarrow> session_step L new_id C kinds s s'"
| muted: "session_mute_track C t s = Ret s' \<Longrightarrow> session_step L new_id C kinds s s'"
| mute_received: "on_mute mu s = Ret (t, s') \<Longrightarrow> session_step L new_id C kinds s s'"
| answered: "ss_egress s = Some e \<Longrightarrow> on_answer L (ss_done s) sdp n (ss_signal s) e = Ret e' \<Longrightarrow>
    session_step L new_id C kinds s (s\<lparr> ss_egress := Some e' \<rparr>)"
| negotiated: "on_negotiation_needed C offer (ss_signal s) = Ret sg \<Longrightarrow>
    session_step L new_id C kinds s (s\<lparr> ss_signal := sg \<rparr>)"
| stopped: "session_step L new_id C kinds s (stop_session s)"
| lock: "session_step L new_id C kinds s (s\<lparr> ss_locked := b \<rparr>)"

text \<open>An endpoint keeps its connection, its type and its channel callback.\<close>

definition same_kind :: "'pc endpoint \<Rightarrow> 'pc endpoint \<Rightarrow> bool" where
  "same_kind e e' = (ep_type e' = ep_type e \<and> ep_on_channel e' = ep_on_channel e \<and>
     (ep_pc e \<noteq> None \<longrightarrow> ep_pc e' \<noteq> None))"

lemma same_kind_refl [simp]: "same_kind e e"
  by (simp add: same_kind_def)

lemma add_track_kind: "add_track L t e = Ret e' \<Longrightarrow> same_kind e e'"
  by (auto simp: add_track_def same_kind_def Let_def outcome_simps split: option.splits sum.splits prod.splits if_splits)

lemma remove_track_kind: "remove_track L t e = Ret e' \<Longrightarrow> same_kind e e'"
  by (auto simp: remove_track_def same_kind_def Let_def outcome_simps split: option.splits)

lemma egress_mute_kind: "set_egress_mute i b e = (r, e') \<Longrightarrow> same_kind e e'"
  by (auto simp: set_egress_mute_def same_kind_def split: option.splits)

lemma ingress_mute_kind: "set_ingress_mute i b e = (r, e') \<Longrightarrow> same_kind e e'"
  by (auto simp: set_ingress_mute_def same_kind_def split: option.splits)

lemma description_kind: "get_local_description L ev e = Ret (r, e') \<Longrightarrow> same_kind e e'"
  by (auto simp: get_local_description_def same_kind_def
      split: wait_event.splits option.splits if_splits prod.splits sum.splits)

lemma answer_kind: "on_answer L d sdp n sg e = Ret e' \<Longrightarrow> same_kind e e'"
  by (auto simp: on_answer_def set_answer_def same_kind_def outcome_simps
      split: if_splits option.splits prod.splits)

lemmas kind_lemmas = add_track_kind remove_track_kind egress_mute_kind ingress_mute_kind description_kind answer_kind

definition session_inv :: "'pc session \<Rightarrow> bool" where
  "session_inv s =
     ((ss_egress s \<noteq> None \<longrightarrow> ss_ingress s \<noteq> None \<and> sg_received (ss_signal s) \<and> sg_offerer (ss_signal s)) \<and>
      (sg_received (ss_signal s) \<longleftrightarrow> sg_messenger (ss_signal s) \<noteq> None) \<and>
      (\<forall>e. ss_ingress s = Some e \<longrightarrow> ep_type e = ingress_endpoint \<and> ep_pc e \<noteq> None) \<and>
      (\<forall>e. ss_egress s = Some e \<longrightarrow> ep_type e = egress_endpoint \<and> ep_pc e \<noteq> None))"

lemma session_inv_new [inv_intros]: "session_inv (new_session i j u l ty)"
  by (simp add: session_inv_def new_session_def new_signal_def)

lemma session_inv_egress:
  "session_inv s \<Longrightarrow> ss_egress s = Some e \<Longrightarrow> same_kind e e' \<Longrightarrow> session_inv (s\<lparr> ss_egress := Some e' \<rparr>)"
  by (auto simp: session_inv_def same_kind_def)

lemma session_inv_ingress:
  "session_inv s \<Longrightarrow> ss_ingress s = Some e \<Longrightarrow> same_kind e e' \<Longrightarrow> session_inv (s\<lparr> ss_ingress := Some e' \<rparr>)"
  by (auto simp: session_inv_def same_kind_def)

lemma create_ingress_cases:
  assumes "create_ingress_endpoint L (shig_engine L new_id) ev offer kind s g = Ret (r, s', g')"
  shows "s' = s \<or> (\<exists>e. ss_ingress s = None \<and> s' = s\<lparr> ss_ingress := Some e \<rparr> \<and> ep_type e = ingress_endpoint \<and>
     ep_pc e \<noteq> None \<and> ep_on_channel e = Some (build_signal_data_channel_cbk kind))"
proof -
  have en: "en_establish (shig_engine L new_id) = establish_endpoint L new_id"
    by (simp add: shig_engine_def)
  from rtp.create_ingress_installs[OF assms en] show ?thesis by blast
qed

lemma create_egress_cases:
  assumes "create_egress_endpoint L (shig_engine L new_id) sev ev offer kind s g = Ret (r, s', g')"
  shows "s' = s \<and> \<not> is_ok r \<or> (\<exists>e. ss_egress s = None \<and> ss_ingress s \<noteq> None \<and> sg_received (ss_signal s) \<and>
     s' = s\<lparr> ss_egress := Some e, ss_signal := set_offerer True (ss_signal s) \<rparr> \<and>
     ep_type e = egress_endpoint \<and> ep_pc e \<noteq> None)"
proof (cases "is_done s \<or> ss_egress s \<noteq> None")
  case False
  then obtain w where w: "wait_for_signal_channel sev s = Ret w"
    using assms by (auto simp: create_egress_endpoint_def outcome_simps)
  show ?thesis
  proof (cases w)
    case (Inr u)
    have rec: "ss_ingress s \<noteq> None" "sg_received (ss_signal s)"
      using w Inr by (auto simp: wait_for_signal_channel_def split: signal_event.splits if_splits)
    obtain x g1 where est: "establish_endpoint L new_id (ss_done s) (ss_id s) (ss_live s) offer egress_endpoint
        (egress_options kind) g = (x, g1)"
      by (cases "establish_endpoint L new_id (ss_done s) (ss_id s) (ss_live s) offer egress_endpoint
        (egress_options kind) g")
    show ?thesis
    proof (cases x)
      case (Inr e0)
      then obtain r0 e where ld: "get_local_description L ev e0 = Ret (r0, e)"
        and s': "s' = s\<lparr> ss_egress := Some e, ss_signal := set_offerer True (ss_signal s) \<rparr>"
        using assms False w \<open>w = Inr u\<close> est
        by (auto simp: create_egress_endpoint_def shig_engine_def outcome_simps)
      have "ep_type e = egress_endpoint \<and> ep_pc e \<noteq> None"
        using establish_fields[OF est[unfolded Inr]] description_kind[OF ld] by (simp add: same_kind_def)
      then show ?thesis using s' rec False by (intro disjI2 exI[of _ e]) auto
    qed (use assms False w Inr est in \<open>auto simp: create_egress_endpoint_def shig_engine_def\<close>)
  qed (use assms False w in \<open>auto simp: create_egress_endpoint_def\<close>)
qed (use assms in \<open>auto simp: create_egress_endpoint_def split: if_splits\<close>)

lemma signal_channel_inv:
  "sg_received (on_sender_channel sg)"
  "sg_messenger (on_sender_channel sg) = Some (register (sg_id sg) new_messenger)"
  "sg_offerer (on_sender_channel sg) = sg_offerer sg"
  by (simp_all add: on_sender_channel_def stop_waiting_for_messenger_def)

lemma data_channel_inv: "session_inv s \<Longrightarrow> session_inv (data_channel e s)"
  by (auto simp: data_channel_def session_inv_def signal_channel_inv on_silent_channel_def
      split: option.splits callback.splits)

lemma mute_track_inv:
  assumes "session_inv s" "session_mute_track C t s = Ret s'"
  shows "session_inv s'"
proof (cases "ss_egress s")
  case (Some e)
  obtain i e' where m: "set_egress_mute (get_id t) (get_mute t) e = (i, e')" by fastforce
  have k: "same_kind e e'" using egress_mute_kind[OF m] .
  show ?thesis
    using assms Some m k
    by (auto simp: session_mute_track_def outcome_simps session_inv_def same_kind_def
        split: if_splits option.splits)
qed (use assms in \<open>auto simp: session_mute_track_def split: if_splits\<close>)

lemma session_step_inv:
  "session_step L new_id C kinds s s' \<Longrightarrow> session_inv s \<Longrightarrow> session_inv s'"
proof (induction rule: session_step.induct)
  case (create_ingress kind ev offer s g r s' g')
  then show ?case using create_ingress_cases[OF create_ingress(2)] by (auto simp: session_inv_def)
next
  case (create_egress sev ev offer kind s g r s' g')
  then show ?case using create_egress_cases[OF create_egress(1)]
    by (auto simp: session_inv_def set_offerer_def)
next
  case (added t s s')
  then show ?case
    by (auto simp: session_add_track_def outcome_simps split: if_splits option.splits
        intro: session_inv_egress add_track_kind)
next
  case (removed t s s')
  then show ?case
    by (auto simp: session_remove_track_def outcome_simps split: if_splits option.splits
        intro: session_inv_egress remove_track_kind)
next
  case (mute_received mu s t s')
  then show ?case
    by (auto simp: on_mute_def on_mute_track_def split: if_splits option.splits prod.splits
        intro: session_inv_ingress ingress_mute_kind)
next
  case (answered s e sdp n e')
  then show ?case using session_inv_egress answer_kind by blast
next
  case (negotiated offer s sg)
  then show ?case
    by (auto simp: on_negotiation_needed_def next_offer_def session_inv_def Let_def outcome_simps
        split: option.splits)
next
  case (stopped s)
  then show ?case by (auto simp: session_inv_def stop_session_def)
next
  case (lock s b)
  then show ?case by (auto simp: session_inv_def)
qed (auto intro: data_channel_inv mute_track_inv)

lemma session_reach_inv:
  "(session_step L new_id C kinds)\<^sup>*\<^sup>* (new_session i j u l ty) s \<Longrightarrow> session_inv s"
  by (induction rule: rtranclp_induct) (auto intro: session_inv_new session_step_inv)

text \<open>A session whose ingress endpoints only get silent channels.\<close>

definition silent_inv :: "'pc session \<Rightarrow> bool" where
  "silent_inv s = (ss_egress s = None \<and> \<not> sg_received (ss_signal s) \<and>
     (\<forall>e. ss_ingress s = Some e \<longrightarrow> ep_on_channel e = Some Silent_Channel))"

lemma silent_step:
  "session_step L new_id C {silent_signal_channel} s s' \<Longrightarrow> silent_inv s \<Longrightarrow> silent_inv s'"
proof (induction rule: session_step.induct)
  case (create_ingress kind ev offer s g r s' g')
  then show ?case using create_ingress_cases[OF create_ingress(2)]
    by (auto simp: silent_inv_def build_signal_data_channel_cbk_def)
next
  case (create_egress sev ev offer kind s g r s' g')
  then show ?case using create_egress_cases[OF create_egress(1)] by (auto simp: silent_inv_def)
next
  case (mute_received mu s t s')
  then show ?case
    using ingress_mute_kind
    by (fastforce simp: silent_inv_def on_mute_def on_mute_track_def same_kind_def
        split: if_splits option.splits prod.splits)
next
  case (negotiated offer s sg)
  then show ?case
    by (auto simp: on_negotiation_needed_def next_offer_def silent_inv_def Let_def outcome_simps
        split: option.splits)
qed (auto simp: silent_inv_def data_channel_def on_silent_channel_def session_add_track_def
    session_remove_track_def session_mute_track_def stop_session_def split: if_splits)

lemma silent_reach:
  "(session_step L new_id C {silent_signal_channel})\<^sup>*\<^sup>* (new_session i j u l ty) s \<Longrightarrow> silent_inv s"
proof (induction rule: rtranclp_induct)
  case base
  show ?case by (simp add: silent_inv_def new_session_def new_signal_def)
qed (rule silent_step)

text \<open>Sending a number of offers in a row.\<close>

fun offer_rounds :: "nat \<Rightarrow> signal \<Rightarrow> signal" where
  "offer_rounds 0 s = s"
| "offer_rounds (Suc k) s = offer_rounds k (snd (next_offer s))"

lemma offer_rounds_number: "sg_number (offer_rounds k s) = sg_number s + of_nat k"
  by (induction k arbitrary: s) (simp_all add: next_offer_def)

lemma offer_rounds_offerer: "sg_offerer (offer_rounds k s) = sg_offerer s"
  by (induction k arbitrary: s) (simp_all add: next_offer_def)

section \<open>Properties\<close>

text \<open>C17: in every reachable session an egress endpoint exists only besides an
  ingress endpoint and after the signal channel came up, both endpoints have
  their types and connections, and a mute event of the hub never meets a
  missing messenger.\<close>

theorem session_invariant:
  assumes "(session_step L new_id C kinds)\<^sup>*\<^sup>* (new_session i j u l ty) s"
  shows "(ss_egress s \<noteq> None \<longrightarrow> ss_ingress s \<noteq> None \<and> sg_received (ss_signal s) \<and> sg_offerer (ss_signal s)) \<and>
    (\<forall>e. ss_ingress s = Some e \<longrightarrow> ep_type e = ingress_endpoint \<and> ep_pc e \<noteq> None) \<and>
    (\<forall>e. ss_egress s = Some e \<longrightarrow> ep_type e = egress_endpoint \<and> ep_pc e \<noteq> None) \<and>
    (\<forall>t. session_mute_track C t s \<noteq> Panic)"
proof -
  have inv: "session_inv s" using session_reach_inv[OF assms] .
  have "session_mute_track C t s \<noteq> Panic" for t
    using inv
    by (auto simp: session_mute_track_def session_inv_def outcome_simps send_mute_def enqueue_def
        split: option.splits prod.splits sum.splits if_splits)
  then show ?thesis using inv by (auto simp: session_inv_def)
qed

lemma session_invariant_witness:
  "session_mute_track (mute_codec \<lparr> mu_mid = [], mu_mute = True \<rparr>) sample_track
     (stop_session (new_session 1 2 3 4 user_session) :: local_track list session) \<noteq> Panic"
proof -
  have "session_step list_lib of_nat (mute_codec \<lparr> mu_mid = [], mu_mute = True \<rparr>) {}
      (new_session 1 2 3 4 user_session) (stop_session (new_session 1 2 3 4 user_session))"
    by (rule stopped)
  from session_invariant[OF r_into_rtranclp[of "session_step list_lib of_nat
      (mute_codec \<lparr> mu_mid = [], mu_mute = True \<rparr>) {}", OF this]]
  show ?thesis by blast
qed

text \<open>A session whose ingress endpoint was asked for with a silent channel
  never gets an egress endpoint: nothing ever ends its wait for the signal
  channel but an error.\<close>

theorem silent_ingress_blocks_egress:
  assumes "(session_step L new_id C {silent_signal_channel})\<^sup>*\<^sup>* (new_session i j u l ty) s"
  shows "ss_egress s = None \<and>
    create_egress_endpoint L (shig_engine L new_id) sev ev offer kind s g \<noteq> Ret (Inr d, s', g')"
proof -
  have inv: "silent_inv s" using silent_reach[OF assms] .
  show ?thesis
  proof (intro conjI notI)
    assume "create_egress_endpoint L (shig_engine L new_id) sev ev offer kind s g = Ret (Inr d, s', g')"
    then have "sg_received (ss_signal s)" using create_egress_cases by fastforce
    then show False using inv by (simp add: silent_inv_def)
  qed (use inv in \<open>simp add: silent_inv_def\<close>)
qed

lemma silent_ingress_blocks_egress_witness:
  "create_egress_endpoint list_lib (shig_engine list_lib of_nat) Messenger_Ready Gathered
     \<lparr> sd_type = SdpOffer, sd_sdp = [] \<rparr> unidirectional_signal_channel
     (new_session 1 2 3 4 user_session) \<lparr> gr_on = False, gr_calls = [] \<rparr>
   \<noteq> Ret (Inr \<lparr> sd_type = SdpAnswer, sd_sdp = ''v=0'' \<rparr>, new_session 1 2 3 4 user_session,
          \<lparr> gr_on = False, gr_calls = [] \<rparr>)"
  using silent_ingress_blocks_egress[OF rtranclp.rtrancl_refl[of "session_step list_lib of_nat
      (mute_codec \<lparr> mu_mid = [], mu_mute = True \<rparr>) {silent_signal_channel}"]] by blast

text \<open>C23: after an offerer is set and a number of offers below the wrap-around is
  sent, exactly the answer with the number of the last offer reaches the
  endpoint and completes its initialisation; every other answer leaves it
  unchanged.\<close>

theorem only_current_answer_counts:
  assumes "k < 2 ^ 32" "sg = offer_rounds k (set_offerer True s0)" "ep_pc e = Some pc"
  shows "(\<forall>n. unat n \<noteq> k \<longrightarrow> on_answer L d (Some sdp) n sg e = Ret e) \<and>
    (\<exists>e'. on_answer L d (Some sdp) (of_nat k) sg e = Ret e' \<and>
       ep_pc e' = Some (snd (lb_set_remote L sdp pc)) \<and> (ep_init e' \<longleftrightarrow> ep_init e \<or> \<not> d))"
proof -
  have num: "sg_number sg = of_nat k" and off: "sg_offerer sg"
    using assms(2) by (simp_all add: offer_rounds_number offer_rounds_offerer set_offerer_def)
  have "n \<noteq> of_nat k" if "unat n \<noteq> k" for n :: "32 word"
    using that assms(1) by (auto simp: unat_of_nat)
  then have "\<forall>n. unat n \<noteq> k \<longrightarrow> on_answer L d (Some sdp) n sg e = Ret e"
    using num off by (auto simp: on_answer_def current_offer_def)
  moreover obtain r pc' where "lb_set_remote L sdp pc = (r, pc')"
    by (cases "lb_set_remote L sdp pc")
  ultimately show ?thesis using num off assms(3)
    by (cases r) (simp_all add: on_answer_def current_offer_def set_answer_def)
qed

lemma only_current_answer_counts_witness:
  "on_answer list_lib False (Some \<lparr> sd_type = SdpAnswer, sd_sdp = [] \<rparr>) 1
     (offer_rounds 2 (set_offerer True (new_signal 1 2 3))) sample_endpoint = Ret sample_endpoint"
  using only_current_answer_counts[of 2 "offer_rounds 2 (set_offerer True (new_signal 1 2 3))" "new_signal 1 2 3"
      sample_endpoint "[]" list_lib False "\<lparr> sd_type = SdpAnswer, sd_sdp = [] \<rparr>"]
  by (simp add: sample_endpoint_def)

text \<open>Offering an endpoint never works with the program's engine: on a live
  session that has no such endpoint, and whose signal channel is up for the
  egress, the call dereferences a missing endpoint.\<close>

theorem offered_endpoint_panics:
  assumes "\<not> ss_done s"
  shows "(ss_ingress s = None \<longrightarrow>
      offer_ingress_endpoint L (shig_engine L new_id) ev kind s g = Panic) \<and>
    (ss_egress s = None \<and> ss_ingress s \<noteq> None \<and> sg_received (ss_signal s) \<longrightarrow>
      offer_egress_endpoint L (shig_engine L new_id) Messenger_Ready ev kind s g = Panic)"
  using assms by (auto simp: offer_ingress_endpoint_def offer_egress_endpoint_def is_done_def shig_engine_def
      offer_endpoint_def wait_for_signal_channel_def)

lemma offered_endpoint_panics_witness:
  "offer_ingress_endpoint list_lib (shig_engine list_lib of_nat) Gathered bidirectional_signal_channel
     (new_session 1 2 3 4 instance_session) \<lparr> gr_on = False, gr_calls = [] \<rparr> = Panic"
  using offered_endpoint_panics[of "new_session 1 2 3 4 instance_session :: local_track list session"]
  by (simp add: new_session_def)

text \<open>Creating an ingress endpoint that fails while its description is awaited
  leaves the endpoint in the session, so a second attempt is refused as a
  duplicate although the first gave no answer.\<close>

theorem failed_ingress_blocks_retry:
  assumes "create_ingress_endpoint L (shig_engine L new_id) Ctx_Done offer kind s g = Ret (Inl e, s', g')"
    and "\<not> ss_done s" "ss_ingress s = None"
    and "establish_endpoint L new_id False (ss_id s) (ss_live s) offer ingress_endpoint (ingress_options kind) g
      = (Inr ep, g1)"
  shows "e = Wrap ''create ingress answer resource: '' err_ice_gathering \<and> ss_ingress s' = Some ep \<and>
    create_ingress_endpoint L (shig_engine L new_id) ev offer' kind' s' g2 =
      Ret (Inl err_ingress_already_exists, s', g2)"
  using assms by (auto simp: create_ingress_endpoint_def shig_engine_def is_done_def get_local_description_def)

lemma failed_ingress_blocks_retry_witness:
  "\<exists>s'. create_ingress_endpoint list_lib (shig_engine list_lib of_nat) Gathered \<lparr> sd_type = SdpOffer, sd_sdp = [] \<rparr>
     silent_signal_channel s' \<lparr> gr_on = False, gr_calls = [] \<rparr> =
   Ret (Inl err_ingress_already_exists, s', \<lparr> gr_on = False, gr_calls = [] \<rparr>)"
proof -
  let ?s = "new_session 1 2 3 4 user_session :: local_track list session"
  let ?g = "\<lparr> gr_on = False, gr_calls = [] \<rparr>"
  let ?o = "\<lparr> sd_type = SdpOffer, sd_sdp = [] \<rparr>"
  obtain ep g1 where est: "establish_endpoint list_lib of_nat False 1 4 ?o ingress_endpoint
      (ingress_options silent_signal_channel) ?g = (Inr ep, g1)"
    by (simp add: establish_endpoint_def setup_ingress_def get_ingress_track_sdp_info_def list_lib_def
        new_endpoint_def empty_endpoint_def create_api_def negotiate_answer_def Let_def ingress_options_def)
  then obtain s' e g' where c: "create_ingress_endpoint list_lib (shig_engine list_lib of_nat) Ctx_Done ?o
      silent_signal_channel ?s ?g = Ret (Inl e, s', g')"
    by (simp add: create_ingress_endpoint_def shig_engine_def new_session_def is_done_def
        get_local_description_def)
  have "\<not> ss_done ?s" "ss_ingress ?s = None" "ss_id ?s = 1" "ss_live ?s = 4"
    by (simp_all add: new_session_def)
  then have "create_ingress_endpoint list_lib (shig_engine list_lib of_nat) Gathered ?o
      silent_signal_channel s' ?g = Ret (Inl err_ingress_already_exists, s', ?g)"
    using failed_ingress_blocks_retry[OF c, of ep g1 Gathered ?o silent_signal_channel ?g] est by simp
  then show ?thesis by blast
qed

end
