(* ===== verification/Commands.thy ===== *)
theory Commands
  imports Session
begin

text \<open>
  The commands a lobby runs on its sessions (\<^verbatim>\<open>internal/lobby/commands\<close>):
  creating an endpoint for an offer of the client, or offering one to a remote
  instance.  A command's done channel is a flag; its parent context has ended or
  not.  What the remote instance answers to an offer is a parameter of the
  command.
\<close>

section \<open>State\<close>

datatype command_job =
    Create_Ingress session_description signal_kind
  | Create_Egress session_description signal_kind
  | Offer_Ingress "session_description \<Rightarrow> session_description result" signal_kind
  | Offer_Egress "session_description \<Rightarrow> session_description result" signal_kind

text \<open>The resource a command answers with (\<^verbatim>\<open>resources.WebRTC\<close>).\<close>

record web_rtc =
  wr_id :: string
  wr_sdp :: session_description

record command =
  co_user :: uuid
  co_ctx_done :: bool
  co_err :: "go_error option"
  co_done :: bool
  co_job :: command_job
  co_response :: "web_rtc option"

definition new_command :: "bool \<Rightarrow> uuid \<Rightarrow> command_job \<Rightarrow> command" where
  "new_command ctx_done user job =
     \<lparr> co_user = user, co_ctx_done = ctx_done, co_err = None, co_done = False, co_job = job, co_response = None \<rparr>"

definition new_create_ingress :: "bool \<Rightarrow> uuid \<Rightarrow> session_description \<Rightarrow> signal_kind \<Rightarrow> command" where
  "new_create_ingress ctx_done user sdp kind = new_command ctx_done user (Create_Ingress sdp kind)"

definition new_create_egress :: "bool \<Rightarrow> uuid \<Rightarrow> session_description \<Rightarrow> signal_kind \<Rightarrow> command" where
  "new_create_egress ctx_done user sdp kind = new_command ctx_done user (Create_Egress sdp kind)"

definition new_offer_ingress ::
  "bool \<Rightarrow> (session_description \<Rightarrow> session_description result) \<Rightarrow> uuid \<Rightarrow> signal_kind \<Rightarrow> command" where
  "new_offer_ingress ctx_done post_whep user kind = new_command ctx_done user (Offer_Ingress post_whep kind)"

definition new_offer_egress ::
  "bool \<Rightarrow> (session_description \<Rightarrow> session_description result) \<Rightarrow> uuid \<Rightarrow> signal_kind \<Rightarrow> command" where
  "new_offer_egress ctx_done post_whip user kind = new_command ctx_done user (Offer_Egress post_whip kind)"

section \<open>Operations\<close>

definition get_user_id :: "command \<Rightarrow> uuid" where "get_user_id c = co_user c"

definition set_done :: "command \<Rightarrow> command" where
  "set_done c = (if co_done c then c else c\<lparr> co_done := True \<rparr>)"

definition set_error :: "go_error \<Rightarrow> command \<Rightarrow> command" where
  "set_error e c =
     (if co_done c then c
      else set_done (c\<lparr> co_err := Some (case co_err c of Some e0 \<Rightarrow> Wrap_Both e0 '': '' e | None \<Rightarrow> e) \<rparr>))"

definition wait_for_done :: "command \<Rightarrow> unit result outcome" where
  "wait_for_done c =
     (if co_done c then Ret (case co_err c of Some e \<Rightarrow> Inl e | None \<Rightarrow> Inr ()) else Block)"

text \<open>The command that has no job of its own.\<close>

definition base_execute :: "'pc session \<Rightarrow> command \<Rightarrow> command outcome" where
  "base_execute s c = Panic"

definition finish_create ::
  "'pc lib \<Rightarrow> command \<Rightarrow> session_description result \<times> 'pc session \<times> graph \<Rightarrow> (command \<times> 'pc session \<times> graph) outcome" where
  "finish_create L c = (\<lambda>(r, s, g). case r of
       Inl e \<Rightarrow> Ret (set_error e c, s, g)
     | Inr answer \<Rightarrow>
         Ret (set_done (c\<lparr> co_response := Some \<lparr> wr_id = lb_uuid_str L (ss_id s), wr_sdp = answer \<rparr> \<rparr>), s, g))"

text \<open>An offer is answered by the remote instance; the command waits for the session
  to close the channel it returned for the answer.\<close>

definition finish_offer ::
  "(session_description \<Rightarrow> session_description result) \<Rightarrow> (session_description \<Rightarrow> 'pc session \<Rightarrow> bool) \<Rightarrow> command
     \<Rightarrow> session_description result \<times> 'pc session \<times> graph \<Rightarrow> (command \<times> 'pc session \<times> graph) outcome" where
  "finish_offer post set_remote c = (\<lambda>(r, s, g). case r of
       Inl e \<Rightarrow> Ret (set_error e c, s, g)
     | Inr offer \<Rightarrow>
         (case post offer of
            Inl e \<Rightarrow> Ret (set_error (Wrap ''remote host answer request: '' e) c, s, g)
          | Inr answer \<Rightarrow> if set_remote answer s then Ret (set_done c, s, g) else Block))"

definition execute ::
  "'pc lib \<Rightarrow> 'pc engine \<Rightarrow> signal_event \<Rightarrow> wait_event \<Rightarrow> command \<Rightarrow> 'pc session \<Rightarrow> graph
     \<Rightarrow> (command \<times> 'pc session \<times> graph) outcome" where
  "execute L E sev ev c s g =
     (case co_job c of
        Create_Ingress sdp kind \<Rightarrow> outcome_bind (create_ingress_endpoint L E ev sdp kind s g) (finish_create L c)
      | Create_Egress sdp kind \<Rightarrow> outcome_bind (create_egress_endpoint L E sev ev sdp kind s g) (finish_create L c)
      | Offer_Ingress post kind \<Rightarrow>
          outcome_bind (offer_ingress_endpoint L E ev kind s g) (finish_offer post set_ingress_answer c)
      | Offer_Egress post kind \<Rightarrow>
          outcome_bind (offer_egress_endpoint L E sev ev kind s g) (finish_offer post set_egress_answer c))"

section \<open>Lemmas\<close>

definition fresh_command :: "command \<Rightarrow> bool" where
  "fresh_command c = (\<not> co_done c \<and> co_err c = None \<and> co_response c = None)"

lemma new_commands_fresh [simp, inv_intros]:
  "fresh_command (new_command d u j)" "fresh_command (new_create_ingress d u sdp k)"
  "fresh_command (new_create_egress d u sdp k)" "fresh_command (new_offer_ingress d p u k)"
  "fresh_command (new_offer_egress d p u k)"
  by (simp_all add: fresh_command_def new_command_def new_create_ingress_def new_create_egress_def
      new_offer_ingress_def new_offer_egress_def)

lemma set_error_done [simp]: "co_done c \<Longrightarrow> set_error e c = c" "co_done (set_error e c)" "co_done (set_done c)"
  by (simp_all add: set_error_def set_done_def)

lemma set_error_fresh: "fresh_command c \<Longrightarrow> co_err (set_error e c) = Some e \<and> co_response (set_error e c) = None"
  by (simp add: fresh_command_def set_error_def set_done_def)

lemma finish_create_result:
  assumes "finish_create L c (r, s, g) = Ret (c', s', g')" "fresh_command c"
  shows "co_done c' \<and> s' = s \<and> g' = g \<and>
    (case r of Inl e \<Rightarrow> co_err c' = Some e \<and> co_response c' = None
     | Inr d \<Rightarrow> co_err c' = None \<and> co_response c' = Some \<lparr> wr_id = lb_uuid_str L (ss_id s), wr_sdp = d \<rparr>)"
  using assms set_error_fresh[OF assms(2)]
  by (auto simp: finish_create_def fresh_command_def set_done_def split: sum.splits)

lemma finish_offer_result:
  assumes "finish_offer post (\<lambda>_ _. False) c (r, s, g) = Ret (c', s', g')" "fresh_command c"
  shows "co_done c' \<and> s' = s \<and> g' = g \<and> co_err c' \<noteq> None \<and> co_response c' = None"
  using assms set_error_fresh[OF assms(2)] by (auto simp: finish_offer_def split: sum.splits)

lemma answers_never_closed: "set_ingress_answer = (\<lambda>_ _. False)" "set_egress_answer = (\<lambda>_ _. False)"
  by (simp_all add: fun_eq_iff set_ingress_answer_def set_egress_answer_def)

text \<open>A command that returns is done, with an error or a response and never both.\<close>

lemma execute_result:
  assumes "execute L E sev ev c s g = Ret (c', s', g')" "fresh_command c"
  shows "co_done c' \<and> (co_err c' = None \<longleftrightarrow> co_response c' \<noteq> None)"
proof -
  have create: "co_done c' \<and> (co_err c' = None \<longleftrightarrow> co_response c' \<noteq> None)"
    if "finish_create L c x = Ret (c', s', g')" for x
    using finish_create_result[of L c "fst x" "fst (snd x)" "snd (snd x)" c' s' g'] that assms(2)
    by (auto split: sum.splits)
  have offer: "co_done c' \<and> (co_err c' = None \<longleftrightarrow> co_response c' \<noteq> None)"
    if "finish_offer post (\<lambda>_ _. False) c x = Ret (c', s', g')" for x post
    using finish_offer_result[of post c "fst x" "fst (snd x)" "snd (snd x)" c' s' g'] that assms(2) by auto
  show ?thesis
    using assms(1) create offer
    by (auto simp: execute_def answers_never_closed outcome_simps split: command_job.splits)
qed

section \<open>Properties\<close>

text \<open>C40: offering an endpoint to a remote instance never succeeds, whatever engine
  makes the endpoint: the command ends with an error, panics, or waits for ever
  once the remote instance has answered.\<close>

theorem offer_never_succeeds:
  "(\<forall>c' s' g'. execute L E sev ev (new_offer_ingress d post u k) s g = Ret (c', s', g') \<longrightarrow> co_err c' \<noteq> None) \<and>
   (\<forall>c' s' g'. execute L E sev ev (new_offer_egress d post u k) s g = Ret (c', s', g') \<longrightarrow> co_err c' \<noteq> None) \<and>
   (\<forall>offer answer s' g'. offer_ingress_endpoint L E ev k s g = Ret (Inr offer, s', g') \<and> post offer = Inr answer \<longrightarrow>
      execute L E sev ev (new_offer_ingress d post u k) s g = Block) \<and>
   (\<forall>offer answer s' g'. offer_egress_endpoint L E sev ev k s g = Ret (Inr offer, s', g') \<and> post offer = Inr answer \<longrightarrow>
      execute L E sev ev (new_offer_egress d post u k) s g = Block)"
proof (intro conjI allI impI)
  have j: "co_job (new_offer_ingress d post u k) = Offer_Ingress post k"
    "co_job (new_offer_egress d post u k) = Offer_Egress post k"
    by (simp_all add: new_offer_ingress_def new_offer_egress_def new_command_def)
  note ex = execute_def j command_job.case answers_never_closed
  {
    fix c' s' g'
    assume "execute L E sev ev (new_offer_ingress d post u k) s g = Ret (c', s', g')"
    then obtain r s1 g1 where "finish_offer post (\<lambda>_ _. False) (new_offer_ingress d post u k) (r, s1, g1) = Ret (c', s', g')"
      by (auto simp only: ex outcome_simps prod_cases3)
    from finish_offer_result[OF this] show "co_err c' \<noteq> None" by simp
  next
    fix c' s' g'
    assume "execute L E sev ev (new_offer_egress d post u k) s g = Ret (c', s', g')"
    then obtain r s1 g1 where "finish_offer post (\<lambda>_ _. False) (new_offer_egress d post u k) (r, s1, g1) = Ret (c', s', g')"
      by (auto simp only: ex outcome_simps prod_cases3)
    from finish_offer_result[OF this] show "co_err c' \<noteq> None" by simp
  next
    fix offer answer s' g'
    assume "offer_ingress_endpoint L E ev k s g = Ret (Inr offer, s', g') \<and> post offer = Inr answer"
    then show "execute L E sev ev (new_offer_ingress d post u k) s g = Block"
      unfolding ex by (simp add: finish_offer_def)
  next
    fix offer answer s' g'
    assume "offer_egress_endpoint L E sev ev k s g = Ret (Inr offer, s', g') \<and> post offer = Inr answer"
    then show "execute L E sev ev (new_offer_egress d post u k) s g = Block"
      unfolding ex by (simp add: finish_offer_def)
  }
qed

text \<open>An engine that does offer an endpoint.\<close>

definition offering_engine :: "local_track list engine" where
  "offering_engine = \<lparr> en_establish = (\<lambda>_ _ _ _ _ _ g. (Inl (Err []), g)),
     en_offer = (\<lambda>_ _ _ _. Inr (Some (sample_endpoint\<lparr> ep_type := ingress_endpoint \<rparr>))) \<rparr>"

lemma offered_ingress:
  "\<exists>offer s' g'. offer_ingress_endpoint list_lib offering_engine Gathered k (new_session 1 2 7 4 instance_session) g =
     Ret (Inr offer, s', g')"
proof -
  let ?e = "sample_endpoint\<lparr> ep_type := ingress_endpoint \<rparr>"
  have "get_local_description list_lib Gathered ?e = Ret (Inr (lb_local_desc list_lib []), ?e)"
    by (simp add: get_local_description_def sample_endpoint_def ingress_endpoint_def egress_endpoint_def)
  then show ?thesis
    by (simp add: offer_ingress_endpoint_def offering_engine_def new_session_def is_done_def)
qed

lemma offer_never_succeeds_witness:
  "execute list_lib offering_engine Messenger_Ready Gathered
     (new_offer_ingress False (\<lambda>_. Inr \<lparr> sd_type = SdpAnswer, sd_sdp = [] \<rparr>) 7 bidirectional_signal_channel)
     (new_session 1 2 7 4 instance_session) \<lparr> gr_on = False, gr_calls = [] \<rparr> = Block"
proof -
  obtain offer s' g' where "offer_ingress_endpoint list_lib offering_engine Gathered bidirectional_signal_channel
      (new_session 1 2 7 4 instance_session) \<lparr> gr_on = False, gr_calls = [] \<rparr> = Ret (Inr offer, s', g')"
    using offered_ingress by blast
  then show ?thesis
    using offer_never_succeeds[of list_lib offering_engine Messenger_Ready Gathered False
        "\<lambda>_. Inr \<lparr> sd_type = SdpAnswer, sd_sdp = [] \<rparr>" 7
        bidirectional_signal_channel "new_session 1 2 7 4 instance_session" "\<lparr> gr_on = False, gr_calls = [] \<rparr>"]
    by blast
qed

end
