(* ===== verification/Http.thy ===== *)
theory Http
  imports Go_Strings
begin

text \<open>
  Requests and responses of the \<^verbatim>\<open>net/http\<close> handlers.  A handler is a
  function from a request and the server's state to what it writes and the new
  state; the status of the response is the first status written, or 0 if the handler
  ended before there was one.
\<close>

record principal =
  pr_uuid :: string

text \<open>Of a request the handlers read headers, path variables, the body and the
  principal in the context.  The body is absent, or reading it gives bytes or
  an error.\<close>

record request =
  rq_header :: "string \<Rightarrow> string"
  rq_vars :: "string \<Rightarrow> string option"
  rq_body :: "string result option"
  rq_principal :: "principal option"

text \<open>A handler that panics ends with \<open>Abort\<close>, one that waits for ever with
  \<open>Hang\<close>: the server closes the connection, or keeps it.\<close>

datatype reply = Set_Header string string | Http_Error nat string | Write_Header nat | Write_Body string | Abort | Hang

type_synonym 's handler = "request \<Rightarrow> 's \<Rightarrow> reply list \<times> 's"

fun status :: "reply list \<Rightarrow> nat" where
  "status [] = 200"
| "status (Set_Header _ _ # rs) = status rs"
| "status (Http_Error c _ # rs) = c"
| "status (Write_Header c # rs) = c"
| "status (Write_Body _ # rs) = 200"
| "status (Abort # rs) = 0"
| "status (Hang # rs) = 0"

definition prepend :: "reply list \<Rightarrow> reply list \<times> 's \<Rightarrow> reply list \<times> 's" where
  "prepend ws r = (ws @ fst r, snd r)"

lemma prepend_simps [simp]:
  "fst (prepend ws r) = ws @ fst r" "snd (prepend ws r) = snd r"
  by (simp_all add: prepend_def)

definition with_principal :: "principal \<Rightarrow> request \<Rightarrow> request" where
  "with_principal p r = r\<lparr> rq_principal := Some p \<rparr>"

definition principal_from_context :: "request \<Rightarrow> principal option" where
  "principal_from_context r = rq_principal r"

text \<open>The headers of a response are fixed by the last assignment before the
  status is written.\<close>

fun header_of :: "string \<Rightarrow> reply list \<Rightarrow> string option \<Rightarrow> string option" where
  "header_of h [] cur = cur"
| "header_of h (Set_Header k v # rs) cur = header_of h rs (if k = h then Some v else cur)"
| "header_of h (_ # rs) cur = cur"

text \<open>A call inside a handler: the state is the one the call was made in if it does not
  return.\<close>

fun calling :: "'a outcome \<Rightarrow> 's \<Rightarrow> ('a \<Rightarrow> reply list \<times> 's) \<Rightarrow> reply list \<times> 's" where
  "calling (Ret x) st k = k x"
| "calling Panic st k = ([Abort], st)"
| "calling Block st k = ([Hang], st)"

lemma status_error [simp]: "status ((Set_Header k v) # rs) = status rs" by simp

abbreviation status_forbidden :: nat where "status_forbidden \<equiv> 403"
abbreviation status_bad_request :: nat where "status_bad_request \<equiv> 400"
abbreviation status_not_found :: nat where "status_not_found \<equiv> 404"
abbreviation status_internal :: nat where "status_internal \<equiv> 500"

end
