(* ===== verification/Memory_Store.thy ===== *)
theory Memory_Store
  imports Go_Strings
begin

text \<open>
  The expiring key value store (\<^verbatim>\<open>internal/storage/memory.go\<close>).  Time is
  the package's 32 bit timestamp, an argument of every operation; a duration is
  a number of nanoseconds.  The collector works in two phases with other
  operations in between, so it is two definitions.
\<close>

section \<open>State and operations\<close>

type_synonym timestamp = "32 word"

record 'v mem_item =
  mi_e :: timestamp
  mi_v :: 'v

type_synonym 'v memory = "(string, 'v mem_item) gomap"

definition new_memory :: "'v memory" where "new_memory = []"

text \<open>Expired: a deadline is set and it is not in the future.\<close>

definition expired :: "timestamp \<Rightarrow> 'v mem_item \<Rightarrow> bool" where
  "expired ts i = (mi_e i \<noteq> 0 \<and> mi_e i \<le> ts)"

definition mem_get :: "timestamp \<Rightarrow> 'v memory \<Rightarrow> string \<Rightarrow> 'v option" where
  "mem_get ts m key =
     (case map_of m key of
        None \<Rightarrow> None
      | Some i \<Rightarrow> if mi_e i \<noteq> 0 \<and> mi_e i \<le> ts then None else Some (mi_v i))"

definition nanos_per_second :: int where "nanos_per_second = 1000000000"

text \<open>The deadline: whole seconds, added with the wrap-around of
  \<^verbatim>\<open>uint32\<close>.\<close>

definition deadline :: "timestamp \<Rightarrow> int \<Rightarrow> timestamp" where
  "deadline ts ttl = (if ttl > 0 then word_of_int (ttl div nanos_per_second) + ts else 0)"

definition mem_set :: "timestamp \<Rightarrow> string \<Rightarrow> 'v \<Rightarrow> int \<Rightarrow> 'v memory \<Rightarrow> 'v memory" where
  "mem_set ts key v ttl m = AList.update key \<lparr> mi_e = deadline ts ttl, mi_v = v \<rparr> m"

definition mem_delete :: "string \<Rightarrow> 'v memory \<Rightarrow> 'v memory" where
  "mem_delete key m = AList.delete key m"

definition mem_reset :: "'v memory \<Rightarrow> 'v memory" where
  "mem_reset m = []"

text \<open>One tick of the collector: the keys it finds expired under the read lock,
  then the deletion under the write lock, which looks again.\<close>

definition gc_collect :: "timestamp \<Rightarrow> 'v memory \<Rightarrow> string list" where
  "gc_collect ts m = map fst (filter (\<lambda>(key, i). mi_e i \<noteq> 0 \<and> mi_e i \<le> ts) m)"

fun gc_sweep :: "timestamp \<Rightarrow> string list \<Rightarrow> 'v memory \<Rightarrow> 'v memory" where
  "gc_sweep ts [] m = m"
| "gc_sweep ts (k # ks) m =
     gc_sweep ts ks
       (case map_of m k of
          Some i \<Rightarrow> if mi_e i \<noteq> 0 \<and> mi_e i \<le> ts then AList.delete k m else m
        | None \<Rightarrow> m)"

section \<open>The store at work\<close>

text \<open>The package's clock is set to the seconds of the day, cut to 32 bits, when the first
  store is made and once a second from then on.\<close>

definition update_timestamp :: "int \<Rightarrow> timestamp" where "update_timestamp unix = word_of_int unix"

text \<open>Between its two phases the collector keeps the time it began at and the keys it has
  found; the calls of others come in between.\<close>

record 'v store =
  so_clock :: timestamp
  so_data :: "'v memory"
  so_collecting :: "(timestamp \<times> string list) option"

datatype 'v store_event =
    At int | Set_Item string 'v int | Get_Item string | Delete_Item string | Reset_Items | Gc_Collect | Gc_Sweep

fun store_step :: "'v store_event \<Rightarrow> 'v store \<Rightarrow> 'v option list \<times> 'v store" where
  "store_step (At unix) st = ([], st\<lparr> so_clock := update_timestamp unix \<rparr>)"
| "store_step (Set_Item k v ttl) st = ([], st\<lparr> so_data := mem_set (so_clock st) k v ttl (so_data st) \<rparr>)"
| "store_step (Get_Item k) st = ([mem_get (so_clock st) (so_data st) k], st)"
| "store_step (Delete_Item k) st = ([], st\<lparr> so_data := mem_delete k (so_data st) \<rparr>)"
| "store_step Reset_Items st = ([], st\<lparr> so_data := mem_reset (so_data st) \<rparr>)"
| "store_step Gc_Collect st = ([], if so_collecting st = None
     then st\<lparr> so_collecting := Some (so_clock st, gc_collect (so_clock st) (so_data st)) \<rparr> else st)"
| "store_step Gc_Sweep st = ([], case so_collecting st of
       Some (ts, ks) \<Rightarrow> st\<lparr> so_data := gc_sweep ts ks (so_data st), so_collecting := None \<rparr>
     | None \<Rightarrow> st)"

text \<open>The answers of the lookups, in their order.\<close>

fun store_run :: "'v store_event list \<Rightarrow> 'v store \<Rightarrow> 'v option list \<times> 'v store" where
  "store_run [] st = ([], st)"
| "store_run (e # es) st =
     (let (a, st1) = store_step e st; (as, st2) = store_run es st1 in (a @ as, st2))"

definition new_store :: "int \<Rightarrow> 'v store" where
  "new_store unix = \<lparr> so_clock = update_timestamp unix, so_data = new_memory, so_collecting = None \<rparr>"

text \<open>The specification is a store that is never collected.\<close>

fun by_collector :: "'v store_event \<Rightarrow> bool" where
  "by_collector Gc_Collect = True" | "by_collector Gc_Sweep = True" | "by_collector _ = False"

fun clock_moves_on :: "timestamp \<Rightarrow> 'v store_event list \<Rightarrow> bool" where
  "clock_moves_on t [] = True"
| "clock_moves_on t (At unix # es) = (t \<le> update_timestamp unix \<and> clock_moves_on (update_timestamp unix) es)"
| "clock_moves_on t (_ # es) = clock_moves_on t es"

section \<open>Laws\<close>

lemma wf_gc_sweep [inv_intros]: "wf_map m \<Longrightarrow> wf_map (gc_sweep ts ks m)"
  by (induction ks arbitrary: m) (auto split: option.splits)

lemma gc_sweep_lookup:
  "map_of (gc_sweep ts ks m) k =
     (case map_of m k of
        Some i \<Rightarrow> if expired ts i \<and> k \<in> set ks then None else Some i
      | None \<Rightarrow> None)"
  by (induction ks arbitrary: m) (auto simp: expired_def split: option.splits)

lemma gc_collect_set:
  assumes "wf_map m"
  shows "k \<in> set (gc_collect ts m) \<longleftrightarrow> (\<exists>i. map_of m k = Some i \<and> expired ts i)"
proof -
  have "k \<in> set (gc_collect ts m) \<longleftrightarrow> (\<exists>i. (k, i) \<in> set m \<and> expired ts i)"
    by (auto simp: gc_collect_def expired_def image_iff)
  then show ?thesis using assms by (simp only: wf_mem_iff)
qed

lemma mem_get_expired:
  "mem_get ts m k = (case map_of m k of None \<Rightarrow> None | Some i \<Rightarrow> if expired ts i then None else Some (mi_v i))"
  by (simp add: mem_get_def expired_def split: option.splits)

interpretation mem_store: counted_store "map_of :: 'v memory \<Rightarrow> _" AList.update mem_delete wf_map length
  unfolding mem_delete_def[abs_def] by unfold_locales (simp_all add: gomap_laws map_of_empty_iff del: length_0_conv)

text \<open>Once expired, an item stays expired while the clock moves on.\<close>

lemma expired_mono: "expired ts i \<Longrightarrow> ts \<le> ts' \<Longrightarrow> expired ts' i"
  by (auto simp: expired_def)

lemma uint_add_nowrap:
  assumes "0 \<le> q" "q + uint (ts :: timestamp) < 2 ^ 32"
  shows "uint (word_of_int q + ts) = q + uint ts"
proof -
  have "0 \<le> uint ts" by simp
  then have "q < 2 ^ 32" using assms by linarith
  then have "uint (word_of_int q :: timestamp) = q"
    using assms(1) by (simp add: uint_word_of_int)
  moreover have "uint (word_of_int q + ts) = (uint (word_of_int q :: timestamp) + uint ts) mod 2 ^ 32"
    by (simp add: uint_word_ariths(1))
  ultimately show ?thesis using assms by simp
qed

lemma deadline_nowrap:
  assumes "0 < ttl" "ttl div nanos_per_second + uint ts < 2 ^ 32"
  shows "uint (deadline ts ttl) = ttl div nanos_per_second + uint ts"
proof -
  have "0 \<le> ttl div nanos_per_second" using assms(1) by (simp add: nanos_per_second_def)
  then show ?thesis using uint_add_nowrap assms by (simp only: deadline_def if_True)
qed

section \<open>Properties\<close>

text \<open>A collected store has only items of the uncollected one, and what it lacks is expired;
  a collection under way began at a time that has passed.\<close>

definition collected_from :: "'v store \<Rightarrow> 'v store \<Rightarrow> bool" where
  "collected_from sp st = (so_clock st = so_clock sp \<and>
     map_of (so_data st) \<subseteq>\<^sub>m map_of (so_data sp) \<and>
     (\<forall>k i. map_of (so_data sp) k = Some i \<and> map_of (so_data st) k = None \<longrightarrow> expired (so_clock sp) i) \<and>
     (\<forall>ts ks. so_collecting st = Some (ts, ks) \<longrightarrow> ts \<le> so_clock st))"

lemma collected_same_answer:
  assumes "collected_from sp st"
  shows "mem_get (so_clock st) (so_data st) k = mem_get (so_clock sp) (so_data sp) k"
proof (cases "map_of (so_data st) k")
  case None
  then show ?thesis using assms by (auto simp: collected_from_def mem_get_expired split: option.splits)
next
  case (Some i)
  then have "map_of (so_data sp) k = Some i" using assms by (auto simp: collected_from_def map_le_def dom_def)
  then show ?thesis using assms Some by (simp add: collected_from_def mem_get_expired)
qed

lemma collected_sweep:
  assumes "collected_from sp st"
  shows "collected_from sp (snd (store_step Gc_Sweep st))"
proof (cases "so_collecting st")
  case (Some p)
  obtain ts ks where p: "p = (ts, ks)" by (cases p)
  have t: "ts \<le> so_clock sp" using assms Some p by (auto simp: collected_from_def)
  have sub: "map_of (gc_sweep ts ks (so_data st)) \<subseteq>\<^sub>m map_of (so_data st)"
    by (auto simp: map_le_def dom_def gc_sweep_lookup split: option.splits if_splits)
  have gone: "expired (so_clock sp) i"
    if "map_of (so_data sp) k = Some i" "map_of (gc_sweep ts ks (so_data st)) k = None" for k i
  proof (cases "map_of (so_data st) k")
    case None
    then show ?thesis using assms that(1) by (simp add: collected_from_def)
  next
    case (Some j)
    then have "map_of (so_data sp) k = Some j" using assms by (auto simp: collected_from_def map_le_def dom_def)
    then show ?thesis using that Some t by (auto simp: gc_sweep_lookup intro: expired_mono split: if_splits)
  qed
  have "map_of (gc_sweep ts ks (so_data st)) \<subseteq>\<^sub>m map_of (so_data sp)"
    using sub assms by (auto simp: collected_from_def intro: map_le_trans)
  then show ?thesis using assms Some p by (auto simp: collected_from_def dest: gone)
qed (use assms in simp)

lemma collected_step:
  assumes "collected_from sp st" "clock_moves_on (so_clock sp) (e # es)" "\<not> by_collector e"
  shows "fst (store_step e st) = fst (store_step e sp) \<and> collected_from (snd (store_step e sp)) (snd (store_step e st)) \<and>
    clock_moves_on (so_clock (snd (store_step e sp))) es"
proof (cases e)
  case (At unix)
  then show ?thesis using assms
    by (auto simp: collected_from_def intro: expired_mono order_trans)
next
  case (Set_Item k v ttl)
  have "(map_of (so_data st))(k \<mapsto> i) \<subseteq>\<^sub>m (map_of (so_data sp))(k \<mapsto> i)" for i
    using assms(1) by (simp add: collected_from_def map_le_upd)
  then show ?thesis using assms Set_Item by (auto simp: collected_from_def mem_set_def update_conv')
next
  case (Get_Item k)
  then show ?thesis using assms collected_same_answer[OF assms(1)] by simp
next
  case (Delete_Item k)
  have "(map_of (so_data st))(k := None) \<subseteq>\<^sub>m (map_of (so_data sp))(k := None)"
    using assms(1) by (auto simp: collected_from_def map_le_def)
  then show ?thesis using assms Delete_Item by (auto simp: collected_from_def mem_delete_def delete_conv')
next
  case Reset_Items
  then show ?thesis using assms by (auto simp: collected_from_def mem_reset_def)
qed (use assms(3) in simp_all)

lemma collected_collect: "collected_from sp st \<Longrightarrow> collected_from sp (snd (store_step Gc_Collect st))"
  by (auto simp: collected_from_def)

lemma collected_run:
  assumes "collected_from sp st" "clock_moves_on (so_clock sp) es"
  shows "fst (store_run es st) = fst (store_run (filter (\<lambda>e. \<not> by_collector e) es) sp) \<and>
    collected_from (snd (store_run (filter (\<lambda>e. \<not> by_collector e) es) sp)) (snd (store_run es st))"
  using assms
proof (induction es arbitrary: sp st)
  case (Cons e es)
  show ?case
  proof (cases "by_collector e")
    case True
    then have "fst (store_step e st) = []" "collected_from sp (snd (store_step e st))" "clock_moves_on (so_clock sp) es"
      using Cons.prems collected_collect[OF Cons.prems(1)] collected_sweep[OF Cons.prems(1)] by (cases e; simp)+
    then show ?thesis using Cons.IH[of sp "snd (store_step e st)"] True by (simp add: split_beta Let_def)
  next
    case False
    note n = collected_step[OF Cons.prems False]
    then show ?thesis using Cons.IH[of "snd (store_step e sp)" "snd (store_step e st)"] False by (simp add: split_beta Let_def)
  qed
qed simp

text \<open>C28: the collector is never seen.  In every run of a store, however the collector's
  two phases fall among the calls of others, every lookup is answered as by a store
  that is never collected, as long as the 32 bit clock does not go back; and what
  the collected store still has is what the other one has.\<close>

theorem collector_invisible:
  assumes "clock_moves_on (update_timestamp start) es"
  shows "fst (store_run es (new_store start)) = fst (store_run (filter (\<lambda>e. \<not> by_collector e) es) (new_store start)) \<and>
    map_of (so_data (snd (store_run es (new_store start)))) \<subseteq>\<^sub>m
      map_of (so_data (snd (store_run (filter (\<lambda>e. \<not> by_collector e) es) (new_store start))))"
proof -
  have c: "collected_from (new_store start) (new_store start)"
    by (simp add: collected_from_def new_store_def new_memory_def)
  have "clock_moves_on (so_clock (new_store start)) es" using assms by (simp add: new_store_def)
  from collected_run[OF c this] show ?thesis unfolding collected_from_def by (elim conjE) (intro conjI)
qed

lemma collector_invisible_witness:
  "fst (store_run [Set_Item ''u'' True 2000000000, At 12, Gc_Collect, Set_Item ''u'' False 9000000000, Gc_Sweep, Get_Item ''u'']
     (new_store 10)) = [Some False]"
  using collector_invisible[of 10 "[Set_Item ''u'' True 2000000000, At 12, Gc_Collect, Set_Item ''u'' False 9000000000, Gc_Sweep, Get_Item ''u'']"]
  by (simp add: update_timestamp_def new_store_def new_memory_def mem_get_def mem_set_def deadline_def nanos_per_second_def)

text \<open>Collecting never changes what a reader sees.  Whatever operations ran
  between the collector's two phases, at every later moment a lookup gives the
  same answer with and without the sweep.\<close>

theorem gc_transparent:
  assumes "ts \<le> now"
  shows "mem_get now (gc_sweep ts (gc_collect ts m0) m) key = mem_get now m key"
  using assms expired_mono[of ts _ now]
  by (auto simp: mem_get_expired gc_sweep_lookup split: option.splits)

lemma gc_transparent_witness:
  "mem_get 7 (gc_sweep 5 (gc_collect 5 [(''a'', \<lparr> mi_e = 4, mi_v = True \<rparr>)])
     [(''a'', \<lparr> mi_e = 9, mi_v = False \<rparr>)]) ''a'' = Some False"
  using gc_transparent[of 5 7 "[(''a'', \<lparr> mi_e = 4, mi_v = True \<rparr>)]"
      "[(''a'', \<lparr> mi_e = 9, mi_v = False \<rparr>)]" "''a''"]
  by (simp add: mem_get_def)

text \<open>A tick that is not disturbed leaves exactly the live items.\<close>

theorem gc_tick_complete:
  assumes "wf_map m"
  shows "map_of (gc_sweep ts (gc_collect ts m) m) key =
    (case map_of m key of Some i \<Rightarrow> if expired ts i then None else Some i | None \<Rightarrow> None)"
  using assms by (auto simp: gc_sweep_lookup gc_collect_set split: option.splits)

lemma gc_tick_complete_witness:
  "map_of (gc_sweep 5 (gc_collect 5 [(''a'', \<lparr> mi_e = 4, mi_v = True \<rparr>)])
     [(''a'', \<lparr> mi_e = 4, mi_v = True \<rparr>)]) ''a'' = None"
  by (subst gc_tick_complete) (simp_all add: expired_def)

text \<open>A stored value is found under its key, and only there something
  changes, until its whole seconds have passed, provided the deadline fits into
  the 32 bit clock; a value stored without a lifetime never expires.\<close>

theorem mem_set_get:
  assumes "ttl > 0 \<longrightarrow> ttl div nanos_per_second + uint ts < 2 ^ 32"
    and "ttl > 0 \<longrightarrow> 0 < ttl div nanos_per_second + uint ts"
  shows "mem_get now (mem_set ts key v ttl m) key =
      (if ttl > 0 \<and> ttl div nanos_per_second + uint ts \<le> uint now then None else Some v) \<and>
    (\<forall>key'. key' \<noteq> key \<longrightarrow> mem_get now (mem_set ts key v ttl m) key' = mem_get now m key')"
proof
  show "mem_get now (mem_set ts key v ttl m) key =
      (if ttl > 0 \<and> ttl div nanos_per_second + uint ts \<le> uint now then None else Some v)"
  proof (cases "ttl > 0")
    case True
    then have u: "uint (deadline ts ttl) = ttl div nanos_per_second + uint ts"
      using assms(1) by (simp add: deadline_nowrap)
    then have "deadline ts ttl \<noteq> 0" using True assms(2) by auto
    then show ?thesis using True u by (simp add: mem_get_def mem_set_def word_le_def)
  qed (simp add: mem_get_def mem_set_def deadline_def)
qed (simp add: mem_get_def mem_set_def)

lemma mem_set_get_witness:
  "mem_get 3609 (mem_set 10 ''u'' ''t'' 3600000000000 new_memory) ''u'' = Some ''t'' \<and>
   mem_get 3610 (mem_set 10 ''u'' ''t'' 3600000000000 new_memory) ''u'' = None"
  using mem_set_get[of 3600000000000 10 _ "''u''" "''t''" new_memory]
  by (simp add: nanos_per_second_def)

text \<open>A lifetime shorter than a second stores an item that is expired at once,
  unless the clock stands at zero.\<close>

theorem subsecond_ttl_is_lost:
  assumes "0 < ttl" "ttl < nanos_per_second" "ts \<noteq> 0" "ts \<le> now"
  shows "mem_get now (mem_set ts key v ttl m) key = None"
  using assms by (simp add: mem_get_def mem_set_def deadline_def)

lemma subsecond_ttl_is_lost_witness:
  "mem_get 10 (mem_set 10 ''u'' ''t'' 500000000 new_memory) ''u'' = None"
  by (rule subsecond_ttl_is_lost) (simp_all add: nanos_per_second_def)

end
