(* ===== verification/Auth.thy ===== *)
theory Auth
  imports Http Memory_Store
begin

text \<open>
  Authentication (\<^verbatim>\<open>internal/auth\<close>): request tokens and the middleware
  that consumes them, bearer tokens, cookie sessions, accounts.  The random
  generator, the JWT library, the cookie store and the database are parameters.
\<close>

section \<open>Principals and request tokens\<close>

definition get_uuid :: "(string \<Rightarrow> uuid result) \<Rightarrow> principal \<Rightarrow> uuid result" where
  "get_uuid parse p = wrap_err ''converting user uid to uuid '' (parse (pr_uuid p))"

definition request_token_header :: string where "request_token_header = ''X-Req-Token''"
definition expiration :: int where "expiration = 3600 * nanos_per_second"

definition letters :: string where
  "letters = ''abcdefghijklmnopqrstuvwxyzABCDEFGHIJKLMNOPQRSTUVWXYZ''"

text \<open>The numbers drawn from the generator are an argument.\<close>

definition new_request_token :: "(nat \<Rightarrow> nat) \<Rightarrow> string" where
  "new_request_token draw = map (\<lambda>i. letters ! (draw i mod length letters)) [0..<34]"

type_synonym token_store = "string memory"

definition get_token :: "timestamp \<Rightarrow> token_store \<Rightarrow> string \<Rightarrow> string" where
  "get_token ts m key = (case mem_get ts m key of Some t \<Rightarrow> t | None \<Rightarrow> [])"

definition set_token :: "timestamp \<Rightarrow> string \<Rightarrow> string \<Rightarrow> int \<Rightarrow> token_store \<Rightarrow> token_store" where
  "set_token ts key raw exp m = mem_set ts key raw exp m"

definition delete_token :: "string \<Rightarrow> token_store \<Rightarrow> token_store" where
  "delete_token key m = mem_delete key m"

definition set_new_request_token ::
  "timestamp \<Rightarrow> (nat \<Rightarrow> nat) \<Rightarrow> string \<Rightarrow> token_store \<Rightarrow> reply list \<times> token_store" where
  "set_new_request_token ts draw user m =
     (let token = new_request_token draw
      in ([Set_Header request_token_header token], set_token ts user token expiration m))"

definition forbidden :: "reply list" where
  "forbidden = [Http_Error status_forbidden ''Forbidden'']"

definition token_middleware ::
  "timestamp \<Rightarrow> (nat \<Rightarrow> nat) \<Rightarrow> (request \<Rightarrow> principal result)
     \<Rightarrow> (token_store \<times> 's) handler \<Rightarrow> (token_store \<times> 's) handler" where
  "token_middleware ts draw principal_of_session f r st =
     (let req_token = rq_header r request_token_header in
      if length req_token < 1 then (forbidden, st)
      else case principal_of_session r of
             Inl _ \<Rightarrow> (forbidden, st)
           | Inr user \<Rightarrow>
               if get_token ts (fst st) (pr_uuid user) \<noteq> req_token then (forbidden, st)
               else let (ws, m') = set_new_request_token ts draw (pr_uuid user) (fst st)
                    in prepend ws (f r (m', snd st)))"

section \<open>Bearer tokens\<close>

record claims =
  cl_uuid :: string

text \<open>What the JWT parser returns: the claims, when they have the expected type,
  and whether the token is valid.\<close>

record jwt_parsed =
  jp_claims :: "claims option"
  jp_valid :: bool

record jwt_config =
  jc_enabled :: bool
  jc_key :: string
  jc_default_expire_time :: int

definition key_func :: "jwt_config \<Rightarrow> bool \<Rightarrow> string \<Rightarrow> string result" where
  "key_func cfg is_hmac alg =
     (if \<not> is_hmac then Inl (Err (''unexpected signing method: '' @ alg)) else Inr (jc_key cfg))"

datatype claim_value = Claim_Str string | Claim_Int int

definition jwt_claims :: "string \<Rightarrow> jwt_config \<Rightarrow> int \<Rightarrow> (string, claim_value) gomap" where
  "jwt_claims user cfg now =
     [(''uuid'', Claim_Str user),
      (''ExpiresAt'', Claim_Int (now + jc_default_expire_time cfg)),
      (''nbf'', Claim_Int 1444478400)]"

definition create_jwt_token ::
  "((string, claim_value) gomap \<Rightarrow> string \<Rightarrow> string result) \<Rightarrow> int \<Rightarrow> string \<Rightarrow> jwt_config \<Rightarrow> string result" where
  "create_jwt_token sign now user cfg = sign (jwt_claims user cfg now) (jc_key cfg)"

type_synonym jwt_parser = "string \<Rightarrow> (bool \<Rightarrow> string \<Rightarrow> string result) \<Rightarrow> jwt_parsed result"

definition validate_token :: "jwt_parser \<Rightarrow> string \<Rightarrow> jwt_config \<Rightarrow> principal result" where
  "validate_token parse token cfg =
     (case parse token (key_func cfg) of
        Inl e \<Rightarrow> Inl e
      | Inr t \<Rightarrow>
          (case jp_claims t of
             Some c \<Rightarrow> if jp_valid t then Inr \<lparr> pr_uuid = cl_uuid c \<rparr>
                       else Inl (Err ''invalidated jwt token'')
           | None \<Rightarrow> Inl (Err ''invalidated jwt token'')))"

record security_config =
  sc_jwt :: jwt_config
  sc_trusted_origins :: "string list"

definition validate_security_config :: "security_config \<Rightarrow> unit result" where
  "validate_security_config cfg =
     (if length (jc_key (sc_jwt cfg)) < 1 then Inl (Err ''security.jwt.key should not be empty'')
      else if length (sc_trusted_origins cfg) < 1
           then Inl (Err ''security.trustedOrigins should not be empty list'')
      else Inr ())"

definition http_middleware :: "jwt_parser \<Rightarrow> security_config \<Rightarrow> 's handler \<Rightarrow> 's handler" where
  "http_middleware parse ac f r st =
     (let auth_header = rq_header r ''Authorization'' in
      if \<not> has_prefix auth_header ''Bearer '' then
        ([Http_Error status_bad_request ''Invalid authentication header''], st)
      else case validate_token parse (trim_prefix auth_header ''Bearer '') (sc_jwt ac) of
             Inl _ \<Rightarrow> ([Http_Error status_forbidden ''Forbidden''], st)
           | Inr p \<Rightarrow> f (with_principal p r) st)"

section \<open>Cookie sessions\<close>

datatype session_value = SBool bool | SStr string

record cookie_session =
  cs_id :: string
  cs_values :: "(string, session_value) gomap"
  cs_max_age :: int

definition err_no_user_session :: go_error where "err_no_user_session = Err ''no user in session''"
definition err_not_authenticated :: go_error where
  "err_not_authenticated = Err ''not authenticated session''"

text \<open>The store reads a session out of a request; saving hands the session to
  the client or fails.  The result of a successful call is what was saved.\<close>

definition get_session :: "(request \<Rightarrow> cookie_session result) \<Rightarrow> request \<Rightarrow> cookie_session result" where
  "get_session store_get r =
     (case store_get r of
        Inl e \<Rightarrow> Inl (Wrap ''start session by reding session: '' e)
      | Inr s \<Rightarrow>
          (case map_of (cs_values s) ''authenticated'' of
             Some (SBool a) \<Rightarrow> if \<not> a then Inl err_not_authenticated else Inr s
           | _ \<Rightarrow> Inl err_not_authenticated))"

definition start_session ::
  "(request \<Rightarrow> cookie_session result) \<Rightarrow> (cookie_session \<Rightarrow> go_error option) \<Rightarrow> (string \<Rightarrow> uuid result)
     \<Rightarrow> (uuid \<Rightarrow> string) \<Rightarrow> string \<Rightarrow> request \<Rightarrow> cookie_session result" where
  "start_session store_get save parse uuid_str new_id r =
     (case principal_from_context r of
        None \<Rightarrow> Inl (Err ''no loged in user'')
      | Some user \<Rightarrow>
          (case get_uuid parse user of
             Inl e \<Rightarrow> Inl (Wrap ''read user uuid: '' e)
           | Inr u \<Rightarrow>
               (case store_get r of
                  Inl e \<Rightarrow> Inl (Wrap ''start session by reding session: '' e)
                | Inr s \<Rightarrow>
                    let s' = s\<lparr> cs_id := new_id,
                                cs_values := AList.update ''userUuid'' (SStr (uuid_str u))
                                  (AList.update ''authenticated'' (SBool True) (cs_values s)) \<rparr>
                    in case save s' of
                         Some e \<Rightarrow> Inl (Wrap ''start session by saving session id: '' e)
                       | None \<Rightarrow> Inr s')))"

definition delete_session ::
  "(request \<Rightarrow> cookie_session result) \<Rightarrow> (cookie_session \<Rightarrow> go_error option) \<Rightarrow> request
     \<Rightarrow> cookie_session result" where
  "delete_session store_get save r =
     (case get_session store_get r of
        Inl e \<Rightarrow> Inl (Wrap ''reading session: '' e)
      | Inr s \<Rightarrow>
          let s' = s\<lparr> cs_max_age := - 1 \<rparr>
          in case save s' of
               Some e \<Rightarrow> Inl (Wrap ''deleting session: '' e)
             | None \<Rightarrow> Inr s')"

definition get_principal_from_session ::
  "(request \<Rightarrow> cookie_session result) \<Rightarrow> request \<Rightarrow> principal result" where
  "get_principal_from_session store_get r =
     (case get_session store_get r of
        Inl e \<Rightarrow> Inl (Wrap ''reading session: '' e)
      | Inr s \<Rightarrow>
          (case map_of (cs_values s) ''userUuid'' of
             Some (SStr u) \<Rightarrow> if length u = 0 then Inl err_no_user_session
                              else Inr \<lparr> pr_uuid = u \<rparr>
           | _ \<Rightarrow> Inl err_no_user_session))"

section \<open>Accounts\<close>

record account =
  ac_user :: string
  ac_uuid :: string
  ac_actor_id :: nat

definition err_account_not_found :: go_error where "err_account_not_found = Err ''account not found''"
definition err_record_not_found :: go_error where "err_record_not_found = Err ''record not found''"

text \<open>The query \<^verbatim>\<open>user = ?\<close> is a parameter.\<close>

definition find_by_user_name :: "(string \<Rightarrow> account result) \<Rightarrow> string \<Rightarrow> account result" where
  "find_by_user_name query user =
     (case query user of
        Inl e \<Rightarrow>
          let err = Wrap (''finding stream by uuid '' @ user @ '': '') e
          in if errors_is e err_record_not_found then Inl (Join err err_account_not_found) else Inl err
      | Inr a \<Rightarrow> Inr a)"

text \<open>\<^verbatim>\<open>Create\<close> returns an error or the number of rows.\<close>

definition add_account ::
  "(account \<Rightarrow> go_error option \<times> nat) \<Rightarrow> string \<Rightarrow> account \<Rightarrow> string result" where
  "add_account create new_uuid a =
     (let a' = (if length (ac_uuid a) = 0 then a\<lparr> ac_uuid := new_uuid \<rparr> else a);
          (err, rows) = create a'
      in case err of
           Some e \<Rightarrow> Inl (Wrap ''adding live stream: '' e)
         | None \<Rightarrow> if rows \<noteq> 1 then Inl (Err ''adding live stream: %!w(<nil>)'') else Inr (ac_uuid a'))"

record auth_user =
  au_user_id :: string
  au_token :: string
  au_client :: string

definition get_auth_token ::
  "(string \<Rightarrow> account result) \<Rightarrow> ((string, claim_value) gomap \<Rightarrow> string \<Rightarrow> string result) \<Rightarrow> int
     \<Rightarrow> string \<Rightarrow> jwt_config \<Rightarrow> auth_user \<Rightarrow> string result" where
  "get_auth_token query sign now instance_token cfg user =
     (if au_token user \<noteq> instance_token then Inl (Err ''invalid instance auth token'')
      else case find_by_user_name query (au_user_id user) of
             Inl e \<Rightarrow> Inl (Wrap ''find account: '' e)
           | Inr a \<Rightarrow> wrap_err ''create jwt token: '' (create_jwt_token sign now (ac_uuid a) cfg))"

text \<open>The identifier of an instance; the digest and the parser are parameters.\<close>

definition create_shig_instance_id :: "(string \<Rightarrow> string) \<Rightarrow> (string \<Rightarrow> uuid) \<Rightarrow> string \<Rightarrow> uuid" where
  "create_shig_instance_id md5_hex must_parse _ = must_parse (md5_hex ''test-this-out'')"

definition create_instance_account ::
  "(string \<Rightarrow> string) \<Rightarrow> (string \<Rightarrow> uuid) \<Rightarrow> (uuid \<Rightarrow> string) \<Rightarrow> string \<Rightarrow> nat \<Rightarrow> account" where
  "create_instance_account md5_hex must_parse uuid_str actor_iri actor_id =
     \<lparr> ac_user = actor_iri, ac_uuid = uuid_str (create_shig_instance_id md5_hex must_parse actor_iri),
       ac_actor_id = actor_id \<rparr>"

section \<open>Helper lemmas\<close>

lemma new_request_token_shape:
  "length (new_request_token draw) = 34" "set (new_request_token draw) \<subseteq> set letters"
proof -
  have "0 < length letters" by (simp add: letters_def)
  then show "set (new_request_token draw) \<subseteq> set letters"
    by (auto simp: new_request_token_def)
qed (simp add: new_request_token_def)

text \<open>The middleware either refuses, leaving the state alone, or runs the handler
  on the store that holds the next token.\<close>

lemma token_middleware_cases:
  obtains "token_middleware ts draw sess f r st = (forbidden, st)"
    "rq_header r request_token_header = [] \<or>
     (\<forall>user. sess r = Inr user \<longrightarrow>
        get_token ts (fst st) (pr_uuid user) \<noteq> rq_header r request_token_header)"
  | user where "sess r = Inr user" "rq_header r request_token_header \<noteq> []"
    "get_token ts (fst st) (pr_uuid user) = rq_header r request_token_header"
    "token_middleware ts draw sess f r st =
       prepend [Set_Header request_token_header (new_request_token draw)]
         (f r (set_token ts (pr_uuid user) (new_request_token draw) expiration (fst st), snd st))"
  by (cases "rq_header r request_token_header = []"; cases "sess r";
      cases "get_token ts (fst st) (pr_uuid (projr (sess r))) = rq_header r request_token_header")
    (auto simp: token_middleware_def set_new_request_token_def Let_def)

lemma trim_bearer:
  "has_prefix s ''Bearer '' \<Longrightarrow> trim_prefix s ''Bearer '' = drop 7 s"
  by (simp add: trim_prefix_def eval_nat_numeral)

section \<open>Properties\<close>

text \<open>The guarded handler runs exactly when the request carries the token
  that is stored, and still alive, for the user of its session; every other
  request is answered with 403 and changes nothing.\<close>

theorem token_middleware_guard:
  "(if \<exists>user. sess r = Inr user \<and> rq_header r request_token_header \<noteq> [] \<and>
         mem_get ts (fst st) (pr_uuid user) = Some (rq_header r request_token_header)
    then \<exists>m' ws. token_middleware ts draw sess f r st = prepend ws (f r (m', snd st))
    else token_middleware ts draw sess f r st = (forbidden, st))"
proof (cases rule: token_middleware_cases[of ts draw sess f r st])
  case 1
  then show ?thesis by (auto simp: get_token_def)
next
  case (2 user)
  then have "mem_get ts (fst st) (pr_uuid user) = Some (rq_header r request_token_header)"
    by (auto simp: get_token_def split: option.splits)
  then show ?thesis using 2 by auto
qed

text \<open>C4: a request token is used up by the request that passes with it.  A
  second request of the same user with the same token is refused, whatever the
  handler in between did to the rest of the state, unless the generator drew
  the same token again.\<close>

theorem request_token_single_use:
  assumes "fst (snd (token_middleware ts draw sess f r st)) = m'"
    and "token_middleware ts draw sess f r st \<noteq> (forbidden, st)"
    and "\<And>r st. fst (snd (f r st)) = fst st"
    and "new_request_token draw \<noteq> rq_header r request_token_header"
    and "sess r' = sess r" "rq_header r' = rq_header r"
  shows "token_middleware ts' draw' sess g r' (m', st') = (forbidden, (m', st'))"
proof (cases rule: token_middleware_cases[of ts draw sess f r st])
  case (2 user)
  have m': "m' = set_token ts (pr_uuid user) (new_request_token draw) expiration (fst st)"
    using assms(1,3) 2(4) by simp
  have "get_token ts' m' (pr_uuid user) \<noteq> rq_header r request_token_header"
    using assms(4) 2(2) by (simp add: m' get_token_def set_token_def mem_get_def mem_set_def)
  then show ?thesis using 2(1) assms(5,6)
    by (cases rule: token_middleware_cases[of ts' draw' sess g r' "(m', st')"]) auto
qed (use assms(2) in simp)

definition sample_request :: "string \<Rightarrow> request" where
  "sample_request token =
     \<lparr> rq_header = (\<lambda>h. if h = request_token_header then token else []), rq_vars = (\<lambda>_. None),
       rq_body = None, rq_principal = None \<rparr>"

definition sample_tokens :: token_store where
  "sample_tokens = [(''u'', \<lparr> mi_e = 0, mi_v = ''t'' \<rparr>)]"

lemma sample_passes:
  "token_middleware 5 (\<lambda>_. 0) (\<lambda>_. Inr \<lparr> pr_uuid = ''u'' \<rparr>) (\<lambda>r st. ([], st))
     (sample_request ''t'') (sample_tokens, ()) =
   ([Set_Header request_token_header (new_request_token (\<lambda>_. 0))],
    (set_token 5 ''u'' (new_request_token (\<lambda>_. 0)) expiration sample_tokens, ()))"
  by (simp add: token_middleware_def sample_request_def sample_tokens_def get_token_def mem_get_def
      set_new_request_token_def prepend_def Let_def)

lemma request_token_single_use_witness:
  "token_middleware 6 (\<lambda>_. 1) (\<lambda>_. Inr \<lparr> pr_uuid = ''u'' \<rparr>) (\<lambda>r st. ([], st)) (sample_request ''t'')
     (set_token 5 ''u'' (new_request_token (\<lambda>_. 0)) expiration sample_tokens, ()) =
   (forbidden, (set_token 5 ''u'' (new_request_token (\<lambda>_. 0)) expiration sample_tokens, ()))"
proof (rule request_token_single_use[where f = "\<lambda>r st. ([], st)" and ts = 5 and draw = "\<lambda>_. 0"
      and r = "sample_request ''t''" and st = "(sample_tokens, ())"])
  have "length (new_request_token (\<lambda>_. 0)) \<noteq> length ''t''" by (simp add: new_request_token_shape)
  then show "new_request_token (\<lambda>_. 0) \<noteq> rq_header (sample_request ''t'') request_token_header"
    by (auto simp: sample_request_def)
qed (simp_all add: sample_passes forbidden_def)

text \<open>A request reaches the handler behind the bearer check exactly with a
  prefixed, valid token, and then with the principal the token names in its
  context; otherwise the answer is 400 or 403 and the state is unchanged.\<close>

theorem http_middleware_guard:
  "http_middleware parse ac f r st =
     (case validate_token parse (drop 7 (rq_header r ''Authorization'')) (sc_jwt ac) of
        Inr p \<Rightarrow> if has_prefix (rq_header r ''Authorization'') ''Bearer ''
                 then f (r\<lparr> rq_principal := Some p \<rparr>) st
                 else ([Http_Error 400 ''Invalid authentication header''], st)
      | Inl _ \<Rightarrow> ([Http_Error (if has_prefix (rq_header r ''Authorization'') ''Bearer '' then 403 else 400)
                   (if has_prefix (rq_header r ''Authorization'') ''Bearer ''
                    then ''Forbidden'' else ''Invalid authentication header'')], st))"
  by (auto simp: http_middleware_def trim_bearer with_principal_def Let_def split: sum.splits)

text \<open>A session that was started is read back: the user of the request that
  started it is the principal of every request whose cookie holds it, and a
  request without a login gets an error the handlers can tell apart.\<close>

theorem session_roundtrip:
  assumes "start_session store_get save parse uuid_str new_id r = Inr s"
    and "store_get r' = Inr s" "\<And>u. uuid_str u \<noteq> []"
  shows "\<exists>user u. principal_from_context r = Some user \<and> parse (pr_uuid user) = Inr u \<and>
    get_principal_from_session store_get r' = Inr \<lparr> pr_uuid = uuid_str u \<rparr>"
  using assms(1,2) assms(3)
  by (auto simp: start_session_def get_uuid_def get_principal_from_session_def get_session_def Let_def
      split: option.splits sum.splits if_splits elim!: wrap_err.elims)

lemma session_roundtrip_witness:
  "get_principal_from_session
     (\<lambda>r. if rq_principal r = None
          then Inr \<lparr> cs_id = ''i'', cs_values = [(''authenticated'', SBool True), (''userUuid'', SStr ''u'')],
                     cs_max_age = 0 \<rparr>
          else Inr \<lparr> cs_id = [], cs_values = [], cs_max_age = 0 \<rparr>)
     (sample_request []) = Inr \<lparr> pr_uuid = ''u'' \<rparr>"
  using session_roundtrip[where r = "with_principal \<lparr> pr_uuid = ''x'' \<rparr> (sample_request [])"
      and r' = "sample_request []" and save = "\<lambda>_. None" and parse = "\<lambda>_. Inr 7"
      and uuid_str = "\<lambda>_. ''u''" and new_id = "''i''"
      and store_get = "\<lambda>r. if rq_principal r = None
          then Inr \<lparr> cs_id = ''i'', cs_values = [(''authenticated'', SBool True), (''userUuid'', SStr ''u'')],
                     cs_max_age = 0 \<rparr>
          else Inr \<lparr> cs_id = [], cs_values = [], cs_max_age = 0 \<rparr>"]
  by (simp add: start_session_def principal_from_context_def with_principal_def sample_request_def
      get_uuid_def)

text \<open>The tokens the program signs carry no registered expiry claim, whatever
  lifetime is configured; the lifetime is under a name of its own.\<close>

theorem jwt_has_no_exp_claim:
  "map_of (jwt_claims user cfg now) ''exp'' = None \<and>
   map_of (jwt_claims user cfg now) ''ExpiresAt'' = Some (Claim_Int (now + jc_default_expire_time cfg))"
  by (simp add: jwt_claims_def)

text \<open>The identifier of an instance does not depend on the instance, so the
  accounts of all instances share one UUID.\<close>

theorem instance_accounts_collide:
  "ac_uuid (create_instance_account md5_hex must_parse uuid_str iri i) =
   ac_uuid (create_instance_account md5_hex must_parse uuid_str iri' i')"
  by (simp add: create_instance_account_def create_shig_instance_id_def)

end
