(* ===== verification/Federation.thy ===== *)
theory Federation
  imports Commands Auth
begin

text \<open>
  The way to the instance that hosts a live stream (\<^verbatim>\<open>internal/lobby/federation\<close>,
  \<^verbatim>\<open>internal/lobby/clients/api_client.go\<close>): the host's description, the
  client of its interface and the connector that builds the commands of the
  connection.  URL parsing, the HTTP client and the JSON codec are parameters.
\<close>

section \<open>URLs and the HTTP client\<close>

record url =
  ur_scheme :: string
  ur_host :: string
  ur_path :: string
  ur_rest :: string

definition url_string :: "url \<Rightarrow> string" where
  "url_string u =
     (if ur_scheme u \<noteq> [] then ur_scheme u @ '':'' else []) @
     (if ur_host u \<noteq> [] then ''//'' @ ur_host u else []) @
     (if ur_host u \<noteq> [] \<and> ur_path u \<noteq> [] \<and> hd (ur_path u) \<noteq> CHR ''/'' then ''/'' else []) @
     ur_path u @ ur_rest u"

record http_call =
  hc_method :: string
  hc_url :: string
  hc_headers :: "(string \<times> string) list"
  hc_body :: string

record http_answer =
  ha_code :: nat
  ha_status :: string
  ha_body :: "string result"

record net =
  nt_parse_url :: "string \<Rightarrow> url option"
  nt_request_error :: "string \<Rightarrow> go_error option"
  nt_do :: "http_call \<Rightarrow> http_answer result"
  nt_json_user :: "auth_user \<Rightarrow> string result"
  nt_json_token :: "string \<Rightarrow> string result"

text \<open>The documented behaviour of the client: without an HTTP scheme in the URL a
  request cannot be made.\<close>

definition client_needs_scheme :: "net \<Rightarrow> bool" where
  "client_needs_scheme N = (\<forall>c. \<not> has_prefix (hc_url c) ''http://'' \<and> \<not> has_prefix (hc_url c) ''https://'' \<longrightarrow>
     nt_request_error N (hc_url c) \<noteq> None \<or> \<not> is_ok (nt_do N c))"

section \<open>The host\<close>

record host =
  ho_actor_iri :: url
  ho_actor_id :: string
  ho_token :: string
  ho_instance_id :: uuid

definition preferred_name_from_actor :: "url \<Rightarrow> string" where
  "preferred_name_from_actor iri =
     (let path = split_on (CHR ''/'') (ur_path iri) in if length path = 0 then ''shig'' else path ! (length path - 1))"

definition new_host :: "(string \<Rightarrow> uuid) \<Rightarrow> url \<Rightarrow> string \<Rightarrow> host" where
  "new_host instance_id iri token =
     (let actor_id = preferred_name_from_actor iri @ ''@'' @ ur_host iri
      in \<lparr> ho_actor_iri = iri, ho_actor_id = actor_id, ho_token = token, ho_instance_id = instance_id actor_id \<rparr>)"

definition get_user :: "host \<Rightarrow> auth_user" where
  "get_user h = \<lparr> au_user_id = ho_actor_id h, au_token = ho_token h, au_client = [] \<rparr>"

section \<open>The client of the host's interface\<close>

record api_client =
  cl_login :: host
  cl_space :: string
  cl_stream :: string
  cl_url :: string
  cl_bearer :: string

definition new_api_client :: "host \<Rightarrow> string \<Rightarrow> string \<Rightarrow> string \<Rightarrow> api_client" where
  "new_api_client login shig_url space stream =
     \<lparr> cl_login = login, cl_space = space, cl_stream = stream, cl_url = shig_url, cl_bearer = [] \<rparr>"

definition get_bearer :: "api_client \<Rightarrow> string" where "get_bearer a = cl_bearer a"
definition set_bearer :: "string \<Rightarrow> api_client \<Rightarrow> api_client" where "set_bearer b a = a\<lparr> cl_bearer := b \<rparr>"

definition login_call :: "api_client \<Rightarrow> string \<Rightarrow> http_call" where
  "login_call a body =
     \<lparr> hc_method = ''POST'', hc_url = cl_url a @ ''/authenticate'',
       hc_headers = [(''Accept'', ''application/json''), (''Content-Type'', ''application/json''),
                     (''Content-Length'', show_nat (length body))],
       hc_body = body \<rparr>"

definition login :: "net \<Rightarrow> api_client \<Rightarrow> string result \<times> api_client" where
  "login N a =
     (case nt_json_user N (get_user (cl_login a)) of
        Inl e \<Rightarrow> (Inl (Wrap ''creating json object: '' e), a)
      | Inr body \<Rightarrow>
          (case nt_request_error N (hc_url (login_call a body)) of
             Some e \<Rightarrow> (Inl (Wrap ''create login request: '' e), a)
           | None \<Rightarrow>
               (case nt_do N (login_call a body) of
                  Inl e \<Rightarrow> (Inl (Wrap ''doing request: '' e), a)
                | Inr resp \<Rightarrow>
                    if ha_code resp \<noteq> 200
                    then (Inl (Err (''server answer with wrong status code '' @ ha_status resp)), a)
                    else (case ha_body resp of
                            Inl e \<Rightarrow> (Inl (Wrap ''reading response from start req: '' e), a)
                          | Inr text \<Rightarrow>
                              (case nt_json_token N text of
                                 Inl _ \<Rightarrow> (Inl (Err ''unmarshaling data from request.''), a)
                               | Inr jwt \<Rightarrow> (Inr jwt, set_bearer (''Bearer '' @ jwt) a))))))"

definition offer_call :: "api_client \<Rightarrow> string \<Rightarrow> session_description \<Rightarrow> http_call" where
  "offer_call a req_url offer =
     \<lparr> hc_method = ''POST'', hc_url = req_url,
       hc_headers = [(''Accept'', ''application/sdp''), (''Content-Type'', ''application/sdp''),
                     (''Content-Length'', show_nat (length (sd_sdp offer))), (''Authorization'', get_bearer a)],
       hc_body = sd_sdp offer \<rparr>"

definition do_offer_request :: "net \<Rightarrow> api_client \<Rightarrow> string \<Rightarrow> session_description \<Rightarrow> session_description result" where
  "do_offer_request N a req_url offer =
     (case nt_request_error N req_url of
        Some e \<Rightarrow> Inl (Wrap ''requesting answer: '' e)
      | None \<Rightarrow>
          (case nt_do N (offer_call a req_url offer) of
             Inl e \<Rightarrow> Inl (Wrap ''requesting answer: '' e)
           | Inr resp \<Rightarrow>
               if ha_status resp \<noteq> ''201 Created''
               then Inl (Err (''server answer with wrong status code '' @ ha_status resp))
               else (case ha_body resp of
                       Inl e \<Rightarrow> Inl (Wrap ''reading sdp answer from response body: '' e)
                     | Inr text \<Rightarrow> Inr \<lparr> sd_type = SdpAnswer, sd_sdp = text \<rparr>)))"

definition post_whep_offer :: "net \<Rightarrow> api_client \<Rightarrow> session_description \<Rightarrow> session_description result" where
  "post_whep_offer N a offer =
     do_offer_request N a (cl_url a @ ''/fed/space/'' @ cl_space a @ ''/stream/'' @ cl_stream a @ ''/whep'') offer"

definition post_whip_offer :: "net \<Rightarrow> api_client \<Rightarrow> session_description \<Rightarrow> session_description result" where
  "post_whip_offer N a offer =
     do_offer_request N a (cl_url a @ ''/fed/space/'' @ cl_space a @ ''/stream/'' @ cl_stream a @ ''/whip'') offer"

section \<open>The connector\<close>

record connector =
  cn_home :: url
  cn_api :: api_client
  cn_host :: host
  cn_space :: string
  cn_live :: string

definition new_connector :: "(string \<Rightarrow> uuid) \<Rightarrow> url \<Rightarrow> url \<Rightarrow> string \<Rightarrow> string \<Rightarrow> string \<Rightarrow> connector" where
  "new_connector instance_id home host_iri space live token =
     (let h = new_host instance_id host_iri token
      in \<lparr> cn_home = home, cn_api = new_api_client h (ur_host host_iri) space live, cn_host = h,
           cn_space = space, cn_live = live \<rparr>)"

text \<open>The context of a command is made here, and cancelled when the builder
  returns.\<close>

definition build_ingress :: "net \<Rightarrow> connector \<Rightarrow> command result \<times> connector" where
  "build_ingress N c =
     (case login N (cn_api c) of
        (Inl e, api) \<Rightarrow> (Inl (Wrap ''login to remote host: '' e), c\<lparr> cn_api := api \<rparr>)
      | (Inr _, api) \<Rightarrow>
          (Inr (new_offer_ingress True (post_whep_offer N api) (ho_instance_id (cn_host c)) bidirectional_signal_channel),
           c\<lparr> cn_api := api \<rparr>))"

definition build_egress :: "net \<Rightarrow> connector \<Rightarrow> command result \<times> connector" where
  "build_egress N c =
     (case login N (cn_api c) of
        (Inl e, api) \<Rightarrow> (Inl (Wrap ''login to remote host: '' e), c\<lparr> cn_api := api \<rparr>)
      | (Inr _, api) \<Rightarrow>
          (Inr (new_offer_egress True (post_whip_offer N api) (ho_instance_id (cn_host c)) bidirectional_signal_channel),
           c\<lparr> cn_api := api \<rparr>))"

definition is_this_instance_live_stream_host :: "connector \<Rightarrow> bool" where
  "is_this_instance_live_stream_host c = (url_string (cn_home c) = url_string (ho_actor_iri (cn_host c)))"

definition get_instance_id :: "connector \<Rightarrow> uuid" where "get_instance_id c = ho_instance_id (cn_host c)"

section \<open>Host settings\<close>

record host_settings =
  hs_url :: "url option"
  hs_space :: string
  hs_stream :: string
  hs_is_host :: bool
  hs_instance_id :: uuid
  hs_name :: string
  hs_token :: string

definition is_same_shig_instance :: "string \<Rightarrow> string \<Rightarrow> bool" where
  "is_same_shig_instance stream_host instance_actor = (instance_actor = stream_host)"

text \<open>The error of parsing the host is dropped; the parts of a URL that could not be
  parsed are then read.\<close>

definition new_host_settings ::
  "net \<Rightarrow> (string \<Rightarrow> uuid) \<Rightarrow> string \<Rightarrow> string \<Rightarrow> string \<Rightarrow> url \<Rightarrow> string \<Rightarrow> host_settings outcome" where
  "new_host_settings N instance_id host space stream home token =
     (case nt_parse_url N host of
        None \<Rightarrow> Panic
      | Some actor \<Rightarrow>
          (let actor_id = ''shig'' @ ''@'' @ ur_host home
           in Ret \<lparr> hs_url = nt_parse_url N (ur_scheme actor @ ''://'' @ ur_host actor), hs_space = space,
                    hs_stream = stream, hs_is_host = is_same_shig_instance host (url_string home),
                    hs_instance_id = instance_id actor_id, hs_name = actor_id, hs_token = token \<rparr>))"

section \<open>Lemmas\<close>

lemma slash_free_unique:
  assumes "c \<notin> set a" "c \<notin> set b" "a @ c # s = b @ c # t"
  shows "a = b \<and> s = t"
proof -
  have "takeWhile (\<lambda>x. x \<noteq> c) (a @ c # s) = a" "takeWhile (\<lambda>x. x \<noteq> c) (b @ c # t) = b"
    using assms(1,2) by (subst takeWhile_append2; auto)+
  then show ?thesis using assms(3) by simp
qed

lemma no_scheme_in_host_path:
  assumes "CHR ''/'' \<notin> set h"
  shows "\<not> has_prefix (h @ ''/authenticate'') ''http://''" "\<not> has_prefix (h @ ''/authenticate'') ''https://''"
proof -
  show "\<not> has_prefix (h @ ''/authenticate'') ''http://''"
  proof
    assume "has_prefix (h @ ''/authenticate'') ''http://''"
    then obtain t where "h @ CHR ''/'' # ''authenticate'' = ''http:'' @ CHR ''/'' # CHR ''/'' # t"
      by (auto simp: has_prefix_iff)
    from slash_free_unique[OF assms _ this] show False by simp
  qed
  show "\<not> has_prefix (h @ ''/authenticate'') ''https://''"
  proof
    assume "has_prefix (h @ ''/authenticate'') ''https://''"
    then obtain t where "h @ CHR ''/'' # ''authenticate'' = ''https:'' @ CHR ''/'' # CHR ''/'' # t"
      by (auto simp: has_prefix_iff)
    from slash_free_unique[OF assms _ this] show False by simp
  qed
qed

lemma login_without_scheme:
  assumes "client_needs_scheme N" "CHR ''/'' \<notin> set (cl_url a)"
  shows "\<exists>e. login N a = (Inl e, a)"
proof -
  have u: "hc_url (login_call a b) = cl_url a @ ''/authenticate''" for b by (simp add: login_call_def)
  have q: "nt_request_error N (hc_url (login_call a b)) \<noteq> None \<or> \<not> is_ok (nt_do N (login_call a b))" for b
    using assms(1)[unfolded client_needs_scheme_def, rule_format, of "login_call a b"]
      no_scheme_in_host_path[OF assms(2)] unfolding u by blast
  have r: "\<exists>e. nt_do N (login_call a b) = Inl e" if "nt_request_error N (hc_url (login_call a b)) = None" for b
    using q[of b] that unfolding is_ok_iff by (cases "nt_do N (login_call a b)") auto
  show ?thesis
  proof (cases "nt_json_user N (get_user (cl_login a))")
    case (Inr b)
    then show ?thesis using r[of b]
      by (cases "nt_request_error N (hc_url (login_call a b))") (auto simp: login_def)
  qed (simp add: login_def)
qed

lemma new_connector_simps [simp]:
  "cl_url (cn_api (new_connector f home iri space live token)) = ur_host iri"
  "get_instance_id (new_connector f home iri space live token) = f (preferred_name_from_actor iri @ ''@'' @ ur_host iri)"
  by (simp_all add: new_connector_def new_api_client_def get_instance_id_def new_host_def Let_def)

lemma build_without_scheme:
  fixes f home iri space live token
  assumes "client_needs_scheme N" "CHR ''/'' \<notin> set (ur_host iri)"
  defines "c \<equiv> new_connector f home iri space live token"
  shows "\<exists>e. build_ingress N c = (Inl e, c)" "\<exists>e. build_egress N c = (Inl e, c)"
proof -
  obtain e where "login N (cn_api c) = (Inl e, cn_api c)"
    using login_without_scheme[OF assms(1), of "cn_api c"] assms(2) by (auto simp: c_def)
  then show "\<exists>e. build_ingress N c = (Inl e, c)" "\<exists>e. build_egress N c = (Inl e, c)"
    by (simp_all add: build_ingress_def build_egress_def)
qed

section \<open>Properties\<close>

text \<open>The connector is given the host of the remote actor without its scheme, so
  no login can be made and neither command of the connection is ever built; and
  a command it would build has a context that is already cancelled.\<close>

theorem connector_never_connects:
  "(client_needs_scheme N \<and> CHR ''/'' \<notin> set (ur_host iri) \<longrightarrow>
      \<not> is_ok (fst (build_ingress N (new_connector f home iri space live token))) \<and>
      \<not> is_ok (fst (build_egress N (new_connector f home iri space live token)))) \<and>
   (\<forall>c cmd c'. build_ingress N c = (Inr cmd, c') \<or> build_egress N c = (Inr cmd, c') \<longrightarrow> co_ctx_done cmd)"
proof (intro conjI impI allI)
  assume "client_needs_scheme N \<and> CHR ''/'' \<notin> set (ur_host iri)"
  then show "\<not> is_ok (fst (build_ingress N (new_connector f home iri space live token)))"
    "\<not> is_ok (fst (build_egress N (new_connector f home iri space live token)))"
    using build_without_scheme[of N iri f home space live token] by auto
next
  fix c cmd c'
  assume "build_ingress N c = (Inr cmd, c') \<or> build_egress N c = (Inr cmd, c')"
  then show "co_ctx_done cmd"
    by (auto simp: build_ingress_def build_egress_def new_offer_ingress_def new_offer_egress_def new_command_def
        split: prod.splits sum.splits)
qed

text \<open>A network in which every well formed request is answered.\<close>

definition sample_net :: "net" where
  "sample_net = \<lparr> nt_parse_url = (\<lambda>s. Some \<lparr> ur_scheme = ''https'', ur_host = s, ur_path = [], ur_rest = [] \<rparr>),
     nt_request_error = (\<lambda>_. None),
     nt_do = (\<lambda>c. if has_prefix (hc_url c) ''http://'' \<or> has_prefix (hc_url c) ''https://''
                  then Inr \<lparr> ha_code = 200, ha_status = ''201 Created'', ha_body = Inr ''jwt'' \<rparr>
                  else Inl (Err ''unsupported protocol scheme'')),
     nt_json_user = (\<lambda>_. Inr ''{}''), nt_json_token = Inr \<rparr>"

lemma sample_net_ok: "client_needs_scheme sample_net"
  by (simp add: client_needs_scheme_def sample_net_def)

definition sample_iri :: url where
  "sample_iri = \<lparr> ur_scheme = ''https'', ur_host = ''remote.org'', ur_path = ''/accounts/shig'', ur_rest = [] \<rparr>"

lemma connector_never_connects_witness:
  "\<not> is_ok (fst (build_ingress sample_net (new_connector (\<lambda>_. 5) sample_iri sample_iri ''s'' ''l'' ''t'')))"
  by (rule connector_never_connects[THEN conjunct1, THEN mp, THEN conjunct1])
    (simp add: sample_net_ok sample_iri_def)

text \<open>After a login the client presents the token it got: an offer goes to the
  stream's path with that token and the offer as the body, and is answered only
  by a response that says it created the resource, with the response's body.\<close>

theorem offer_presents_login_token:
  assumes "login N a = (Inr jwt, a')"
  shows "a' = a\<lparr> cl_bearer := ''Bearer '' @ jwt \<rparr> \<and>
    (\<forall>offer answer. post_whip_offer N a' offer = Inr answer \<longrightarrow>
      (\<exists>c resp. nt_do N c = Inr resp \<and> hc_method c = ''POST'' \<and> hc_body c = sd_sdp offer \<and>
         hc_url c = cl_url a @ ''/fed/space/'' @ cl_space a @ ''/stream/'' @ cl_stream a @ ''/whip'' \<and>
         map_of (hc_headers c) ''Authorization'' = Some (''Bearer '' @ jwt) \<and>
         ha_status resp = ''201 Created'' \<and> ha_body resp = Inr (sd_sdp answer) \<and> sd_type answer = SdpAnswer))"
proof (intro conjI allI impI)
  show a': "a' = a\<lparr> cl_bearer := ''Bearer '' @ jwt \<rparr>"
    using assms by (auto simp: login_def set_bearer_def split: sum.splits option.splits if_splits)
  fix offer answer
  assume o': "post_whip_offer N a' offer = Inr answer"
  let ?c = "offer_call a' (cl_url a' @ ''/fed/space/'' @ cl_space a' @ ''/stream/'' @ cl_stream a' @ ''/whip'') offer"
  obtain resp b where "nt_do N ?c = Inr resp" "ha_status resp = ''201 Created''" "ha_body resp = Inr b"
    "answer = \<lparr> sd_type = SdpAnswer, sd_sdp = b \<rparr>"
    using o' by (auto simp: post_whip_offer_def do_offer_request_def split: option.splits sum.splits if_splits)
  then show "\<exists>c resp. nt_do N c = Inr resp \<and> hc_method c = ''POST'' \<and> hc_body c = sd_sdp offer \<and>
         hc_url c = cl_url a @ ''/fed/space/'' @ cl_space a @ ''/stream/'' @ cl_stream a @ ''/whip'' \<and>
         map_of (hc_headers c) ''Authorization'' = Some (''Bearer '' @ jwt) \<and>
         ha_status resp = ''201 Created'' \<and> ha_body resp = Inr (sd_sdp answer) \<and> sd_type answer = SdpAnswer"
    by (intro exI[of _ ?c] exI[of _ resp]) (simp add: offer_call_def a' get_bearer_def)
qed

lemma offer_presents_login_token_witness:
  "\<exists>a'. login sample_net (new_api_client (new_host (\<lambda>_. 5) sample_iri ''t'') ''https://remote.org'' ''s'' ''l'') = (Inr ''jwt'', a') \<and>
     cl_bearer a' = ''Bearer jwt''"
proof -
  let ?a = "new_api_client (new_host (\<lambda>_. 5) sample_iri ''t'') ''https://remote.org'' ''s'' ''l''"
  have "fst (login sample_net ?a) = Inr ''jwt''"
    by (simp add: login_def sample_net_def login_call_def new_api_client_def has_prefix_def)
  then obtain a' where a': "login sample_net ?a = (Inr ''jwt'', a')" by (cases "login sample_net ?a") auto
  from offer_presents_login_token[OF a'] a' show ?thesis by auto
qed

end
