(* ===== verification/Iri.thy ===== *)
theory Iri
  imports Federation
begin

text \<open>
  The addresses of an instance (\<^verbatim>\<open>internal/activitypub/instance/iri.go\<close>,
  \<^verbatim>\<open>property.go\<close>) with the functions of \<^verbatim>\<open>path\<close> and \<^verbatim>\<open>net/url\<close>
  they use.  A path is held the way it is printed, so its segments are the ones
  that need no escaping; URL parsing is the parameter of the federation theory.
\<close>

section \<open>Joining paths\<close>

text \<open>\<^verbatim>\<open>path.Clean\<close> of a rooted path, on its segments.\<close>

fun clean_segments :: "string list \<Rightarrow> string list \<Rightarrow> string list" where
  "clean_segments acc [] = rev acc"
| "clean_segments acc (s # ss) =
     (if s = [] \<or> s = ''.'' then clean_segments acc ss
      else if s = ''..'' then clean_segments (tl acc) ss
      else clean_segments (s # acc) ss)"

definition rooted :: "string list \<Rightarrow> string" where
  "rooted ss = (if ss = [] then ''/'' else concat (map (\<lambda>s. CHR ''/'' # s) ss))"

definition path_join :: "string list \<Rightarrow> string" where
  "path_join es = rooted (clean_segments [] (concat (map (split_on (CHR ''/'')) es)))"

definition ends_with_slash :: "string \<Rightarrow> bool" where
  "ends_with_slash s = (s \<noteq> [] \<and> last s = CHR ''/'')"

text \<open>\<^verbatim>\<open>URL.JoinPath\<close>: a relative path stays relative, a last slash is kept.\<close>

definition join_path :: "url \<Rightarrow> string list \<Rightarrow> url" where
  "join_path u es =
     (let p = path_join (ur_path u # es);
          p = (if has_prefix (ur_path u) ''/'' then p else drop 1 p);
          p = (if ends_with_slash (last (ur_path u # es)) \<and> \<not> ends_with_slash p then p @ ''/'' else p)
      in u\<lparr> ur_path := p \<rparr>)"

section \<open>The addresses\<close>

text \<open>The joined address is printed and parsed; the error is dropped, so the result
  may be nil.\<close>

definition reparse :: "net \<Rightarrow> url \<Rightarrow> url option" where
  "reparse N u = nt_parse_url N (url_string u)"

definition build_account_iri :: "net \<Rightarrow> url \<Rightarrow> string \<Rightarrow> url option" where
  "build_account_iri N u account = reparse N (join_path u [''federation'', ''accounts'', account])"
definition build_inbox_iri :: "net \<Rightarrow> url \<Rightarrow> url option" where
  "build_inbox_iri N u = reparse N (join_path u [''inbox''])"
definition build_shared_inbox_iri :: "net \<Rightarrow> url \<Rightarrow> url option" where
  "build_shared_inbox_iri N u = reparse N (join_path u [''federation'', ''inbox''])"
definition build_outbox_iri :: "net \<Rightarrow> url \<Rightarrow> url option" where
  "build_outbox_iri N u = reparse N (join_path u [''outbox''])"
definition build_followers_iri :: "net \<Rightarrow> url \<Rightarrow> url option" where
  "build_followers_iri N u = reparse N (join_path u [''followers''])"
definition build_following_iri :: "net \<Rightarrow> url \<Rightarrow> url option" where
  "build_following_iri N u = reparse N (join_path u [''following''])"
definition build_stream_url_iri :: "net \<Rightarrow> url \<Rightarrow> url option" where
  "build_stream_url_iri N u = reparse N (join_path u [''hls'', ''stream.m3u8''])"
definition build_resource_iri :: "net \<Rightarrow> url \<Rightarrow> string \<Rightarrow> url option" where
  "build_resource_iri N u p = reparse N (join_path u [''federation'', p])"

text \<open>The last segment is a fresh random UUID.\<close>

definition build_follow_activity_iri :: "net \<Rightarrow> string \<Rightarrow> url \<Rightarrow> url option" where
  "build_follow_activity_iri N new_uuid u = reparse N (join_path u [''federation'', ''follow'', new_uuid])"

text \<open>The regular expression has no anchor at its end.\<close>

definition is_hex_or_dash :: "char \<Rightarrow> bool" where
  "is_hex_or_dash c = (c \<in> set ''0123456789abcdefABCDEF-'')"

definition is_follow_activity_iri :: "url \<Rightarrow> bool" where
  "is_follow_activity_iri u =
     (has_prefix (ur_path u) ''/federation/follow/'' \<and>
      (let rest = drop (length ''/federation/follow/'') (ur_path u)
       in length rest \<ge> 36 \<and> list_all is_hex_or_dash (take 36 rest)))"

record property =
  pp_url :: "url option"
  pp_username :: string
  pp_server :: string

definition protocol_of :: "bool \<Rightarrow> string" where
  "protocol_of https = (if https then ''https'' else ''http'')"

definition new_property :: "net \<Rightarrow> bool \<Rightarrow> string \<Rightarrow> string \<Rightarrow> string \<Rightarrow> property" where
  "new_property N https domain username server =
     \<lparr> pp_url = nt_parse_url N (protocol_of https @ ''://'' @ domain), pp_username = username, pp_server = server \<rparr>"

section \<open>Lemmas\<close>

definition plain_segment :: "string \<Rightarrow> bool" where
  "plain_segment s = (s \<noteq> [] \<and> s \<noteq> ''.'' \<and> s \<noteq> ''..'' \<and> CHR ''/'' \<notin> set s)"

lemma plain_segmentD:
  assumes "plain_segment s"
  shows "s \<noteq> []" "s \<noteq> ''.''" "s \<noteq> ''..''" "split_on (CHR ''/'') s = [s]"
  using assms by (auto simp: plain_segment_def split_on_free)

lemma clean_segments_app:
  "\<forall>s\<in>set ss. s \<noteq> [] \<and> s \<noteq> ''.'' \<and> s \<noteq> ''..'' \<Longrightarrow> clean_segments acc (ss @ ts) = clean_segments (rev ss @ acc) ts"
  by (induction ss arbitrary: acc) auto

lemma clean_segments_clean: "\<forall>s\<in>set (clean_segments acc ss). s \<in> set acc \<or> (s \<noteq> [] \<and> s \<noteq> ''.'' \<and> s \<noteq> ''..'')"
proof (induction acc ss rule: clean_segments.induct)
  case (2 acc s ss)
  have "set (tl acc) \<subseteq> set acc" by (cases acc) auto
  then show ?case using 2 by (auto split: if_splits)
qed auto

lemma path_join_plain:
  assumes "\<forall>s\<in>set ss. plain_segment s"
  shows "path_join ([] # ss) = rooted ss"
proof -
  have "concat (map (split_on (CHR ''/'')) ss) = ss"
    using assms by (induction ss) (auto dest: plain_segmentD(4))
  moreover have "clean_segments [] (ss @ []) = ss"
    using assms by (subst clean_segments_app) (auto dest: plain_segmentD)
  ultimately show ?thesis by (simp add: path_join_def)
qed

text \<open>An address under the bare URL of an instance.\<close>

lemma rooted_last:
  assumes "ss \<noteq> []" "plain_segment (last ss)"
  shows "\<not> ends_with_slash (rooted ss)" "\<not> ends_with_slash (last ss)"
proof -
  have l: "last ss \<noteq> []" "CHR ''/'' \<notin> set (last ss)" using assms(2) by (auto simp: plain_segment_def)
  then have n: "last (last ss) \<noteq> CHR ''/''" by (metis last_in_set)
  obtain ts where "ss = ts @ [last ss]" using assms(1) by (metis append_butlast_last_id)
  then have r: "rooted ss = concat (map (\<lambda>s. CHR ''/'' # s) ts) @ CHR ''/'' # last ss"
    unfolding rooted_def by (metis append_is_Nil_conv concat.simps concat_append list.simps(8,9) map_append not_Cons_self2 append_Nil2)
  then show "\<not> ends_with_slash (rooted ss)" "\<not> ends_with_slash (last ss)"
    using l(1) n unfolding r by (auto simp: ends_with_slash_def)
qed

lemma drop_rooted: "ss \<noteq> [] \<Longrightarrow> CHR ''/'' # drop 1 (rooted ss) = rooted ss"
  by (cases ss) (auto simp: rooted_def)

lemma join_path_bare:
  assumes "ur_path u = []" "ss \<noteq> []" "\<forall>s\<in>set ss. plain_segment s"
  shows "join_path u ss = u\<lparr> ur_path := drop 1 (rooted ss) \<rparr>"
  using assms rooted_last[of ss] path_join_plain[OF assms(3)]
  by (auto simp: join_path_def has_prefix_def Let_def)

lemma join_path_bare_string:
  assumes "ur_path u = []" "ss \<noteq> []" "\<forall>s\<in>set ss. plain_segment s" "ur_host u \<noteq> []"
  shows "url_string (join_path u ss) = url_string (u\<lparr> ur_path := rooted ss \<rparr>)"
proof -
  obtain s ts where ss: "ss = s # ts" using assms(2) by (cases ss) auto
  then obtain c cs where s: "s = c # cs" "c \<noteq> CHR ''/''"
    using assms(3) by (cases s) (auto simp: plain_segment_def)
  show ?thesis
    unfolding join_path_bare[OF assms(1-3)] using assms(4) s
    by (simp add: url_string_def rooted_def ss)
qed

text \<open>What an instance's addresses need of the parser: a printed absolute address is
  parsed to what was printed.  A parser of this form is given for the examples.\<close>

definition absolute_url :: "url \<Rightarrow> bool" where
  "absolute_url u =
     (ur_scheme u \<noteq> [] \<and> CHR '':'' \<notin> set (ur_scheme u) \<and>
      ur_host u \<noteq> [] \<and> set (ur_host u) \<inter> set ''/?#'' = {} \<and>
      has_prefix (ur_path u) ''/'' \<and> set (ur_path u) \<inter> set ''?#'' = {} \<and> ur_rest u = [])"

definition parses_printed :: "net \<Rightarrow> bool" where
  "parses_printed N = (\<forall>u. absolute_url u \<longrightarrow> nt_parse_url N (url_string u) = Some u)"

definition simple_parse_url :: "string \<Rightarrow> url option" where
  "simple_parse_url s =
     (let scheme = takeWhile (\<lambda>c. c \<noteq> CHR '':'') s; r = drop (length scheme) s in
      if \<not> has_prefix r ''://'' then None
      else let r = drop 3 r; host = takeWhile (\<lambda>c. c \<notin> set ''/?#'') r; r = drop (length host) r;
               path = takeWhile (\<lambda>c. c \<notin> set ''?#'') r
           in Some \<lparr> ur_scheme = scheme, ur_host = host, ur_path = path, ur_rest = drop (length path) r \<rparr>)"

lemma takeWhile_stop: "\<forall>c\<in>set a. P c \<Longrightarrow> b = [] \<or> \<not> P (hd b) \<Longrightarrow> takeWhile P (a @ b) = a"
  by (cases b) auto

lemma simple_parse_printed:
  assumes "absolute_url u" shows "simple_parse_url (url_string u) = Some u"
proof -
  obtain p where p: "ur_path u = CHR ''/'' # p"
    using assms by (auto simp: absolute_url_def has_prefix_iff)
  have s: "url_string u = ur_scheme u @ (''://'' @ ur_host u @ ur_path u)"
    using assms p by (simp add: url_string_def absolute_url_def)
  have "takeWhile (\<lambda>c. c \<noteq> CHR '':'') (url_string u) = ur_scheme u"
    unfolding s using assms by (intro takeWhile_stop) (auto simp: absolute_url_def)
  moreover have "takeWhile (\<lambda>c. c \<notin> set ''/?#'') (ur_host u @ ur_path u) = ur_host u"
    using assms p by (intro takeWhile_stop) (auto simp: absolute_url_def)
  moreover have t: "takeWhile (\<lambda>c. c \<noteq> CHR ''?'' \<and> c \<noteq> CHR ''#'') (ur_path u) = ur_path u"
    using assms by (intro takeWhile_eq_all_conv[THEN iffD2]) (auto simp: absolute_url_def)
  ultimately show ?thesis
    using assms by (simp add: simple_parse_url_def s has_prefix_def absolute_url_def Let_def t del: takeWhile_eq_all_conv)
qed

lemma reparse_bare:
  assumes "parses_printed N" "absolute_url (u\<lparr> ur_path := ''/'' \<rparr>)" "ur_path u = []" "ss \<noteq> []"
    and "\<forall>s\<in>set ss. plain_segment s \<and> set s \<inter> set ''?#'' = {}"
  shows "reparse N (join_path u ss) = Some (u\<lparr> ur_path := rooted ss \<rparr>)"
proof -
  have pl: "\<forall>s\<in>set ss. plain_segment s" using assms(5) by blast
  have "set (rooted ss) \<inter> set ''?#'' = {}" using assms(5) by (auto simp: rooted_def)
  moreover have "has_prefix (rooted ss) ''/''" using assms(4) by (cases ss) (auto simp: rooted_def has_prefix_def)
  ultimately have "absolute_url (u\<lparr> ur_path := rooted ss \<rparr>)" using assms(2) by (simp add: absolute_url_def)
  moreover have "ur_host u \<noteq> []" using assms(2) by (simp add: absolute_url_def)
  ultimately show ?thesis
    using assms(1) join_path_bare_string[OF assms(3,4) pl] by (simp add: reparse_def parses_printed_def)
qed

section \<open>Properties\<close>

definition uuid_shaped :: "string \<Rightarrow> bool" where
  "uuid_shaped s = (length s = 36 \<and> list_all is_hex_or_dash s)"

lemma uuid_shaped_plain: "uuid_shaped s \<Longrightarrow> plain_segment s \<and> set s \<inter> set ''?#'' = {}"
proof -
  assume u: "uuid_shaped s"
  have "\<not> is_hex_or_dash CHR ''/''" "\<not> is_hex_or_dash CHR ''?''" "\<not> is_hex_or_dash CHR ''#''"
    by (simp_all add: is_hex_or_dash_def)
  then have "CHR ''/'' \<notin> set s" "CHR ''?'' \<notin> set s" "CHR ''#'' \<notin> set s"
    using u unfolding uuid_shaped_def list_all_iff by blast+
  then show ?thesis using u by (auto simp: uuid_shaped_def plain_segment_def)
qed

text \<open>The instance recognises the address of every follow it asked for when the
  other side accepts it, as long as its own URL has no path.\<close>

theorem own_follow_recognised:
  assumes "parses_printed N" "absolute_url (u\<lparr> ur_path := ''/'' \<rparr>)" "ur_path u = []" "uuid_shaped new_uuid"
  shows "\<exists>iri. build_follow_activity_iri N new_uuid u = Some iri \<and> is_follow_activity_iri iri \<and>
    ur_host iri = ur_host u \<and> ur_path iri = ''/federation/follow/'' @ new_uuid"
proof -
  have "\<forall>s\<in>set [''federation'', ''follow'', new_uuid]. plain_segment s \<and> set s \<inter> set ''?#'' = {}"
    using uuid_shaped_plain[OF assms(4)] by (simp add: plain_segment_def)
  from reparse_bare[OF assms(1-3) _ this] show ?thesis
    using assms(4) by (auto simp: build_follow_activity_iri_def is_follow_activity_iri_def rooted_def
      has_prefix_def uuid_shaped_def)
qed

definition iri_net :: net where
  "iri_net = sample_net\<lparr> nt_parse_url := simple_parse_url \<rparr>"

lemma iri_net_ok: "parses_printed iri_net"
  by (simp add: iri_net_def parses_printed_def simple_parse_printed)

definition home_url :: url where
  "home_url = \<lparr> ur_scheme = ''http'', ur_host = ''localhost:8080'', ur_path = [], ur_rest = [] \<rparr>"

lemma home_url_ok: "absolute_url (home_url\<lparr> ur_path := ''/'' \<rparr>)" "ur_path home_url = []"
  by (simp_all add: home_url_def absolute_url_def has_prefix_def)

lemma own_follow_recognised_witness:
  "\<exists>iri. build_follow_activity_iri iri_net ''38d45114-f79b-41be-9fbd-655ccf52e276'' home_url = Some iri \<and>
     is_follow_activity_iri iri"
  using own_follow_recognised[OF iri_net_ok home_url_ok, of "''38d45114-f79b-41be-9fbd-655ccf52e276''"]
  by (auto simp: uuid_shaped_def is_hex_or_dash_def)

end
