(* ===== verification/Actors.thy ===== *)
theory Actors
  imports Iri
begin

text \<open>
  The entities of the federation and their repositories
  (\<^verbatim>\<open>internal/activitypub/models\<close>): actors, follows, instances and videos.
  The tables belong to the database library and are parameters; a query that
  starts from a struct passes that struct, as the code does.
\<close>

section \<open>Entities\<close>

record actor =
  at_id :: nat
  at_type :: string
  at_public_key :: string
  at_private_key :: string
  at_iri :: string
  at_following :: string
  at_followers :: string
  at_inbox :: string
  at_outbox :: string
  at_shared_inbox :: string
  at_name :: string

definition no_actor :: actor where
  "no_actor = \<lparr> at_id = 0, at_type = [], at_public_key = [], at_private_key = [], at_iri = [], at_following = [],
     at_followers = [], at_inbox = [], at_outbox = [], at_shared_inbox = [], at_name = [] \<rparr>"

datatype actor_type = Person | Group | Organization | Application | Service | Bot

fun actor_type_string :: "actor_type \<Rightarrow> string" where
  "actor_type_string Person = ''Person''"
| "actor_type_string Group = ''Group''"
| "actor_type_string Organization = ''Organization''"
| "actor_type_string Application = ''Application''"
| "actor_type_string Service = ''Service''"
| "actor_type_string Bot = ''Bot''"

definition actor_type_from_string :: "string \<Rightarrow> actor_type" where
  "actor_type_from_string s =
     (let l = to_lower s in
      if l = ''person'' then Person else if l = ''group'' then Group
      else if l = ''organization'' then Organization else if l = ''application'' then Application
      else if l = ''service'' then Service else Bot)"

definition get_actor_type :: "actor \<Rightarrow> actor_type" where "get_actor_type a = actor_type_from_string (at_type a)"

text \<open>The parsed addresses; the error is dropped, so each may be nil.\<close>

definition get_actor_iri :: "net \<Rightarrow> actor \<Rightarrow> url option" where "get_actor_iri N a = nt_parse_url N (at_iri a)"
definition get_inbox_iri :: "net \<Rightarrow> actor \<Rightarrow> url option" where "get_inbox_iri N a = nt_parse_url N (at_inbox a)"
definition get_outbox_iri :: "net \<Rightarrow> actor \<Rightarrow> url option" where "get_outbox_iri N a = nt_parse_url N (at_outbox a)"
definition get_shared_inbox_iri :: "net \<Rightarrow> actor \<Rightarrow> url option" where
  "get_shared_inbox_iri N a = nt_parse_url N (at_shared_inbox a)"

definition actor_at :: "net \<Rightarrow> url \<Rightarrow> url \<Rightarrow> string \<Rightarrow> string \<Rightarrow> string \<Rightarrow> actor outcome" where
  "actor_at N iri instance_url public private name =
     outcome_bind (deref (build_following_iri N iri)) (\<lambda>following.
     outcome_bind (deref (build_followers_iri N iri)) (\<lambda>followers.
     outcome_bind (deref (build_inbox_iri N iri)) (\<lambda>inbox.
     outcome_bind (deref (build_outbox_iri N iri)) (\<lambda>outbox.
     outcome_bind (deref (build_shared_inbox_iri N instance_url)) (\<lambda>shared.
       Ret \<lparr> at_id = 0, at_type = ''Application'', at_public_key = public, at_private_key = private,
             at_iri = url_string iri, at_following = url_string following, at_followers = url_string followers,
             at_inbox = url_string inbox, at_outbox = url_string outbox, at_shared_inbox = url_string shared,
             at_name = name \<rparr>)))))"

text \<open>Generating a key pair belongs to the cryptography library.\<close>

definition new_instance_actor :: "net \<Rightarrow> (string \<times> string) result \<Rightarrow> url \<Rightarrow> string \<Rightarrow> actor result outcome" where
  "new_instance_actor N keys instance_url name =
     (case keys of
        Inl _ \<Rightarrow> Ret (Inl (Err ''generation key pair''))
      | Inr (private, public) \<Rightarrow>
          outcome_bind (deref (build_account_iri N instance_url name)) (\<lambda>iri.
          outcome_bind (actor_at N iri instance_url public private name) (\<lambda>a. Ret (Inr a))))"

definition new_trusted_instance_actor :: "net \<Rightarrow> url \<Rightarrow> string \<Rightarrow> actor result outcome" where
  "new_trusted_instance_actor N iri name =
     (case nt_parse_url N (ur_scheme iri @ ''://'' @ ur_host iri) of
        None \<Rightarrow> Ret (Inl (Err ''trusted instance actor instanceUrl url''))
      | Some instance_url \<Rightarrow> outcome_bind (actor_at N iri instance_url [] [] name) (\<lambda>a. Ret (Inr a)))"

datatype follow_state = Accepted | Pending | Rejected

fun follow_state_string :: "follow_state \<Rightarrow> string" where
  "follow_state_string Accepted = ''accepted''"
| "follow_state_string Pending = ''pending''"
| "follow_state_string Rejected = ''rejected''"

record follow =
  fo_id :: nat
  fo_iri :: string
  fo_actor_id :: nat
  fo_target_id :: nat
  fo_state :: string
  fo_actor :: "actor option"
  fo_target :: "actor option"

definition no_follow :: follow where
  "no_follow = \<lparr> fo_id = 0, fo_iri = [], fo_actor_id = 0, fo_target_id = 0, fo_state = [], fo_actor = None,
     fo_target = None \<rparr>"

definition new_follow :: "net \<Rightarrow> string \<Rightarrow> url \<Rightarrow> actor \<Rightarrow> actor \<Rightarrow> follow outcome" where
  "new_follow N new_uuid instance_url a target =
     outcome_bind (deref (build_follow_activity_iri N new_uuid instance_url)) (\<lambda>iri.
       Ret \<lparr> fo_id = 0, fo_iri = url_string iri, fo_actor_id = at_id a, fo_target_id = at_id target,
             fo_state = follow_state_string Pending, fo_actor = Some a, fo_target = Some target \<rparr>)"

text \<open>The activity of a follow: its id, its actor and its object.\<close>

record follow_activity =
  fa_id :: url
  fa_actor :: url
  fa_object :: url

definition follow_to_as :: "net \<Rightarrow> follow \<Rightarrow> follow_activity result outcome" where
  "follow_to_as N f =
     outcome_bind (deref (fo_actor f)) (\<lambda>a. case nt_parse_url N (at_iri a) of
       None \<Rightarrow> Ret (Inl (Err ''followtoasfollow: error parsing origin account uri''))
     | Some origin \<Rightarrow>
         outcome_bind (deref (fo_target f)) (\<lambda>t. case nt_parse_url N (at_iri t) of
           None \<Rightarrow> Ret (Inl (Err ''followtoasfollow: error parsing target account uri''))
         | Some target \<Rightarrow>
             (case nt_parse_url N (fo_iri f) of
                None \<Rightarrow> Ret (Inl (Err ''followtoasfollow: error parsing follow uri''))
              | Some u \<Rightarrow> Ret (Inr \<lparr> fa_id = u, fa_actor = origin, fa_object = target \<rparr>))))"

record ap_instance =
  in_id :: nat
  in_actor_id :: nat
  in_actor :: "actor option"

definition new_instance :: "actor \<Rightarrow> ap_instance" where
  "new_instance a = \<lparr> in_id = 0, in_actor_id = at_id a, in_actor = Some a \<rparr>"

record video =
  vi_id :: nat
  vi_iri :: string
  vi_uuid :: string
  vi_name :: string
  vi_shig_active :: bool
  vi_instance :: "ap_instance option"
  vi_owner :: "actor option"
  vi_channel :: "actor option"
  vi_guests :: "actor list"
  vi_is_live :: bool
  vi_save_replay :: bool
  vi_permanent :: bool
  vi_latency :: "64 word"
  vi_published :: "nat option"
  vi_state :: "64 word"

definition no_video :: video where
  "no_video = \<lparr> vi_id = 0, vi_iri = [], vi_uuid = [], vi_name = [], vi_shig_active = False, vi_instance = None,
     vi_owner = None, vi_channel = None, vi_guests = [], vi_is_live = False, vi_save_replay = False,
     vi_permanent = False, vi_latency = 0, vi_published = None, vi_state = 0 \<rparr>"

section \<open>The tables\<close>

text \<open>\<^verbatim>\<open>First\<close> with a struct takes the struct; \<^verbatim>\<open>Create\<close> and \<^verbatim>\<open>Save\<close> return the
  row as it is after the call.\<close>

record 'db ap_store =
  as_actor_by_iri :: "string \<Rightarrow> 'db \<Rightarrow> actor result"
  as_first_actor :: "actor \<Rightarrow> 'db \<Rightarrow> actor result"
  as_actors_by_ids :: "nat list \<Rightarrow> 'db \<Rightarrow> actor list result"
  as_upsert_actor :: "actor \<Rightarrow> 'db \<Rightarrow> actor result \<times> 'db"
  as_first_follow :: "follow \<Rightarrow> 'db \<Rightarrow> follow result"
  as_find_follows :: "string \<Rightarrow> nat \<Rightarrow> string \<Rightarrow> 'db \<Rightarrow> follow list result"
  as_create_follow :: "follow \<Rightarrow> 'db \<Rightarrow> follow result \<times> 'db"
  as_save_follow :: "follow \<Rightarrow> 'db \<Rightarrow> follow result \<times> 'db"
  as_instance_by_actor :: "nat \<Rightarrow> 'db \<Rightarrow> ap_instance result"
  as_create_instance :: "ap_instance \<Rightarrow> 'db \<Rightarrow> ap_instance result \<times> 'db"
  as_upsert_video :: "video \<Rightarrow> 'db \<Rightarrow> video result \<times> 'db"
  as_delete_video :: "string \<Rightarrow> 'db \<Rightarrow> go_error option \<times> 'db"

text \<open>The documented behaviour of \<^verbatim>\<open>First\<close>: of the struct it is given only the
  primary key restricts the query.\<close>

definition first_uses_key :: "'db ap_store \<Rightarrow> bool" where
  "first_uses_key S =
     ((\<forall>a b db. at_id a = at_id b \<longrightarrow> as_first_actor S a db = as_first_actor S b db) \<and>
      (\<forall>f g db. fo_id f = fo_id g \<longrightarrow> as_first_follow S f db = as_first_follow S g db))"

section \<open>The actor repository\<close>

definition err_actor_not_found :: go_error where "err_actor_not_found = Err ''actor not found''"

text \<open>How every lookup of the repositories reports its error.\<close>

definition lookup_result :: "string \<Rightarrow> go_error \<Rightarrow> 'a result \<Rightarrow> 'a result" where
  "lookup_result msg not_found r =
     (case r of
        Inl e \<Rightarrow> (let err = Wrap msg e in if errors_is e err_record_not_found then Inl (Join err not_found) else Inl err)
      | Inr x \<Rightarrow> Inr x)"

definition upsert_actor :: "'db ap_store \<Rightarrow> actor \<Rightarrow> 'db \<Rightarrow> actor result \<times> 'db" where
  "upsert_actor S a db =
     (let (r, db') = as_upsert_actor S a db
      in (wrap_err (''creating actor for name '' @ at_name a @ '': '') r, db'))"

definition get_actor_for_user_name :: "'db ap_store \<Rightarrow> string \<Rightarrow> 'db \<Rightarrow> actor result" where
  "get_actor_for_user_name S name db =
     lookup_result (''finding actor for name '' @ name @ '': '') err_actor_not_found
       (as_first_actor S (no_actor\<lparr> at_name := name \<rparr>) db)"

definition get_actor_by_actor_iri :: "'db ap_store \<Rightarrow> url \<Rightarrow> 'db \<Rightarrow> actor result" where
  "get_actor_by_actor_iri S iri db =
     lookup_result (''finding actor for IRI '' @ url_string iri @ '': '') err_actor_not_found
       (as_actor_by_iri S (url_string iri) db)"

text \<open>Both kinds of address fill the same field.\<close>

definition get_actor_for_iri :: "'db ap_store \<Rightarrow> url \<Rightarrow> int \<Rightarrow> 'db \<Rightarrow> actor result" where
  "get_actor_for_iri S iri iri_type db =
     (if iri_type = 0 \<or> iri_type = 1
      then lookup_result (''finding actor for IRI '' @ url_string iri @ '': '') err_actor_not_found
             (as_first_actor S (no_actor\<lparr> at_inbox := url_string iri \<rparr>) db)
      else Inl (Err (''wrong iri type iriType: '' @ show_int iri_type)))"

definition get_all_actors_by_ids :: "'db ap_store \<Rightarrow> nat list \<Rightarrow> 'db \<Rightarrow> actor list result" where
  "get_all_actors_by_ids S ids db =
     lookup_result ''finding actors by list: '' err_actor_not_found (as_actors_by_ids S ids db)"

definition get_public_key :: "'db ap_store \<Rightarrow> url \<Rightarrow> 'db \<Rightarrow> string result" where
  "get_public_key S iri db = (case get_actor_by_actor_iri S iri db of
     Inl e \<Rightarrow> Inl (Wrap ''getting public key: '' e) | Inr a \<Rightarrow> Inr (at_public_key a))"

definition get_private_key :: "'db ap_store \<Rightarrow> url \<Rightarrow> 'db \<Rightarrow> string result" where
  "get_private_key S iri db = (case get_actor_by_actor_iri S iri db of
     Inl e \<Rightarrow> Inl (Wrap ''getting private key: '' e) | Inr a \<Rightarrow> Inr (at_private_key a))"

definition get_key_pair :: "'db ap_store \<Rightarrow> url \<Rightarrow> 'db \<Rightarrow> (string \<times> string) result" where
  "get_key_pair S iri db = (case get_actor_by_actor_iri S iri db of
     Inl e \<Rightarrow> Inl (Wrap ''getting key pair: '' e) | Inr a \<Rightarrow> Inr (at_public_key a, at_private_key a))"

section \<open>The follow repository\<close>

definition err_actor_follow_not_found :: go_error where
  "err_actor_follow_not_found = Err ''actor follow not found''"

definition follow_add :: "'db ap_store \<Rightarrow> follow \<Rightarrow> 'db \<Rightarrow> follow result \<times> 'db" where
  "follow_add S f db =
     (let (r, db') = as_create_follow S f db
      in (wrap_err (''adding new actor follows for actor '' @ show_nat (fo_actor_id f) @ '': '') r, db'))"

definition follow_update :: "'db ap_store \<Rightarrow> follow \<Rightarrow> 'db \<Rightarrow> follow result \<times> 'db" where
  "follow_update S f db =
     (let (r, db') = as_save_follow S f db
      in (wrap_err (''update actor follows for actor '' @ show_nat (fo_actor_id f) @ '': '') r, db'))"

definition get_follow_by_iri :: "'db ap_store \<Rightarrow> string \<Rightarrow> 'db \<Rightarrow> follow result" where
  "get_follow_by_iri S iri db =
     lookup_result (''finding actor follow for iri '' @ iri @ '': '') err_actor_not_found
       (as_first_follow S (no_follow\<lparr> fo_iri := iri \<rparr>) db)"

definition get_actor_follows_from_actor_id :: "'db ap_store \<Rightarrow> nat \<Rightarrow> 'db \<Rightarrow> follow list result" where
  "get_actor_follows_from_actor_id S i db =
     lookup_result (''finding actor follows for actor '' @ show_nat i @ '': '') err_actor_follow_not_found
       (as_find_follows S ''actorId = ? AND state = ?'' i ''accepted'' db)"

definition get_actor_followers :: "'db ap_store \<Rightarrow> nat \<Rightarrow> 'db \<Rightarrow> follow list result" where
  "get_actor_followers S i db =
     lookup_result (''finding follower for actor '' @ show_nat i @ '': '') err_actor_follow_not_found
       (as_find_follows S ''targetActorId = ? AND state = ?'' i ''accepted'' db)"

section \<open>The instance and the video repository\<close>

definition err_instance_not_found :: go_error where
  "err_instance_not_found = Err ''reading unknown instance from store''"

text \<open>The message of a failed creation reads the actor's address.\<close>

definition instance_upsert :: "'db ap_store \<Rightarrow> ap_instance \<Rightarrow> 'db \<Rightarrow> (ap_instance result \<times> 'db) outcome" where
  "instance_upsert S i db =
     (case as_create_instance S i db of
        (Inl e, db') \<Rightarrow>
          outcome_bind (deref (in_actor i)) (\<lambda>a.
            Ret (Inl (Wrap (''upsert instance for actor '' @ at_iri a @ '': '') e), db'))
      | (Inr x, db') \<Rightarrow> Ret (Inr x, db'))"

definition get_instance_by_actor_iri :: "'db ap_store \<Rightarrow> url \<Rightarrow> 'db \<Rightarrow> ap_instance result" where
  "get_instance_by_actor_iri S iri db =
     (case lookup_result (''finding actor for IRI '' @ url_string iri @ '': '') err_actor_not_found
             (as_actor_by_iri S (url_string iri) db) of
        Inl e \<Rightarrow> Inl e
      | Inr a \<Rightarrow> lookup_result (''finding instance by iri '' @ url_string iri @ '': '') err_instance_not_found
             (as_instance_by_actor S (at_id a) db))"

definition video_upsert :: "'db ap_store \<Rightarrow> video \<Rightarrow> 'db \<Rightarrow> video result \<times> 'db" where
  "video_upsert S v db =
     (let (r, db') = as_upsert_video S v db
      in (wrap_err (''upsert video for id '' @ show_nat (vi_id v) @ '': '') r, db'))"

definition video_delete_by_iri :: "'db ap_store \<Rightarrow> string \<Rightarrow> 'db \<Rightarrow> go_error option \<times> 'db" where
  "video_delete_by_iri S iri db =
     (case as_delete_video S iri db of
        (Some e, db') \<Rightarrow> (Some (Wrap (''delete video for iri '' @ iri @ '': '') e), db')
      | (None, db') \<Rightarrow> (None, db'))"

end
