(* ===== verification/Outbox.thy ===== *)
theory Outbox
  imports Actors
begin

text \<open>
  Speaking to other instances (\<^verbatim>\<open>internal/activitypub/crypto\<close>,
  \<^verbatim>\<open>outbox/sender.go\<close>, \<^verbatim>\<open>workerpool/outbound.go\<close>,
  \<^verbatim>\<open>remote/account.go\<close>, \<^verbatim>\<open>services/actor.go\<close>): requests signed with
  the key of a local actor, and actors made from the accounts other instances
  publish.  The signature, the key formats, the HTTP client and the vocabulary
  library are parameters; of a published account the model has what the code
  reads.
\<close>

section \<open>Keys and signatures\<close>

record public_key =
  pk_id :: "url option"
  pk_owner :: url
  pk_pem :: string

definition crypto_public_key :: "net \<Rightarrow> url \<Rightarrow> string \<Rightarrow> public_key" where
  "crypto_public_key N iri key =
     \<lparr> pk_id = nt_parse_url N (url_string iri @ ''#main-key''), pk_owner = iri, pk_pem = key \<rparr>"

record signed_request =
  sq_method :: string
  sq_url :: string
  sq_agent :: string
  sq_content_type :: string
  sq_body :: "string option"
  sq_key_id :: string
  sq_headers :: "string list"

text \<open>The libraries: building a request fails on a URL it cannot parse; a PEM block is
  decoded and a private key read from it; the signer signs named headers. A
  request may fail, and so may the reading of its answer.\<close>

record 'key crypto_lib =
  cr_request_error :: "string \<Rightarrow> go_error option"
  cr_pem_decode :: "string \<Rightarrow> (string \<times> string) option"
  cr_private_key :: "string \<Rightarrow> 'key result"
  cr_sign :: "'key option \<Rightarrow> string \<Rightarrow> string list \<Rightarrow> string option \<Rightarrow> go_error option"
  cr_fetch :: "signed_request \<Rightarrow> string result result"

text \<open>A key that cannot be read is nil; the error is only logged.\<close>

definition crypto_private_key :: "'key crypto_lib \<Rightarrow> string \<Rightarrow> 'key option" where
  "crypto_private_key X key =
     (case cr_pem_decode X key of
        None \<Rightarrow> None
      | Some (_, bytes) \<Rightarrow> (case cr_private_key X bytes of Inl _ \<Rightarrow> None | Inr k \<Rightarrow> Some k))"

definition signed_headers :: "string option \<Rightarrow> string list" where
  "signed_headers body = [''(request-target)'', ''host'', ''date''] @ (if body = None then [] else [''digest''])"

definition sign_request ::
  "'db ap_store \<Rightarrow> net \<Rightarrow> 'key crypto_lib \<Rightarrow> url \<Rightarrow> signed_request \<Rightarrow> 'db \<Rightarrow> signed_request result outcome" where
  "sign_request S N X iri req db =
     (case get_key_pair S iri db of
        Inl e \<Rightarrow> Ret (Inl (Wrap ''getting crypto key pare from key store: '' e))
      | Inr (public, private) \<Rightarrow>
          outcome_bind (deref (pk_id (crypto_public_key N iri public))) (\<lambda>key_id.
            let hs = signed_headers (sq_body req) in
            case cr_sign X (crypto_private_key X private) (url_string key_id) hs (sq_body req) of
              Some e \<Rightarrow> Ret (Inl e)
            | None \<Rightarrow> Ret (Inr (req\<lparr> sq_key_id := url_string key_id, sq_headers := hs \<rparr>))))"

definition unsigned :: "string \<Rightarrow> string \<Rightarrow> string \<Rightarrow> string option \<Rightarrow> signed_request" where
  "unsigned method u release body =
     \<lparr> sq_method = method, sq_url = u, sq_agent = release @ ''; https://stream.shig.de'',
       sq_content_type = ''application/activity+json'', sq_body = body, sq_key_id = [], sq_headers = [] \<rparr>"

text \<open>The error of building a request to an inbox is dropped; the missing request is
  then read.\<close>

definition create_signed_request ::
  "'db ap_store \<Rightarrow> net \<Rightarrow> 'key crypto_lib \<Rightarrow> string \<Rightarrow> string \<Rightarrow> url \<Rightarrow> url \<Rightarrow> 'db \<Rightarrow> signed_request result outcome" where
  "create_signed_request S N X release payload u iri db =
     (if cr_request_error X (url_string u) \<noteq> None then Panic
      else sign_request S N X iri (unsigned ''POST'' (url_string u) release (Some payload)) db)"

section \<open>The sender\<close>

record fed_config =
  fc_enable :: bool
  fc_https :: bool
  fc_private :: bool
  fc_release :: string
  fc_username :: string
  fc_register_token :: string
  fc_url :: url

definition get_signed_request ::
  "fed_config \<Rightarrow> 'db ap_store \<Rightarrow> net \<Rightarrow> 'key crypto_lib \<Rightarrow> url option \<Rightarrow> string \<Rightarrow> 'db \<Rightarrow> signed_request result outcome" where
  "get_signed_request C S N X iri u db =
     (case cr_request_error X u of
        Some e \<Rightarrow> Ret (Inl (Wrap ''building account request object: '' e))
      | None \<Rightarrow>
          outcome_bind (deref iri) (\<lambda>i.
          outcome_bind (sign_request S N X i (unsigned ''GET'' u (fc_release C) None) db) (\<lambda>r.
            Ret (wrap_err ''signing account request object: '' r))))"

text \<open>Unmarshalling the answer belongs to the JSON library.\<close>

definition do_request :: "'key crypto_lib \<Rightarrow> (string \<Rightarrow> 'j result) \<Rightarrow> signed_request \<Rightarrow> 'j result" where
  "do_request X unmarshal req =
     (case cr_fetch X req of
        Inl e \<Rightarrow> Inl (Wrap ''doing request: '' e)
      | Inr (Inl e) \<Rightarrow> Inl (Wrap ''reading boosy request: '' e)
      | Inr (Inr b) \<Rightarrow> wrap_err ''unmarshalling request body: '' (unmarshal b))"

text \<open>The outbound queue is unbuffered and served by a pool of workers: a request that
  was taken is sent, its error logged.\<close>

definition send_to_user ::
  "fed_config \<Rightarrow> 'db ap_store \<Rightarrow> net \<Rightarrow> 'key crypto_lib \<Rightarrow> url option \<Rightarrow> string \<Rightarrow> 'db
     \<Rightarrow> signed_request list \<Rightarrow> (go_error option \<times> signed_request list) outcome" where
  "send_to_user C S N X inbox payload db out =
     outcome_bind (deref (build_account_iri N (fc_url C) (fc_username C))) (\<lambda>local.
     outcome_bind (deref inbox) (\<lambda>u.
     outcome_bind (create_signed_request S N X (fc_release C) payload u local db) (\<lambda>r.
       Ret (case r of
              Inl e \<Rightarrow> (Some (Wrap ''unable to create outbox request: '' e), out)
            | Inr req \<Rightarrow> (None, out @ [req])))))"

definition send_follow_request ::
  "fed_config \<Rightarrow> 'db ap_store \<Rightarrow> net \<Rightarrow> 'key crypto_lib \<Rightarrow> (follow_activity \<Rightarrow> string result) \<Rightarrow> follow \<Rightarrow> 'db
     \<Rightarrow> signed_request list \<Rightarrow> (go_error option \<times> signed_request list) outcome" where
  "send_follow_request C S N X serialize f db out =
     outcome_bind (follow_to_as N f) (\<lambda>r. case r of
       Inl e \<Rightarrow> Ret (Some (Wrap ''bilding follow activiy stream: '' e), out)
     | Inr a \<Rightarrow>
         (case serialize a of
            Inl e \<Rightarrow> Ret (Some (Wrap ''serializing custom fediverse message activity: '' e), out)
          | Inr b \<Rightarrow> outcome_bind (deref (fo_target f)) (\<lambda>t.
              send_to_user C S N X (get_inbox_iri N t) b db out)))"

section \<open>Accounts of other instances\<close>

text \<open>One entry of the key property: whether it is a key, and of a key what is read.\<close>

record as_key =
  ak_is_key :: bool
  ak_present :: bool
  ak_id :: "url result"
  ak_owner :: "url option option"
  ak_pem :: "string option"

record as_account =
  aa_id :: "url option option"
  aa_type :: string
  aa_username :: "string option"
  aa_inbox :: "url option"
  aa_outbox :: "url option"
  aa_following :: "url option"
  aa_followers :: "url option"
  aa_endpoints :: "(bool \<times> url option option option) list option"
  aa_keys :: "as_key list option"

text \<open>Reading a public key out of a PEM block: the two encodings, and whether the key
  is an RSA key.\<close>

datatype 'key any_key = Rsa_Key 'key | Other_Key

record 'key key_lib =
  kl_parse_pkix :: "string \<Rightarrow> 'key any_key option result"
  kl_parse_pkcs1 :: "string \<Rightarrow> 'key any_key option result"
  kl_marshal_pkix :: "'key \<Rightarrow> string result"
  kl_pem_decode :: "string \<Rightarrow> (string \<times> string) option"
  kl_pem_encode :: "string \<Rightarrow> string \<Rightarrow> string"

definition extract_preferred_username :: "as_account \<Rightarrow> string result" where
  "extract_preferred_username a =
     (case aa_username a of
        None \<Rightarrow> Inl (Err ''preferredUsername nil or not a string'')
      | Some s \<Rightarrow> if s = [] then Inl (Err ''preferredUsername was empty'') else Inr s)"

text \<open>Each entry: whether it is an endpoints object, the object, its shared inbox
  property, and the address of that.\<close>

fun first_shared_inbox :: "(bool \<times> url option option option) list \<Rightarrow> url option" where
  "first_shared_inbox [] = None"
| "first_shared_inbox (e # es) =
     (case e of (True, Some (Some (Some u))) \<Rightarrow> Some u | _ \<Rightarrow> first_shared_inbox es)"

definition extract_shared_inbox :: "as_account \<Rightarrow> url option" where
  "extract_shared_inbox a = (case aa_endpoints a of None \<Rightarrow> None | Some es \<Rightarrow> first_shared_inbox es)"

fun key_of_entries :: "'key key_lib \<Rightarrow> as_key list \<Rightarrow> ('key \<times> url \<times> url) result" where
  "key_of_entries K [] = Inl (Err (''couldn'' @ [CHR 0x27] @ ''t find public key''))"
| "key_of_entries K (k # ks) =
     (if \<not> ak_is_key k \<or> \<not> ak_present k then key_of_entries K ks
      else case ak_id k of
        Inl _ \<Rightarrow> key_of_entries K ks
      | Inr key_id \<Rightarrow>
          (case ak_owner k of
             Some (Some owner) \<Rightarrow>
               (case ak_pem k of
                  None \<Rightarrow> key_of_entries K ks
                | Some pem \<Rightarrow>
                    if pem = [] then key_of_entries K ks
                    else case kl_pem_decode K pem of
                      None \<Rightarrow> key_of_entries K ks
                    | Some (ty, bytes) \<Rightarrow>
                        (case (if ty = ''PUBLIC KEY'' then kl_parse_pkix K bytes
                               else if ty = ''RSA PUBLIC KEY'' then kl_parse_pkcs1 K bytes
                               else Inl (Err (''unknown block type: '' @ [CHR 0x22] @ ty @ [CHR 0x22]))) of
                           Inl e \<Rightarrow> Inl (Wrap ''parsing public key from block bytes: '' e)
                         | Inr None \<Rightarrow> Inl (Err ''returned public key was empty'')
                         | Inr (Some Other_Key) \<Rightarrow> key_of_entries K ks
                         | Inr (Some (Rsa_Key r)) \<Rightarrow> Inr (r, key_id, owner)))
           | _ \<Rightarrow> key_of_entries K ks))"

definition extract_public_key :: "'key key_lib \<Rightarrow> as_account \<Rightarrow> ('key \<times> url \<times> url) result" where
  "extract_public_key K a =
     (case aa_keys a of None \<Rightarrow> Inl (Err ''public key property was nil'') | Some ks \<Rightarrow> key_of_entries K ks)"

definition export_rsa_public_key_as_pem_str :: "'key key_lib \<Rightarrow> 'key \<Rightarrow> string result" where
  "export_rsa_public_key_as_pem_str K k =
     (case kl_marshal_pkix K k of Inl e \<Rightarrow> Inl e | Inr b \<Rightarrow> Inr (kl_pem_encode K ''RSA PUBLIC KEY'' b))"

definition address_or_empty :: "url option \<Rightarrow> string" where
  "address_or_empty u = (case u of None \<Rightarrow> [] | Some x \<Rightarrow> url_string x)"

definition create_actor :: "'key key_lib \<Rightarrow> as_account \<Rightarrow> actor result" where
  "create_actor K a =
     (case aa_id a of
        Some (Some u) \<Rightarrow>
          (case extract_preferred_username a of
             Inl e \<Rightarrow> Inl (Err (''couldn'' @ [CHR 0x27] @ ''t extract username: '' @ error_text e))
           | Inr name \<Rightarrow>
               (case extract_public_key K a of
                  Inl e \<Rightarrow> Inl (Err (''couldn'' @ [CHR 0x27] @ ''t get public key for person '' @ url_string u @ '': '' @ error_text e))
                | Inr (key, key_id, owner) \<Rightarrow>
                    if url_string owner \<noteq> url_string u
                    then Inl (Err (''public key '' @ url_string key_id @ '' was owned by '' @ url_string owner @
                           '' and not by '' @ url_string u))
                    else case export_rsa_public_key_as_pem_str K key of
                      Inl _ \<Rightarrow> Inl (Err ''converting puplic key as string get wrong'')
                    | Inr pem \<Rightarrow> Inr (no_actor\<lparr> at_iri := url_string u, at_name := name, at_type := aa_type a,
                        at_inbox := address_or_empty (aa_inbox a),
                        at_shared_inbox := address_or_empty (extract_shared_inbox a),
                        at_outbox := address_or_empty (aa_outbox a),
                        at_following := address_or_empty (aa_following a),
                        at_followers := address_or_empty (aa_followers a), at_public_key := pem \<rparr>)))
      | _ \<Rightarrow> Inl (Err ''no id property found on person, or id was not an iri''))"

text \<open>Reading the answer as an account belongs to the JSON and the vocabulary library:
  the raw object, its type, and the account if the type is one.\<close>

record account_lib =
  al_unmarshal :: "string \<Rightarrow> string result"
  al_to_type :: "string \<Rightarrow> as_account option result"

definition fetch_account_as_actor ::
  "'key crypto_lib \<Rightarrow> 'key key_lib \<Rightarrow> account_lib \<Rightarrow> signed_request \<Rightarrow> actor result" where
  "fetch_account_as_actor X K A req =
     (case cr_fetch X req of
        Inl e \<Rightarrow> Inl (Wrap ''doing request: '' e)
      | Inr (Inl e) \<Rightarrow> Inl (Wrap ''reading boosy request: '' e)
      | Inr (Inr b) \<Rightarrow>
          (case al_unmarshal A b of
             Inl e \<Rightarrow> Inl (Wrap ''unmarshalling request body: '' e)
           | Inr raw \<Rightarrow>
               (case al_to_type A raw of
                  Inl e \<Rightarrow> Inl (Wrap ''determinding type: '' e)
                | Inr None \<Rightarrow> Inl (Err ''casting type but is not a pub.Activity'')
                | Inr (Some a) \<Rightarrow>
                    if aa_id a = None
                    then Inl (Err (''incoming Activity '' @ aa_type a @ '' did not have required id property set''))
                    else case create_actor K a of
                      Inl _ \<Rightarrow> Inl (Err ''casting to account activity pub activity'')
                    | Inr x \<Rightarrow> Inr x)))"

section \<open>The actor service\<close>

definition get_local_instance_actor :: "fed_config \<Rightarrow> 'db ap_store \<Rightarrow> net \<Rightarrow> 'db \<Rightarrow> actor result outcome" where
  "get_local_instance_actor C S N db =
     outcome_bind (deref (build_account_iri N (fc_url C) (fc_username C))) (\<lambda>iri.
       Ret (wrap_err ''reading local instance actor from db: '' (get_actor_by_actor_iri S iri db)))"

definition create_actor_from_remote_account ::
  "fed_config \<Rightarrow> 'db ap_store \<Rightarrow> net \<Rightarrow> 'key crypto_lib \<Rightarrow> 'key key_lib \<Rightarrow> account_lib \<Rightarrow> string \<Rightarrow> actor \<Rightarrow> 'db
     \<Rightarrow> (actor result \<times> 'db) outcome" where
  "create_actor_from_remote_account C S N X K A account_iri local db =
     outcome_bind (get_signed_request C S N X (get_actor_iri N local) account_iri db) (\<lambda>r. case r of
       Inl e \<Rightarrow> Ret (Inl (Wrap ''building signed actor request to fetch remote account: '' e), db)
     | Inr req \<Rightarrow>
         (case fetch_account_as_actor X K A req of
            Inl e \<Rightarrow> Ret (Inl (Wrap ''fetching account from remote instance to build an actor: '' e), db)
          | Inr a \<Rightarrow> (let (r, db') = upsert_actor S a db
              in Ret (wrap_err ''insert actor in dab if not exists: '' r, db'))))"

end
