(* ===== verification/Session_Repository.thy ===== *)
theory Session_Repository
  imports Session
begin

text \<open>
  The sessions of a lobby (\<^verbatim>\<open>internal/lobby/sessions/session_repository.go\<close>).
  The table is keyed by session identifiers, but the lobby uses it as a
  directory of users: it refuses a second session of a user, finds and removes
  by user.  That contract is a locale, and a run of insertions and removals is
  proved to refine a partial map from users to sessions.
\<close>

section \<open>Operations\<close>

type_synonym 'pc session_repo = "(uuid, 'pc session) gomap"

definition new_session_repository :: "'pc session_repo" where "new_session_repository = []"

definition sr_new :: "'pc session \<Rightarrow> 'pc session_repo \<Rightarrow> 'pc session_repo \<times> bool" where
  "sr_new s r =
     (case range_find (\<lambda>(_, x). ss_user x = ss_user s) r of
        Some _ \<Rightarrow> (r, False)
      | None \<Rightarrow> (AList.update (ss_id s) s r, True))"

definition sr_add :: "'pc session \<Rightarrow> 'pc session_repo \<Rightarrow> 'pc session_repo" where
  "sr_add s r = AList.update (ss_id s) s r"

definition sr_all :: "'pc session_repo \<Rightarrow> 'pc session_repo" where "sr_all r = r"

definition find_by_id :: "'pc session_repo \<Rightarrow> uuid \<Rightarrow> 'pc session option" where
  "find_by_id r i = map_of r i"

definition find_by_user_id :: "'pc session_repo \<Rightarrow> uuid \<Rightarrow> 'pc session option" where
  "find_by_user_id r user = range_find (\<lambda>(_, x). ss_user x = user) r"

definition sr_delete :: "uuid \<Rightarrow> 'pc session_repo \<Rightarrow> 'pc session_repo \<times> bool" where
  "sr_delete i r = (case map_of r i of Some _ \<Rightarrow> (AList.delete i r, True) | None \<Rightarrow> (r, False))"

definition sr_contains :: "'pc session_repo \<Rightarrow> uuid \<Rightarrow> bool" where
  "sr_contains r i = (case map_of r i of Some _ \<Rightarrow> True | None \<Rightarrow> False)"

definition sr_update :: "'pc session \<Rightarrow> 'pc session_repo \<Rightarrow> 'pc session_repo \<times> bool" where
  "sr_update s r =
     (case map_of r (ss_id s) of Some _ \<Rightarrow> (AList.update (ss_id s) s r, True) | None \<Rightarrow> (r, False))"

definition sr_len :: "'pc session_repo \<Rightarrow> nat" where "sr_len r = length r"

fun count_user_sessions :: "'pc session_repo \<Rightarrow> nat \<Rightarrow> nat" where
  "count_user_sessions [] n = n"
| "count_user_sessions ((_, s) # r) n = count_user_sessions r (if ss_type s = user_session then n + 1 else n)"

definition len_user_session :: "'pc session_repo \<Rightarrow> nat" where
  "len_user_session r = count_user_sessions r 0"

text \<open>The routine may change the session it is given, and a state of its own.\<close>

fun sr_iter :: "('pc session \<Rightarrow> 'st \<Rightarrow> ('pc session \<times> 'st) outcome) \<Rightarrow> 'pc session_repo \<Rightarrow> 'st
    \<Rightarrow> ('pc session_repo \<times> 'st) outcome" where
  "sr_iter f [] st = Ret ([], st)"
| "sr_iter f ((k, s) # r) st =
     outcome_bind (f s st) (\<lambda>(s', st'). outcome_bind (sr_iter f r st') (\<lambda>(r', st''). Ret ((k, s') # r', st'')))"

definition delete_by_user :: "uuid \<Rightarrow> 'pc session_repo \<Rightarrow> 'pc session_repo \<times> bool" where
  "delete_by_user user r =
     (case range_find (\<lambda>(_, x). ss_user x = user) r of
        Some s \<Rightarrow> (AList.delete (ss_id s) r, True)
      | None \<Rightarrow> (r, False))"

section \<open>Invariant\<close>

text \<open>Every session is filed under its identifier, and no user has two.\<close>

definition sr_inv :: "'pc session_repo \<Rightarrow> bool" where
  "sr_inv r = (wf_map r \<and> (\<forall>(k, s)\<in>set r. ss_id s = k) \<and>
     (\<forall>(k, s)\<in>set r. \<forall>(k', s')\<in>set r. ss_user s = ss_user s' \<longrightarrow> k = k'))"

lemma sr_inv_empty [inv_intros]: "sr_inv new_session_repository"
  by (simp add: sr_inv_def new_session_repository_def)

lemma sr_mem: "sr_inv r \<Longrightarrow> (k, s) \<in> set r \<longleftrightarrow> map_of r k = Some s"
  by (rule wf_mem_iff) (simp add: sr_inv_def)

lemma sr_inv_id: "sr_inv r \<Longrightarrow> map_of r k = Some s \<Longrightarrow> ss_id s = k"
  by (auto simp: sr_inv_def dest: map_of_SomeD)

lemma sr_inv_user:
  "sr_inv r \<Longrightarrow> map_of r k = Some s \<Longrightarrow> map_of r k' = Some s' \<Longrightarrow> ss_user s = ss_user s' \<Longrightarrow> k = k'"
  by (fastforce simp: sr_inv_def dest: map_of_SomeD)

lemma sr_invI:
  assumes "wf_map r" "\<And>k s. map_of r k = Some s \<Longrightarrow> ss_id s = k"
    and "\<And>k s k' s'. map_of r k = Some s \<Longrightarrow> map_of r k' = Some s' \<Longrightarrow> ss_user s = ss_user s' \<Longrightarrow> k = k'"
  shows "sr_inv r"
proof -
  have a2: "(k, s) \<in> set r \<Longrightarrow> ss_id s = k" for k s
    using assms(1) assms(2)[of k s] by simp
  have a3: "(k, s) \<in> set r \<Longrightarrow> (k', s') \<in> set r \<Longrightarrow> ss_user s = ss_user s' \<Longrightarrow> k = k'" for k s k' s'
    using assms(1) assms(3)[of k s k' s'] by simp
  show ?thesis unfolding sr_inv_def using assms(1) by (auto dest: a2 intro: a3)
qed

lemma find_user_iff:
  assumes "sr_inv r"
  shows "find_by_user_id r u = Some s \<longleftrightarrow> map_of r (ss_id s) = Some s \<and> ss_user s = u"
proof
  assume "find_by_user_id r u = Some s"
  then obtain k where k: "(k, s) \<in> set r" "ss_user s = u"
    using range_find_Some unfolding find_by_user_id_def by fastforce
  then show "map_of r (ss_id s) = Some s \<and> ss_user s = u"
    using sr_mem[OF assms] sr_inv_id[OF assms] by auto
next
  assume s: "map_of r (ss_id s) = Some s \<and> ss_user s = u"
  show "find_by_user_id r u = Some s"
    unfolding find_by_user_id_def
  proof (rule range_find_unique[of "ss_id s"])
    show "(ss_id s, s) \<in> set r" using s sr_mem[OF assms] by simp
  next
    fix e assume e: "e \<in> set r" "case e of (_, x) \<Rightarrow> ss_user x = u"
    obtain k x where kx: "e = (k, x)" by (cases e)
    have x: "map_of r k = Some x" "ss_user x = ss_user s" using e kx s sr_mem[OF assms] by auto
    then have "k = ss_id s" using sr_inv_user[OF assms x(1)] s by metis
    then show "snd e = s" using x s kx by simp
  qed (use s in simp)
qed

lemma find_user_None:
  assumes "sr_inv r"
  shows "find_by_user_id r u = None \<longleftrightarrow> (\<forall>k s. map_of r k = Some s \<longrightarrow> ss_user s \<noteq> u)"
proof -
  have "find_by_user_id r u = None \<longleftrightarrow> (\<forall>k s. (k, s) \<in> set r \<longrightarrow> ss_user s \<noteq> u)"
    unfolding find_by_user_id_def range_find_None by auto
  then show ?thesis by (simp only: sr_mem[OF assms])
qed

text \<open>No session of the table has the fresh identifier.\<close>

definition fresh_for :: "'pc session_repo \<Rightarrow> 'pc session \<Rightarrow> bool" where
  "fresh_for r s = (map_of r (ss_id s) = None)"

lemma sr_new_spec:
  assumes "sr_inv r" "fresh_for r s" "sr_new s r = (r', ok)"
  shows "sr_inv r' \<and> (ok \<longleftrightarrow> find_by_user_id r (ss_user s) = None) \<and>
    find_by_user_id r' = (if ok then (find_by_user_id r)(ss_user s \<mapsto> s) else find_by_user_id r)"
proof (cases "find_by_user_id r (ss_user s)")
  case (Some x)
  then show ?thesis using assms by (auto simp: sr_new_def find_by_user_id_def)
next
  case None
  then have r': "r' = AList.update (ss_id s) s r" "ok"
    using assms(3) by (auto simp: sr_new_def find_by_user_id_def)
  have no: "\<forall>k x. map_of r k = Some x \<longrightarrow> ss_user x \<noteq> ss_user s"
    using None find_user_None[OF assms(1)] by blast
  have inv: "sr_inv r'"
  proof (rule sr_invI)
    show "wf_map r'" using assms(1) by (simp add: r' sr_inv_def)
  next
    fix k x assume "map_of r' k = Some x"
    then show "ss_id x = k" using sr_inv_id[OF assms(1)] by (auto simp: r' split: if_splits)
  next
    fix k x k' x' assume "map_of r' k = Some x" "map_of r' k' = Some x'" "ss_user x = ss_user x'"
    then show "k = k'" using no sr_inv_user[OF assms(1)] by (auto simp: r' split: if_splits)
  qed
  have "find_by_user_id r' u = ((find_by_user_id r)(ss_user s \<mapsto> s)) u" for u
  proof (cases "u = ss_user s")
    case True
    then show ?thesis using find_user_iff[OF inv, of u s] by (simp add: r')
  next
    case False
    show ?thesis
    proof (cases "find_by_user_id r u")
      case None
      then have "find_by_user_id r' u = None"
        using False find_user_None[OF assms(1)] find_user_None[OF inv] by (auto simp: r')
      then show ?thesis using None False by simp
    next
      case (Some x)
      then have x: "map_of r (ss_id x) = Some x" "ss_user x = u"
        using find_user_iff[OF assms(1)] by auto
      then have "ss_id x \<noteq> ss_id s" using assms(2) by (auto simp: fresh_for_def)
      then have "find_by_user_id r' u = Some x"
        using x find_user_iff[OF inv] by (simp add: r')
      then show ?thesis using Some False by simp
    qed
  qed
  then show ?thesis using inv None r'(2) by auto
qed

lemma delete_by_user_spec:
  assumes "sr_inv r" "delete_by_user u r = (r', ok)"
  shows "sr_inv r' \<and> (ok \<longleftrightarrow> find_by_user_id r u \<noteq> None) \<and>
    find_by_user_id r' = (find_by_user_id r)(u := None)"
proof (cases "find_by_user_id r u")
  case None
  then show ?thesis using assms by (auto simp: delete_by_user_def find_by_user_id_def fun_upd_idem)
next
  case (Some s)
  then have s: "map_of r (ss_id s) = Some s" "ss_user s = u" using find_user_iff[OF assms(1)] by auto
  have r': "r' = AList.delete (ss_id s) r" "ok"
    using assms(2) Some by (auto simp: delete_by_user_def find_by_user_id_def)
  have inv: "sr_inv r'"
  proof (rule sr_invI)
    show "wf_map r'" using assms(1) by (simp add: r' sr_inv_def)
  qed (use sr_inv_id[OF assms(1)] sr_inv_user[OF assms(1)] in \<open>auto simp: r' split: if_splits\<close>)
  have "find_by_user_id r' v = ((find_by_user_id r)(u := None)) v" for v
  proof (cases "v = u")
    case True
    have "\<forall>k x. map_of r' k = Some x \<longrightarrow> ss_user x \<noteq> u"
      using sr_inv_user[OF assms(1) s(1)] s(2) by (auto simp: r' split: if_splits)
    then show ?thesis using True find_user_None[OF inv] by simp
  next
    case False
    show ?thesis
    proof (cases "find_by_user_id r v")
      case None
      have a: "\<forall>k x. map_of r k = Some x \<longrightarrow> ss_user x \<noteq> v"
        by (rule iffD1[OF find_user_None[OF assms(1)] None])
      have "\<forall>k x. map_of r' k = Some x \<longrightarrow> ss_user x \<noteq> v"
        using a unfolding r' map_of_del by auto
      then have "find_by_user_id r' v = None"
        by (rule iffD2[OF find_user_None[OF inv]])
      then show ?thesis using None False by simp
    next
      case (Some x)
      note x = conjunct1[OF iffD1[OF find_user_iff[OF assms(1)] Some]]
        conjunct2[OF iffD1[OF find_user_iff[OF assms(1)] Some]]
      have ne: "ss_id s \<noteq> ss_id x"
      proof
        assume "ss_id s = ss_id x"
        then have "s = x" using x(1) s(1) by (simp only: option.inject)
        then show False using x(2) s(2) False by simp
      qed
      have "map_of r' (ss_id x) = Some x"
        unfolding r' map_of_del using x(1) ne[symmetric] by (simp only: fun_upd_other not_False_eq_True)
      then have "find_by_user_id r' v = Some x"
        using x(2) by (intro iffD2[OF find_user_iff[OF inv]] conjI)
      then show ?thesis using Some False by simp
    qed
  qed
  then show ?thesis using inv Some r'(2) by auto
qed

section \<open>The directory contract\<close>

text \<open>What the lobby relies on.  An addition is only made with a session that is
  new to the table.\<close>

locale session_directory =
  fixes find :: "'r \<Rightarrow> uuid \<Rightarrow> 's option"
    and add :: "'s \<Rightarrow> 'r \<Rightarrow> 'r \<times> bool"
    and remove :: "uuid \<Rightarrow> 'r \<Rightarrow> 'r \<times> bool"
    and user_of :: "'s \<Rightarrow> uuid"
    and fresh :: "'r \<Rightarrow> 's \<Rightarrow> bool"
    and inv :: "'r \<Rightarrow> bool"
  assumes add_ok: "inv r \<Longrightarrow> fresh r s \<Longrightarrow> snd (add s r) \<longleftrightarrow> find r (user_of s) = None"
    and add_find: "inv r \<Longrightarrow> fresh r s \<Longrightarrow> find (fst (add s r)) =
      (if snd (add s r) then (find r)(user_of s \<mapsto> s) else find r)"
    and add_inv: "inv r \<Longrightarrow> fresh r s \<Longrightarrow> inv (fst (add s r))"
    and remove_ok: "inv r \<Longrightarrow> snd (remove u r) \<longleftrightarrow> find r u \<noteq> None"
    and remove_find: "inv r \<Longrightarrow> find (fst (remove u r)) = (find r)(u := None)"
    and remove_inv: "inv r \<Longrightarrow> inv (fst (remove u r))"
begin

lemma no_second_session:
  assumes "inv r" "fresh r s" "snd (add s r)" "fresh (fst (add s r)) t" "user_of t = user_of s"
  shows "\<not> snd (add t (fst (add s r)))"
  using assms add_ok[OF add_inv[OF assms(1,2)] assms(4)] add_find[OF assms(1,2)] by simp

lemma session_again_after_removal:
  assumes "inv r" "fresh (fst (remove (user_of s) r)) s"
  shows "snd (add s (fst (remove (user_of s) r)))"
  using add_ok[OF remove_inv[OF assms(1)] assms(2)] remove_find[OF assms(1)] by simp

lemma others_unaffected:
  assumes "inv r" "fresh r s" "u \<noteq> user_of s"
  shows "find (fst (add s r)) u = find r u" "find (fst (remove (user_of s) r)) u = find r u"
  using add_find[OF assms(1,2)] remove_find[OF assms(1)] assms(3) by auto

end

interpretation sessions: session_directory find_by_user_id sr_new delete_by_user ss_user fresh_for sr_inv
proof unfold_locales
  fix r s
  assume *: "sr_inv r" "fresh_for r (s :: 'a session)"
  obtain r' ok where n: "sr_new s r = (r', ok)" by (cases "sr_new s r")
  note spec = sr_new_spec[OF * n]
  show "snd (sr_new s r) \<longleftrightarrow> find_by_user_id r (ss_user s) = None" using spec n by simp
  show "find_by_user_id (fst (sr_new s r)) =
      (if snd (sr_new s r) then (find_by_user_id r)(ss_user s \<mapsto> s) else find_by_user_id r)"
    using spec n by simp
  show "sr_inv (fst (sr_new s r))" using spec n by simp
next
  fix r :: "'a session_repo" and u
  assume *: "sr_inv r"
  obtain r' ok where n: "delete_by_user u r = (r', ok)" by (cases "delete_by_user u r")
  note spec = delete_by_user_spec[OF * n]
  show "snd (delete_by_user u r) \<longleftrightarrow> find_by_user_id r u \<noteq> None" using spec n by simp
  show "find_by_user_id (fst (delete_by_user u r)) = (find_by_user_id r)(u := None)" using spec n by simp
  show "sr_inv (fst (delete_by_user u r))" using spec n by simp
qed

section \<open>Counting and iterating\<close>

lemma count_user_acc:
  "count_user_sessions r n = n + length (filter (\<lambda>(_, s). ss_type s = user_session) r)"
  by (induction r arbitrary: n) auto

lemma len_user_session_eq: "len_user_session r = length (filter (\<lambda>(_, s). ss_type s = user_session) r)"
  by (simp add: len_user_session_def count_user_acc)

lemma len_user_session_le: "len_user_session r \<le> sr_len r"
  by (simp add: len_user_session_eq sr_len_def)

text \<open>A routine that keeps identifier and user keeps the table's invariant and
  lookups.\<close>

lemma sr_iter_keys:
  "sr_iter f r st = Ret (r', st') \<Longrightarrow> map fst r' = map fst r"
  by (induction r arbitrary: st r') (auto simp: outcome_simps)

lemma sr_iter_lookup:
  assumes "sr_iter f r st = Ret (r', st')" "\<And>s st s' st'. f s st = Ret (s', st') \<Longrightarrow> P s s'"
  shows "rel_option P (map_of r k) (map_of r' k)"
  using assms(1)
proof (induction r arbitrary: st r')
  case (Cons e r)
  obtain k0 s where e: "e = (k0, s)" by (cases e)
  obtain s1 st1 r1 where f: "f s st = Ret (s1, st1)" "sr_iter f r st1 = Ret (r1, st')" "r' = (k0, s1) # r1"
    using Cons.prems by (auto simp: e outcome_simps)
  show ?case using Cons.IH[OF f(2)] assms(2)[OF f(1)] f(3) by (simp add: e)
qed simp

section \<open>Properties\<close>

datatype 'pc dir_op = Dir_New "'pc session" | Dir_Remove uuid

fun dir_run :: "'pc dir_op list \<Rightarrow> 'pc session_repo \<Rightarrow> bool list \<times> 'pc session_repo" where
  "dir_run [] r = ([], r)"
| "dir_run (Dir_New s # as) r =
     (let (r', ok) = sr_new s r; (oks, r'') = dir_run as r' in (ok # oks, r''))"
| "dir_run (Dir_Remove u # as) r =
     (let (r', ok) = delete_by_user u r; (oks, r'') = dir_run as r' in (ok # oks, r''))"

text \<open>The specification: a partial map from users to sessions.\<close>

fun dir_spec :: "'pc dir_op list \<Rightarrow> (uuid \<rightharpoonup> 'pc session) \<Rightarrow> bool list \<times> (uuid \<rightharpoonup> 'pc session)" where
  "dir_spec [] m = ([], m)"
| "dir_spec (Dir_New s # as) m =
     (let (oks, m') = dir_spec as (if m (ss_user s) = None then m(ss_user s \<mapsto> s) else m)
      in ((m (ss_user s) = None) # oks, m'))"
| "dir_spec (Dir_Remove u # as) m =
     (let (oks, m') = dir_spec as (m(u := None)) in ((m u \<noteq> None) # oks, m'))"

text \<open>The identifiers of new sessions are fresh: they are not in the table and not
  used twice.\<close>

fun new_ids :: "'pc dir_op list \<Rightarrow> uuid list" where
  "new_ids [] = []"
| "new_ids (Dir_New s # as) = ss_id s # new_ids as"
| "new_ids (Dir_Remove u # as) = new_ids as"

lemma keys_new: "fst ` set (fst (sr_new s r)) \<subseteq> insert (ss_id s) (fst ` set r)"
  using set_update_sub[of "ss_id s" s r] by (auto simp: sr_new_def split: option.splits)

lemma keys_remove: "fst ` set (fst (delete_by_user u r)) \<subseteq> fst ` set r"
  using set_delete_sub by (fastforce simp: delete_by_user_def split: option.splits)

lemma disjoint_step: "x \<notin> N \<Longrightarrow> N \<inter> A = {} \<Longrightarrow> B \<subseteq> insert x A \<Longrightarrow> N \<inter> B = {}"
  by blast

lemma disjoint_sub: "N \<inter> A = {} \<Longrightarrow> B \<subseteq> A \<Longrightarrow> N \<inter> B = {}"
  by blast

text \<open>C5: any run of adding and removing sessions with fresh identifiers answers
  like a partial map from users to sessions, and ends in it: a user has at most
  one session, a second one is refused, removal frees the user.\<close>

theorem directory_refines_map:
  assumes "sr_inv r" "distinct (new_ids as)" "set (new_ids as) \<inter> fst ` set r = {}"
  shows "fst (dir_run as r) = fst (dir_spec as (find_by_user_id r)) \<and>
    find_by_user_id (snd (dir_run as r)) = snd (dir_spec as (find_by_user_id r)) \<and>
    sr_inv (snd (dir_run as r))"
  using assms
proof (induction as arbitrary: r rule: new_ids.induct)
  case (2 s as)
  have fr: "fresh_for r s" using 2(4) by (auto simp: fresh_for_def map_of_eq_None_iff)
  obtain r' ok where n: "sr_new s r = (r', ok)" by (cases "sr_new s r")
  have spec: "sr_inv r'" "ok \<longleftrightarrow> find_by_user_id r (ss_user s) = None"
    "find_by_user_id r' = (if ok then (find_by_user_id r)(ss_user s \<mapsto> s) else find_by_user_id r)"
    using sr_new_spec[OF 2(2) fr n] by auto
  have "ss_id s \<notin> set (new_ids as)" using 2(3) by simp
  moreover have "set (new_ids as) \<inter> fst ` set r = {}"
    using 2(4) unfolding new_ids.simps list.set by blast
  moreover have "fst ` set r' \<subseteq> insert (ss_id s) (fst ` set r)" using keys_new[of s r] by (simp add: n)
  ultimately have "set (new_ids as) \<inter> fst ` set r' = {}" by (rule disjoint_step)
  then have IH: "fst (dir_run as r') = fst (dir_spec as (find_by_user_id r')) \<and>
      find_by_user_id (snd (dir_run as r')) = snd (dir_spec as (find_by_user_id r')) \<and>
      sr_inv (snd (dir_run as r'))"
    using 2(1)[of r'] 2(3) spec(1) by simp
  show ?case
  proof (cases ok)
    case True
    then show ?thesis using IH spec n by (simp add: split_beta Let_def)
  next
    case False
    then show ?thesis using IH spec n by (simp add: split_beta Let_def)
  qed
next
  case (3 u as)
  obtain r' ok where n: "delete_by_user u r = (r', ok)" by (cases "delete_by_user u r")
  have spec: "sr_inv r'" "ok \<longleftrightarrow> find_by_user_id r u \<noteq> None"
    "find_by_user_id r' = (find_by_user_id r)(u := None)"
    using delete_by_user_spec[OF 3(2) n] by auto
  have "set (new_ids as) \<inter> fst ` set r = {}" using 3(4) by simp
  moreover have "fst ` set r' \<subseteq> fst ` set r" using keys_remove[of u r] by (simp add: n)
  ultimately have "set (new_ids as) \<inter> fst ` set r' = {}" by (rule disjoint_sub)
  then have "fst (dir_run as r') = fst (dir_spec as (find_by_user_id r')) \<and>
      find_by_user_id (snd (dir_run as r')) = snd (dir_spec as (find_by_user_id r')) \<and>
      sr_inv (snd (dir_run as r'))"
    using 3(1)[of r'] 3(3) spec(1) by simp
  then show ?case using spec n by (simp add: split_beta Let_def)
qed simp

lemma directory_refines_map_witness:
  "fst (dir_run [Dir_New (new_session 1 10 7 0 user_session :: unit session),
       Dir_New (new_session 2 11 7 0 user_session), Dir_Remove 7, Dir_New (new_session 3 12 7 0 user_session)]
       new_session_repository) = [True, False, True, True]"
  by (subst directory_refines_map[THEN conjunct1])
    (simp_all add: sr_inv_def new_session_def new_session_repository_def find_by_user_id_def)

end
