(* ===== verification/Hub.thy ===== *)
theory Hub
  imports Session_Repository
begin

text \<open>
  The hub of a lobby (\<^verbatim>\<open>internal/lobby/sessions/hub.go\<close>,
  \<^verbatim>\<open>hub_request.go\<close>).  One goroutine serves the requests one after the
  other; the model has one function per request.  A lobby's hub, its sessions
  and the node graph the hub reports to form a \<^verbatim>\<open>room\<close>.  The live stream
  sender is an interface value that may be nil; a sender records the tracks it
  is given.
\<close>

section \<open>State and filters\<close>

record hub =
  hb_live :: uuid
  hb_sender :: "local_track list option"
  hb_tracks :: "(string, track_info) gomap"
  hb_nodes :: "(string, graph_node) gomap"
  hb_node :: graph_node

record 'pc room =
  rm_hub :: hub
  rm_sessions :: "'pc session_repo"
  rm_graph :: graph

definition err_hub_already_closed :: go_error where
  "err_hub_already_closed = Err ''Hub was already closed''"
definition err_hub_dispatch_timeout :: go_error where
  "err_hub_dispatch_timeout = Err ''Hub dispatch timeout''"

definition new_hub ::
  "'pc lib \<Rightarrow> 'pc session_repo \<Rightarrow> uuid \<Rightarrow> local_track list option \<Rightarrow> graph \<Rightarrow> 'pc room" where
  "new_hub L sessions live sender g =
     (let i = lb_uuid_str L live; (n, g') = graph_node_update (build_node i i ''Hub'') g
      in \<lparr> rm_hub = \<lparr> hb_live = live, hb_sender = sender, hb_tracks = [], hb_nodes = [], hb_node = n \<rparr>,
           rm_sessions = sessions, rm_graph = g' \<rparr>)"

definition filter_for_session :: "'pc lib \<Rightarrow> uuid \<Rightarrow> track_info \<Rightarrow> bool" where
  "filter_for_session L session_id t = (lb_uuid_str L session_id \<noteq> lb_uuid_str L (get_session_id t))"

definition filter_for_not_main :: "track_info \<Rightarrow> bool" where
  "filter_for_not_main t = (get_purpose t \<noteq> purpose_main)"

section \<open>Node statistics\<close>

definition increase_node_graph_stats ::
  "'pc lib \<Rightarrow> string \<Rightarrow> endpoint_type \<Rightarrow> purpose \<Rightarrow> hub \<times> graph \<Rightarrow> hub \<times> graph" where
  "increase_node_graph_stats L session_id ty p = (\<lambda>(h, g).
     let index = endpoint_type_to_string ty @ session_id;
         live = lb_uuid_str L (hb_live h);
         (node, g1) = (case map_of (hb_nodes h) index of
             Some n \<Rightarrow> (n, g)
           | None \<Rightarrow> (build_node session_id live (endpoint_type_to_string ty),
                     graph_add_edge session_id live (endpoint_type_to_string ty) g));
         (node', g2) = graph_node_update_inc node (purpose_to_string p) g1
     in (h\<lparr> hb_nodes := AList.update index node' (hb_nodes h) \<rparr>, g2))"

definition decrease_node_graph_stats ::
  "'pc lib \<Rightarrow> string \<Rightarrow> endpoint_type \<Rightarrow> purpose \<Rightarrow> hub \<times> graph \<Rightarrow> hub \<times> graph" where
  "decrease_node_graph_stats L session_id ty p = (\<lambda>(h, g).
     let index = endpoint_type_to_string ty @ session_id in
     case map_of (hb_nodes h) index of
       None \<Rightarrow> (h, g)
     | Some node \<Rightarrow>
         (let (node', g') = graph_node_update_dec node (purpose_to_string p) g in
          if gn_tracks node' = 0 \<and> gn_main_tracks node' = 0
          then (h\<lparr> hb_nodes := AList.delete index (hb_nodes h) \<rparr>,
                graph_delete_edge session_id (lb_uuid_str L (hb_live h)) (endpoint_type_to_string ty) g')
          else (h\<lparr> hb_nodes := AList.update index node' (hb_nodes h) \<rparr>, g')))"

definition hub_metric_inc :: "purpose \<Rightarrow> hub \<times> graph \<Rightarrow> hub \<times> graph" where
  "hub_metric_inc p = (\<lambda>(h, g).
     let (n, g') = graph_node_update_inc (hb_node h) (purpose_to_string p) g in (h\<lparr> hb_node := n \<rparr>, g'))"

definition hub_metric_dec :: "purpose \<Rightarrow> hub \<times> graph \<Rightarrow> hub \<times> graph" where
  "hub_metric_dec p = (\<lambda>(h, g).
     let (n, g') = graph_node_update_dec (hb_node h) (purpose_to_string p) g in (h\<lparr> hb_node := n \<rparr>, g'))"

section \<open>Requests\<close>

definition sender_add :: "track_info \<Rightarrow> hub \<Rightarrow> hub outcome" where
  "sender_add t h =
     (if get_purpose t = purpose_main
      then case hb_sender h of
             None \<Rightarrow> Panic
           | Some ts \<Rightarrow> Ret (h\<lparr> hb_sender := Some (ts @ [get_track_local t]) \<rparr>)
      else Ret h)"

definition sender_remove :: "track_info \<Rightarrow> hub \<Rightarrow> hub outcome" where
  "sender_remove t h =
     (if get_purpose t = purpose_main
      then case hb_sender h of
             None \<Rightarrow> Panic
           | Some ts \<Rightarrow> Ret (h\<lparr> hb_sender := Some (filter (\<lambda>x. lt_id x \<noteq> lt_id (get_track_local t)) ts) \<rparr>)
      else Ret h)"

text \<open>The routine the hub runs for each session when a track arrives or leaves.
  The argument \<^verbatim>\<open>pick\<close> settles the reads of a session that is both
  initialised and done.\<close>

definition add_routine ::
  "'pc lib \<Rightarrow> (uuid \<Rightarrow> bool) \<Rightarrow> track_info \<Rightarrow> 'pc session \<Rightarrow> hub \<times> graph \<Rightarrow> ('pc session \<times> hub \<times> graph) outcome" where
  "add_routine L pick t s st =
     (if \<not> init_complete (pick (ss_id s)) s then Ret (s, st)
      else if filter_for_session L (ss_id s) t
      then outcome_bind (session_add_track L t s) (\<lambda>s'. Ret (s', st))
      else Ret (s, st))"

definition remove_routine ::
  "'pc lib \<Rightarrow> (uuid \<Rightarrow> bool) \<Rightarrow> track_info \<Rightarrow> 'pc session \<Rightarrow> hub \<times> graph \<Rightarrow> ('pc session \<times> hub \<times> graph) outcome" where
  "remove_routine L pick t s st =
     (if \<not> init_complete (pick (ss_id s)) s then Ret (s, st)
      else if filter_for_session L (ss_id s) t
      then outcome_bind (session_remove_track L t s) (\<lambda>s'.
             Ret (s', decrease_node_graph_stats L (lb_uuid_str L (ss_id s)) egress_endpoint (get_purpose t) st))
      else Ret (s, st))"

definition on_add_track :: "'pc lib \<Rightarrow> (uuid \<Rightarrow> bool) \<Rightarrow> track_info \<Rightarrow> 'pc room \<Rightarrow> 'pc room outcome" where
  "on_add_track L pick t rm =
     (let (h, g) = hub_metric_inc (get_purpose t)
            (increase_node_graph_stats L (lb_uuid_str L (get_session_id t)) ingress_endpoint (get_purpose t)
               (rm_hub rm, rm_graph rm))
      in outcome_bind (sender_add t h) (\<lambda>h1.
           let h2 = h1\<lparr> hb_tracks := AList.update (lt_id (get_track_local t)) t (hb_tracks h1) \<rparr>
           in outcome_bind (sr_iter (add_routine L pick t) (rm_sessions rm) (h2, g)) (\<lambda>(r, h3, g3).
                Ret (rm\<lparr> rm_hub := h3, rm_sessions := r, rm_graph := g3 \<rparr>))))"

definition on_remove_track :: "'pc lib \<Rightarrow> (uuid \<Rightarrow> bool) \<Rightarrow> track_info \<Rightarrow> 'pc room \<Rightarrow> 'pc room outcome" where
  "on_remove_track L pick t rm =
     (let (h, g) = decrease_node_graph_stats L (lb_uuid_str L (get_session_id t)) ingress_endpoint (get_purpose t)
            (hub_metric_dec (get_purpose t) (rm_hub rm, rm_graph rm))
      in outcome_bind (sender_remove t h) (\<lambda>h1.
           let i = lt_id (get_track_local t);
               h2 = (if has_key (hb_tracks h1) i then h1\<lparr> hb_tracks := AList.delete i (hb_tracks h1) \<rparr> else h1)
           in outcome_bind (sr_iter (remove_routine L pick t) (rm_sessions rm) (h2, g)) (\<lambda>(r, h3, g3).
                Ret (rm\<lparr> rm_hub := h3, rm_sessions := r, rm_graph := g3 \<rparr>))))"

text \<open>A mute request starts one goroutine per session.  They touch different
  sessions, so their order does not matter; one that has to wait for its session
  keeps nobody else waiting.\<close>

definition mute_routine ::
  "'pc lib \<Rightarrow> codec \<Rightarrow> track_info \<Rightarrow> 'pc session \<Rightarrow> unit \<Rightarrow> ('pc session \<times> unit) outcome" where
  "mute_routine L C t s st =
     (if filter_for_session L (ss_id s) t
      then case session_mute_track C t s of
             Ret s' \<Rightarrow> Ret (s', st) | Block \<Rightarrow> Ret (s, st) | Panic \<Rightarrow> Panic
      else Ret (s, st))"

definition hub_on_mute_track :: "'pc lib \<Rightarrow> codec \<Rightarrow> track_info \<Rightarrow> 'pc room \<Rightarrow> 'pc room outcome" where
  "hub_on_mute_track L C t rm =
     outcome_bind (sr_iter (mute_routine L C t) (rm_sessions rm) ()) (\<lambda>(r, _).
       Ret (rm\<lparr> rm_sessions := r \<rparr>))"

definition on_get_track_list :: "hub \<Rightarrow> track_info list" where
  "on_get_track_list h = fold (\<lambda>(_, t) acc. acc @ [t]) (hb_tracks h) []"

text \<open>What a wait on the hub ends with: the other side is there, the hub is
  closed, or three seconds have passed.\<close>

datatype hub_event = Hub_Taken | Hub_Closed | Hub_Timeout

text \<open>The list is filtered, and the statistics counted, by the caller.  A list that
  never arrives is an empty list, without an error.\<close>

fun passes :: "(track_info \<Rightarrow> bool) list \<Rightarrow> track_info \<Rightarrow> bool" where
  "passes [] t = True"
| "passes (f # fs) t = (if \<not> f t then False else passes fs t)"

fun collect_tracks ::
  "'pc lib \<Rightarrow> string \<Rightarrow> (track_info \<Rightarrow> bool) list \<Rightarrow> track_info list \<Rightarrow> track_info list \<Rightarrow> hub \<times> graph
     \<Rightarrow> track_info list \<times> hub \<times> graph" where
  "collect_tracks L session_id fs [] acc st = (acc, st)"
| "collect_tracks L session_id fs (t # ts) acc st =
     (if fs = [] \<or> passes fs t
      then collect_tracks L session_id fs ts (acc @ [t])
             (increase_node_graph_stats L session_id egress_endpoint (get_purpose t) st)
      else collect_tracks L session_id fs ts acc st)"

definition hub_get_track_list ::
  "'pc lib \<Rightarrow> hub_event \<Rightarrow> hub_event \<Rightarrow> uuid \<Rightarrow> (track_info \<Rightarrow> bool) list \<Rightarrow> 'pc room
     \<Rightarrow> track_info list result \<times> 'pc room" where
  "hub_get_track_list L ev1 ev2 session_id fs rm =
     (case ev1 of
        Hub_Closed \<Rightarrow> (Inl err_hub_already_closed, rm)
      | Hub_Timeout \<Rightarrow> (Inl err_hub_dispatch_timeout, rm)
      | Hub_Taken \<Rightarrow>
          (let hub_list = (case ev2 of Hub_Taken \<Rightarrow> on_get_track_list (rm_hub rm) | _ \<Rightarrow> []);
               (l, h, g) = collect_tracks L (lb_uuid_str L session_id) fs hub_list [] (rm_hub rm, rm_graph rm)
           in (Inr l, rm\<lparr> rm_hub := h, rm_graph := g \<rparr>)))"

text \<open>The loop of the hub, and the dispatching side: a request that finds the hub
  closed or busy for three seconds is dropped.\<close>

datatype hub_request = Add_Track track_info | Remove_Track track_info | Get_Track_List | Mute_Track track_info

definition hub_serve ::
  "'pc lib \<Rightarrow> codec \<Rightarrow> (uuid \<Rightarrow> bool) \<Rightarrow> hub_request \<Rightarrow> 'pc room \<Rightarrow> 'pc room outcome" where
  "hub_serve L C pick q rm =
     (case q of
        Add_Track t \<Rightarrow> on_add_track L pick t rm
      | Remove_Track t \<Rightarrow> on_remove_track L pick t rm
      | Get_Track_List \<Rightarrow> Ret rm
      | Mute_Track t \<Rightarrow> hub_on_mute_track L C t rm)"

definition hub_dispatch ::
  "'pc lib \<Rightarrow> codec \<Rightarrow> (uuid \<Rightarrow> bool) \<Rightarrow> hub_event \<Rightarrow> hub_request \<Rightarrow> 'pc room \<Rightarrow> 'pc room outcome" where
  "hub_dispatch L C pick ev q rm =
     (case ev of Hub_Taken \<Rightarrow> hub_serve L C pick q rm | _ \<Rightarrow> Ret rm)"

fun hub_run ::
  "'pc lib \<Rightarrow> codec \<Rightarrow> (uuid \<Rightarrow> bool) \<Rightarrow> (hub_event \<times> hub_request) list \<Rightarrow> 'pc room \<Rightarrow> 'pc room outcome" where
  "hub_run L C pick [] rm = Ret rm"
| "hub_run L C pick ((ev, q) # qs) rm =
     outcome_bind (hub_dispatch L C pick ev q rm) (hub_run L C pick qs)"

section \<open>Helper lemmas\<close>

lemma stats_live [simp]:
  "hb_live (fst (increase_node_graph_stats L i ty p st)) = hb_live (fst st)"
  "hb_live (fst (decrease_node_graph_stats L i ty p st)) = hb_live (fst st)"
  "hb_live (fst (hub_metric_inc p st)) = hb_live (fst st)"
  "hb_live (fst (hub_metric_dec p st)) = hb_live (fst st)"
  by (simp_all add: increase_node_graph_stats_def decrease_node_graph_stats_def hub_metric_inc_def
      hub_metric_dec_def Let_def split_beta split: option.splits)

lemma stats_frame [simp]:
  "hb_tracks (fst (increase_node_graph_stats L i ty p st)) = hb_tracks (fst st)"
  "hb_sender (fst (increase_node_graph_stats L i ty p st)) = hb_sender (fst st)"
  "hb_tracks (fst (decrease_node_graph_stats L i ty p st)) = hb_tracks (fst st)"
  "hb_sender (fst (decrease_node_graph_stats L i ty p st)) = hb_sender (fst st)"
  "hb_tracks (fst (hub_metric_inc p st)) = hb_tracks (fst st)"
  "hb_sender (fst (hub_metric_inc p st)) = hb_sender (fst st)"
  "hb_tracks (fst (hub_metric_dec p st)) = hb_tracks (fst st)"
  "hb_sender (fst (hub_metric_dec p st)) = hb_sender (fst st)"
  by (simp_all add: increase_node_graph_stats_def decrease_node_graph_stats_def hub_metric_inc_def
      hub_metric_dec_def Let_def split_beta split: option.splits)

lemma sender_frame:
  "sender_add t h = Ret h' \<Longrightarrow> hb_tracks h' = hb_tracks h"
  "sender_remove t h = Ret h' \<Longrightarrow> hb_tracks h' = hb_tracks h"
  "sender_add t h = Ret h' \<Longrightarrow> hb_live h' = hb_live h"
  "sender_remove t h = Ret h' \<Longrightarrow> hb_live h' = hb_live h"
  "sender_add t h = Ret h' \<Longrightarrow> hb_sender h = None \<Longrightarrow> hb_sender h' = None"
  "sender_remove t h = Ret h' \<Longrightarrow> hb_sender h = None \<Longrightarrow> hb_sender h' = None"
  by (auto simp: sender_add_def sender_remove_def split: if_splits option.splits)

lemma sr_iter_state:
  assumes "sr_iter f r st = Ret (r', st')" "Q st"
    and "\<And>s st s' st'. f s st = Ret (s', st') \<Longrightarrow> Q st \<Longrightarrow> Q st'"
  shows "Q st'"
  using assms(1,2)
proof (induction r arbitrary: st r')
  case (Cons e r)
  obtain k s where e: "e = (k, s)" by (cases e)
  obtain s1 st1 r1 where f: "f s st = Ret (s1, st1)" "sr_iter f r st1 = Ret (r1, st')"
    using Cons.prems by (auto simp: e outcome_simps)
  show ?case by (rule Cons.IH[OF f(2) assms(3)[OF f(1) Cons.prems(2)]])
qed simp

text \<open>What the requests keep of the hub.\<close>

definition same_hub :: "hub \<Rightarrow> hub \<Rightarrow> bool" where
  "same_hub h h' = (hb_live h' = hb_live h \<and> (hb_sender h = None \<longrightarrow> hb_sender h' = None))"

lemma same_hub_refl [simp]: "same_hub h h"
  by (simp add: same_hub_def)

text \<open>Each session of the new table comes from the routine's run on the old one.\<close>

lemma sr_iter_from:
  assumes "sr_iter f r st = Ret (r', st')" "map_of r' k = Some s'"
  shows "\<exists>s st1 st2. map_of r k = Some s \<and> f s st1 = Ret (s', st2)"
proof -
  have "rel_option (\<lambda>s s'. \<exists>st1 st2. f s st1 = Ret (s', st2)) (map_of r k) (map_of r' k)"
    by (rule sr_iter_lookup[OF assms(1)]) blast
  then show ?thesis using assms(2) by (cases "map_of r k") auto
qed

lemma sr_iter_to:
  assumes "sr_iter f r st = Ret (r', st')" "map_of r k = Some s"
  shows "\<exists>s' st1 st2. map_of r' k = Some s' \<and> f s st1 = Ret (s', st2)"
proof -
  have "rel_option (\<lambda>s s'. \<exists>st1 st2. f s st1 = Ret (s', st2)) (map_of r k) (map_of r' k)"
    by (rule sr_iter_lookup[OF assms(1)]) blast
  then show ?thesis using assms(2) by (cases "map_of r' k") auto
qed

text \<open>A library that refuses no track and no removal.\<close>

definition lib_accepts :: "'pc lib \<Rightarrow> bool" where
  "lib_accepts L = ((\<forall>t pc. is_ok (fst (lb_add_track L t pc))) \<and> (\<forall>s pc. fst (lb_remove_track L s pc) = None))"

lemma list_lib_accepts [simp]: "lib_accepts list_lib"
  by (simp add: lib_accepts_def list_lib_def)

lemma add_track_senders:
  assumes "add_track L t e = Ret e'" "ep_pc e = Some pc" "lib_tracks_ok L" "lib_accepts L"
  shows "\<exists>pc'. ep_pc e' = Some pc' \<and>
    sender_tracks L pc' = insert (lt_id (get_track_local t)) (sender_tracks L pc) \<and> ep_init e' = ep_init e"
proof (cases "has_track L (get_track_local t) e")
  case True
  then have "e' = e" using assms(1,2) by simp
  then show ?thesis using True assms(2) by (auto simp: has_track_iff)
next
  case False
  have "fst (lb_add_track L (get_track_local t) pc) \<noteq> Inl err" for err
    using assms(4) unfolding lib_accepts_def by (metis is_ok_simps(2))
  then show ?thesis
    using add_track_new[OF assms(1,2) False assms(3)] add_track_frame[OF assms(1)] by fastforce
qed

lemma remove_track_senders:
  assumes "remove_track L t e = Ret e'" "ep_pc e = Some pc" "lib_tracks_ok L" "lib_accepts L"
  shows "\<exists>pc'. ep_pc e' = Some pc' \<and>
    sender_tracks L pc' = sender_tracks L pc - {lt_id (get_track_local t)} \<and> ep_init e' = ep_init e"
proof (cases "find_sender L (get_track_local t) e")
  case None
  then have "e' = e" "\<not> has_track L (get_track_local t) e"
    using assms(1,2) by (auto simp: remove_track_def has_track_def)
  then show ?thesis using assms(2) by (auto simp: has_track_iff)
next
  case (Some s)
  obtain x where x: "sn_track s = Some x" "lt_id x = lt_id (get_track_local t)"
    using find_sender_Some[OF assms(2) Some] by blast
  obtain pc' where lib: "lb_remove_track L s pc = (None, pc')"
    using assms(4) unfolding lib_accepts_def by (metis prod.collapse)
  then have "sender_tracks L pc' = sender_tracks L pc - {lt_id x}"
    using assms(3) x(1) by (simp add: lib_tracks_ok_def)
  moreover have "ep_pc e' = Some pc'" "ep_init e' = ep_init e"
    using assms(1,2) Some lib by (auto simp: remove_track_def Let_def outcome_simps)
  ultimately show ?thesis using x by simp
qed

section \<open>The hub and the egress endpoints agree\<close>

text \<open>The tracks a session should be sent: those the hub knows, but for its own.\<close>

definition wanted_tracks :: "'pc lib \<Rightarrow> uuid \<Rightarrow> hub \<Rightarrow> string set" where
  "wanted_tracks L i h = {k. \<exists>t. map_of (hb_tracks h) k = Some t \<and> filter_for_session L i t}"

definition sends_exactly :: "'pc lib \<Rightarrow> string set \<Rightarrow> 'pc session \<Rightarrow> bool" where
  "sends_exactly L W s = (\<forall>e. ss_egress s = Some e \<longrightarrow> (\<exists>pc. ep_pc e = Some pc \<and> sender_tracks L pc = W))"

definition hub_consistent :: "'pc lib \<Rightarrow> (uuid \<Rightarrow> bool) \<Rightarrow> 'pc room \<Rightarrow> bool" where
  "hub_consistent L pick rm =
     (\<forall>k s. map_of (rm_sessions rm) k = Some s \<longrightarrow> init_complete (pick (ss_id s)) s \<longrightarrow>
        sends_exactly L (wanted_tracks L (ss_id s) (rm_hub rm)) s)"

text \<open>Every track belongs to one session.\<close>

definition owned :: "(string \<Rightarrow> uuid) \<Rightarrow> track_info \<Rightarrow> bool" where
  "owned own t = (get_session_id t = own (lt_id (get_track_local t)))"

definition hub_owned :: "(string \<Rightarrow> uuid) \<Rightarrow> hub \<Rightarrow> bool" where
  "hub_owned own h =
     (\<forall>i t. map_of (hb_tracks h) i = Some t \<longrightarrow> lt_id (get_track_local t) = i \<and> owned own t)"

fun request_owned :: "(string \<Rightarrow> uuid) \<Rightarrow> hub_request \<Rightarrow> bool" where
  "request_owned own (Add_Track t) = owned own t"
| "request_owned own (Remove_Track t) = owned own t"
| "request_owned own _ = True"

lemma wanted_add:
  assumes "hub_owned own h" "owned own t" "hb_tracks h' = AList.update (lt_id (get_track_local t)) t (hb_tracks h)"
  shows "wanted_tracks L i h' = (if filter_for_session L i t then insert (lt_id (get_track_local t)) (wanted_tracks L i h)
    else wanted_tracks L i h)"
  using assms by (auto simp: wanted_tracks_def hub_owned_def owned_def filter_for_session_def)

lemma wanted_remove:
  assumes "hub_owned own h" "owned own t"
    and "map_of (hb_tracks h') = (map_of (hb_tracks h))(lt_id (get_track_local t) := None)"
  shows "wanted_tracks L i h' = (if filter_for_session L i t then wanted_tracks L i h - {lt_id (get_track_local t)}
    else wanted_tracks L i h)"
  using assms by (auto simp: wanted_tracks_def hub_owned_def owned_def filter_for_session_def)

lemma init_complete_egress:
  "init_complete p s \<longleftrightarrow> \<not> ss_locked s \<and> (\<exists>e. ss_egress s = Some e \<and> ep_init e \<and> (ss_done s \<longrightarrow> p))"
  by (auto simp: init_complete_def is_init_complete_def split: option.splits)

text \<open>What a routine does to one session: it touches the egress endpoint only, by
  a function that keeps the readiness.\<close>

definition egress_only :: "'pc session \<Rightarrow> 'pc session \<Rightarrow> bool" where
  "egress_only s s' = (ss_id s' = ss_id s \<and> ss_user s' = ss_user s \<and> ss_type s' = ss_type s \<and>
     ss_live s' = ss_live s \<and> ss_ingress s' = ss_ingress s \<and> ss_locked s' = ss_locked s \<and> ss_done s' = ss_done s)"

lemma egress_only_refl [simp]: "egress_only s s"
  by (simp add: egress_only_def)

lemma add_routine_step:
  assumes "add_routine L pick t s st = Ret (s', st')"
  shows "st' = st \<and> egress_only s s' \<and> init_complete p s' = init_complete p s \<and>
    (if init_complete (pick (ss_id s)) s \<and> filter_for_session L (ss_id s) t
     then \<exists>e e'. ss_egress s = Some e \<and> ss_egress s' = Some e' \<and> add_track L t e = Ret e'
     else s' = s)"
  using assms
  by (auto simp: add_routine_def session_add_track_def init_complete_egress egress_only_def outcome_simps
      split: if_splits option.splits dest: add_track_frame)

lemma remove_track_frame: "remove_track L t e = Ret e' \<Longrightarrow> ep_init e' = ep_init e"
  by (auto simp: remove_track_def Let_def outcome_simps split: option.splits)

lemma remove_routine_step:
  assumes "remove_routine L pick t s st = Ret (s', st')"
  shows "hb_tracks (fst st') = hb_tracks (fst st) \<and> same_hub (fst st) (fst st') \<and> egress_only s s' \<and> init_complete p s' = init_complete p s \<and>
    (if init_complete (pick (ss_id s)) s \<and> filter_for_session L (ss_id s) t
     then \<exists>e e'. ss_egress s = Some e \<and> ss_egress s' = Some e' \<and> remove_track L t e = Ret e'
     else s' = s)"
  using assms
  by (auto simp: remove_routine_def session_remove_track_def init_complete_egress egress_only_def outcome_simps same_hub_def
      split: if_splits option.splits dest: remove_track_frame)

lemma set_egress_mute_frame:
  "ep_pc (snd (set_egress_mute i b e)) = ep_pc e" "ep_init (snd (set_egress_mute i b e)) = ep_init e"
  by (auto simp: set_egress_mute_def split: option.splits)

lemma session_mute_step:
  assumes "session_mute_track C t s = Ret s'"
  shows "egress_only s s' \<and> (s' = s \<or> (\<exists>e e'. ss_egress s = Some e \<and> ss_egress s' = Some e' \<and>
    ep_pc e' = ep_pc e \<and> ep_init e' = ep_init e))"
proof (cases "ss_egress s")
  case None
  then show ?thesis using assms by (auto simp: session_mute_track_def split: if_splits)
next
  case (Some e)
  obtain x e' where m: "set_egress_mute (get_id t) (get_mute t) e = (x, e')"
    by (cases "set_egress_mute (get_id t) (get_mute t) e")
  have "ep_pc e' = ep_pc e" "ep_init e' = ep_init e"
    using set_egress_mute_frame[of "get_id t" "get_mute t" e] by (simp_all add: m)
  moreover have "egress_only s s' \<and> ss_egress s' = Some e'"
    using assms Some m
    by (auto simp: session_mute_track_def egress_only_def outcome_simps split: if_splits option.splits)
  ultimately show ?thesis using Some by blast
qed

lemma mute_routine_step:
  assumes "mute_routine L C t s st = Ret (s', st')"
  shows "egress_only s s' \<and> (s' = s \<or> (\<exists>e e'. ss_egress s = Some e \<and> ss_egress s' = Some e' \<and>
    ep_pc e' = ep_pc e \<and> ep_init e' = ep_init e))"
proof (cases "filter_for_session L (ss_id s) t \<and> session_mute_track C t s = Ret s'")
  case True
  then show ?thesis using session_mute_step by blast
next
  case False
  then have "s' = s" using assms by (auto simp: mute_routine_def split: if_splits outcome.splits)
  then show ?thesis by simp
qed

section \<open>Every request keeps the agreement\<close>

text \<open>One session's share: if its endpoint sent exactly what was wanted before, it
  does so after the routine.\<close>

lemma egress_only_init:
  assumes "egress_only s s'" "s' = s \<or> (\<exists>e e'. ss_egress s = Some e \<and> ss_egress s' = Some e' \<and> ep_init e' = ep_init e)"
  shows "init_complete p s' = init_complete p s"
  using assms by (auto simp: egress_only_def init_complete_egress)

lemma add_routine_sends:
  assumes "add_routine L pick t s st = Ret (s', st')" "lib_tracks_ok L" "lib_accepts L"
    and "init_complete (pick (ss_id s)) s" "sends_exactly L W s"
  shows "sends_exactly L (if filter_for_session L (ss_id s) t then insert (lt_id (get_track_local t)) W else W) s'"
proof (cases "filter_for_session L (ss_id s) t")
  case True
  then obtain e e' where e: "ss_egress s = Some e" "ss_egress s' = Some e'" "add_track L t e = Ret e'"
    using add_routine_step[OF assms(1), of True] assms(4) by auto
  obtain pc where "ep_pc e = Some pc" "sender_tracks L pc = W" using assms(5) e(1) by (auto simp: sends_exactly_def)
  then show ?thesis using add_track_senders[OF e(3) _ assms(2,3)] e(2) True by (auto simp: sends_exactly_def)
next
  case False
  then show ?thesis using add_routine_step[OF assms(1)] assms(5) by auto
qed

lemma remove_routine_sends:
  assumes "remove_routine L pick t s st = Ret (s', st')" "lib_tracks_ok L" "lib_accepts L"
    and "init_complete (pick (ss_id s)) s" "sends_exactly L W s"
  shows "sends_exactly L (if filter_for_session L (ss_id s) t then W - {lt_id (get_track_local t)} else W) s'"
proof (cases "filter_for_session L (ss_id s) t")
  case True
  then obtain e e' where e: "ss_egress s = Some e" "ss_egress s' = Some e'" "remove_track L t e = Ret e'"
    using remove_routine_step[OF assms(1), of True] assms(4) by auto
  obtain pc where "ep_pc e = Some pc" "sender_tracks L pc = W" using assms(5) e(1) by (auto simp: sends_exactly_def)
  then show ?thesis using remove_track_senders[OF e(3) _ assms(2,3)] e(2) True by (auto simp: sends_exactly_def)
next
  case False
  then show ?thesis using remove_routine_step[OF assms(1)] assms(5) by auto
qed

lemma on_add_track_result:
  assumes "on_add_track L pick t rm = Ret rm'"
  shows "\<exists>h g st'. hb_tracks h = hb_tracks (rm_hub rm) \<and> same_hub (rm_hub rm) h \<and>
    sr_iter (add_routine L pick t) (rm_sessions rm)
      (h\<lparr> hb_tracks := AList.update (lt_id (get_track_local t)) t (hb_tracks h) \<rparr>, g) = Ret (rm_sessions rm', st') \<and>
    rm_hub rm' = fst st'"
proof -
  obtain h g where m: "hub_metric_inc (get_purpose t) (increase_node_graph_stats L
      (lb_uuid_str L (get_session_id t)) ingress_endpoint (get_purpose t) (rm_hub rm, rm_graph rm)) = (h, g)"
    by (cases "hub_metric_inc (get_purpose t) (increase_node_graph_stats L
      (lb_uuid_str L (get_session_id t)) ingress_endpoint (get_purpose t) (rm_hub rm, rm_graph rm))")
  have h: "hb_tracks h = hb_tracks (rm_hub rm)" "hb_live h = hb_live (rm_hub rm)" "hb_sender h = hb_sender (rm_hub rm)"
    using arg_cong[OF m, of "\<lambda>x. hb_tracks (fst x)"] arg_cong[OF m, of "\<lambda>x. hb_live (fst x)"]
      arg_cong[OF m, of "\<lambda>x. hb_sender (fst x)"] by simp_all
  obtain h1 where h1: "sender_add t h = Ret h1"
    using assms by (auto simp: on_add_track_def m Let_def outcome_simps)
  have h2: "hb_tracks h1 = hb_tracks h" "same_hub (rm_hub rm) h1"
    using sender_frame[of t h h1] h1 h by (simp_all add: same_hub_def)
  show ?thesis
    using assms h h1 h2 by (intro exI[of _ h1] exI[of _ g]) (auto simp: on_add_track_def m Let_def outcome_simps)
qed

lemma on_remove_track_result:
  assumes "on_remove_track L pick t rm = Ret rm'"
  shows "\<exists>h g st'. map_of (hb_tracks h) = (map_of (hb_tracks (rm_hub rm)))(lt_id (get_track_local t) := None) \<and>
    same_hub (rm_hub rm) h \<and>
    sr_iter (remove_routine L pick t) (rm_sessions rm) (h, g) = Ret (rm_sessions rm', st') \<and>
    rm_hub rm' = fst st'"
proof -
  let ?i = "lt_id (get_track_local t)"
  let ?m = "decrease_node_graph_stats L (lb_uuid_str L (get_session_id t)) ingress_endpoint (get_purpose t)
      (hub_metric_dec (get_purpose t) (rm_hub rm, rm_graph rm))"
  obtain h g where m: "?m = (h, g)" by (cases ?m)
  have h: "hb_tracks h = hb_tracks (rm_hub rm)" "hb_live h = hb_live (rm_hub rm)" "hb_sender h = hb_sender (rm_hub rm)"
    using arg_cong[OF m, of "\<lambda>x. hb_tracks (fst x)"] arg_cong[OF m, of "\<lambda>x. hb_live (fst x)"]
      arg_cong[OF m, of "\<lambda>x. hb_sender (fst x)"] by simp_all
  obtain h1 where h1: "sender_remove t h = Ret h1"
    using assms by (auto simp: on_remove_track_def m Let_def outcome_simps)
  have h2: "hb_tracks h1 = hb_tracks h" "same_hub (rm_hub rm) h1"
    using sender_frame[of t h h1] h1 h by (simp_all add: same_hub_def)
  let ?h2 = "if has_key (hb_tracks h1) ?i then h1\<lparr> hb_tracks := AList.delete ?i (hb_tracks h1) \<rparr> else h1"
  have "map_of (hb_tracks ?h2) = (map_of (hb_tracks (rm_hub rm)))(?i := None)"
    by (auto simp: h h2(1) fun_upd_idem)
  moreover have "same_hub (rm_hub rm) ?h2" using h2(2) by (simp add: same_hub_def)
  moreover have "\<exists>st'. sr_iter (remove_routine L pick t) (rm_sessions rm) (?h2, g) = Ret (rm_sessions rm', st') \<and>
      rm_hub rm' = fst st'"
    using assms h1 by (auto simp: on_remove_track_def m Let_def outcome_simps)
  ultimately show ?thesis by blast
qed

lemma hub_ownedI:
  assumes "hub_owned own h" "\<And>i x. map_of (hb_tracks h') i = Some x \<Longrightarrow>
      map_of (hb_tracks h) i = Some x \<or> lt_id (get_track_local x) = i \<and> owned own x"
  shows "hub_owned own h'"
  using assms unfolding hub_owned_def by blast

text \<open>A table made by a routine that touches the egress endpoints only, and makes
  them send what is wanted.\<close>

lemma consistent_by_routine:
  assumes "sr_iter f (rm_sessions rm) st = Ret (rm_sessions rm', st')" "hub_consistent L pick rm"
    and step: "\<And>s st s' st'. f s st = Ret (s', st') \<Longrightarrow>
      egress_only s s' \<and> init_complete (pick (ss_id s)) s' = init_complete (pick (ss_id s)) s"
    and sends: "\<And>s st s' st'. f s st = Ret (s', st') \<Longrightarrow> init_complete (pick (ss_id s)) s \<Longrightarrow>
      sends_exactly L (wanted_tracks L (ss_id s) (rm_hub rm)) s \<Longrightarrow>
      sends_exactly L (wanted_tracks L (ss_id s) (rm_hub rm')) s'"
  shows "hub_consistent L pick rm'"
  unfolding hub_consistent_def
proof (intro allI impI)
  fix k s' assume s': "map_of (rm_sessions rm') k = Some s'" "init_complete (pick (ss_id s')) s'"
  obtain s st1 st2 where s: "map_of (rm_sessions rm) k = Some s" "f s st1 = Ret (s', st2)"
    using sr_iter_from[OF assms(1) s'(1)] by blast
  have i: "ss_id s' = ss_id s" "init_complete (pick (ss_id s)) s"
    using step[OF s(2)] s'(2) by (auto simp: egress_only_def)
  have "sends_exactly L (wanted_tracks L (ss_id s) (rm_hub rm)) s"
    using assms(2) s(1) i(2) by (simp add: hub_consistent_def)
  from sends[OF s(2) i(2) this]
  show "sends_exactly L (wanted_tracks L (ss_id s') (rm_hub rm')) s'" by (simp add: i(1))
qed

lemma add_keeps_consistent:
  assumes "on_add_track L pick t rm = Ret rm'" "lib_tracks_ok L" "lib_accepts L"
    and "hub_owned own (rm_hub rm)" "owned own t" "hub_consistent L pick rm"
  shows "hub_consistent L pick rm' \<and> hub_owned own (rm_hub rm')"
proof -
  obtain h g st' where h: "hb_tracks h = hb_tracks (rm_hub rm)"
    and it: "sr_iter (add_routine L pick t) (rm_sessions rm)
      (h\<lparr> hb_tracks := AList.update (lt_id (get_track_local t)) t (hb_tracks h) \<rparr>, g) = Ret (rm_sessions rm', st')"
    and h': "rm_hub rm' = fst st'"
    using on_add_track_result[OF assms(1)] by blast
  have tr: "hb_tracks (rm_hub rm') = AList.update (lt_id (get_track_local t)) t (hb_tracks (rm_hub rm))"
    unfolding h' by (rule sr_iter_state[OF it]) (use h in simp, use add_routine_step in blast)
  have "hub_owned own (rm_hub rm')"
    by (rule hub_ownedI[OF assms(4)]) (use assms(5) in \<open>auto simp: tr split: if_splits\<close>)
  moreover have "hub_consistent L pick rm'"
  proof (rule consistent_by_routine[OF it assms(6)])
    fix s st s' st'
    assume a: "add_routine L pick t s st = Ret (s', st')"
    show "egress_only s s' \<and> init_complete (pick (ss_id s)) s' = init_complete (pick (ss_id s)) s"
      using add_routine_step[OF a] by blast
    show "sends_exactly L (wanted_tracks L (ss_id s) (rm_hub rm')) s'"
      if "init_complete (pick (ss_id s)) s" "sends_exactly L (wanted_tracks L (ss_id s) (rm_hub rm)) s"
      using add_routine_sends[OF a assms(2,3) that] by (simp add: wanted_add[OF assms(4,5) tr])
  qed
  ultimately show ?thesis by blast
qed

lemma remove_keeps_consistent:
  assumes "on_remove_track L pick t rm = Ret rm'" "lib_tracks_ok L" "lib_accepts L"
    and "hub_owned own (rm_hub rm)" "owned own t" "hub_consistent L pick rm"
  shows "hub_consistent L pick rm' \<and> hub_owned own (rm_hub rm')"
proof -
  obtain h g st' where h: "map_of (hb_tracks h) = (map_of (hb_tracks (rm_hub rm)))(lt_id (get_track_local t) := None)"
    and it: "sr_iter (remove_routine L pick t) (rm_sessions rm) (h, g) = Ret (rm_sessions rm', st')"
    and h': "rm_hub rm' = fst st'"
    using on_remove_track_result[OF assms(1)] by blast
  have "hb_tracks (rm_hub rm') = hb_tracks h"
    unfolding h' by (rule sr_iter_state[OF it]) (simp, metis remove_routine_step)
  then have tr: "map_of (hb_tracks (rm_hub rm')) = (map_of (hb_tracks (rm_hub rm)))(lt_id (get_track_local t) := None)"
    using h by simp
  have "hub_owned own (rm_hub rm')"
    by (rule hub_ownedI[OF assms(4)]) (auto simp: tr split: if_splits)
  moreover have "hub_consistent L pick rm'"
  proof (rule consistent_by_routine[OF it assms(6)])
    fix s st s' st'
    assume a: "remove_routine L pick t s st = Ret (s', st')"
    show "egress_only s s' \<and> init_complete (pick (ss_id s)) s' = init_complete (pick (ss_id s)) s"
      using remove_routine_step[OF a] by blast
    show "sends_exactly L (wanted_tracks L (ss_id s) (rm_hub rm')) s'"
      if "init_complete (pick (ss_id s)) s" "sends_exactly L (wanted_tracks L (ss_id s) (rm_hub rm)) s"
      using remove_routine_sends[OF a assms(2,3) that] by (simp add: wanted_remove[OF assms(4,5) tr])
  qed
  ultimately show ?thesis by blast
qed

lemma mute_keeps_consistent:
  assumes "hub_on_mute_track L C t rm = Ret rm'" "hub_consistent L pick rm"
  shows "hub_consistent L pick rm' \<and> rm_hub rm' = rm_hub rm"
proof -
  obtain st' where it: "sr_iter (mute_routine L C t) (rm_sessions rm) () = Ret (rm_sessions rm', st')"
    and h: "rm_hub rm' = rm_hub rm"
    using assms(1) by (auto simp: hub_on_mute_track_def outcome_simps)
  have "hub_consistent L pick rm'"
  proof (rule consistent_by_routine[OF it assms(2)])
    fix s st s' st'
    assume a: "mute_routine L C t s st = Ret (s', st')"
    note step = mute_routine_step[OF a]
    show "egress_only s s' \<and> init_complete (pick (ss_id s)) s' = init_complete (pick (ss_id s)) s"
      using step egress_only_init[of s s'] by blast
    show "sends_exactly L (wanted_tracks L (ss_id s) (rm_hub rm')) s'"
      if "sends_exactly L (wanted_tracks L (ss_id s) (rm_hub rm)) s"
      using step that by (auto simp: h sends_exactly_def)
  qed
  then show ?thesis using h by blast
qed

section \<open>Lists of tracks\<close>

lemma on_get_track_list_eq: "on_get_track_list h = map snd (hb_tracks h)"
proof -
  have "fold (\<lambda>(_, t) acc. acc @ [t]) m l = l @ map snd m" for m :: "(string, track_info) gomap" and l
    by (induction m arbitrary: l) auto
  then show ?thesis by (simp add: on_get_track_list_def)
qed

lemma passes_iff: "passes fs t \<longleftrightarrow> (\<forall>f\<in>set fs. f t)"
  by (induction fs) auto

lemma collect_tracks_eq:
  "collect_tracks L i fs ts acc st = (l, h, g) \<Longrightarrow>
     l = acc @ filter (passes fs) ts \<and> hb_tracks h = hb_tracks (fst st)"
proof (induction ts arbitrary: acc st)
  case (Cons t ts)
  show ?case
  proof (cases "fs = [] \<or> passes fs t")
    case True
    then have "passes fs t" by auto
    with True show ?thesis using Cons.IH[of "acc @ [t]"] Cons.prems by fastforce
  next
    case False
    then show ?thesis using Cons.IH[of acc] Cons.prems by simp
  qed
qed auto

lemma add_tracks_senders:
  assumes "add_tracks L ts e = Ret e'" "ep_pc e = Some pc" "lib_tracks_ok L" "lib_accepts L"
  shows "\<exists>pc'. ep_pc e' = Some pc' \<and>
    sender_tracks L pc' = (\<lambda>t. lt_id (get_track_local t)) ` set ts \<union> sender_tracks L pc"
  using assms(1,2)
proof (induction ts arbitrary: e pc)
  case (Cons t ts)
  obtain e1 where e1: "add_track L t e = Ret e1" "add_tracks L ts e1 = Ret e'"
    using Cons.prems(1) by (auto simp: outcome_simps)
  obtain pc1 where "ep_pc e1 = Some pc1" "sender_tracks L pc1 = insert (lt_id (get_track_local t)) (sender_tracks L pc)"
    using add_track_senders[OF e1(1) Cons.prems(2) assms(3,4)] by blast
  then show ?case using Cons.IH[OF e1(2)] by auto
qed simp

lemma list_is_wanted:
  assumes "hub_get_track_list L Hub_Taken Hub_Taken i [filter_for_session L i] rm = (Inr l, rm')"
    and "wf_map (hb_tracks (rm_hub rm))" "hub_owned own (rm_hub rm)"
  shows "(\<lambda>t. lt_id (get_track_local t)) ` set l = wanted_tracks L i (rm_hub rm)"
proof -
  have "l = filter (passes [filter_for_session L i]) (map snd (hb_tracks (rm_hub rm)))"
    using assms(1) collect_tracks_eq
    by (fastforce simp: hub_get_track_list_def on_get_track_list_eq split: prod.splits)
  then have l: "t \<in> set l \<longleftrightarrow> (\<exists>k. map_of (hb_tracks (rm_hub rm)) k = Some t) \<and> filter_for_session L i t" for t
    using wf_mem_iff[OF assms(2)] by (force simp: passes_iff)
  have k: "map_of (hb_tracks (rm_hub rm)) k = Some t \<Longrightarrow> lt_id (get_track_local t) = k" for k t
    using assms(3) by (simp add: hub_owned_def)
  show ?thesis
  proof (rule set_eqI)
    fix x
    show "x \<in> (\<lambda>t. lt_id (get_track_local t)) ` set l \<longleftrightarrow> x \<in> wanted_tracks L i (rm_hub rm)"
      unfolding wanted_tracks_def mem_Collect_eq image_iff using l k by blast
  qed
qed

section \<open>Properties\<close>

text \<open>The specification of the hub's table: a partial map from track identifiers to
  tracks, which the requests that reach the hub update.\<close>

fun table_step :: "hub_event \<times> hub_request \<Rightarrow> (string \<rightharpoonup> track_info) \<Rightarrow> (string \<rightharpoonup> track_info)" where
  "table_step (Hub_Taken, Add_Track t) m = m(lt_id (get_track_local t) \<mapsto> t)"
| "table_step (Hub_Taken, Remove_Track t) m = m(lt_id (get_track_local t) := None)"
| "table_step _ m = m"

lemma add_table:
  assumes "on_add_track L pick t rm = Ret rm'"
  shows "hb_tracks (rm_hub rm') = AList.update (lt_id (get_track_local t)) t (hb_tracks (rm_hub rm))"
proof -
  obtain h g st' where h: "hb_tracks h = hb_tracks (rm_hub rm)"
    and it: "sr_iter (add_routine L pick t) (rm_sessions rm)
      (h\<lparr> hb_tracks := AList.update (lt_id (get_track_local t)) t (hb_tracks h) \<rparr>, g) = Ret (rm_sessions rm', st')"
    and h': "rm_hub rm' = fst st'"
    using on_add_track_result[OF assms] by blast
  show ?thesis unfolding h' by (rule sr_iter_state[OF it]) (use h in simp, use add_routine_step in blast)
qed

lemma remove_table:
  assumes "on_remove_track L pick t rm = Ret rm'"
  shows "map_of (hb_tracks (rm_hub rm')) = (map_of (hb_tracks (rm_hub rm)))(lt_id (get_track_local t) := None)"
proof -
  obtain h g st' where h: "map_of (hb_tracks h) = (map_of (hb_tracks (rm_hub rm)))(lt_id (get_track_local t) := None)"
    and it: "sr_iter (remove_routine L pick t) (rm_sessions rm) (h, g) = Ret (rm_sessions rm', st')"
    and h': "rm_hub rm' = fst st'"
    using on_remove_track_result[OF assms] by blast
  have "hb_tracks (rm_hub rm') = hb_tracks h"
    unfolding h' by (rule sr_iter_state[OF it]) (simp, metis remove_routine_step)
  then show ?thesis using h by simp
qed

lemma dispatch_step:
  assumes "hub_dispatch L C pick ev q rm = Ret rm'" "lib_tracks_ok L" "lib_accepts L"
    and "request_owned own q" "hub_owned own (rm_hub rm)" "hub_consistent L pick rm"
  shows "hub_consistent L pick rm' \<and> hub_owned own (rm_hub rm') \<and>
    map_of (hb_tracks (rm_hub rm')) = table_step (ev, q) (map_of (hb_tracks (rm_hub rm)))"
proof (cases "ev = Hub_Taken")
  case True
  show ?thesis
  proof (cases q)
    case (Add_Track t)
    then have a: "on_add_track L pick t rm = Ret rm'" "owned own t"
      using assms(1,4) True by (simp_all add: hub_dispatch_def hub_serve_def)
    show ?thesis using add_keeps_consistent[OF a(1) assms(2,3,5) a(2) assms(6)] add_table[OF a(1)] True
      by (simp add: Add_Track)
  next
    case (Remove_Track t)
    then have a: "on_remove_track L pick t rm = Ret rm'" "owned own t"
      using assms(1,4) True by (simp_all add: hub_dispatch_def hub_serve_def)
    show ?thesis using remove_keeps_consistent[OF a(1) assms(2,3,5) a(2) assms(6)] remove_table[OF a(1)] True
      by (simp add: Remove_Track)
  next
    case Get_Track_List
    then show ?thesis using assms True by (simp add: hub_dispatch_def hub_serve_def)
  next
    case (Mute_Track t)
    then have "hub_on_mute_track L C t rm = Ret rm'"
      using assms(1) True by (simp add: hub_dispatch_def hub_serve_def)
    from mute_keeps_consistent[OF this assms(6)] show ?thesis using assms(5) True by (simp add: Mute_Track)
  qed
next
  case False
  then have "rm' = rm" using assms(1) by (cases ev) (auto simp: hub_dispatch_def)
  moreover have "table_step (ev, q) m = m" for m using False by (cases ev; cases q) auto
  ultimately show ?thesis using assms by simp
qed

text \<open>C2: whatever requests reach the hub, as long as every track belongs to one
  session and the library refuses nothing, the hub's table is the abstract one
  and each initialised session goes on being sent exactly the tracks of the
  others: what the table has, but for its own.\<close>

theorem hub_keeps_endpoints_in_step:
  assumes "hub_run L C pick qs rm = Ret rm'" "lib_tracks_ok L" "lib_accepts L"
    and "\<forall>(ev, q)\<in>set qs. request_owned own q" "hub_owned own (rm_hub rm)" "hub_consistent L pick rm"
  shows "hub_consistent L pick rm' \<and> hub_owned own (rm_hub rm') \<and>
    map_of (hb_tracks (rm_hub rm')) = fold table_step qs (map_of (hb_tracks (rm_hub rm)))"
  using assms(1,4-6)
proof (induction qs arbitrary: rm)
  case (Cons eq qs)
  obtain ev q where eq: "eq = (ev, q)" by (cases eq)
  obtain rm1 where rm1: "hub_dispatch L C pick ev q rm = Ret rm1" "hub_run L C pick qs rm1 = Ret rm'"
    using Cons.prems(1) by (auto simp: eq outcome_simps)
  have "request_owned own q" using Cons.prems(2) by (simp add: eq)
  note s = dispatch_step[OF rm1(1) assms(2,3) this Cons.prems(3,4)]
  show ?case using Cons.IH[OF rm1(2)] Cons.prems(2) s by (simp add: eq)
qed simp

text \<open>A room with a receiving session: its egress endpoint is ready and sends
  nothing.\<close>

definition sample_session :: "local_track list session" where
  "sample_session = (new_session 1 10 7 8 user_session)\<lparr> ss_egress := Some (sample_endpoint\<lparr> ep_init := True \<rparr>) \<rparr>"

definition sample_room :: "local_track list room" where
  "sample_room = new_hub list_lib [(1, sample_session)] 8 None \<lparr> gr_on = False, gr_calls = [] \<rparr>"

lemma sample_room_simps [simp]:
  "hb_tracks (rm_hub sample_room) = []" "hb_sender (rm_hub sample_room) = None"
  "rm_sessions sample_room = [(1, sample_session)]"
  by (simp_all add: sample_room_def new_hub_def Let_def graph_node_update_def)

lemma sample_session_simps [simp]:
  "ss_id sample_session = 1" "ss_locked sample_session = False" "ss_done sample_session = False"
  "ss_egress sample_session = Some (sample_endpoint\<lparr> ep_init := True \<rparr>)"
  by (simp_all add: sample_session_def new_session_def)

lemma sample_room_consistent:
  "hub_consistent list_lib pick sample_room" "hub_owned own (rm_hub sample_room)"
  by (auto simp: hub_consistent_def sends_exactly_def wanted_tracks_def list_lib_tracks sample_endpoint_def
      hub_owned_def)

lemma sample_filter [simp]: "filter_for_session list_lib 1 sample_track"
  by (simp add: show_nat_inj filter_for_session_def list_lib_def sample_track_def track_getters new_track_info_def
      new_track_sdp_info_def)

lemma sample_purpose [simp]: "get_purpose sample_track = purpose_guest"
  by (simp add: sample_track_def track_getters new_track_info_def new_track_sdp_info_def)

lemma sample_add_returns:
  "\<exists>s rm. on_add_track list_lib pick sample_track sample_room = Ret rm \<and> rm_sessions rm = [(1, s)] \<and> ss_id s = 1"
proof -
  obtain e' where "add_track list_lib sample_track (sample_endpoint\<lparr> ep_init := True \<rparr>) = Ret e'"
    by (simp add: add_track_def sample_endpoint_def list_lib_def has_track_def find_sender_def
        new_endpoint_def empty_endpoint_def Let_def sample_track_def get_track_local_def new_track_info_def)
  then have "add_routine list_lib pick sample_track sample_session st =
      Ret (sample_session\<lparr> ss_egress := Some e' \<rparr>, st)" for st
    by (simp add: add_routine_def init_complete_egress session_add_track_def)
  then show ?thesis
    by (simp add: on_add_track_def split_beta Let_def sender_add_def purpose_main_def purpose_guest_def)
qed

lemma hub_keeps_endpoints_in_step_witness:
  "\<forall>C pick. \<exists>rm. hub_run list_lib C pick [(Hub_Timeout, Get_Track_List), (Hub_Taken, Add_Track sample_track)] sample_room = Ret rm \<and>
     map_of (hb_tracks (rm_hub rm)) (lt_id (get_track_local sample_track)) = Some sample_track \<and>
     hub_consistent list_lib pick rm"
proof (intro allI)
  fix C pick
  let ?qs = "[(Hub_Timeout, Get_Track_List), (Hub_Taken, Add_Track sample_track)]"
  obtain rm where rm: "hub_run list_lib C pick ?qs sample_room = Ret rm"
    using sample_add_returns[of pick] by (auto simp: hub_dispatch_def hub_serve_def)
  have "\<forall>(ev, q)\<in>set ?qs. request_owned (\<lambda>_. get_session_id sample_track) q" by (simp add: owned_def)
  from hub_keeps_endpoints_in_step[OF rm list_lib_ok list_lib_accepts this sample_room_consistent(2,1)] rm
  show "\<exists>rm. hub_run list_lib C pick ?qs sample_room = Ret rm \<and>
      map_of (hb_tracks (rm_hub rm)) (lt_id (get_track_local sample_track)) = Some sample_track \<and>
      hub_consistent list_lib pick rm" by simp
qed


text \<open>A room whose hub knows one track.\<close>

definition track_room :: "local_track list room" where
  "track_room = sample_room\<lparr> rm_hub := (rm_hub sample_room)\<lparr> hb_tracks := [(''l'', sample_track)] \<rparr> \<rparr>"

lemma track_room_simps [simp]:
  "hb_tracks (rm_hub track_room) = [(''l'', sample_track)]" "rm_sessions track_room = [(1, sample_session)]"
  "hb_sender (rm_hub track_room) = None"
  by (simp_all add: track_room_def)

lemma sample_track_id [simp]: "lt_id (get_track_local sample_track) = ''l''"
  by (simp add: sample_track_def get_track_local_def new_track_info_def)

lemma track_room_owned: "hub_owned (\<lambda>_. get_session_id sample_track) (rm_hub track_room)"
  by (simp add: hub_owned_def owned_def)

lemma track_room_list:
  "\<exists>rm'. hub_get_track_list list_lib Hub_Taken Hub_Taken 1 [filter_for_session list_lib 1] track_room = (Inr [sample_track], rm')"
  by (auto simp: hub_get_track_list_def on_get_track_list_eq split_beta Let_def)

definition joining_endpoint :: "local_track list endpoint" where
  "joining_endpoint = sample_endpoint\<lparr> ep_init := True, ep_get_tracks := Some Hub_Track_List \<rparr>"

lemma joining_returns: "\<exists>e'. setup_tracks list_lib False (Inr [sample_track]) joining_endpoint = Ret e'"
  by (simp add: setup_tracks_def joining_endpoint_def add_track_def sample_endpoint_def list_lib_def has_track_def
      find_sender_def new_endpoint_def empty_endpoint_def Let_def sample_track_def get_track_local_def new_track_info_def)


text \<open>A removal that the hub serves between handing a joining session its list
  and the setting up of that list is lost: the session has no such sender yet,
  so it is left alone, and then it is sent a track the hub no longer knows.\<close>

theorem join_races_removal:
  assumes "on_remove_track L pick t rm = Ret rm'"
    and "map_of (rm_sessions rm) k = Some s" "ss_egress s = Some e" "ep_pc e = Some pc" "sender_tracks L pc = {}"
    and "t \<in> set l" "ep_init e" "ep_get_tracks e \<noteq> None" "setup_tracks L False (Inr l) e = Ret e'"
    and "lib_tracks_ok L" "lib_accepts L"
  shows "map_of (rm_sessions rm') k = Some s \<and> lt_id (get_track_local t) \<notin> wanted_tracks L i (rm_hub rm') \<and>
    has_track L (get_track_local t) e'"
proof -
  obtain h g st' where it: "sr_iter (remove_routine L pick t) (rm_sessions rm) (h, g) = Ret (rm_sessions rm', st')"
    using on_remove_track_result[OF assms(1)] by blast
  obtain s' st1 st2 where s': "map_of (rm_sessions rm') k = Some s'" "remove_routine L pick t s st1 = Ret (s', st2)"
    using sr_iter_to[OF it assms(2)] by blast
  have "\<not> has_track L (get_track_local t) e" using assms(4,5) by (simp add: has_track_iff)
  then have "remove_track L t e = Ret e" using assms(4) by (simp add: remove_track_def has_track_def)
  then have "s' = s" using s'(2) assms(3)
    by (auto simp: remove_routine_def session_remove_track_def outcome_simps split: if_splits)
  have "add_tracks L l e = Ret e'" using assms(7-9) by (auto simp: setup_tracks_def)
  from add_tracks_senders[OF this assms(4,10,11)]
  have "has_track L (get_track_local t) e'" using assms(6) by (auto simp: has_track_iff)
  then show ?thesis using s'(1) \<open>s' = s\<close> remove_table[OF assms(1)] by (simp add: wanted_tracks_def)
qed

lemma track_room_remove:
  "\<exists>rm'. on_remove_track list_lib pick sample_track
     (track_room\<lparr> rm_sessions := [(1, sample_session\<lparr> ss_egress := Some joining_endpoint \<rparr>)] \<rparr>) = Ret rm'"
  by (simp add: on_remove_track_def split_beta Let_def sender_remove_def purpose_main_def purpose_guest_def
      remove_routine_def init_complete_egress session_remove_track_def remove_track_def find_sender_def
      joining_endpoint_def sample_endpoint_def list_lib_def)

lemma join_races_removal_witness:
  "\<forall>pick. \<exists>rm' e'. on_remove_track list_lib pick sample_track
      (track_room\<lparr> rm_sessions := [(1, sample_session\<lparr> ss_egress := Some joining_endpoint \<rparr>)] \<rparr>) = Ret rm' \<and>
     setup_tracks list_lib False (Inr [sample_track]) joining_endpoint = Ret e' \<and>
     ''l'' \<notin> wanted_tracks list_lib 1 (rm_hub rm') \<and> has_track list_lib (get_track_local sample_track) e'"
proof (rule allI, goal_cases)
  case (1 pick)
  obtain rm' where rm: "on_remove_track list_lib pick sample_track
      (track_room\<lparr> rm_sessions := [(1, sample_session\<lparr> ss_egress := Some joining_endpoint \<rparr>)] \<rparr>) = Ret rm'"
    using track_room_remove by blast
  obtain e' where e': "setup_tracks list_lib False (Inr [sample_track]) joining_endpoint = Ret e'"
    using joining_returns by blast
  have "map_of (rm_sessions (track_room\<lparr> rm_sessions := [(1, sample_session\<lparr> ss_egress := Some joining_endpoint \<rparr>)] \<rparr>)) 1
      = Some (sample_session\<lparr> ss_egress := Some joining_endpoint \<rparr>)"
    "ss_egress (sample_session\<lparr> ss_egress := Some joining_endpoint \<rparr>) = Some joining_endpoint"
    "ep_pc joining_endpoint = Some []" "sender_tracks list_lib [] = {}" "sample_track \<in> set [sample_track]"
    "ep_init joining_endpoint" "ep_get_tracks joining_endpoint \<noteq> None"
    by (simp_all add: joining_endpoint_def sample_endpoint_def list_lib_tracks)
  from join_races_removal[OF rm this e' list_lib_ok list_lib_accepts, of 1] rm e'
  show ?case by auto
qed

text \<open>C19: muting a track reaches every other session: if its egress endpoint has
  the track and its messenger is open, one message goes out that the client
  decodes to the egress media identifier and the new mute flag, and the flag is
  kept; the muting session itself is left alone.\<close>

theorem mute_reaches_others:
  assumes "hub_on_mute_track L C t rm = Ret rm'" "codec_ok C"
    and "map_of (rm_sessions rm) k = Some s" "\<not> ss_locked s" "ss_egress s = Some e"
    and "repo_get (ep_repo e) (get_id t) = Some info" "ti_id info = get_id t"
    and "sg_messenger (ss_signal s) = Some m" "mg_worker m" "\<not> mg_quit m"
    and "is_ok (cd_marshal C \<lparr> cm_id = 0, cm_data = Mute_Data \<lparr> mu_mid = ti_egress_mid info, mu_mute = get_mute t \<rparr>,
      cm_type = mute_msg \<rparr>)"
  shows "\<exists>s'. map_of (rm_sessions rm') k = Some s' \<and>
    (if filter_for_session L (ss_id s) t
     then \<exists>e' m' b. ss_egress s' = Some e' \<and> map_option ti_mute (repo_get (ep_repo e') (get_id t)) = Some (get_mute t) \<and>
       sg_messenger (ss_signal s') = Some m' \<and> mg_sent m' = mg_sent m @ [b] \<and>
       on_messages C False b m = Ret (map (\<lambda>x. (x, On_Mute \<lparr> mu_mid = ti_egress_mid info, mu_mute = get_mute t \<rparr>)) (observers m))
     else s' = s)"
proof -
  obtain st' where it: "sr_iter (mute_routine L C t) (rm_sessions rm) () = Ret (rm_sessions rm', st')"
    using assms(1) by (auto simp: hub_on_mute_track_def outcome_simps)
  obtain s' st1 st2 where s': "map_of (rm_sessions rm') k = Some s'" "mute_routine L C t s st1 = Ret (s', st2)"
    using sr_iter_to[OF it assms(3)] by blast
  show ?thesis
  proof (cases "filter_for_session L (ss_id s) t")
    case True
    let ?mu = "\<lparr> mu_mid = ti_egress_mid info, mu_mute = get_mute t \<rparr>"
    let ?e' = "e\<lparr> ep_repo := repo_modify (get_id t) (\<lambda>v. v\<lparr> ti_mute := get_mute t \<rparr>) (ep_repo e) \<rparr>"
    obtain b where b: "cd_marshal C \<lparr> cm_id = 0, cm_data = Mute_Data ?mu, cm_type = mute_msg \<rparr> = Inr b"
      using assms(11) by (auto simp: is_ok_iff)
    have "session_mute_track C t s = Ret (s\<lparr> ss_egress := Some ?e',
        ss_signal := (ss_signal s)\<lparr> sg_messenger := Some (m\<lparr> mg_sent := mg_sent m @ [b] \<rparr>) \<rparr> \<rparr>)"
      using assms(4-6,8-10) b
      by (simp add: session_mute_track_def set_egress_mute_def send_mute_def msg_marshal_def enqueue_def
          get_egress_mid_def get_mute_def new_track_info_def)
    then have "s' = s\<lparr> ss_egress := Some ?e',
        ss_signal := (ss_signal s)\<lparr> sg_messenger := Some (m\<lparr> mg_sent := mg_sent m @ [b] \<rparr>) \<rparr> \<rparr>"
      using s'(2) True by (simp add: mute_routine_def)
    moreover have "on_messages C False b m = Ret (map (\<lambda>x. (x, On_Mute ?mu)) (observers m))"
      using assms(2) b by (simp add: on_messages_def msg_unmarshal_def notify_all_def handle_mute_msg_def
          mute_unmarshal_def codec_ok_def mute_msg_def answer_msg_def offer_msg_def)
    moreover have "map_option ti_mute (repo_get (ep_repo ?e') (get_id t)) = Some (get_mute t)"
      using assms(6) by (simp add: repo_get_modify)
    ultimately show ?thesis using s'(1) True by simp
  next
    case False
    then show ?thesis using s' by (simp add: mute_routine_def)
  qed
qed

lemma mute_reaches_others_witness:
  "\<exists>rm' s' m' C. hub_on_mute_track list_lib C sample_track
      (sample_room\<lparr> rm_sessions := [(1, sample_session\<lparr> ss_egress := Some (sample_endpoint\<lparr> ep_repo := [(3, tk_sdp sample_track)] \<rparr>),
         ss_signal := (ss_signal sample_session)\<lparr> sg_messenger := Some (on_open new_messenger) \<rparr> \<rparr>)] \<rparr>) = Ret rm' \<and>
     map_of (rm_sessions rm') 1 = Some s' \<and> sg_messenger (ss_signal s') = Some m' \<and> length (mg_sent m') = 1"
proof -
  let ?e = "sample_endpoint\<lparr> ep_repo := [(3, tk_sdp sample_track)] \<rparr>"
  let ?s = "sample_session\<lparr> ss_egress := Some ?e,
    ss_signal := (ss_signal sample_session)\<lparr> sg_messenger := Some (on_open new_messenger) \<rparr> \<rparr>"
  let ?rm = "sample_room\<lparr> rm_sessions := [(1, ?s)] \<rparr>"
  let ?C = "mute_codec \<lparr> mu_mid = [], mu_mute = True \<rparr>"
  have t: "get_id sample_track = 3" "ti_id (tk_sdp sample_track) = 3"
    by (simp_all add: sample_track_def get_id_def new_track_info_def new_track_sdp_info_def)
  have i: "ti_egress_mid (tk_sdp sample_track) = []" "ti_mute (tk_sdp sample_track)"
    by (simp_all add: sample_track_def new_track_info_def new_track_sdp_info_def)
  have m: "mg_worker (on_open new_messenger)" "\<not> mg_quit (on_open new_messenger)" "mg_sent (on_open new_messenger) = []"
    by (simp_all add: on_open_def new_messenger_def)
  obtain rm' where rm': "hub_on_mute_track list_lib ?C sample_track ?rm = Ret rm'"
    using t m i by (auto simp: hub_on_mute_track_def mute_routine_def session_mute_track_def set_egress_mute_def
        repo_get_def send_mute_def msg_marshal_def enqueue_def mute_codec_def get_egress_mid_def get_mute_def
        new_track_info_def)
  have C: "is_ok (cd_marshal ?C \<lparr> cm_id = 0, cm_data = Mute_Data \<lparr> mu_mid = ti_egress_mid (tk_sdp sample_track),
      mu_mute = get_mute sample_track \<rparr>, cm_type = mute_msg \<rparr>)"
    by (simp add: mute_codec_def i get_mute_def)
  have "map_of (rm_sessions ?rm) 1 = Some ?s" "\<not> ss_locked ?s" "ss_egress ?s = Some ?e"
    "repo_get (ep_repo ?e) (get_id sample_track) = Some (tk_sdp sample_track)" "ti_id (tk_sdp sample_track) = get_id sample_track"
    "sg_messenger (ss_signal ?s) = Some (on_open new_messenger)"
    by (simp_all add: repo_get_def t)
  from mute_reaches_others[OF rm' mute_codec_ok this m(1,2) C] rm' m(3)
  show ?thesis by auto
qed

text \<open>A track with the purpose of the main stream needs a live stream sender: in
  a hub without one, its arrival and its removal panic.\<close>

theorem main_track_without_sender_panics:
  assumes "hb_sender (rm_hub rm) = None" "get_purpose t = purpose_main"
  shows "on_add_track L pick t rm = Panic \<and> on_remove_track L pick t rm = Panic"
  using assms by (simp add: on_add_track_def on_remove_track_def split_beta Let_def sender_add_def sender_remove_def)

lemma main_track_without_sender_panics_witness:
  "on_add_track list_lib pick (sample_track\<lparr> tk_sdp := (tk_sdp sample_track)\<lparr> ti_purpose := 2 \<rparr> \<rparr>) sample_room = Panic"
  by (rule main_track_without_sender_panics[THEN conjunct1]) (simp_all add: get_purpose_def purpose_main_def)

section \<open>What the node statistics miss\<close>

definition egress_count :: "'pc lib \<Rightarrow> uuid \<Rightarrow> hub \<Rightarrow> graph_node option" where
  "egress_count L i h = map_of (hb_nodes h) (''egress'' @ lb_uuid_str L i)"

lemma increase_ingress_keeps_egress:
  "egress_count L i (fst (increase_node_graph_stats L s ingress_endpoint p st)) = egress_count L i (fst st)"
  by (simp add: egress_count_def increase_node_graph_stats_def endpoint_type_to_string_def split_beta Let_def)

lemma hub_metric_keeps_nodes: "hb_nodes (fst (hub_metric_inc p st)) = hb_nodes (fst st)"
  by (simp add: hub_metric_inc_def split_beta Let_def)

lemma sender_add_nodes: "sender_add t h = Ret h' \<Longrightarrow> hb_nodes h' = hb_nodes h"
  by (auto simp: sender_add_def split: if_splits option.splits)

text \<open>A track that arrives while a session is connected is sent to it but not
  counted in its egress node; the routine of a removal counts it out, so the
  node of a session with one listed track is deleted when a later track goes.\<close>

theorem arrivals_not_counted:
  "(\<forall>rm'. on_add_track L pick t rm = Ret rm' \<longrightarrow> egress_count L i (rm_hub rm') = egress_count L i (rm_hub rm)) \<and>
   (\<forall>s s' h g st' n. remove_routine L pick t s (h, g) = Ret (s', st') \<and> init_complete (pick (ss_id s)) s \<and>
      filter_for_session L (ss_id s) t \<and> egress_count L (ss_id s) h = Some n \<and> gr_on g \<and>
      gn_tracks n = 1 \<and> gn_main_tracks n = 0 \<and> get_purpose t = purpose_guest \<longrightarrow>
      egress_count L (ss_id s) (fst st') = None)"
proof (intro conjI allI impI)
  fix rm' assume a: "on_add_track L pick t rm = Ret rm'"
  let ?m = "hub_metric_inc (get_purpose t) (increase_node_graph_stats L
      (lb_uuid_str L (get_session_id t)) ingress_endpoint (get_purpose t) (rm_hub rm, rm_graph rm))"
  have h: "egress_count L i (fst ?m) = egress_count L i (rm_hub rm)"
    using increase_ingress_keeps_egress[of L i] by (simp add: egress_count_def hub_metric_keeps_nodes)
  obtain h1 r3 st3 where h1: "sender_add t (fst ?m) = Ret h1"
    and it: "sr_iter (add_routine L pick t) (rm_sessions rm)
      (h1\<lparr> hb_tracks := AList.update (lt_id (get_track_local t)) t (hb_tracks h1) \<rparr>, snd ?m) = Ret (r3, st3)"
    and rm': "rm_hub rm' = fst st3"
    using a by (auto simp: on_add_track_def split_beta Let_def outcome_simps)
  have "egress_count L i (fst st3) = egress_count L i h1"
    by (rule sr_iter_state[OF it]) (simp add: egress_count_def, use add_routine_step in blast)
  then show "egress_count L i (rm_hub rm') = egress_count L i (rm_hub rm)"
    using h sender_add_nodes[OF h1] by (simp add: rm' egress_count_def)
next
  fix s s' h g st' n
  assume "remove_routine L pick t s (h, g) = Ret (s', st') \<and> init_complete (pick (ss_id s)) s \<and>
      filter_for_session L (ss_id s) t \<and> egress_count L (ss_id s) h = Some n \<and> gr_on g \<and>
      gn_tracks n = 1 \<and> gn_main_tracks n = 0 \<and> get_purpose t = purpose_guest"
  moreover from this have "st' = decrease_node_graph_stats L (lb_uuid_str L (ss_id s)) egress_endpoint (get_purpose t) (h, g)"
    by (auto simp: remove_routine_def outcome_simps)
  ultimately show "egress_count L (ss_id s) (fst st') = None"
    by (simp add: egress_count_def decrease_node_graph_stats_def endpoint_type_to_string_def ingress_endpoint_def
        egress_endpoint_def graph_node_update_dec_def graph_node_update_def purpose_to_string_def purpose_guest_def
        Let_def split_beta)
qed

lemma sample_removed:
  "\<exists>s' st'. remove_routine list_lib pick sample_track sample_session (h, g) = Ret (s', st')"
proof -
  have "find_sender list_lib t (sample_endpoint\<lparr> ep_init := True \<rparr>) = None" for t
    by (simp add: find_sender_def sample_endpoint_def list_lib_def)
  then have "remove_track list_lib sample_track (sample_endpoint\<lparr> ep_init := True \<rparr>) = Ret (sample_endpoint\<lparr> ep_init := True \<rparr>)"
    by (simp add: remove_track_def sample_endpoint_def)
  then have "session_remove_track list_lib sample_track sample_session = Ret sample_session"
    by (simp add: session_remove_track_def)
  then show ?thesis by (simp add: remove_routine_def init_complete_egress)
qed

lemma arrivals_not_counted_witness:
  "\<forall>pick. \<exists>s' st'. remove_routine list_lib pick sample_track sample_session
      ((rm_hub sample_room)\<lparr> hb_nodes := [(''egress1'', (build_node ''1'' ''8'' ''egress'')\<lparr> gn_tracks := 1 \<rparr>)] \<rparr>,
       \<lparr> gr_on = True, gr_calls = [] \<rparr>) = Ret (s', st') \<and> egress_count list_lib 1 (fst st') = None"
proof (rule allI, goal_cases)
  case (1 pick)
  let ?h = "(rm_hub sample_room)\<lparr> hb_nodes := [(''egress1'', (build_node ''1'' ''8'' ''egress'')\<lparr> gn_tracks := 1 \<rparr>)] \<rparr>"
  obtain s' st' where r: "remove_routine list_lib pick sample_track sample_session (?h, \<lparr> gr_on = True, gr_calls = [] \<rparr>) = Ret (s', st')"
    using sample_removed[of pick ?h "\<lparr> gr_on = True, gr_calls = [] \<rparr>"] by blast
  have i: "init_complete (pick (ss_id sample_session)) sample_session" by (simp add: init_complete_egress)
  have "egress_count list_lib (ss_id sample_session) ?h = Some ((build_node ''1'' ''8'' ''egress'')\<lparr> gn_tracks := 1 \<rparr>)"
    by (simp add: egress_count_def list_lib_def show_nat.simps[of 1] show_nat.simps[of "Suc 0"] digit_def)
  then show ?case
    using arrivals_not_counted[of list_lib pick sample_track, THEN conjunct2, rule_format,
        of sample_session ?h "\<lparr> gr_on = True, gr_calls = [] \<rparr>" s' st'
           "(build_node ''1'' ''8'' ''egress'')\<lparr> gn_tracks := 1 \<rparr>"] r i
    by (auto simp: build_node_def)
qed

end
