(* ===== verification/Lobby.thy ===== *)
theory Lobby
  imports Hub Federation
begin

text \<open>
  A lobby (\<^verbatim>\<open>internal/lobby/lobby.go\<close>, \<^verbatim>\<open>lobby_entity.go\<close>,
  \<^verbatim>\<open>lobby_item.go\<close>): the hub and the sessions of one live stream, and the
  goroutine that serves the creation and the removal of sessions and the
  commands one after the other.  The lobby's context is the flag
  \<^verbatim>\<open>ly_done\<close>; the contexts of its sessions are its children.
\<close>

section \<open>State\<close>

record lobby_entity =
  le_stream :: uuid
  le_uuid :: uuid
  le_space :: string
  le_running :: bool
  le_live :: bool
  le_host :: string

definition new_lobby_entity :: "uuid \<Rightarrow> uuid \<Rightarrow> string \<Rightarrow> string \<Rightarrow> lobby_entity" where
  "new_lobby_entity new_uuid stream space shig_host =
     \<lparr> le_stream = stream, le_uuid = new_uuid, le_space = space, le_running = False, le_live = False,
       le_host = shig_host \<rparr>"

definition get_host :: "lobby_entity \<Rightarrow> string" where "get_host e = le_host e"
definition get_space :: "lobby_entity \<Rightarrow> string" where "get_space e = le_space e"
definition get_live_stream_id :: "'pc lib \<Rightarrow> lobby_entity \<Rightarrow> string" where
  "get_live_stream_id L e = lb_uuid_str L (le_stream e)"

record 'pc lobby =
  ly_id :: uuid
  ly_done :: bool
  ly_entity :: lobby_entity
  ly_hub :: hub
  ly_sessions :: "'pc session_repo"
  ly_connector :: connector

definition err_no_session :: go_error where "err_no_session = Err ''no session exists''"
definition err_session_already_exists :: go_error where
  "err_session_already_exists = Err ''session already exists''"
definition err_lobby_closed :: go_error where "err_lobby_closed = Err ''lobby already closed''"

text \<open>A lobby is made without a live stream sender.  The error of parsing the host is
  dropped, and a missing URL read.\<close>

definition new_lobby ::
  "'pc lib \<Rightarrow> net \<Rightarrow> (string \<Rightarrow> uuid) \<Rightarrow> lobby_entity \<Rightarrow> url \<Rightarrow> string \<Rightarrow> graph \<Rightarrow> ('pc lobby \<times> graph) outcome" where
  "new_lobby L N instance_id entity home token g =
     (case nt_parse_url N (le_host entity) of
        None \<Rightarrow> Panic
      | Some host_iri \<Rightarrow>
          (let rm = new_hub L new_session_repository (le_stream entity) None g
           in Ret (\<lparr> ly_id = le_uuid entity, ly_done = False, ly_entity = entity, ly_hub = rm_hub rm,
                     ly_sessions = rm_sessions rm,
                     ly_connector = new_connector instance_id home host_iri (le_space entity)
                        (lb_uuid_str L (le_stream entity)) token \<rparr>, rm_graph rm)))"

definition lobby_room :: "'pc lobby \<Rightarrow> graph \<Rightarrow> 'pc room" where
  "lobby_room l g = \<lparr> rm_hub = ly_hub l, rm_sessions = ly_sessions l, rm_graph = g \<rparr>"

definition with_room :: "'pc room \<Rightarrow> 'pc lobby \<Rightarrow> 'pc lobby" where
  "with_room rm l = l\<lparr> ly_hub := rm_hub rm, ly_sessions := rm_sessions rm \<rparr>"

definition stop_lobby :: "'pc lobby \<Rightarrow> 'pc lobby" where
  "stop_lobby l = l\<lparr> ly_done := True, ly_sessions := map (\<lambda>(k, s). (k, stop_session s)) (ly_sessions l) \<rparr>"

section \<open>The sequencer\<close>

text \<open>The fresh identifiers of a new session are arguments.\<close>

definition seq_create :: "uuid \<Rightarrow> uuid \<Rightarrow> item \<Rightarrow> 'pc lobby \<Rightarrow> bool \<times> 'pc lobby" where
  "seq_create session_id signal_id i l =
     (if ly_done l then (False, l)
      else let (r, ok) = sr_new (new_session session_id signal_id (it_user i) (hb_live (ly_hub l)) (it_type i)) (ly_sessions l)
           in (ok, l\<lparr> ly_sessions := r \<rparr>))"

text \<open>The removal tells whether the lobby now asks to be deleted: no session of a user
  is left.\<close>

definition seq_garbage :: "item \<Rightarrow> 'pc lobby \<Rightarrow> bool \<times> bool \<times> 'pc lobby" where
  "seq_garbage i l =
     (let (r, ok) = delete_by_user (it_user i) (ly_sessions l)
      in (ok, len_user_session r = 0, l\<lparr> ly_sessions := r \<rparr>))"

text \<open>A command runs on the session of its user.  The error set after the run does
  not reach a command that is done.\<close>

definition handle ::
  "'pc lib \<Rightarrow> 'pc engine \<Rightarrow> signal_event \<Rightarrow> wait_event \<Rightarrow> command \<Rightarrow> 'pc lobby \<Rightarrow> graph
     \<Rightarrow> (command \<times> 'pc lobby \<times> graph) outcome" where
  "handle L E sev ev c l g =
     (case find_by_user_id (ly_sessions l) (get_user_id c) of
        Some s \<Rightarrow>
          outcome_bind (execute L E sev ev c s g) (\<lambda>(c', s', g').
            Ret (set_error err_no_session c', l\<lparr> ly_sessions := fst (sr_update s' (ly_sessions l)) \<rparr>, g'))
      | None \<Rightarrow> Ret (set_error err_no_session c, l, g))"

definition seq_command ::
  "'pc lib \<Rightarrow> 'pc engine \<Rightarrow> signal_event \<Rightarrow> wait_event \<Rightarrow> command \<Rightarrow> 'pc lobby \<Rightarrow> graph
     \<Rightarrow> (command \<times> 'pc lobby \<times> graph) outcome" where
  "seq_command L E sev ev c l g =
     (if ly_done l then Ret (set_error err_lobby_closed c, l, g) else handle L E sev ev c l g)"

section \<open>The calls on a lobby\<close>

text \<open>What ends the wait for the sequencer.\<close>

datatype seq_event = Seq_Taken | Seq_Closed | Seq_Timeout

definition lobby_new_session ::
  "seq_event \<Rightarrow> uuid \<Rightarrow> uuid \<Rightarrow> uuid \<Rightarrow> session_type \<Rightarrow> 'pc lobby \<Rightarrow> bool \<times> 'pc lobby" where
  "lobby_new_session ev session_id signal_id user ty l =
     (case ev of
        Seq_Taken \<Rightarrow> seq_create session_id signal_id ((new_item user)\<lparr> it_type := ty \<rparr>) l
      | _ \<Rightarrow> (False, l))"

definition lobby_remove_session :: "seq_event \<Rightarrow> uuid \<Rightarrow> 'pc lobby \<Rightarrow> bool \<times> bool \<times> 'pc lobby" where
  "lobby_remove_session ev user l =
     (case ev of Seq_Taken \<Rightarrow> seq_garbage (new_item user) l | _ \<Rightarrow> (False, False, l))"

text \<open>A command waits for the sequencer, or for the lobby to be closed.\<close>

definition run_command ::
  "'pc lib \<Rightarrow> 'pc engine \<Rightarrow> seq_event \<Rightarrow> signal_event \<Rightarrow> wait_event \<Rightarrow> command \<Rightarrow> 'pc lobby \<Rightarrow> graph
     \<Rightarrow> (command \<times> 'pc lobby \<times> graph) outcome" where
  "run_command L E qev sev ev c l g =
     (case qev of
        Seq_Taken \<Rightarrow> seq_command L E sev ev c l g
      | Seq_Closed \<Rightarrow> (if ly_done l then Ret (set_error err_lobby_closed c, l, g) else Block)
      | Seq_Timeout \<Rightarrow> Block)"

text \<open>The connection of a lobby whose stream another instance hosts.\<close>

definition run_built ::
  "'pc lib \<Rightarrow> 'pc engine \<Rightarrow> signal_event \<Rightarrow> wait_event \<Rightarrow> command result \<Rightarrow> 'pc lobby \<Rightarrow> graph
     \<Rightarrow> (bool \<times> 'pc lobby \<times> graph) outcome" where
  "run_built L E sev ev built l g =
     (case built of
        Inl _ \<Rightarrow> Ret (False, l, g)
      | Inr c \<Rightarrow>
          outcome_bind (run_command L E Seq_Taken sev ev c l g) (\<lambda>(c', l', g').
            outcome_bind (wait_for_done c') (\<lambda>r. Ret (is_ok r, l', g'))))"

definition connect_to_live_stream_host_instance ::
  "'pc lib \<Rightarrow> net \<Rightarrow> 'pc engine \<Rightarrow> seq_event \<Rightarrow> signal_event \<Rightarrow> wait_event \<Rightarrow> uuid \<Rightarrow> uuid \<Rightarrow> 'pc lobby \<Rightarrow> graph
     \<Rightarrow> ('pc lobby \<times> graph) outcome" where
  "connect_to_live_stream_host_instance L N E qev sev ev session_id signal_id l g =
     (let (ok, l1) = lobby_new_session qev session_id signal_id (get_instance_id (ly_connector l)) instance_session l in
      if \<not> ok then Ret (l1, g)
      else let (b, cn) = build_ingress N (ly_connector l1) in
        outcome_bind (run_built L E sev ev b (l1\<lparr> ly_connector := cn \<rparr>) g) (\<lambda>(ok2, l2, g2).
          if \<not> ok2 then Ret (l2, g2)
          else let (b2, cn2) = build_egress N (ly_connector l2) in
            outcome_bind (run_built L E sev ev b2 (l2\<lparr> ly_connector := cn2 \<rparr>) g2) (\<lambda>(_, l3, g3). Ret (l3, g3))))"

section \<open>Sessions keep their names\<close>

text \<open>What an operation on a session never changes.\<close>

definition same_names :: "'pc session \<Rightarrow> 'pc session \<Rightarrow> bool" where
  "same_names s s' = (ss_id s' = ss_id s \<and> ss_user s' = ss_user s \<and> ss_type s' = ss_type s \<and> ss_live s' = ss_live s)"

lemma same_names_refl [simp]: "same_names s s"
  by (simp add: same_names_def)

lemma create_ingress_names:
  "create_ingress_endpoint L E ev d k s g = Ret (r, s', g') \<Longrightarrow> same_names s s'"
  by (auto simp: create_ingress_endpoint_def same_names_def outcome_simps split: if_splits sum.splits prod.splits)

lemma offer_ingress_names:
  "offer_ingress_endpoint L E ev k s g = Ret (r, s', g') \<Longrightarrow> same_names s s'"
  by (auto simp: offer_ingress_endpoint_def same_names_def outcome_simps split: if_splits sum.splits option.splits)

text \<open>After the wait for the signal channel an egress call only looks at whether it
  failed.\<close>

lemma wait_then_names:
  fixes w :: "unit result outcome"
  assumes "outcome_bind w (\<lambda>w. case w of Inl e \<Rightarrow> Ret (Inl (f e), s, g) | Inr _ \<Rightarrow> rest) = Ret (r, s', g')"
    and "rest = Ret (r, s', g') \<Longrightarrow> same_names s s'"
  shows "same_names s s'"
proof -
  obtain x :: "unit result" where "(case x of Inl e \<Rightarrow> Ret (Inl (f e), s, g) | Inr _ \<Rightarrow> rest) = Ret (r, s', g')"
    using assms(1) by (auto simp: outcome_bind_Ret)
  then show ?thesis using assms(2) by (cases x) auto
qed

lemma create_egress_names:
  assumes "create_egress_endpoint L E sev ev d k s g = Ret (r, s', g')"
  shows "same_names s s'"
proof (cases "is_done s \<or> ss_egress s \<noteq> None")
  case True
  then show ?thesis using assms by (auto simp: create_egress_endpoint_def split: if_splits)
next
  case False
  show ?thesis
  proof (rule wait_then_names)
    show "outcome_bind (wait_for_signal_channel sev s) (\<lambda>w. case w of
        Inl e \<Rightarrow> Ret (Inl (Wrap ''waiting for signal channel: '' e), s, g)
      | Inr _ \<Rightarrow>
               (case en_establish E (ss_done s) (ss_id s) (ss_live s) d egress_endpoint (egress_options k) g of
                  (Inl e, g') \<Rightarrow> Ret (Inl (Wrap ''create rtp endpoint: '' e), s, g')
                | (Inr ep, g') \<Rightarrow>
                    outcome_bind (get_local_description L ev ep) (\<lambda>(r, ep').
                      Ret (wrap_err ''create egress answer resource: '' r,
                           s\<lparr> ss_egress := Some ep', ss_signal := set_offerer True (ss_signal s) \<rparr>, g')))) = Ret (r, s', g')"
      using assms False by (simp add: create_egress_endpoint_def)
  qed (auto simp: same_names_def outcome_simps split: prod.splits sum.splits)
qed

lemma offer_egress_names:
  assumes "offer_egress_endpoint L E sev ev k s g = Ret (r, s', g')"
  shows "same_names s s'"
proof (cases "is_done s \<or> ss_egress s \<noteq> None")
  case True
  then show ?thesis using assms by (auto simp: offer_egress_endpoint_def split: if_splits)
next
  case False
  show ?thesis
  proof (rule wait_then_names)
    show "outcome_bind (wait_for_signal_channel sev s) (\<lambda>w. case w of
        Inl e \<Rightarrow> Ret (Inl (Wrap ''waiting for signal channel: '' e), s, g)
      | Inr _ \<Rightarrow>
               (case en_offer E (ss_id s) (ss_live s) egress_endpoint (egress_options k) of
                  Inl e \<Rightarrow> Ret (Inl (Wrap ''create rtp endpoint: '' e), s, g)
                | Inr None \<Rightarrow> Panic
                | Inr (Some ep) \<Rightarrow>
                    outcome_bind (get_local_description L ev ep) (\<lambda>(r, ep').
                      Ret (wrap_err ''create egress answer resource: '' r,
                           s\<lparr> ss_egress := Some ep', ss_signal := set_offerer True (ss_signal s) \<rparr>, g)))) = Ret (r, s', g')"
      using assms False by (simp add: offer_egress_endpoint_def)
  qed (auto simp: same_names_def outcome_simps split: sum.splits option.splits)
qed

lemma finish_keeps_session:
  "finish_create L c x = Ret (c', s', g') \<Longrightarrow> s' = fst (snd x)"
  "finish_offer post f c x = Ret (c', s', g') \<Longrightarrow> s' = fst (snd x)"
  by (auto simp: finish_create_def finish_offer_def split: prod.splits sum.splits if_splits)

lemma execute_names:
  assumes "execute L E sev ev c s g = Ret (c', s', g')"
  shows "same_names s s'"
proof (cases "co_job c")
  case (Create_Ingress d k)
  then obtain x where "create_ingress_endpoint L E ev d k s g = Ret x" "finish_create L c x = Ret (c', s', g')"
    using assms by (auto simp: execute_def outcome_bind_Ret)
  then show ?thesis using finish_keeps_session(1) create_ingress_names by (cases x) fastforce
next
  case (Create_Egress d k)
  then obtain x where "create_egress_endpoint L E sev ev d k s g = Ret x" "finish_create L c x = Ret (c', s', g')"
    using assms by (auto simp: execute_def outcome_bind_Ret)
  then show ?thesis using finish_keeps_session(1) create_egress_names by (cases x) fastforce
next
  case (Offer_Ingress post k)
  then obtain x where "offer_ingress_endpoint L E ev k s g = Ret x" "finish_offer post set_ingress_answer c x = Ret (c', s', g')"
    using assms by (auto simp: execute_def outcome_bind_Ret)
  then show ?thesis using finish_keeps_session(2) offer_ingress_names by (cases x) fastforce
next
  case (Offer_Egress post k)
  then obtain x where "offer_egress_endpoint L E sev ev k s g = Ret x" "finish_offer post set_egress_answer c x = Ret (c', s', g')"
    using assms by (auto simp: execute_def outcome_bind_Ret)
  then show ?thesis using finish_keeps_session(2) offer_egress_names by (cases x) fastforce
qed

lemma stop_session_names [simp]: "same_names s (stop_session s)"
  by (simp add: same_names_def stop_session_def)

text \<open>A table made from another by changing sessions under their names.\<close>

lemma sr_inv_renamed:
  assumes "sr_inv r" "wf_map r'" "\<And>k s'. map_of r' k = Some s' \<Longrightarrow> \<exists>s. map_of r k = Some s \<and> same_names s s'"
  shows "sr_inv r'"
proof (rule sr_invI)
  show "wf_map r'" by (rule assms(2))
  fix k s' assume "map_of r' k = Some s'"
  then show "ss_id s' = k" using assms(3) sr_inv_id[OF assms(1)] by (auto simp: same_names_def)
next
  fix k s k' s'
  assume a: "map_of r' k = Some s" "map_of r' k' = Some s'" "ss_user s = ss_user s'"
  obtain t where t: "map_of r k = Some t" "same_names t s" using assms(3)[OF a(1)] by blast
  obtain t' where t': "map_of r k' = Some t'" "same_names t' s'" using assms(3)[OF a(2)] by blast
  have "ss_user t = ss_user t'" using t(2) t'(2) a(3) by (simp add: same_names_def)
  then show "k = k'" by (rule sr_inv_user[OF assms(1) t(1) t'(1)])
qed

lemma update_session_inv:
  assumes "sr_inv r" "map_of r (ss_id s) = Some s" "same_names s s'"
  shows "sr_inv (fst (sr_update s' r))" "map_of (fst (sr_update s' r)) = (map_of r)(ss_id s \<mapsto> s')"
proof -
  have u: "fst (sr_update s' r) = AList.update (ss_id s) s' r"
    using assms(2,3) by (simp add: sr_update_def same_names_def)
  then show m: "map_of (fst (sr_update s' r)) = (map_of r)(ss_id s \<mapsto> s')" by simp
  show "sr_inv (fst (sr_update s' r))"
  proof (rule sr_inv_renamed[OF assms(1)])
    show "wf_map (fst (sr_update s' r))" using assms(1) by (simp add: u sr_inv_def)
    fix k x assume "map_of (fst (sr_update s' r)) k = Some x"
    then show "\<exists>y. map_of r k = Some y \<and> same_names y x"
      unfolding m using assms(2,3) by (cases "k = ss_id s") (simp_all add: fun_upd_def)
  qed
qed

section \<open>Sessions move by session steps\<close>

definition moves :: "'pc lib \<Rightarrow> (nat \<Rightarrow> uuid) \<Rightarrow> codec \<Rightarrow> 'pc session \<Rightarrow> 'pc session \<Rightarrow> bool" where
  "moves L new_id C s s' = (s' = s \<or> session_step L new_id C UNIV s s')"

lemma moves_refl [simp]: "moves L new_id C s s"
  by (simp add: moves_def)

lemma data_channel_names [simp]: "same_names s (data_channel e s)"
  by (auto simp: data_channel_def same_names_def split: option.splits callback.splits)

lemma session_step_names: "session_step L new_id C K s s' \<Longrightarrow> same_names s s'"
proof (induction rule: session_step.induct)
  case (create_ingress kind ev offer s g r s' g')
  then show ?case using create_ingress_names by blast
next
  case (create_egress sev ev offer kind s g r s' g')
  then show ?case using create_egress_names by blast
next
  case (added t s s')
  then show ?case by (auto simp: session_add_track_def same_names_def outcome_simps split: if_splits option.splits)
next
  case (removed t s s')
  then show ?case by (auto simp: session_remove_track_def same_names_def outcome_simps split: if_splits option.splits)
next
  case (muted t s s')
  then show ?case using session_mute_step[OF muted] by (simp add: egress_only_def same_names_def)
next
  case (mute_received mu s t s')
  then show ?case
    by (auto simp: on_mute_def on_mute_track_def same_names_def split: if_splits option.splits prod.splits)
next
  case (ingress_channel s e)
  show ?case by simp
next
  case (egress_channel s e)
  show ?case by simp
qed (auto simp: same_names_def stop_session_def)

lemma moves_names: "moves L new_id C s s' \<Longrightarrow> same_names s s'"
  by (auto simp: moves_def dest: session_step_names)

lemma moves_inv: "moves L new_id C s s' \<Longrightarrow> session_inv s \<Longrightarrow> session_inv s'"
  by (auto simp: moves_def dest: session_step_inv)

lemma add_routine_moves:
  assumes "add_routine L pick t s st = Ret (s', st')"
  shows "moves L new_id C s s'"
proof -
  have "s' = s \<or> session_add_track L t s = Ret s'"
    using assms by (auto simp: add_routine_def outcome_simps split: if_splits)
  then show ?thesis unfolding moves_def using added by blast
qed

lemma remove_routine_moves:
  assumes "remove_routine L pick t s st = Ret (s', st')"
  shows "moves L new_id C s s'"
proof -
  have "s' = s \<or> session_remove_track L t s = Ret s'"
    using assms by (auto simp: remove_routine_def outcome_simps split: if_splits)
  then show ?thesis unfolding moves_def using removed by blast
qed

lemma mute_routine_moves:
  assumes "mute_routine L C t s st = Ret (s', st')"
  shows "moves L new_id C s s'"
proof -
  have "s' = s \<or> session_mute_track C t s = Ret s'"
    using assms by (auto simp: mute_routine_def split: if_splits outcome.splits)
  then show ?thesis unfolding moves_def using muted by blast
qed

lemma offers_stay:
  "offer_ingress_endpoint L (shig_engine L new_id) ev k s g = Ret (r, s', g') \<Longrightarrow> s' = s"
  "offer_egress_endpoint L (shig_engine L new_id) sev ev k s g = Ret (r, s', g') \<Longrightarrow> s' = s"
proof -
  assume "offer_ingress_endpoint L (shig_engine L new_id) ev k s g = Ret (r, s', g')"
  then show "s' = s"
    by (auto simp: offer_ingress_endpoint_def shig_engine_def offer_endpoint_def split: if_splits)
next
  assume a: "offer_egress_endpoint L (shig_engine L new_id) sev ev k s g = Ret (r, s', g')"
  show "s' = s"
  proof (cases "is_done s \<or> ss_egress s \<noteq> None")
    case True
    then show ?thesis using a by (auto simp: offer_egress_endpoint_def split: if_splits)
  next
    case False
    then obtain w where "wait_for_signal_channel sev s = Ret w"
      using a by (auto simp: offer_egress_endpoint_def outcome_simps)
    then show ?thesis using a False
      by (cases w) (auto simp: offer_egress_endpoint_def shig_engine_def offer_endpoint_def)
  qed
qed

lemma execute_moves:
  assumes "execute L (shig_engine L new_id) sev ev c s g = Ret (c', s', g')"
  shows "moves L new_id C s s'"
proof (cases "co_job c")
  case (Create_Ingress d k)
  then obtain r s1 g1 where x: "create_ingress_endpoint L (shig_engine L new_id) ev d k s g = Ret (r, s1, g1)"
      "finish_create L c (r, s1, g1) = Ret (c', s', g')"
    using assms by (auto simp: execute_def outcome_bind_Ret)
  have "session_step L new_id C UNIV s s1" by (rule create_ingress[OF UNIV_I x(1)])
  then show ?thesis using finish_keeps_session(1)[OF x(2)] by (simp add: moves_def)
next
  case (Create_Egress d k)
  then obtain r s1 g1 where x: "create_egress_endpoint L (shig_engine L new_id) sev ev d k s g = Ret (r, s1, g1)"
      "finish_create L c (r, s1, g1) = Ret (c', s', g')"
    using assms by (auto simp: execute_def outcome_bind_Ret)
  have "session_step L new_id C UNIV s s1" by (rule create_egress[OF x(1)])
  then show ?thesis using finish_keeps_session(1)[OF x(2)] by (simp add: moves_def)
next
  case (Offer_Ingress post k)
  then obtain r s1 g1 where x: "offer_ingress_endpoint L (shig_engine L new_id) ev k s g = Ret (r, s1, g1)"
      "finish_offer post set_ingress_answer c (r, s1, g1) = Ret (c', s', g')"
    using assms by (auto simp: execute_def outcome_bind_Ret)
  then show ?thesis using finish_keeps_session(2)[OF x(2)] offers_stay(1)[OF x(1)] by simp
next
  case (Offer_Egress post k)
  then obtain r s1 g1 where x: "offer_egress_endpoint L (shig_engine L new_id) sev ev k s g = Ret (r, s1, g1)"
      "finish_offer post set_egress_answer c (r, s1, g1) = Ret (c', s', g')"
    using assms by (auto simp: execute_def outcome_bind_Ret)
  then show ?thesis using finish_keeps_session(2)[OF x(2)] offers_stay(2)[OF x(1)] by simp
qed

section \<open>The lobby as a state machine\<close>

text \<open>Whatever can happen to a lobby: the sequencer takes an item or a command, the
  hub serves or drops a request or is asked for its tracks, a session moves on
  its own (its data channel opens, its peer answers, and so on), the lobby is
  stopped.\<close>

inductive lobby_step ::
  "'pc lib \<Rightarrow> (nat \<Rightarrow> uuid) \<Rightarrow> codec \<Rightarrow> (uuid \<Rightarrow> bool) \<Rightarrow> 'pc lobby \<Rightarrow> 'pc lobby \<Rightarrow> bool"
  for L new_id C pick where
  created: "find_by_id (ly_sessions l) i = None \<Longrightarrow> seq_create i j it l = (ok, l') \<Longrightarrow>
    lobby_step L new_id C pick l l'"
| discarded: "seq_garbage it l = (ok, d, l') \<Longrightarrow> lobby_step L new_id C pick l l'"
| commanded: "seq_command L (shig_engine L new_id) sev ev c l g = Ret (c', l', g') \<Longrightarrow>
    lobby_step L new_id C pick l l'"
| served: "hub_dispatch L C pick hev q (lobby_room l g) = Ret rm \<Longrightarrow>
    lobby_step L new_id C pick l (with_room rm l)"
| listed: "hub_get_track_list L ev1 ev2 i fs (lobby_room l g) = (r, rm) \<Longrightarrow>
    lobby_step L new_id C pick l (with_room rm l)"
| moved: "map_of (ly_sessions l) k = Some s \<Longrightarrow> session_step L new_id C UNIV s s' \<Longrightarrow>
    lobby_step L new_id C pick l (l\<lparr> ly_sessions := AList.update k s' (ly_sessions l) \<rparr>)"
| halted: "lobby_step L new_id C pick l (stop_lobby l)"

inductive_cases lobby_stepE: "lobby_step L new_id C pick l l'"

definition lobby_inv :: "'pc lobby \<Rightarrow> bool" where
  "lobby_inv l = (sr_inv (ly_sessions l) \<and> hb_sender (ly_hub l) = None \<and> hb_live (ly_hub l) = le_stream (ly_entity l) \<and>
     (\<forall>k s. map_of (ly_sessions l) k = Some s \<longrightarrow> ss_live s = le_stream (ly_entity l) \<and> session_inv s))"

text \<open>Every session of the new table is one of the old table, moved.\<close>

definition table_moves :: "'pc lib \<Rightarrow> (nat \<Rightarrow> uuid) \<Rightarrow> codec \<Rightarrow> 'pc session_repo \<Rightarrow> 'pc session_repo \<Rightarrow> bool" where
  "table_moves L new_id C r r' = (wf_map r' \<and>
     (\<forall>k s'. map_of r' k = Some s' \<longrightarrow> (\<exists>s. map_of r k = Some s \<and> moves L new_id C s s')))"

lemma table_moves_inv:
  assumes "sr_inv r" "table_moves L new_id C r r'" "\<forall>k s. map_of r k = Some s \<longrightarrow> ss_live s = x \<and> session_inv s"
  shows "sr_inv r' \<and> (\<forall>k s. map_of r' k = Some s \<longrightarrow> ss_live s = x \<and> session_inv s)"
proof
  have m: "\<exists>s. map_of r k = Some s \<and> moves L new_id C s s'" if "map_of r' k = Some s'" for k s'
    using assms(2) that by (auto simp: table_moves_def)
  show "sr_inv r'"
  proof (rule sr_inv_renamed[OF assms(1)])
    show "wf_map r'" using assms(2) by (simp add: table_moves_def)
    show "\<exists>s. map_of r k = Some s \<and> same_names s s'" if "map_of r' k = Some s'" for k s'
      using m[OF that] moves_names by blast
  qed
  show "\<forall>k s. map_of r' k = Some s \<longrightarrow> ss_live s = x \<and> session_inv s"
  proof (intro allI impI)
    fix k s' assume "map_of r' k = Some s'"
    then obtain s where s: "map_of r k = Some s" "moves L new_id C s s'" using m by blast
    then show "ss_live s' = x \<and> session_inv s'"
      using assms(3) moves_inv[OF s(2)] moves_names[OF s(2)] by (auto simp: same_names_def)
  qed
qed

lemma lobby_inv_step_table:
  assumes "lobby_inv l" "table_moves L new_id C (ly_sessions l) (ly_sessions l')" "same_hub (ly_hub l) (ly_hub l')"
    and "ly_entity l' = ly_entity l"
  shows "lobby_inv l'"
  using assms table_moves_inv[of "ly_sessions l" L new_id C "ly_sessions l'" "le_stream (ly_entity l)"]
  by (auto simp: lobby_inv_def same_hub_def)

lemma iter_table_moves:
  assumes "sr_iter f r st = Ret (r', st')" "wf_map r" "\<And>s st s' st'. f s st = Ret (s', st') \<Longrightarrow> moves L new_id C s s'"
  shows "table_moves L new_id C r r'"
  unfolding table_moves_def
proof (intro conjI allI impI)
  show "wf_map r'" using sr_iter_keys[OF assms(1)] assms(2) by simp
  fix k s' assume "map_of r' k = Some s'"
  from sr_iter_from[OF assms(1) this] show "\<exists>s. map_of r k = Some s \<and> moves L new_id C s s'"
    using assms(3) by blast
qed

lemma serve_moves:
  assumes "hub_dispatch L C pick hev q (lobby_room l g) = Ret rm" "sr_inv (ly_sessions l)"
  shows "table_moves L new_id C (ly_sessions l) (rm_sessions rm) \<and> same_hub (ly_hub l) (rm_hub rm)"
proof -
  have wf: "wf_map (rm_sessions (lobby_room l g))" using assms(2) by (simp add: lobby_room_def sr_inv_def)
  have stay: "table_moves L new_id C r r" if "wf_map r" for r
    using that moves_refl by (auto simp: table_moves_def)
  have r: "rm_sessions (lobby_room l g) = ly_sessions l" "rm_hub (lobby_room l g) = ly_hub l"
    by (simp_all add: lobby_room_def)
  show ?thesis
  proof (cases "hev = Hub_Taken")
    case True
    then have a: "hub_serve L C pick q (lobby_room l g) = Ret rm" using assms(1) by (simp add: hub_dispatch_def)
    show ?thesis
    proof (cases q)
      case (Add_Track t)
      then have "on_add_track L pick t (lobby_room l g) = Ret rm" using a by (simp add: hub_serve_def)
      then obtain h g1 st' where h: "same_hub (ly_hub l) h"
        and it: "sr_iter (add_routine L pick t) (ly_sessions l)
          (h\<lparr> hb_tracks := AList.update (lt_id (get_track_local t)) t (hb_tracks h) \<rparr>, g1) = Ret (rm_sessions rm, st')"
        and h': "rm_hub rm = fst st'"
        using on_add_track_result unfolding r[symmetric] by blast
      have "same_hub (ly_hub l) (fst st')"
        by (rule sr_iter_state[OF it, where Q = "\<lambda>st. same_hub (ly_hub l) (fst st)"])
          (use h in \<open>simp add: same_hub_def\<close>, use add_routine_step in blast)
      then show ?thesis using iter_table_moves[OF it wf[unfolded r] add_routine_moves] h' by simp
    next
      case (Remove_Track t)
      then have "on_remove_track L pick t (lobby_room l g) = Ret rm" using a by (simp add: hub_serve_def)
      then obtain h g1 st' where h: "same_hub (ly_hub l) h"
        and it: "sr_iter (remove_routine L pick t) (ly_sessions l) (h, g1) = Ret (rm_sessions rm, st')"
        and h': "rm_hub rm = fst st'"
        using on_remove_track_result unfolding r[symmetric] by blast
      have "same_hub (ly_hub l) (fst st')"
      proof (rule sr_iter_state[OF it, where Q = "\<lambda>st. same_hub (ly_hub l) (fst st)"])
        fix s st s' st' assume "remove_routine L pick t s st = Ret (s', st')" "same_hub (ly_hub l) (fst st)"
        then show "same_hub (ly_hub l) (fst st')" using remove_routine_step by (fastforce simp: same_hub_def)
      qed (use h in simp)
      then show ?thesis using iter_table_moves[OF it wf[unfolded r] remove_routine_moves] h' by simp
    next
      case Get_Track_List
      then show ?thesis using a stay[OF wf] by (auto simp: hub_serve_def r)
    next
      case (Mute_Track t)
      then obtain st' where it: "sr_iter (mute_routine L C t) (ly_sessions l) () = Ret (rm_sessions rm, st')"
        and h: "rm_hub rm = ly_hub l"
        using a by (auto simp: hub_serve_def hub_on_mute_track_def outcome_simps r)
      show ?thesis using iter_table_moves[OF it wf[unfolded r] mute_routine_moves] h by simp
    qed
  next
    case False
    then have "rm = lobby_room l g" using assms(1) by (cases hev) (auto simp: hub_dispatch_def)
    then show ?thesis using stay[OF wf] by (simp add: r)
  qed
qed

lemma collect_tracks_same_hub:
  "same_hub h0 (fst st) \<Longrightarrow> same_hub h0 (fst (snd (collect_tracks L i fs ts acc st)))"
  by (induction ts arbitrary: acc st) (auto simp: same_hub_def)

lemma list_keeps:
  assumes "hub_get_track_list L ev1 ev2 i fs rm0 = (r, rm)"
  shows "rm_sessions rm = rm_sessions rm0 \<and> same_hub (rm_hub rm0) (rm_hub rm)"
  using assms collect_tracks_same_hub[of "rm_hub rm0" "(rm_hub rm0, rm_graph rm0)" L "lb_uuid_str L i" fs]
  by (fastforce simp: hub_get_track_list_def split_beta Let_def split: hub_event.splits)

lemma update_table_moves:
  assumes "wf_map r" "map_of r k = Some s" "moves L new_id C s s'"
  shows "table_moves L new_id C r (AList.update k s' r)"
  unfolding table_moves_def
proof (intro conjI allI impI)
  show "wf_map (AList.update k s' r)" using assms(1) by simp
  fix j x assume a: "map_of (AList.update k s' r) j = Some x"
  show "\<exists>s. map_of r j = Some s \<and> moves L new_id C s x"
  proof (cases "j = k")
    case True
    then show ?thesis using a assms(2,3) by simp
  next
    case False
    then show ?thesis using a moves_refl by simp
  qed
qed

lemma command_keeps:
  assumes "seq_command L (shig_engine L new_id) sev ev c l g = Ret (c', l', g')" "sr_inv (ly_sessions l)"
  shows "table_moves L new_id C (ly_sessions l) (ly_sessions l') \<and> ly_hub l' = ly_hub l \<and> ly_entity l' = ly_entity l"
proof -
  have wf: "wf_map (ly_sessions l)" using assms(2) by (simp add: sr_inv_def)
  show ?thesis
  proof (cases "ly_done l \<or> find_by_user_id (ly_sessions l) (get_user_id c) = None")
    case True
    then have "l' = l" using assms(1) by (auto simp: seq_command_def handle_def split: if_splits)
    then show ?thesis using wf moves_refl by (auto simp: table_moves_def)
  next
    case False
    then obtain s where s: "find_by_user_id (ly_sessions l) (get_user_id c) = Some s" by auto
    then obtain c1 s' where x: "execute L (shig_engine L new_id) sev ev c s g = Ret (c1, s', g')"
      and l': "l' = l\<lparr> ly_sessions := fst (sr_update s' (ly_sessions l)) \<rparr>"
      using assms(1) False by (auto simp: seq_command_def handle_def outcome_simps)
    have m: "map_of (ly_sessions l) (ss_id s) = Some s" using s find_user_iff[OF assms(2)] by blast
    have mv: "moves L new_id C s s'" by (rule execute_moves[OF x])
    have "fst (sr_update s' (ly_sessions l)) = AList.update (ss_id s) s' (ly_sessions l)"
      using m moves_names[OF mv] by (simp add: sr_update_def same_names_def)
    then show ?thesis using update_table_moves[OF wf m mv] by (simp add: l')
  qed
qed

lemma stop_lookup: "map_of (ly_sessions (stop_lobby l)) k = map_option stop_session (map_of (ly_sessions l) k)"
  unfolding stop_lobby_def by (induction "ly_sessions l") (auto simp: map_of_map)

lemma create_keeps:
  assumes "lobby_inv l" "find_by_id (ly_sessions l) i = None" "seq_create i j it l = (ok, l')"
  shows "lobby_inv l'"
proof (cases "ly_done l")
  case True
  then show ?thesis using assms by (simp add: seq_create_def)
next
  case False
  let ?s = "new_session i j (it_user it) (hb_live (ly_hub l)) (it_type it) :: 'a session"
  have names: "ss_id ?s = i" "ss_user ?s = it_user it" "ss_live ?s = hb_live (ly_hub l)"
    by (simp_all add: new_session_def)
  obtain r where n: "sr_new ?s (ly_sessions l) = (r, ok)" and l': "l' = l\<lparr> ly_sessions := r \<rparr>"
    using assms(3) False by (auto simp: seq_create_def split: prod.splits)
  have inv: "sr_inv (ly_sessions l)" using assms(1) by (simp add: lobby_inv_def)
  have "fresh_for (ly_sessions l) ?s" using assms(2) by (simp add: fresh_for_def find_by_id_def names)
  from sr_new_spec[OF inv this n] have ri: "sr_inv r" by blast
  have "map_of r k = Some x \<Longrightarrow> map_of (ly_sessions l) k = Some x \<or> x = ?s" for k x
    using n names(1) by (auto simp: sr_new_def split: option.splits if_splits)
  then have "ss_live x = le_stream (ly_entity l) \<and> session_inv x" if "map_of r k = Some x" for k x
    using that assms(1) names(3) session_inv_new unfolding lobby_inv_def by metis
  then show ?thesis using assms(1) ri by (simp add: l' lobby_inv_def)
qed

lemma garbage_keeps:
  assumes "lobby_inv l" "seq_garbage it l = (ok, d, l')"
  shows "lobby_inv l'"
proof -
  obtain r where n: "delete_by_user (it_user it) (ly_sessions l) = (r, ok)" and l': "l' = l\<lparr> ly_sessions := r \<rparr>"
    using assms(2) by (auto simp: seq_garbage_def split: prod.splits)
  have inv: "sr_inv (ly_sessions l)" using assms(1) by (simp add: lobby_inv_def)
  from delete_by_user_spec[OF inv n] have ri: "sr_inv r" by blast
  have "map_of r k = Some x \<Longrightarrow> map_of (ly_sessions l) k = Some x" for k x
    using n by (auto simp: delete_by_user_def split: option.splits if_splits)
  then show ?thesis using assms(1) ri by (auto simp: l' lobby_inv_def)
qed

lemma inv_table: "lobby_inv l \<Longrightarrow> sr_inv (ly_sessions l)" "lobby_inv l \<Longrightarrow> wf_map (ly_sessions l)"
  by (simp_all add: lobby_inv_def sr_inv_def)

lemma stop_keeps:
  fixes l :: "'pc lobby"
  assumes "lobby_inv l"
  shows "lobby_inv (stop_lobby l)"
proof -
  have "table_moves L new_id C (ly_sessions l) (ly_sessions (stop_lobby l))"
    for L :: "'pc lib" and new_id C
    unfolding table_moves_def
  proof (intro conjI allI impI)
    have "map fst (ly_sessions (stop_lobby l)) = map fst (ly_sessions l)" by (auto simp: stop_lobby_def)
    then show "wf_map (ly_sessions (stop_lobby l))" using inv_table(2)[OF assms] by simp
    fix k s' assume "map_of (ly_sessions (stop_lobby l)) k = Some s'"
    then obtain s where "map_of (ly_sessions l) k = Some s" "s' = stop_session s" by (auto simp: stop_lookup)
    then show "\<exists>s. map_of (ly_sessions l) k = Some s \<and> moves L new_id C s s'"
      using session_step.stopped[of L new_id C UNIV s] by (auto simp: moves_def)
  qed
  from lobby_inv_step_table[OF assms this] show ?thesis by (simp add: stop_lobby_def)
qed

lemma lobby_step_inv: "lobby_step L new_id C pick l l' \<Longrightarrow> lobby_inv l \<Longrightarrow> lobby_inv l'"
proof (induction rule: lobby_step.induct)
  case (created l i j it ok l')
  show ?case by (rule create_keeps[OF created(3,1,2)])
next
  case (discarded it l ok d l')
  show ?case by (rule garbage_keeps[OF discarded(2,1)])
next
  case (commanded sev ev c l g c' l' g')
  note k = command_keeps[OF commanded(1) inv_table(1)[OF commanded(2)], of C]
  show ?case using k by (intro lobby_inv_step_table[OF commanded(2), of L new_id C l']) simp_all
next
  case (served hev q l g rm)
  from serve_moves[OF served(1) inv_table(1)[OF served(2)]] show ?case
    using lobby_inv_step_table[OF served(2), of L new_id C "with_room rm l"] by (simp add: with_room_def)
next
  case (listed ev1 ev2 i fs l g r rm)
  have "table_moves L new_id C (ly_sessions l) (ly_sessions l)"
    using inv_table(2)[OF listed(2)] moves_refl by (auto simp: table_moves_def)
  then show ?case using list_keeps[OF listed(1)] lobby_inv_step_table[OF listed(2), of L new_id C "with_room rm l"]
    by (simp add: with_room_def lobby_room_def)
next
  case (moved l k s s')
  have "moves L new_id C s s'" using moved(2) by (simp add: moves_def)
  from update_table_moves[OF inv_table(2)[OF moved(3)] moved(1) this] show ?case
    using lobby_inv_step_table[OF moved(3), of L new_id C "l\<lparr> ly_sessions := AList.update k s' (ly_sessions l) \<rparr>"] by simp
next
  case (halted l)
  then show ?case by (rule stop_keeps)
qed

lemma lobby_reach_inv:
  assumes "(lobby_step L new_id C pick)\<^sup>*\<^sup>* l l'" "lobby_inv l"
  shows "lobby_inv l'"
  using assms by (induction rule: rtranclp_induct) (auto intro: lobby_step_inv)

lemma new_lobby_inv:
  assumes "new_lobby L N f entity home token g = Ret (l, g')"
  shows "lobby_inv l" "ly_entity l = entity"
  using assms
  using sr_inv_empty by (auto simp: new_lobby_def new_hub_def lobby_inv_def Let_def split_beta new_session_repository_def
      split: option.splits)

lemma session_inv_mute: "session_inv s \<Longrightarrow> session_mute_track C t s \<noteq> Panic"
  by (auto simp: session_mute_track_def session_inv_def outcome_simps send_mute_def enqueue_def
      split: option.splits prod.splits sum.splits if_splits)

lemma sr_iter_no_panic:
  assumes "\<forall>e\<in>set r. \<forall>st. f (snd e) st \<noteq> Panic"
  shows "sr_iter f r st \<noteq> Panic"
  using assms
proof (induction r arbitrary: st)
  case (Cons e r)
  have IH: "sr_iter f r st' \<noteq> Panic" for st' using Cons.IH Cons.prems by simp
  have "f (snd e) st \<noteq> Panic" using Cons.prems by simp
  then show ?case using IH by (cases e) (auto simp: outcome_simps)
qed simp

section \<open>Properties\<close>

text \<open>C3: in every state a lobby can get into, no user has two sessions, every session
  belongs to the lobby's stream and is well formed (an egress endpoint only with
  an ingress endpoint and a messenger), no mute can make the hub panic, and a
  track with the purpose of the main stream always does, because a lobby never
  has a live stream sender.\<close>

theorem lobby_invariant:
  assumes "new_lobby L N f entity home token g0 = Ret (l0, g1)" "(lobby_step L new_id C pick)\<^sup>*\<^sup>* l0 l"
  shows "(\<forall>k s k' s'. map_of (ly_sessions l) k = Some s \<and> map_of (ly_sessions l) k' = Some s' \<and> ss_user s = ss_user s' \<longrightarrow> k = k') \<and>
    (\<forall>k s. map_of (ly_sessions l) k = Some s \<longrightarrow> ss_id s = k \<and> ss_live s = le_stream (ly_entity l) \<and>
       (ss_egress s \<noteq> None \<longrightarrow> ss_ingress s \<noteq> None \<and> sg_messenger (ss_signal s) \<noteq> None)) \<and>
    (\<forall>t. hub_on_mute_track L C t (lobby_room l g) \<noteq> Panic) \<and>
    (\<forall>t. get_purpose t = purpose_main \<longrightarrow> on_add_track L pick t (lobby_room l g) = Panic)"
proof (intro conjI allI impI)
  have inv: "lobby_inv l" using lobby_reach_inv[OF assms(2) new_lobby_inv(1)[OF assms(1)]] .
  note sr = inv_table(1)[OF inv]
  {
    fix k s k' s'
    assume "map_of (ly_sessions l) k = Some s \<and> map_of (ly_sessions l) k' = Some s' \<and> ss_user s = ss_user s'"
    then show "k = k'" using sr_inv_user[OF sr] by blast
  next
    fix k s assume m: "map_of (ly_sessions l) k = Some s"
    show "ss_id s = k" by (rule sr_inv_id[OF sr m])
    have i: "ss_live s = le_stream (ly_entity l)" "session_inv s" using inv m by (auto simp: lobby_inv_def)
    show "ss_live s = le_stream (ly_entity l)" by (rule i(1))
    assume "ss_egress s \<noteq> None"
    then show "ss_ingress s \<noteq> None" "sg_messenger (ss_signal s) \<noteq> None" using i(2) by (auto simp: session_inv_def)
  next
    fix t
    have "mute_routine L C t s st \<noteq> Panic" if "session_inv s" for s st
      using that session_inv_mute by (auto simp: mute_routine_def split: outcome.splits)
    moreover have "session_inv s" if "(k, s) \<in> set (ly_sessions l)" for k s
      using that inv sr_mem[OF sr] by (auto simp: lobby_inv_def)
    ultimately have "sr_iter (mute_routine L C t) (ly_sessions l) () \<noteq> Panic"
      by (intro sr_iter_no_panic) auto
    then show "hub_on_mute_track L C t (lobby_room l g) \<noteq> Panic"
      by (auto simp: hub_on_mute_track_def lobby_room_def outcome_simps)
  next
    fix t assume "get_purpose t = purpose_main"
    then show "on_add_track L pick t (lobby_room l g) = Panic"
      using inv by (simp add: on_add_track_def split_beta Let_def sender_add_def lobby_inv_def lobby_room_def)
  }
qed

lemma sample_lobby:
  "\<exists>l g'. new_lobby list_lib sample_net (\<lambda>_. 5) (new_lobby_entity 1 8 ''s'' ''home'') sample_iri ''t'' \<lparr> gr_on = False, gr_calls = [] \<rparr>
     = Ret (l, g') \<and> ly_sessions l = [] \<and> \<not> ly_done l \<and> ly_id l = 1"
  by (simp add: new_lobby_def sample_net_def new_hub_def Let_def split_beta new_session_repository_def new_lobby_entity_def)

lemma lobby_invariant_witness:
  "\<exists>l. on_add_track list_lib (\<lambda>_. True) (sample_track\<lparr> tk_sdp := (tk_sdp sample_track)\<lparr> ti_purpose := 2 \<rparr> \<rparr>)
     (lobby_room (stop_lobby l) \<lparr> gr_on = False, gr_calls = [] \<rparr>) = (Panic :: local_track list room outcome)"
proof -
  let ?t = "sample_track\<lparr> tk_sdp := (tk_sdp sample_track)\<lparr> ti_purpose := 2 \<rparr> \<rparr>"
  obtain l g' where l: "new_lobby list_lib sample_net (\<lambda>_. 5) (new_lobby_entity 1 8 ''s'' ''home'') sample_iri ''t''
      \<lparr> gr_on = False, gr_calls = [] \<rparr> = Ret (l, g')" using sample_lobby by blast
  have "get_purpose ?t = purpose_main" by (simp add: get_purpose_def purpose_main_def)
  with lobby_invariant[OF l r_into_rtranclp[of "lobby_step list_lib of_nat (mute_codec \<lparr> mu_mid = [], mu_mute = True \<rparr>) (\<lambda>_. True)",
      OF halted]]
  show ?thesis by blast
qed

text \<open>C22: a command that the sequencer takes and that ends is done, and what it ends
  with is right: the lobby is closed, or its user has no session, or else it is
  exactly what running it on the user's session gave, whose session alone is
  changed.\<close>

theorem command_outcome:
  assumes "seq_command L E sev ev c l g = Ret (c', l', g')" "fresh_command c" "sr_inv (ly_sessions l)"
  shows "co_done c' \<and>
    (if ly_done l then co_err c' = Some err_lobby_closed \<and> l' = l
     else case find_by_user_id (ly_sessions l) (co_user c) of
       None \<Rightarrow> co_err c' = Some err_no_session \<and> l' = l
     | Some s \<Rightarrow> \<exists>s'. execute L E sev ev c s g = Ret (c', s', g') \<and>
         map_of (ly_sessions l') = (map_of (ly_sessions l))(ss_id s \<mapsto> s'))"
proof (cases "ly_done l")
  case True
  then show ?thesis using assms(1) set_error_fresh[OF assms(2)] by (auto simp: seq_command_def)
next
  case False
  show ?thesis
  proof (cases "find_by_user_id (ly_sessions l) (co_user c)")
    case None
    then show ?thesis using assms(1) set_error_fresh[OF assms(2)] False
      by (auto simp: seq_command_def handle_def get_user_id_def)
  next
    case (Some s)
    obtain c1 s' where x: "execute L E sev ev c s g = Ret (c1, s', g')"
      and c': "c' = set_error err_no_session c1" and l': "l' = l\<lparr> ly_sessions := fst (sr_update s' (ly_sessions l)) \<rparr>"
      using assms(1) False Some by (auto simp: seq_command_def handle_def get_user_id_def outcome_simps)
    have d: "co_done c1" using execute_result[OF x assms(2)] by blast
    have "map_of (ly_sessions l) (ss_id s) = Some s" using Some find_user_iff[OF assms(3)] by blast
    from update_session_inv(2)[OF assms(3) this execute_names[OF x]]
    show ?thesis using x d False Some by (simp add: c' l')
  qed
qed

lemma command_outcome_witness:
  "\<exists>l c' l' g'. seq_command list_lib (shig_engine list_lib of_nat) Messenger_Ready Gathered
      (new_create_ingress False 7 \<lparr> sd_type = SdpOffer, sd_sdp = [] \<rparr> silent_signal_channel) l
      \<lparr> gr_on = False, gr_calls = [] \<rparr> = Ret (c', l', g') \<and> co_err c' = Some err_no_session"
proof -
  let ?c = "new_create_ingress False 7 \<lparr> sd_type = SdpOffer, sd_sdp = [] \<rparr> silent_signal_channel"
  obtain l g1 where l: "new_lobby list_lib sample_net (\<lambda>_. 5) (new_lobby_entity 1 8 ''s'' ''home'') sample_iri ''t''
      \<lparr> gr_on = False, gr_calls = [] \<rparr> = Ret (l, g1)" "ly_sessions l = []" "\<not> ly_done l" using sample_lobby by blast
  have f: "find_by_user_id (ly_sessions l) u = None" for u by (simp add: l(2) find_by_user_id_def)
  obtain c' l' g' where s: "seq_command list_lib (shig_engine list_lib of_nat) Messenger_Ready Gathered ?c l
      \<lparr> gr_on = False, gr_calls = [] \<rparr> = Ret (c', l', g')"
    using l(3) by (simp add: seq_command_def handle_def f)
  have "sr_inv (ly_sessions l)" using inv_table(1)[OF new_lobby_inv(1)[OF l(1)]] .
  from command_outcome[OF s _ this] s f l(3) show ?thesis by auto
qed

end
