(* ===== verification/Stream.thy ===== *)
theory Stream
  imports Actors Lobby
begin

text \<open>
  Spaces and live streams (\<^verbatim>\<open>internal/stream\<close>): the two repositories and the
  service between the federation, the HTTP handlers and the database.  The
  tables are parameters; a query names the associations it preloads, as the code
  does, and the laws a table keeps are stated where they are used.
\<close>

section \<open>Entities\<close>

record space =
  sp_identifier :: string
  sp_channel :: "actor option"
  sp_account :: "account option"

record live_stream =
  ls_video :: "video option"
  ls_uuid :: uuid
  ls_title :: string
  ls_lobby :: "lobby_entity option"
  ls_space :: "space option"
  ls_account :: "account option"
  ls_user :: string

record live_stream_info =
  li_stream_key :: string
  li_rtmp_url :: string

text \<open>The texts of identifiers belong to the UUID library.\<close>

record uuid_lib =
  ud_str :: "uuid \<Rightarrow> string"
  ud_parse :: "string \<Rightarrow> uuid result"

datatype assoc = Assoc_Space | Assoc_Lobby | Assoc_Account | Assoc_Video

record 'db stream_store =
  sb_create_stream :: "live_stream \<Rightarrow> 'db \<Rightarrow> (go_error option \<times> nat) \<times> 'db"
  sb_streams_of_space :: "string \<Rightarrow> 'db \<Rightarrow> live_stream list result"
  sb_first_stream :: "assoc list \<Rightarrow> uuid \<Rightarrow> 'db \<Rightarrow> live_stream result"
  sb_delete_stream :: "uuid \<Rightarrow> 'db \<Rightarrow> go_error option \<times> 'db"
  sb_delete_unscoped :: "string \<Rightarrow> 'db \<Rightarrow> go_error option \<times> 'db"
  sb_count_uuid :: "uuid \<Rightarrow> 'db \<Rightarrow> nat"
  sb_save_stream :: "live_stream \<Rightarrow> 'db \<Rightarrow> go_error option \<times> 'db"
  sb_count :: "'db \<Rightarrow> nat"
  sb_first_account :: "string \<Rightarrow> 'db \<Rightarrow> account result"
  sb_create_account :: "account \<Rightarrow> 'db \<Rightarrow> 'db"
  sb_first_lobby :: "uuid \<Rightarrow> 'db \<Rightarrow> lobby_entity result"
  sb_first_space :: "assoc list \<Rightarrow> string \<Rightarrow> 'db \<Rightarrow> space result"
  sb_create_space :: "space \<Rightarrow> 'db \<Rightarrow> (go_error option \<times> nat) \<times> 'db"
  sb_delete_space :: "string \<Rightarrow> 'db \<Rightarrow> go_error option \<times> 'db"
  sb_count_spaces :: "'db \<Rightarrow> nat"

text \<open>The documented behaviour of preloading: an association that is not named stays
  nil, one that is named is read from its table.\<close>

definition preloads_named :: "'db stream_store \<Rightarrow> bool" where
  "preloads_named S =
     ((\<forall>ps i db x. sb_first_space S ps i db = Inr x \<longrightarrow> (sp_account x \<noteq> None \<longleftrightarrow> Assoc_Account \<in> set ps)) \<and>
      (\<forall>ps i db x. sb_first_stream S ps i db = Inr x \<longrightarrow>
         (ls_space x \<noteq> None \<longleftrightarrow> Assoc_Space \<in> set ps) \<and> (ls_lobby x \<noteq> None \<longleftrightarrow> Assoc_Lobby \<in> set ps) \<and>
         (ls_account x \<noteq> None \<longleftrightarrow> Assoc_Account \<in> set ps) \<and> (ls_video x \<noteq> None \<longleftrightarrow> Assoc_Video \<in> set ps)))"

lemma preloaded_space:
  "preloads_named S \<Longrightarrow> sb_first_space S ps i db = Inr x \<Longrightarrow> sp_account x \<noteq> None \<longleftrightarrow> Assoc_Account \<in> set ps"
  unfolding preloads_named_def by blast

lemma preloaded_stream:
  assumes "preloads_named S" "sb_first_stream S [Assoc_Space, Assoc_Lobby, Assoc_Account, Assoc_Video] i db = Inr x"
  shows "ls_space x \<noteq> None" "ls_lobby x \<noteq> None" "ls_account x \<noteq> None" "ls_video x \<noteq> None"
  using assms unfolding preloads_named_def by (metis list.set_intros)+

section \<open>The space repository\<close>

definition err_space_not_found :: go_error where "err_space_not_found = Err ''reading unknown space in store''"

text \<open>What \<^verbatim>\<open>Create\<close> is reported as; with a nil error the verb prints that.\<close>

definition created :: "go_error option \<times> nat \<Rightarrow> 'a \<Rightarrow> 'a result" where
  "created r x = (case r of
     (Some e, _) \<Rightarrow> Inl (Wrap ''adding live stream: '' e)
   | (None, n) \<Rightarrow> if n \<noteq> 1 then Inl (Err ''adding live stream: %!w(<nil>)'') else Inr x)"

definition space_add :: "'db stream_store \<Rightarrow> string \<Rightarrow> space \<Rightarrow> 'db \<Rightarrow> string result \<times> 'db" where
  "space_add S new_uuid x db =
     (let x' = (if length (sp_identifier x) = 0 then x\<lparr> sp_identifier := new_uuid \<rparr> else x);
          (r, db') = sb_create_space S x' db
      in (created r (sp_identifier x'), db'))"

definition get_by_identifier :: "'db stream_store \<Rightarrow> string \<Rightarrow> 'db \<Rightarrow> space result" where
  "get_by_identifier S i db =
     lookup_result (''finding space by space identifier '' @ i @ '': '') err_space_not_found (sb_first_space S [] i db)"

definition create_with_identifier :: "'db stream_store \<Rightarrow> string \<Rightarrow> 'db \<Rightarrow> space result \<times> 'db" where
  "create_with_identifier S i db =
     (let x = \<lparr> sp_identifier = i, sp_channel = None, sp_account = None \<rparr>; ((e, _), db') = sb_create_space S x db
      in (case e of Some e \<Rightarrow> Inl (Wrap (''creating space for name '' @ i @ '': '') e) | None \<Rightarrow> Inr x, db'))"

definition space_delete :: "'db stream_store \<Rightarrow> string \<Rightarrow> 'db \<Rightarrow> go_error option \<times> 'db" where
  "space_delete S i db =
     (let (e, db') = sb_delete_space S i db
      in (map_option (Wrap (''deleting space by space id '' @ i @ '': '')) e, db'))"

definition space_len :: "'db stream_store \<Rightarrow> 'db \<Rightarrow> nat" where "space_len S db = sb_count_spaces S db"

definition get_space_of_manager :: "'db stream_store \<Rightarrow> string \<Rightarrow> 'db \<Rightarrow> space result" where
  "get_space_of_manager S i db = get_by_identifier S i db"

section \<open>The live stream repository\<close>

definition err_stream_not_found :: go_error where
  "err_stream_not_found = Err ''reading unknown live stream from store''"

definition stream_add ::
  "'db stream_store \<Rightarrow> uuid_lib \<Rightarrow> uuid \<Rightarrow> uuid \<Rightarrow> live_stream \<Rightarrow> 'db \<Rightarrow> string result \<times> 'db" where
  "stream_add S U new1 new2 x db =
     (let x = (if length (ud_str U (ls_uuid x)) = 0 then x\<lparr> ls_uuid := new1 \<rparr> else x);
          x = (if ls_uuid x = uuid_nil then x\<lparr> ls_uuid := new2 \<rparr> else x);
          (r, db') = sb_create_stream S x db
      in (created r (ud_str U (ls_uuid x)), db'))"

definition all_by_space_identifier :: "'db stream_store \<Rightarrow> string \<Rightarrow> 'db \<Rightarrow> live_stream list result" where
  "all_by_space_identifier S i db = wrap_err ''fetching all streams '' (sb_streams_of_space S i db)"

definition find_by_uuid :: "'db stream_store \<Rightarrow> uuid_lib \<Rightarrow> string \<Rightarrow> 'db \<Rightarrow> live_stream result" where
  "find_by_uuid S U i db =
     (case ud_parse U i of
        Inl e \<Rightarrow> Inl (Wrap ''parsing UUID: '' e)
      | Inr u \<Rightarrow> lookup_result (''finding stream by uuid '' @ i @ '': '') err_stream_not_found
          (sb_first_stream S [Assoc_Space, Assoc_Lobby, Assoc_Account, Assoc_Video] u db))"

definition stream_delete :: "'db stream_store \<Rightarrow> uuid_lib \<Rightarrow> string \<Rightarrow> 'db \<Rightarrow> go_error option \<times> 'db" where
  "stream_delete S U i db =
     (case ud_parse U i of
        Inl e \<Rightarrow> (Some (Wrap ''parsing UUID: '' e), db)
      | Inr u \<Rightarrow> (let (e, db') = sb_delete_stream S u db
          in (map_option (Wrap (''deleting stream by id '' @ i @ '': '')) e, db')))"

definition stream_contains :: "'db stream_store \<Rightarrow> uuid_lib \<Rightarrow> string \<Rightarrow> 'db \<Rightarrow> bool" where
  "stream_contains S U i db = (case ud_parse U i of Inl _ \<Rightarrow> False | Inr u \<Rightarrow> sb_count_uuid S u db = 1)"

definition stream_update :: "'db stream_store \<Rightarrow> uuid_lib \<Rightarrow> live_stream \<Rightarrow> 'db \<Rightarrow> go_error option \<times> 'db" where
  "stream_update S U x db =
     (let (e, db') = sb_save_stream S x db
      in (map_option (Wrap (''updating stream '' @ ud_str U (ls_uuid x) @ '': '')) e, db'))"

definition stream_len :: "'db stream_store \<Rightarrow> 'db \<Rightarrow> nat" where "stream_len S db = sb_count S db"

text \<open>A lookup that may come back empty: the row, nothing, or an error.\<close>

definition found_or_absent :: "'a result \<Rightarrow> 'a option result" where
  "found_or_absent r = (case r of
     Inl e \<Rightarrow> if errors_is e err_record_not_found then Inr None else Inl e | Inr x \<Rightarrow> Inr (Some x))"

text \<open>The message of a failed search of the space carries the error of the search
  before it.\<close>

definition upsert_live_stream ::
  "'db stream_store \<Rightarrow> live_stream \<Rightarrow> 'db \<Rightarrow> (go_error option \<times> 'db) outcome" where
  "upsert_live_stream S x db =
     (let ac = sb_first_account S (ls_user x) db in
      case found_or_absent ac of
        Inl e \<Rightarrow> Ret (Some (Wrap ''serching account: '' e), db)
      | Inr account \<Rightarrow>
          outcome_bind (deref (ls_space x)) (\<lambda>sp.
            case found_or_absent (sb_first_space S [] (sp_identifier sp) db) of
              Inl _ \<Rightarrow> Ret (Some (case ac of Inl e \<Rightarrow> Wrap ''serching space: '' e
                                 | Inr _ \<Rightarrow> Err ''serching space: %!w(<nil>)''), db)
            | Inr space \<Rightarrow>
                outcome_bind (deref (ls_lobby x)) (\<lambda>le.
                  case found_or_absent (sb_first_lobby S (le_stream le) db) of
                    Inl e \<Rightarrow> Ret (Some (Wrap ''serching lobby: '' e), db)
                  | Inr lobby \<Rightarrow>
                      (let x = (case account of Some a \<Rightarrow> x\<lparr> ls_account := Some a \<rparr> | None \<Rightarrow> x);
                           x = (case space of Some s \<Rightarrow> x\<lparr> ls_space := Some s \<rparr> | None \<Rightarrow> x);
                           x = (case lobby of Some l \<Rightarrow> x\<lparr> ls_lobby := Some l \<rparr> | None \<Rightarrow> x);
                           ((e, n), db') = sb_create_stream S x db
                       in Ret (case e of
                                 Some e \<Rightarrow> Some (Wrap ''adding live stream: '' e)
                               | None \<Rightarrow> if n = 0 then Some (Err ''adding live stream: %!w(<nil>)'') else None, db')))))"

definition delete_by_uuid :: "'db stream_store \<Rightarrow> string \<Rightarrow> 'db \<Rightarrow> go_error option \<times> 'db" where
  "delete_by_uuid S i db =
     (let (e, db') = sb_delete_unscoped S i db
      in (map_option (Wrap (''deleting stream by uuid '' @ i @ '': '')) e, db'))"

definition build_federated_id :: "string \<Rightarrow> string \<Rightarrow> string" where
  "build_federated_id i domain = i @ ''@'' @ domain"

text \<open>The n-th fresh account identifier is \<^term>\<open>new_id n\<close>; an account that exists
  is left alone, errors are not reported.\<close>

fun build_guest_accounts ::
  "'db stream_store \<Rightarrow> net \<Rightarrow> (nat \<Rightarrow> string) \<Rightarrow> nat \<Rightarrow> actor list \<Rightarrow> 'db \<Rightarrow> 'db outcome" where
  "build_guest_accounts S N new_id n [] db = Ret db"
| "build_guest_accounts S N new_id n (a # as) db =
     outcome_bind (deref (get_actor_iri N a)) (\<lambda>iri.
       build_guest_accounts S N new_id (Suc n) as
         (sb_create_account S \<lparr> ac_user = build_federated_id (at_name a) (ur_host iri), ac_uuid = new_id n,
                                ac_actor_id = at_id a \<rparr> db))"

section \<open>The service\<close>

definition err_stream_not_part_of_space :: go_error where
  "err_stream_not_part_of_space = Err ''stream is not part of space''"
definition err_user_not_owner_of_stream :: go_error where
  "err_user_not_owner_of_stream = Err ''user is not owner of stream''"

text \<open>The identifier of an actor: its name and the host of its address.\<close>

definition federated_id :: "net \<Rightarrow> actor \<Rightarrow> string outcome" where
  "federated_id N a = outcome_bind (deref (get_actor_iri N a)) (\<lambda>iri. Ret (build_federated_id (at_name a) (ur_host iri)))"

definition create_stream_access_by_video ::
  "'db stream_store \<Rightarrow> net \<Rightarrow> uuid_lib \<Rightarrow> (nat \<Rightarrow> string) \<Rightarrow> string \<Rightarrow> uuid \<Rightarrow> video \<Rightarrow> 'db
     \<Rightarrow> (go_error option \<times> 'db) outcome" where
  "create_stream_access_by_video S N U new_id account_id lobby_id v db =
     outcome_bind (deref (vi_owner v)) (\<lambda>owner.
     outcome_bind (federated_id N owner) (\<lambda>user_id.
     outcome_bind (deref (vi_channel v)) (\<lambda>channel.
     outcome_bind (federated_id N channel) (\<lambda>channel_id.
     outcome_bind (build_guest_accounts S N new_id 0 (vi_guests v) db) (\<lambda>db1.
     outcome_bind (deref (vi_instance v)) (\<lambda>inst.
     outcome_bind (deref (in_actor inst)) (\<lambda>ia.
       let stream_id = (case ud_parse U (vi_uuid v) of Inl _ \<Rightarrow> uuid_nil | Inr u \<Rightarrow> u);
           account = \<lparr> ac_user = user_id, ac_uuid = account_id, ac_actor_id = at_id owner \<rparr>;
           x = \<lparr> ls_video = Some v, ls_uuid = stream_id, ls_title = [],
                 ls_lobby = Some (new_lobby_entity lobby_id stream_id channel_id (at_iri ia)),
                 ls_space = Some \<lparr> sp_identifier = channel_id, sp_channel = Some channel, sp_account = Some account \<rparr>,
                 ls_account = Some account, ls_user = user_id \<rparr>
       in outcome_bind (upsert_live_stream S x db1) (\<lambda>(e, db2).
            Ret (map_option (Wrap ''upsert live stream: '') e, db2)))))))))"

definition update_stream_access_by_video ::
  "'db stream_store \<Rightarrow> net \<Rightarrow> uuid_lib \<Rightarrow> (nat \<Rightarrow> string) \<Rightarrow> string \<Rightarrow> uuid \<Rightarrow> video \<Rightarrow> 'db
     \<Rightarrow> (go_error option \<times> 'db) outcome" where
  "update_stream_access_by_video S N U new_id account_id lobby_id v db =
     (if \<not> stream_contains S U (vi_uuid v) db
      then create_stream_access_by_video S N U new_id account_id lobby_id v db
      else outcome_bind (build_guest_accounts S N new_id 0 (vi_guests v) db) (\<lambda>db'. Ret (None, db')))"

text \<open>\<^verbatim>\<open>path.Base\<close>: the last element, without slashes at the end.\<close>

definition path_base :: "string \<Rightarrow> string" where
  "path_base p =
     (if p = [] then ''.''
      else let q = rev (dropWhile (\<lambda>c. c = CHR ''/'') (rev p))
           in if q = [] then ''/'' else last (split_on (CHR ''/'') q))"

definition delete_stream_access_by_video ::
  "'db stream_store \<Rightarrow> uuid_lib \<Rightarrow> string \<Rightarrow> 'db \<Rightarrow> go_error option \<times> 'db" where
  "delete_stream_access_by_video S U iri db =
     (case ud_parse U (path_base iri) of
        Inl e \<Rightarrow> (Some (Wrap ''parsing video uuid: '' e), db)
      | Inr u \<Rightarrow> (let (e, db') = delete_by_uuid S (ud_str U u) db
          in (map_option (Wrap ''deleting stream by uuid: '') e, db')))"

definition service_all_by_space_identifier :: "'db stream_store \<Rightarrow> string \<Rightarrow> 'db \<Rightarrow> live_stream list result" where
  "service_all_by_space_identifier S i db = all_by_space_identifier S i db"

definition find_by_uuid_and_space_identifier ::
  "'db stream_store \<Rightarrow> uuid_lib \<Rightarrow> string \<Rightarrow> string \<Rightarrow> 'db \<Rightarrow> live_stream result outcome" where
  "find_by_uuid_and_space_identifier S U i identifier db =
     (case find_by_uuid S U i db of
        Inl e \<Rightarrow> Ret (Inl (Wrap ''find stream by uuid: '' e))
      | Inr x \<Rightarrow> outcome_bind (deref (ls_space x)) (\<lambda>sp.
          Ret (if sp_identifier sp \<noteq> identifier then Inl err_stream_not_part_of_space else Inr x)))"

definition get_stream_by_user ::
  "'db stream_store \<Rightarrow> uuid_lib \<Rightarrow> string \<Rightarrow> string \<Rightarrow> 'db \<Rightarrow> live_stream result outcome" where
  "get_stream_by_user S U i user db =
     (case find_by_uuid S U i db of
        Inl e \<Rightarrow> Ret (Inl (Wrap ''find stream by uuid: '' e))
      | Inr x \<Rightarrow> outcome_bind (deref (ls_account x)) (\<lambda>a.
          Ret (if ac_user a \<noteq> user then Inl err_user_not_owner_of_stream else Inr x)))"

definition service_delete ::
  "'db stream_store \<Rightarrow> uuid_lib \<Rightarrow> string \<Rightarrow> string \<Rightarrow> 'db \<Rightarrow> (go_error option \<times> 'db) outcome" where
  "service_delete S U i user db =
     outcome_bind (get_stream_by_user S U i user db) (\<lambda>r. case r of
       Inl e \<Rightarrow> Ret (Some (Wrap ''find stream to delete by uuid: '' e), db)
     | Inr _ \<Rightarrow> Ret (stream_delete S U i db))"

definition owned_space :: "'db stream_store \<Rightarrow> string \<Rightarrow> string \<Rightarrow> 'db \<Rightarrow> unit result outcome" where
  "owned_space S identifier user db =
     (case get_by_identifier S identifier db of
        Inl e \<Rightarrow> Ret (Inl (Wrap ''find space by identifier: '' e))
      | Inr sp \<Rightarrow> outcome_bind (deref (sp_account sp)) (\<lambda>a.
          Ret (if ac_user a \<noteq> user then Inl err_user_not_owner_of_stream else Inr ())))"

definition create_stream ::
  "'db stream_store \<Rightarrow> uuid_lib \<Rightarrow> uuid \<Rightarrow> uuid \<Rightarrow> live_stream \<Rightarrow> string \<Rightarrow> string \<Rightarrow> 'db
     \<Rightarrow> (string result \<times> 'db) outcome" where
  "create_stream S U new1 new2 x identifier user db =
     outcome_bind (owned_space S identifier user db) (\<lambda>r. case r of
       Inl e \<Rightarrow> Ret (Inl e, db) | Inr _ \<Rightarrow> Ret (stream_add S U new1 new2 x db))"

definition update_stream ::
  "'db stream_store \<Rightarrow> uuid_lib \<Rightarrow> live_stream \<Rightarrow> string \<Rightarrow> string \<Rightarrow> 'db \<Rightarrow> (go_error option \<times> 'db) outcome" where
  "update_stream S U x identifier user db =
     outcome_bind (owned_space S identifier user db) (\<lambda>r. case r of
       Inl e \<Rightarrow> Ret (Some e, db) | Inr _ \<Rightarrow> Ret (stream_update S U x db))"

section \<open>Access to streams as a contract\<close>

text \<open>What the federation relies on (\<^verbatim>\<open>internal/activitypub/services/stream.go\<close>):
  the calls change how many streams carry an identifier, and nothing else of it.\<close>

datatype access = Create_Access video | Update_Access video | Delete_Access string

fun count_after :: "(video \<Rightarrow> uuid) \<Rightarrow> (string \<Rightarrow> uuid) \<Rightarrow> access \<Rightarrow> (uuid \<Rightarrow> nat) \<Rightarrow> uuid \<Rightarrow> nat" where
  "count_after vid iid (Create_Access v) c = c(vid v := Suc (c (vid v)))"
| "count_after vid iid (Update_Access v) c = (if c (vid v) = 1 then c else c(vid v := Suc (c (vid v))))"
| "count_after vid iid (Delete_Access i) c = c(iid i := 0)"

fun access_run :: "(access \<Rightarrow> 'w \<Rightarrow> (go_error option \<times> 'w) outcome) \<Rightarrow> access list \<Rightarrow> 'w \<Rightarrow> (go_error option \<times> 'w) outcome" where
  "access_run call [] w = Ret (None, w)"
| "access_run call (a # as) w =
     outcome_bind (call a w) (\<lambda>(e, w'). case e of None \<Rightarrow> access_run call as w' | Some e \<Rightarrow> Ret (Some e, w'))"

locale stream_access =
  fixes call :: "access \<Rightarrow> 'w \<Rightarrow> (go_error option \<times> 'w) outcome"
    and streams :: "'w \<Rightarrow> uuid \<Rightarrow> nat"
    and vid :: "video \<Rightarrow> uuid" and iid :: "string \<Rightarrow> uuid"
    and ok :: "access \<Rightarrow> bool"
  assumes counts: "ok a \<Longrightarrow> call a w = Ret (None, w') \<Longrightarrow> streams w' = count_after vid iid a (streams w)"
begin

lemma run_counts:
  "\<forall>a\<in>set as. ok a \<Longrightarrow> access_run call as w = Ret (None, w') \<Longrightarrow>
   streams w' = fold (count_after vid iid) as (streams w)"
proof (induction as arbitrary: w)
  case (Cons a as)
  obtain w1 where "call a w = Ret (None, w1)" "access_run call as w1 = Ret (None, w')"
    using Cons.prems(2) by (auto simp: outcome_simps split: option.splits)
  then show ?case using Cons counts[of a w w1] by simp
qed simp

text \<open>Updates settle after the first; after a second announcement they never do.\<close>

lemma updates_settle:
  assumes "streams w (vid v) = 0" "ok (Update_Access v)" "access_run call (replicate (Suc n) (Update_Access v)) w = Ret (None, w')"
  shows "streams w' (vid v) = 1"
proof -
  have "fold (count_after vid iid) (replicate n (Update_Access v)) c = c" if "c (vid v) = 1" for c n
    using that by (induction n) auto
  then show ?thesis using run_counts[OF _ assms(3)] assms(1,2) by simp
qed

lemma updates_pile_up:
  assumes "streams w (vid v) = 2" "ok (Update_Access v)" "access_run call (replicate n (Update_Access v)) w = Ret (None, w')"
  shows "streams w' (vid v) = n + 2"
proof -
  have "fold (count_after vid iid) (replicate n (Update_Access v)) c (vid v) = n + c (vid v)" if "c (vid v) \<ge> 2" for c n
    using that by (induction n arbitrary: c) auto
  then show ?thesis using run_counts[OF _ assms(3)] assms(1,2) by simp
qed

end

text \<open>The laws of the tables this rests on, and of the UUID library.\<close>

definition streams_counted :: "'db stream_store \<Rightarrow> uuid_lib \<Rightarrow> bool" where
  "streams_counted S U =
     ((\<forall>x db n db' u. sb_create_stream S x db = ((None, n), db') \<and> 0 < n \<longrightarrow>
         sb_count_uuid S u db' = (if u = ls_uuid x then Suc (sb_count_uuid S u db) else sb_count_uuid S u db)) \<and>
      (\<forall>a db u. sb_count_uuid S u (sb_create_account S a db) = sb_count_uuid S u db) \<and>
      (\<forall>i db db' u. sb_delete_unscoped S (ud_str U i) db = (None, db') \<longrightarrow>
         sb_count_uuid S u db' = (if u = i then 0 else sb_count_uuid S u db)))"

fun service_access ::
  "'db stream_store \<Rightarrow> net \<Rightarrow> uuid_lib \<Rightarrow> (nat \<Rightarrow> string) \<Rightarrow> string \<Rightarrow> uuid \<Rightarrow> access \<Rightarrow> 'db
     \<Rightarrow> (go_error option \<times> 'db) outcome" where
  "service_access S N U new_id aid lid (Create_Access v) db = create_stream_access_by_video S N U new_id aid lid v db"
| "service_access S N U new_id aid lid (Update_Access v) db = update_stream_access_by_video S N U new_id aid lid v db"
| "service_access S N U new_id aid lid (Delete_Access i) db = Ret (delete_stream_access_by_video S U i db)"

definition uuid_or_nil :: "uuid_lib \<Rightarrow> string \<Rightarrow> uuid" where
  "uuid_or_nil U s = (case ud_parse U s of Inl _ \<Rightarrow> uuid_nil | Inr u \<Rightarrow> u)"

fun names_uuid :: "uuid_lib \<Rightarrow> access \<Rightarrow> bool" where
  "names_uuid U (Create_Access v) = is_ok (ud_parse U (vi_uuid v))"
| "names_uuid U (Update_Access v) = is_ok (ud_parse U (vi_uuid v))"
| "names_uuid U (Delete_Access i) = is_ok (ud_parse U (path_base i))"

lemma guests_keep_streams:
  assumes "streams_counted S U" "build_guest_accounts S N new_id n as db = Ret db'"
  shows "sb_count_uuid S u db' = sb_count_uuid S u db"
  using assms(2)
proof (induction as arbitrary: n db)
  case (Cons a as)
  then show ?case using assms(1) by (auto simp: outcome_simps streams_counted_def)
qed simp

lemma upsert_counts:
  assumes "streams_counted S U" "upsert_live_stream S x db = Ret (None, db')"
  shows "sb_count_uuid S u db' = (if u = ls_uuid x then Suc (sb_count_uuid S u db) else sb_count_uuid S u db)"
proof -
  note d = assms(2)[unfolded upsert_live_stream_def Let_def]
  obtain ac where a: "found_or_absent (sb_first_account S (ls_user x) db) = Inr ac"
    using d by (cases "found_or_absent (sb_first_account S (ls_user x) db)") auto
  obtain sp where s: "ls_space x = Some sp" using d a by (cases "ls_space x") auto
  obtain so where so: "found_or_absent (sb_first_space S [] (sp_identifier sp) db) = Inr so"
    using d a s by (cases "found_or_absent (sb_first_space S [] (sp_identifier sp) db)") auto
  obtain le where l: "ls_lobby x = Some le" using d a s so by (cases "ls_lobby x") auto
  obtain lo where f: "found_or_absent (sb_first_lobby S (le_stream le) db) = Inr lo"
    using d a s so l by (cases "found_or_absent (sb_first_lobby S (le_stream le) db)") auto
  define y1 where "y1 = (case ac of Some a \<Rightarrow> x\<lparr> ls_account := Some a \<rparr> | None \<Rightarrow> x)"
  define y2 where "y2 = (case so of Some a \<Rightarrow> y1\<lparr> ls_space := Some a \<rparr> | None \<Rightarrow> y1)"
  define y where "y = (case lo of Some a \<Rightarrow> y2\<lparr> ls_lobby := Some a \<rparr> | None \<Rightarrow> y2)"
  have "ls_uuid y = ls_uuid x" by (simp add: y_def y2_def y1_def split: option.split)
  moreover have "\<exists>n. sb_create_stream S y db = ((None, n), db') \<and> 0 < n"
    using d by (cases ac; cases so; cases lo)
      (auto simp: a s so l f y1_def y2_def y_def split: prod.splits option.splits if_splits)
  ultimately show ?thesis using assms(1) unfolding streams_counted_def by metis
qed

lemma create_access_counts:
  assumes "streams_counted S U" "create_stream_access_by_video S N U new_id aid lid v db = Ret (None, db')"
  shows "sb_count_uuid S u db' =
    (if u = uuid_or_nil U (vi_uuid v) then Suc (sb_count_uuid S u db) else sb_count_uuid S u db)"
  using assms(2) guests_keep_streams[OF assms(1)] upsert_counts[OF assms(1)]
  by (auto simp: create_stream_access_by_video_def Let_def outcome_simps uuid_or_nil_def)

interpretation access: stream_access "service_access S N U new_id aid lid" "\<lambda>db u. sb_count_uuid S u db"
    "\<lambda>v. uuid_or_nil U (vi_uuid v)" "\<lambda>i. uuid_or_nil U (path_base i)"
    "\<lambda>a. names_uuid U a \<and> streams_counted S U"
  for S :: "'db stream_store" and N U new_id aid lid
proof (unfold_locales, goal_cases)
  case (1 a w w')
  note sc = conjunct2[OF 1(1)]
  show ?case
  proof (cases a)
    case (Create_Access v)
    then show ?thesis using create_access_counts[OF sc, of N new_id aid lid v w w'] 1(2) by (auto simp: fun_eq_iff)
  next
    case (Update_Access v)
    then show ?thesis
      using create_access_counts[OF sc, of N new_id aid lid v w w'] guests_keep_streams[OF sc, of N new_id 0 "vi_guests v" w w'] 1
      by (auto simp: fun_eq_iff update_stream_access_by_video_def stream_contains_def uuid_or_nil_def is_ok_iff outcome_simps
          split: if_splits)
  next
    case (Delete_Access i)
    then show ?thesis using 1
      by (auto simp: fun_eq_iff delete_stream_access_by_video_def delete_by_uuid_def uuid_or_nil_def is_ok_iff
          streams_counted_def split: prod.splits)
  qed
qed

section \<open>A small database\<close>

definition default_account :: account where
  "default_account = \<lparr> ac_user = ''alice@localhost'', ac_uuid = ''7'', ac_actor_id = 1 \<rparr>"
definition default_space :: space where
  "default_space = \<lparr> sp_identifier = ''ch@localhost'', sp_channel = None, sp_account = None \<rparr>"
definition default_lobby :: lobby_entity where "default_lobby = new_lobby_entity 3 5 ''ch@localhost'' ''http://localhost''"

definition loaded :: "assoc list \<Rightarrow> live_stream \<Rightarrow> live_stream" where
  "loaded ps x = x\<lparr>
     ls_space := (if Assoc_Space \<in> set ps then Some (case ls_space x of Some s \<Rightarrow> s | None \<Rightarrow> default_space) else None),
     ls_lobby := (if Assoc_Lobby \<in> set ps then Some (case ls_lobby x of Some l \<Rightarrow> l | None \<Rightarrow> default_lobby) else None),
     ls_account := (if Assoc_Account \<in> set ps then Some (case ls_account x of Some a \<Rightarrow> a | None \<Rightarrow> default_account) else None),
     ls_video := (if Assoc_Video \<in> set ps then Some (case ls_video x of Some v \<Rightarrow> v | None \<Rightarrow> no_video) else None) \<rparr>"

definition list_streams :: "live_stream list stream_store" where
  "list_streams = \<lparr>
     sb_create_stream = (\<lambda>x db. ((None, 1), x # db)),
     sb_streams_of_space = (\<lambda>i db. Inr (filter (\<lambda>x. map_option sp_identifier (ls_space x) = Some i) db)),
     sb_first_stream = (\<lambda>ps u db. case find (\<lambda>x. ls_uuid x = u) db of
        None \<Rightarrow> Inl err_record_not_found | Some x \<Rightarrow> Inr (loaded ps x)),
     sb_delete_stream = (\<lambda>u db. (None, filter (\<lambda>x. ls_uuid x \<noteq> u) db)),
     sb_delete_unscoped = (\<lambda>i db. (None, filter (\<lambda>x. ls_uuid x \<noteq> of_nat (read_nat i)) db)),
     sb_count_uuid = (\<lambda>u db. length (filter (\<lambda>x. ls_uuid x = u) db)),
     sb_save_stream = (\<lambda>x db. (None, map (\<lambda>y. if ls_uuid y = ls_uuid x then x else y) db)),
     sb_count = length,
     sb_first_account = (\<lambda>_ _. Inl err_record_not_found), sb_create_account = (\<lambda>_ db. db),
     sb_first_lobby = (\<lambda>_ _. Inl err_record_not_found),
     sb_first_space = (\<lambda>ps i _. Inr \<lparr> sp_identifier = i, sp_channel = None,
        sp_account = (if Assoc_Account \<in> set ps then Some default_account else None) \<rparr>),
     sb_create_space = (\<lambda>_ db. ((None, 1), db)), sb_delete_space = (\<lambda>_ db. (None, db)), sb_count_spaces = (\<lambda>_. 1) \<rparr>"

definition nat_uuids :: uuid_lib where
  "nat_uuids = \<lparr> ud_str = (\<lambda>u. show_nat (unat u)), ud_parse = (\<lambda>s. Inr (of_nat (read_nat s))) \<rparr>"

lemma list_streams_laws: "preloads_named list_streams" "streams_counted list_streams nat_uuids"
proof -
  show "preloads_named list_streams"
    by (auto simp: preloads_named_def list_streams_def loaded_def split: option.splits if_splits)
  have e: "of_nat (read_nat (show_nat (unat i))) = i" for i :: uuid by (simp add: read_show_nat)
  have "length (filter (\<lambda>x. P x \<and> ls_uuid x = u) db) = 0" if "\<And>x. P x \<Longrightarrow> ls_uuid x \<noteq> u" for P u and db :: "live_stream list"
    using that by auto
  then show "streams_counted list_streams nat_uuids"
    by (auto simp: streams_counted_def list_streams_def nat_uuids_def e intro!: arg_cong[where f = length] filter_cong)
qed

definition stream_actor :: "string \<Rightarrow> actor" where
  "stream_actor n = no_actor\<lparr> at_name := n, at_iri := ''http://localhost/accounts/'' @ n \<rparr>"

definition sample_video :: video where
  "sample_video = no_video\<lparr> vi_uuid := ''5'', vi_owner := Some (stream_actor ''alice''), vi_channel := Some (stream_actor ''ch''),
     vi_instance := Some \<lparr> in_id = 1, in_actor_id = 1, in_actor = Some (stream_actor ''shig'') \<rparr> \<rparr>"

abbreviation sample_access :: "access \<Rightarrow> live_stream list \<Rightarrow> (go_error option \<times> live_stream list) outcome" where
  "sample_access \<equiv> service_access list_streams iri_net nat_uuids (\<lambda>_. ''1'') ''2'' 9"

lemma sample_iri: "get_actor_iri iri_net (stream_actor n) =
    Some \<lparr> ur_scheme = ''http'', ur_host = ''localhost'', ur_path = ''/accounts/'' @ n, ur_rest = [] \<rparr>"
  if "set n \<inter> set ''?#'' = {}"
proof -
  let ?u = "\<lparr> ur_scheme = ''http'', ur_host = ''localhost'', ur_path = ''/accounts/'' @ n, ur_rest = [] \<rparr>"
  have "absolute_url ?u" using that by (simp add: absolute_url_def has_prefix_def)
  from simple_parse_printed[OF this] show ?thesis
    by (simp add: get_actor_iri_def stream_actor_def iri_net_def url_string_def)
qed

lemma sample_create: "\<exists>x. ls_uuid x = 5 \<and> sample_access (Create_Access sample_video) db = Ret (None, x # db)"
  by (simp add: create_stream_access_by_video_def sample_video_def no_video_def federated_id_def sample_iri upsert_live_stream_def
      list_streams_def found_or_absent_def nat_uuids_def read_nat_def digit_val_def Let_def)

lemma sample_update:
  "length (filter (\<lambda>x. ls_uuid x = 5) db) = 1 \<Longrightarrow> sample_access (Update_Access sample_video) db = Ret (None, db)"
  "length (filter (\<lambda>x. ls_uuid x = 5) db) \<noteq> 1 \<Longrightarrow>
     sample_access (Update_Access sample_video) db = sample_access (Create_Access sample_video) db"
  by (simp_all add: update_stream_access_by_video_def stream_contains_def list_streams_def nat_uuids_def sample_video_def
      no_video_def read_nat_def digit_val_def)

section \<open>Properties\<close>

text \<open>C10: announcements, updates and deletions of videos act on the streams as on one
  counter per identifier: an announcement always adds a stream, an update adds
  one unless there is exactly one, a deletion removes them all.\<close>

theorem stream_access_refines_counters:
  assumes "streams_counted S U" "\<forall>a\<in>set as. names_uuid U a"
    and "access_run (service_access S N U new_id aid lid) as db = Ret (None, db')"
  shows "(\<lambda>u. sb_count_uuid S u db') =
    fold (count_after (\<lambda>v. uuid_or_nil U (vi_uuid v)) (\<lambda>i. uuid_or_nil U (path_base i))) as (\<lambda>u. sb_count_uuid S u db)"
  using access.run_counts[OF _ assms(3)] assms(1,2) by blast

lemma stream_access_refines_counters_witness:
  "\<exists>db'. access_run sample_access [Create_Access sample_video, Update_Access sample_video] [] = Ret (None, db') \<and>
     (\<lambda>u. sb_count_uuid list_streams u db') = (\<lambda>u. if u = 5 then 1 else 0)"
proof -
  let ?as = "[Create_Access sample_video, Update_Access sample_video]"
  obtain x where x: "ls_uuid x = 5" "sample_access (Create_Access sample_video) [] = Ret (None, [x])"
    using sample_create[of "[]"] by auto
  then have r: "access_run sample_access ?as [] = Ret (None, [x])" using sample_update(1)[of "[x]"] by simp
  have "\<forall>a\<in>set ?as. names_uuid nat_uuids a" by (simp add: nat_uuids_def)
  from stream_access_refines_counters[OF list_streams_laws(2) this r] show ?thesis
    using r by (auto simp: fun_eq_iff list_streams_def uuid_or_nil_def nat_uuids_def sample_video_def read_nat_def digit_val_def)
qed

text \<open>Updates of a video without a stream make one stream and then leave it alone.
  A video that was announced twice has two streams; the repository then denies
  that it has one, and every further update adds another.\<close>

theorem second_announcement_never_settles:
  assumes "streams_counted S U" "is_ok (ud_parse U (vi_uuid v))" "u = uuid_or_nil U (vi_uuid v)" "sb_count_uuid S u db = 0"
  shows "(\<forall>n db'. access_run (service_access S N U new_id aid lid) (replicate (Suc n) (Update_Access v)) db = Ret (None, db') \<longrightarrow>
      sb_count_uuid S u db' = 1 \<and> stream_contains S U (vi_uuid v) db') \<and>
    (\<forall>n db1 db'. access_run (service_access S N U new_id aid lid) [Create_Access v, Create_Access v] db = Ret (None, db1) \<and>
       access_run (service_access S N U new_id aid lid) (replicate n (Update_Access v)) db1 = Ret (None, db') \<longrightarrow>
       sb_count_uuid S u db' = n + 2 \<and> \<not> stream_contains S U (vi_uuid v) db')"
proof -
  obtain u0 where p: "ud_parse U (vi_uuid v) = Inr u0" and u: "u = u0"
    using assms(2,3) by (auto simp: is_ok_iff uuid_or_nil_def)
  have two: "sb_count_uuid S u db1 = 2"
    if "access_run (service_access S N U new_id aid lid) [Create_Access v, Create_Access v] db = Ret (None, db1)" for db1
    using access.run_counts[OF _ that] assms p u by (simp add: fun_eq_iff uuid_or_nil_def)
  have c: "stream_contains S U (vi_uuid v) d \<longleftrightarrow> sb_count_uuid S u d = 1" for d
    using p u by (simp add: stream_contains_def)
  have nu: "names_uuid U (Update_Access v) \<and> streams_counted S U" using assms(1,2) by simp
  have v: "uuid_or_nil U (vi_uuid v) = u" using assms(3) by simp
  have settle: "sb_count_uuid S u db' = 1"
    if "access_run (service_access S N U new_id aid lid) (replicate (Suc n) (Update_Access v)) db = Ret (None, db')" for n db'
    using access.updates_settle[OF _ nu that] assms(4) unfolding v by blast
  have pile: "sb_count_uuid S u db' = n + 2"
    if "sb_count_uuid S u db1 = 2"
      "access_run (service_access S N U new_id aid lid) (replicate n (Update_Access v)) db1 = Ret (None, db')" for n db1 db'
    using access.updates_pile_up[OF _ nu that(2)] that(1) unfolding v by blast
  show ?thesis
  proof (intro conjI allI impI)
    fix n db'
    assume "access_run (service_access S N U new_id aid lid) (replicate (Suc n) (Update_Access v)) db = Ret (None, db')"
    from settle[OF this] show "sb_count_uuid S u db' = 1" "stream_contains S U (vi_uuid v) db'" by (simp_all add: c)
  next
    fix n db1 db'
    assume "access_run (service_access S N U new_id aid lid) [Create_Access v, Create_Access v] db = Ret (None, db1) \<and>
      access_run (service_access S N U new_id aid lid) (replicate n (Update_Access v)) db1 = Ret (None, db')"
    then have "sb_count_uuid S u db' = n + 2" using two pile by blast
    then show "sb_count_uuid S u db' = n + 2" "\<not> stream_contains S U (vi_uuid v) db'" by (simp_all add: c)
  qed
qed

lemma second_announcement_never_settles_witness:
  "\<exists>db'. access_run sample_access [Create_Access sample_video, Create_Access sample_video, Update_Access sample_video] [] = Ret (None, db') \<and>
     sb_count_uuid list_streams 5 db' = 3 \<and> \<not> stream_contains list_streams nat_uuids ''5'' db'"
proof -
  obtain x where x: "ls_uuid x = 5" "sample_access (Create_Access sample_video) [] = Ret (None, [x])"
    using sample_create[of "[]"] by auto
  obtain y where y: "ls_uuid y = 5" "sample_access (Create_Access sample_video) [x] = Ret (None, [y, x])"
    using sample_create[of "[x]"] by auto
  obtain z where z: "ls_uuid z = 5" "sample_access (Create_Access sample_video) [y, x] = Ret (None, [z, y, x])"
    using sample_create[of "[y, x]"] by auto
  have up: "sample_access (Update_Access sample_video) [y, x] = Ret (None, [z, y, x])"
    using sample_update(2)[of "[y, x]"] x y z by simp
  have two: "access_run sample_access [Create_Access sample_video, Create_Access sample_video] [] = Ret (None, [y, x])"
    using x y by simp
  have one: "access_run sample_access (replicate 1 (Update_Access sample_video)) [y, x] = Ret (None, [z, y, x])"
    using up by simp
  have id: "is_ok (ud_parse nat_uuids (vi_uuid sample_video))" "5 = uuid_or_nil nat_uuids (vi_uuid sample_video)"
    "sb_count_uuid list_streams 5 [] = 0" "vi_uuid sample_video = ''5''"
    by (simp_all add: nat_uuids_def uuid_or_nil_def sample_video_def list_streams_def read_nat_def digit_val_def)
  have "sb_count_uuid list_streams 5 [z, y, x] = 1 + 2 \<and> \<not> stream_contains list_streams nat_uuids (vi_uuid sample_video) [z, y, x]"
    using second_announcement_never_settles[OF list_streams_laws(2) id(1,2,3)] two one by blast
  moreover have "access_run sample_access [Create_Access sample_video, Create_Access sample_video, Update_Access sample_video] []
      = Ret (None, [z, y, x])"
    using x y up by simp
  ultimately show ?thesis unfolding id(4) by auto
qed

text \<open>Creating or updating a stream through the service panics for every space that
  exists, whoever asks: the space is read without its account.  For an unknown
  space it reports an error and changes nothing.\<close>

theorem stream_creation_panics:
  assumes "preloads_named S"
  shows "case get_by_identifier S identifier db of
      Inr _ \<Rightarrow> create_stream S U new1 new2 x identifier user db = Panic \<and> update_stream S U x identifier user db = Panic
    | Inl e \<Rightarrow> create_stream S U new1 new2 x identifier user db = Ret (Inl (Wrap ''find space by identifier: '' e), db) \<and>
        update_stream S U x identifier user db = Ret (Some (Wrap ''find space by identifier: '' e), db)"
proof (cases "get_by_identifier S identifier db")
  case (Inr sp)
  then have "sb_first_space S [] identifier db = Inr sp"
    by (auto simp: get_by_identifier_def lookup_result_def Let_def split: sum.splits if_splits)
  from preloaded_space[OF assms this] have "sp_account sp = None" by simp
  then show ?thesis using Inr by (simp add: create_stream_def update_stream_def owned_space_def)
qed (simp add: create_stream_def update_stream_def owned_space_def)

lemma stream_creation_panics_witness:
  "create_stream list_streams nat_uuids 1 2 \<lparr> ls_video = None, ls_uuid = 5, ls_title = [], ls_lobby = None,
     ls_space = None, ls_account = None, ls_user = [] \<rparr> ''ch@localhost'' ''alice@localhost'' [] = Panic"
proof -
  have "\<exists>sp. get_by_identifier list_streams ''ch@localhost'' [] = Inr sp"
    by (simp add: get_by_identifier_def lookup_result_def list_streams_def)
  then obtain sp where "get_by_identifier list_streams ''ch@localhost'' [] = Inr sp" by blast
  with stream_creation_panics[OF list_streams_laws(1), of nat_uuids 1 2 _ "''ch@localhost''" "''alice@localhost''" "[]"]
  show ?thesis by simp
qed

text \<open>C14: a stream is deleted only for the user its account names; the streams with
  other identifiers stay, and in every other case nothing changes.\<close>

theorem only_owner_deletes_stream:
  assumes "preloads_named S" "ud_parse U i = Inr u"
    and "\<forall>db e db'. sb_delete_stream S u db = (e, db') \<longrightarrow> (\<forall>k. k \<noteq> u \<longrightarrow> sb_count_uuid S k db' = sb_count_uuid S k db)"
  shows "\<exists>e db'. service_delete S U i user db = Ret (e, db') \<and>
    (case find_by_uuid S U i db of
       Inr x \<Rightarrow> \<exists>a. ls_account x = Some a \<and>
         (if ac_user a = user then db' = snd (sb_delete_stream S u db) \<and> (e = None \<longleftrightarrow> fst (sb_delete_stream S u db) = None)
          else e \<noteq> None \<and> db' = db)
     | Inl _ \<Rightarrow> e \<noteq> None \<and> db' = db) \<and>
    (\<forall>k. k \<noteq> u \<longrightarrow> sb_count_uuid S k db' = sb_count_uuid S k db)"
proof (cases "find_by_uuid S U i db")
  case (Inr x)
  then have "sb_first_stream S [Assoc_Space, Assoc_Lobby, Assoc_Account, Assoc_Video] u db = Inr x"
    using assms(2) by (auto simp: find_by_uuid_def lookup_result_def Let_def split: sum.splits if_splits)
  from preloaded_stream(3)[OF assms(1) this] obtain a where "ls_account x = Some a" by blast
  then show ?thesis
    using Inr assms(2,3) by (cases "sb_delete_stream S u db")
      (auto simp: service_delete_def get_stream_by_user_def stream_delete_def)
qed (simp add: service_delete_def get_stream_by_user_def)

text \<open>Looking a stream up returns it only under the space it belongs to, with all
  that was asked to be loaded, and never panics.\<close>

theorem stream_lookup_stays_in_space:
  assumes "preloads_named S"
  shows "\<exists>r. find_by_uuid_and_space_identifier S U i identifier db = Ret r \<and>
    (case r of
       Inr x \<Rightarrow> find_by_uuid S U i db = Inr x \<and> map_option sp_identifier (ls_space x) = Some identifier \<and>
         ls_lobby x \<noteq> None \<and> ls_account x \<noteq> None
     | Inl e \<Rightarrow> e = err_stream_not_part_of_space \<or> (\<exists>e'. find_by_uuid S U i db = Inl e' \<and> e = Wrap ''find stream by uuid: '' e'))"
proof (cases "find_by_uuid S U i db")
  case (Inr x)
  then obtain u where "sb_first_stream S [Assoc_Space, Assoc_Lobby, Assoc_Account, Assoc_Video] u db = Inr x"
    by (auto simp: find_by_uuid_def lookup_result_def Let_def split: sum.splits if_splits)
  from preloaded_stream[OF assms this] show ?thesis using Inr by (auto simp: find_by_uuid_and_space_identifier_def)
qed (simp add: find_by_uuid_and_space_identifier_def)

definition sample_stream :: live_stream where
  "sample_stream = loaded [Assoc_Space, Assoc_Lobby, Assoc_Account, Assoc_Video]
     \<lparr> ls_video = None, ls_uuid = 5, ls_title = [], ls_lobby = None, ls_space = None, ls_account = None, ls_user = [] \<rparr>"

lemma sample_found: "find_by_uuid list_streams nat_uuids ''5'' [sample_stream] = Inr sample_stream"
  by (simp add: find_by_uuid_def nat_uuids_def lookup_result_def list_streams_def sample_stream_def loaded_def
      read_nat_def digit_val_def)

lemma only_owner_deletes_stream_witness:
  "\<exists>e. service_delete list_streams nat_uuids ''5'' ''7'' [sample_stream] = Ret (e, [sample_stream]) \<and> e \<noteq> None"
proof -
  have p: "ud_parse nat_uuids ''5'' = Inr 5" by (simp add: nat_uuids_def read_nat_def digit_val_def)
  have f: "length (filter (\<lambda>x. ls_uuid x = k) (filter (\<lambda>x. ls_uuid x \<noteq> 5) db)) = length (filter (\<lambda>x. ls_uuid x = k) db)"
    if "k \<noteq> 5" for k and db :: "live_stream list"
    using that by (simp, intro arg_cong[where f = length] filter_cong) auto
  have k: "\<forall>db e db'. sb_delete_stream list_streams 5 db = (e, db') \<longrightarrow>
      (\<forall>k. k \<noteq> 5 \<longrightarrow> sb_count_uuid list_streams k db' = sb_count_uuid list_streams k db)"
    using f by (auto simp: list_streams_def)
  have "map_option ac_user (ls_account sample_stream) = Some ''alice@localhost''"
    by (simp add: sample_stream_def loaded_def default_account_def)
  then show ?thesis
    using only_owner_deletes_stream[OF list_streams_laws(1) p k, of "''7''" "[sample_stream]"] by (auto simp: sample_found)
qed

lemma stream_lookup_stays_in_space_witness:
  "find_by_uuid_and_space_identifier list_streams nat_uuids ''5'' ''other'' [sample_stream] = Ret (Inl err_stream_not_part_of_space)"
proof -
  have "map_option sp_identifier (ls_space sample_stream) = Some ''ch@localhost''"
    by (simp add: sample_stream_def loaded_def default_space_def)
  moreover obtain r where "find_by_uuid_and_space_identifier list_streams nat_uuids ''5'' ''other'' [sample_stream] = Ret r"
    "case r of Inr x \<Rightarrow> find_by_uuid list_streams nat_uuids ''5'' [sample_stream] = Inr x \<and>
         map_option sp_identifier (ls_space x) = Some ''other'' \<and> ls_lobby x \<noteq> None \<and> ls_account x \<noteq> None
     | Inl e \<Rightarrow> e = err_stream_not_part_of_space \<or>
         (\<exists>e'. find_by_uuid list_streams nat_uuids ''5'' [sample_stream] = Inl e' \<and> e = Wrap ''find stream by uuid: '' e')"
    using stream_lookup_stays_in_space[OF list_streams_laws(1), of nat_uuids "''5''" "''other''" "[sample_stream]"] by blast
  ultimately show ?thesis by (cases r) (auto simp: sample_found)
qed

end
