(* ===== verification/Video_Service.thy ===== *)
theory Video_Service
  imports Outbox Stream
begin

text \<open>
  Videos of other instances (\<^verbatim>\<open>internal/activitypub/parser\<close>,
  \<^verbatim>\<open>services/video.go\<close>, \<^verbatim>\<open>services/instance.go\<close>): what is read out of
  the properties the vocabulary does not know, and what an announced, updated or
  deleted video does to the stored videos and, through the stream service, to
  the streams.
\<close>

section \<open>Unknown properties\<close>

text \<open>The dynamic values of a decoded object; a number is given by its integral part,
  the only part the code reads.  The JSON decoder makes all of them but the time
  pointer.\<close>

datatype dyn = DNull | DBool bool | DNum int | DStr string | DList "dyn list" | DObj "(string \<times> dyn) list" | DTime nat

fun from_json :: "dyn \<Rightarrow> bool" where
  "from_json (DTime _) = False"
| "from_json (DList ds) = list_all from_json ds"
| "from_json (DObj kvs) = list_all (\<lambda>(_, d). from_json d) kvs"
| "from_json _ = True"

type_synonym props = "(string, dyn) gomap"

definition quoted :: "string \<Rightarrow> string" where
  "quoted key = [CHR 0x27] @ key @ [CHR 0x27]"

definition cannot_parse :: "string \<Rightarrow> go_error" where
  "cannot_parse key = Err (''cannot parsing '' @ quoted key)"

definition exclude_unknown_bool :: "props \<Rightarrow> string \<Rightarrow> bool result" where
  "exclude_unknown_bool m key = (case map_of m key of Some (DBool b) \<Rightarrow> Inr b | _ \<Rightarrow> Inl (cannot_parse key))"

definition exclude_unknown_string :: "props \<Rightarrow> string \<Rightarrow> string result" where
  "exclude_unknown_string m key = (case map_of m key of Some (DStr s) \<Rightarrow> Inr s | _ \<Rightarrow> Inl (cannot_parse key))"

definition exclude_unknown_uint :: "props \<Rightarrow> string \<Rightarrow> 64 word result" where
  "exclude_unknown_uint m key = (case map_of m key of Some (DNum n) \<Rightarrow> Inr (of_int n) | _ \<Rightarrow> Inl (cannot_parse key))"

definition exclude_unknown_time :: "props \<Rightarrow> string \<Rightarrow> nat result" where
  "exclude_unknown_time m key = (case map_of m key of Some (DTime t) \<Rightarrow> Inr t | _ \<Rightarrow> Inl (cannot_parse key))"

definition exclude_unknown_null_time :: "props \<Rightarrow> string \<Rightarrow> nat option" where
  "exclude_unknown_null_time m key = (case exclude_unknown_time m key of Inl _ \<Rightarrow> None | Inr t \<Rightarrow> Some t)"

definition exclude_unknown_uuid :: "uuid_lib \<Rightarrow> props \<Rightarrow> string \<Rightarrow> uuid result" where
  "exclude_unknown_uuid U m key =
     (case map_of m key of
        Some (DStr s) \<Rightarrow> (case ud_parse U s of Inl _ \<Rightarrow> Inl (Err (''is not an uuid '' @ quoted key)) | Inr u \<Rightarrow> Inr u)
      | _ \<Rightarrow> Inl (cannot_parse key))"

record shig_guests =
  sg_first :: string
  sg_second :: string
  sg_third :: string

record video_props =
  vp_latency :: "64 word"
  vp_uuid :: string
  vp_state :: "64 word"
  vp_shig_active :: bool
  vp_shig :: "shig_guests option"
  vp_instance_url :: string
  vp_is_live :: bool
  vp_permanent :: bool
  vp_save_replay :: bool

text \<open>One field after the other; the first error ends the extraction.\<close>

fun result_bind :: "'a result \<Rightarrow> ('a \<Rightarrow> 'b result) \<Rightarrow> 'b result" where
  "result_bind (Inl e) f = Inl e"
| "result_bind (Inr x) f = f x"

lemma result_bind_Inr: "result_bind r f = Inr y \<longleftrightarrow> (\<exists>x. r = Inr x \<and> f x = Inr y)"
  by (cases r) auto

definition extract_shig_data :: "props \<Rightarrow> video_props \<Rightarrow> video_props result" where
  "extract_shig_data m v =
     result_bind (exclude_unknown_bool m ''shigActive'') (\<lambda>active.
     result_bind (exclude_unknown_string m ''shigInstanceUrl'') (\<lambda>u.
     result_bind (exclude_unknown_string m ''firstGuest'') (\<lambda>g1.
     result_bind (exclude_unknown_string m ''secondGuest'') (\<lambda>g2.
     result_bind (exclude_unknown_string m ''thirdGuest'') (\<lambda>g3.
       Inr (v\<lparr> vp_shig_active := active, vp_instance_url := u,
              vp_shig := Some \<lparr> sg_first = g1, sg_second = g2, sg_third = g3 \<rparr> \<rparr>))))))"

definition extract_video_unknown_properties :: "uuid_lib \<Rightarrow> props \<Rightarrow> video_props result" where
  "extract_video_unknown_properties U m =
     result_bind (exclude_unknown_uint m ''latencyMode'') (\<lambda>latency.
     result_bind (exclude_unknown_uuid U m ''uuid'') (\<lambda>u.
     result_bind (exclude_unknown_uint m ''state'') (\<lambda>state.
     result_bind (exclude_unknown_bool m ''isLiveBroadcast'') (\<lambda>live.
     result_bind (exclude_unknown_bool m ''permanentLive'') (\<lambda>permanent.
     result_bind (exclude_unknown_bool m ''liveSaveReplay'') (\<lambda>replay.
       let v = \<lparr> vp_latency = latency, vp_uuid = ud_str U u, vp_state = state, vp_shig_active = False, vp_shig = None,
                 vp_instance_url = [], vp_is_live = live, vp_permanent = permanent, vp_save_replay = replay \<rparr>
       in case map_of m ''peertubeShig'' of Some (DObj d) \<Rightarrow> extract_shig_data d v | _ \<Rightarrow> Inr v))))))"

section \<open>Objects of activities\<close>

text \<open>Of the object of an activity the code reads each entry's address or its type; of
  a video its id, the addresses it is attributed to, its publication time, its
  names and the properties the vocabulary does not know; of a follow its id, its
  actors and its objects.\<close>

record as_video =
  av_id :: "url option option"
  av_attributed_to :: "url result list option"
  av_published :: "nat option"
  av_names :: "string list option"
  av_unknown :: props

record as_follow =
  af_id :: "url option option"
  af_actors :: "url result list option"
  af_objects :: "url result list option"

datatype as_type = AS_Video as_video | AS_Follow as_follow | AS_Other string

datatype as_item = Item_Iri url | Item_Type as_type | Item_Empty

fun first_id :: "url result list \<Rightarrow> url option" where
  "first_id [] = None"
| "first_id (Inr u # rs) = Some u"
| "first_id (Inl _ # rs) = first_id rs"

definition extract_actor_uri :: "url result list option \<Rightarrow> url result" where
  "extract_actor_uri p =
     (case p of
        None \<Rightarrow> Inl (Err ''actor property was nil'')
      | Some rs \<Rightarrow> (case first_id rs of Some u \<Rightarrow> Inr u | None \<Rightarrow> Inl (Err ''no iri found for actor prop'')))"

definition extract_object_uri :: "url result list option \<Rightarrow> url result" where
  "extract_object_uri p =
     (case p of
        None \<Rightarrow> Inl (Err ''object property was nil'')
      | Some rs \<Rightarrow> (case first_id rs of Some u \<Rightarrow> Inr u | None \<Rightarrow> Inl (Err ''no iri found for object prop'')))"

fun all_ids :: "url result list \<Rightarrow> url list result" where
  "all_ids [] = Inr []"
| "all_ids (Inl e # rs) = Inl (Wrap ''error extracting id from attributedTo entry: '' e)"
| "all_ids (Inr u # rs) = result_bind (all_ids rs) (\<lambda>us. Inr (u # us))"

definition extract_attributed_to :: "url result list option \<Rightarrow> url list result" where
  "extract_attributed_to p = (case p of None \<Rightarrow> Inl (Err ''activity had no attributedTo'') | Some rs \<Rightarrow> all_ids rs)"

text \<open>A receiver that is no address leaves a nil entry.\<close>

definition extract_to :: "url option list option \<Rightarrow> url option list result" where
  "extract_to p = (case p of None \<Rightarrow> Inl (Err ''activity had no attributedTo'') | Some us \<Rightarrow> Inr us)"

definition extract_name :: "string list option \<Rightarrow> string outcome" where
  "extract_name names = outcome_bind (deref names) (\<lambda>ns. Ret (if length ns = 1 then ns ! 0 else []))"

definition extract_published :: "nat option \<Rightarrow> nat outcome" where
  "extract_published t = deref t"

section \<open>The environment of the service\<close>

record ('key, 'db) fed_env =
  fe_config :: fed_config
  fe_store :: "'db ap_store"
  fe_net :: net
  fe_crypto :: "'key crypto_lib"
  fe_keys :: "'key key_lib"
  fe_accounts :: account_lib
  fe_uuids :: uuid_lib
  fe_unmarshal :: "string \<Rightarrow> props result"
  fe_create_access :: "video \<Rightarrow> 'db \<Rightarrow> (go_error option \<times> 'db) outcome"
  fe_update_access :: "video \<Rightarrow> 'db \<Rightarrow> (go_error option \<times> 'db) outcome"
  fe_delete_access :: "string \<Rightarrow> 'db \<Rightarrow> go_error option \<times> 'db"

definition service_create_actor ::
  "('key, 'db) fed_env \<Rightarrow> string \<Rightarrow> actor \<Rightarrow> 'db \<Rightarrow> (actor result \<times> 'db) outcome" where
  "service_create_actor V iri inst db =
     create_actor_from_remote_account (fe_config V) (fe_store V) (fe_net V) (fe_crypto V) (fe_keys V) (fe_accounts V) iri inst db"

definition get_instance_of :: "('key, 'db) fed_env \<Rightarrow> url \<Rightarrow> 'db \<Rightarrow> ap_instance option" where
  "get_instance_of V iri db = (case get_instance_by_actor_iri (fe_store V) iri db of Inr i \<Rightarrow> Some i | Inl _ \<Rightarrow> None)"

definition upsert_instance_by_actor ::
  "('key, 'db) fed_env \<Rightarrow> actor \<Rightarrow> 'db \<Rightarrow> (ap_instance result \<times> 'db) outcome" where
  "upsert_instance_by_actor V a db = instance_upsert (fe_store V) (new_instance a) db"

section \<open>Owner, channel, instance and guests\<close>

text \<open>An actor that cannot be fetched is passed over.  The message about a second
  channel reads the owner.\<close>

fun add_owner_and_channel ::
  "('key, 'db) fed_env \<Rightarrow> actor \<Rightarrow> url list \<Rightarrow> video \<Rightarrow> 'db \<Rightarrow> (video result \<times> 'db) outcome" where
  "add_owner_and_channel V inst [] v db = Ret (Inr v, db)"
| "add_owner_and_channel V inst (iri # iris) v db =
     outcome_bind (service_create_actor V (url_string iri) inst db) (\<lambda>(r, db'). case r of
       Inl _ \<Rightarrow> add_owner_and_channel V inst iris v db'
     | Inr a \<Rightarrow>
         (case get_actor_type a of
            Person \<Rightarrow>
              (case vi_owner v of
                 Some o1 \<Rightarrow> Ret (Inl (Err (''more then one owners dbId_1 '' @ show_nat (at_id o1) @ '', dbId_2 '' @
                   show_nat (at_id a))), db')
               | None \<Rightarrow> add_owner_and_channel V inst iris (v\<lparr> vi_owner := Some a \<rparr>) db')
          | Group \<Rightarrow>
              (case vi_channel v of
                 Some _ \<Rightarrow> outcome_bind (deref (vi_owner v)) (\<lambda>o1.
                   Ret (Inl (Err (''more then one channels dbId_1 '' @ show_nat (at_id o1) @ '', dbId_2 '' @
                     show_nat (at_id a))), db'))
               | None \<Rightarrow> add_owner_and_channel V inst iris (v\<lparr> vi_channel := Some a \<rparr>) db')
          | _ \<Rightarrow> add_owner_and_channel V inst iris v db'))"

text \<open>The instance of a video: the stored one, or a new one if its actor can be
  fetched.  If it cannot, the missing instance is read.\<close>

definition add_instance ::
  "('key, 'db) fed_env \<Rightarrow> actor \<Rightarrow> string \<Rightarrow> video \<Rightarrow> 'db \<Rightarrow> (video \<times> 'db) outcome" where
  "add_instance V inst instance_url v db =
     (if length instance_url = 0 then Ret (v, db)
      else case nt_parse_url (fe_net V) (instance_url @ ''/federation/accounts/shig'') of
        None \<Rightarrow> Ret (v, db)
      | Some iri \<Rightarrow>
          (case get_instance_of V iri db of
             Some i \<Rightarrow> Ret (v\<lparr> vi_instance := Some i \<rparr>, db)
           | None \<Rightarrow>
               outcome_bind (service_create_actor V (url_string iri) inst db) (\<lambda>(r, db1). case r of
                 Inl _ \<Rightarrow> Panic
               | Inr a \<Rightarrow> outcome_bind (upsert_instance_by_actor V a db1) (\<lambda>(r, db2). case r of
                   Inl _ \<Rightarrow> Ret (v, db2)
                 | Inr i \<Rightarrow> Ret (v\<lparr> vi_instance := Some i \<rparr>, db2)))))"

definition build_guest_account_iri :: "('key, 'db) fed_env \<Rightarrow> string \<Rightarrow> url result" where
  "build_guest_account_iri V account_name =
     (let names = split_on (CHR ''@'') account_name in
      if length names \<noteq> 2 then Inl (Err ''no valid account name'')
      else case nt_parse_url (fe_net V) (''/accounts/'' @ names ! 0) of
        None \<Rightarrow> Inl (Err ''no valid account name'')
      | Some iri \<Rightarrow> Inr (iri\<lparr> ur_host := names ! 1, ur_scheme := (if fc_https (fe_config V) then ''https'' else ''http'') \<rparr>))"

definition add_guest ::
  "('key, 'db) fed_env \<Rightarrow> actor \<Rightarrow> string \<Rightarrow> video \<Rightarrow> 'db \<Rightarrow> (video \<times> 'db) outcome" where
  "add_guest V inst guest v db =
     (if length guest = 0 then Ret (v, db)
      else case build_guest_account_iri V guest of
        Inl _ \<Rightarrow> Ret (v, db)
      | Inr iri \<Rightarrow>
          outcome_bind (service_create_actor V (url_string iri) inst db) (\<lambda>(r, db'). case r of
            Inl _ \<Rightarrow> Ret (v, db')
          | Inr a \<Rightarrow> Ret (v\<lparr> vi_guests := vi_guests v @ [a] \<rparr>, db')))"

definition parse_common_unknown_props ::
  "('key, 'db) fed_env \<Rightarrow> actor \<Rightarrow> props \<Rightarrow> video \<Rightarrow> 'db \<Rightarrow> (video result \<times> 'db) outcome" where
  "parse_common_unknown_props V inst m v db =
     (case extract_video_unknown_properties (fe_uuids V) m of
        Inl e \<Rightarrow> Ret (Inl (Wrap ''parsing unknown properties of video: '' e), db)
      | Inr p \<Rightarrow>
          (let v = v\<lparr> vi_latency := vp_latency p, vi_uuid := vp_uuid p, vi_state := vp_state p, vi_is_live := vp_is_live p,
                      vi_permanent := vp_permanent p, vi_save_replay := vp_save_replay p, vi_shig_active := vp_shig_active p \<rparr>
           in if \<not> vp_shig_active p then Ret (Inr v, db)
              else
                outcome_bind (add_instance V inst (vp_instance_url p) v db) (\<lambda>(v, db).
                outcome_bind (deref (vp_shig p)) (\<lambda>g.
                outcome_bind (add_guest V inst (sg_first g) v db) (\<lambda>(v, db).
                outcome_bind (add_guest V inst (sg_second g) v db) (\<lambda>(v, db).
                outcome_bind (add_guest V inst (sg_third g) v db) (\<lambda>(v, db). Ret (Inr v, db))))))))"

section \<open>Announced, updated and deleted videos\<close>

definition has_suffix :: "string \<Rightarrow> string \<Rightarrow> bool" where
  "has_suffix s p = has_prefix (rev s) (rev p)"

definition trim_suffix :: "string \<Rightarrow> string \<Rightarrow> string" where
  "trim_suffix s p = (if has_suffix s p then take (length s - length p) s else s)"

fun build_owner_iris_from_follower :: "url option list \<Rightarrow> url list outcome" where
  "build_owner_iris_from_follower [] = Ret []"
| "build_owner_iris_from_follower (f # fs) =
     outcome_bind (deref f) (\<lambda>u.
     outcome_bind (build_owner_iris_from_follower fs) (\<lambda>us.
       Ret (if has_suffix (ur_path u) ''followers'' then u\<lparr> ur_path := trim_suffix (ur_path u) ''followers'' \<rparr> # us else us)))"

text \<open>One announced address: the video is fetched and read.  The text of the error for
  an object that is no video has a nil error in it.\<close>

definition announced_item ::
  "('key, 'db) fed_env \<Rightarrow> actor \<Rightarrow> url \<Rightarrow> video \<Rightarrow> 'db \<Rightarrow> (video result \<times> 'db) outcome" where
  "announced_item V inst u v db =
     outcome_bind (get_signed_request (fe_config V) (fe_store V) (fe_net V) (fe_crypto V) (get_actor_iri (fe_net V) inst)
                     (url_string u) db) (\<lambda>r. case r of
       Inl e \<Rightarrow> Ret (Inl (Wrap ''getting signed request object: '' e), db)
     | Inr req \<Rightarrow>
         (case do_request (fe_crypto V) (fe_unmarshal V) req of
            Inl e \<Rightarrow> Ret (Inl (Wrap ''requesting video object: '' e), db)
          | Inr raw \<Rightarrow>
              (case exclude_unknown_string raw ''type'' of
                 Inl e \<Rightarrow> Ret (Inl (Wrap ''object is no video: '' e), db)
               | Inr ty \<Rightarrow>
                   if to_lower ty \<noteq> ''video'' then Ret (Inl (Err ''object is no video: %!w(<nil>)''), db)
                   else
                     (let v = v\<lparr> vi_iri := url_string u, vi_published := exclude_unknown_null_time raw ''published'' \<rparr> in
                      case exclude_unknown_string raw ''name'' of
                        Inl e \<Rightarrow> Ret (Inl (Wrap ''getting video name: '' e), db)
                      | Inr name \<Rightarrow>
                          outcome_bind (parse_common_unknown_props V inst raw (v\<lparr> vi_name := name \<rparr>) db) (\<lambda>(r, db').
                            Ret (wrap_err ''building common ideo props owner of video: '' r, db'))))))"

fun announced_items ::
  "('key, 'db) fed_env \<Rightarrow> actor \<Rightarrow> as_item list \<Rightarrow> video \<Rightarrow> 'db \<Rightarrow> (video result \<times> 'db) outcome" where
  "announced_items V inst [] v db = Ret (Inr v, db)"
| "announced_items V inst (Item_Iri u # is) v db =
     outcome_bind (announced_item V inst u v db) (\<lambda>(r, db'). case r of
       Inl e \<Rightarrow> Ret (Inl e, db') | Inr v' \<Rightarrow> announced_items V inst is v' db')"
| "announced_items V inst (_ # is) v db = announced_items V inst is v db"

definition add_video ::
  "('key, 'db) fed_env \<Rightarrow> as_item list \<Rightarrow> url option list \<Rightarrow> 'db \<Rightarrow> (go_error option \<times> 'db) outcome" where
  "add_video V items to_followers db =
     outcome_bind (build_owner_iris_from_follower to_followers) (\<lambda>owners.
     outcome_bind (get_local_instance_actor (fe_config V) (fe_store V) (fe_net V) db) (\<lambda>r. case r of
       Inl e \<Rightarrow> Ret (Some (Wrap ''getting local instance actor: '' e), db)
     | Inr inst \<Rightarrow>
         outcome_bind (add_owner_and_channel V inst owners no_video db) (\<lambda>(r, db1). case r of
           Inl e \<Rightarrow> Ret (Some (Wrap ''determining owner of video: '' e), db1)
         | Inr v \<Rightarrow>
             outcome_bind (announced_items V inst items v db1) (\<lambda>(r, db2). case r of
               Inl e \<Rightarrow> Ret (Some e, db2)
             | Inr v' \<Rightarrow>
                 (let (r, db3) = video_upsert (fe_store V) v' db2 in
                  case r of
                    Inl e \<Rightarrow> Ret (Some (Wrap ''creating video: '' e), db3)
                  | Inr v'' \<Rightarrow>
                      outcome_bind (fe_create_access V v'' db3) (\<lambda>(e, db4).
                        Ret (map_option (Wrap ''stream acces for new video: '') e, db4)))))))"

definition updated_item ::
  "('key, 'db) fed_env \<Rightarrow> as_video \<Rightarrow> video \<Rightarrow> 'db \<Rightarrow> (video result \<times> 'db) outcome" where
  "updated_item V a v db =
     outcome_bind (deref (av_id a)) (\<lambda>iri. case iri of
        None \<Rightarrow> Ret (Inl (Err ''vocab.ActivityStreamsVideo has no iri''), db)
      | Some u \<Rightarrow>
          (let v = v\<lparr> vi_iri := url_string u \<rparr> in
           case extract_attributed_to (av_attributed_to a) of
             Inl e \<Rightarrow> Ret (Inl (Wrap ''parsing owners of video: '' e), db)
           | Inr owners \<Rightarrow>
               outcome_bind (get_local_instance_actor (fe_config V) (fe_store V) (fe_net V) db) (\<lambda>r. case r of
                 Inl e \<Rightarrow> Ret (Inl (Wrap ''getting local instance actor: '' e), db)
               | Inr inst \<Rightarrow>
                   outcome_bind (add_owner_and_channel V inst owners v db) (\<lambda>(r, db1). case r of
                     Inl e \<Rightarrow> Ret (Inl (Wrap ''determining owner of video: '' e), db1)
                   | Inr v \<Rightarrow>
                       outcome_bind (extract_published (av_published a)) (\<lambda>_.
                       outcome_bind (extract_name (av_names a)) (\<lambda>name.
                       outcome_bind (parse_common_unknown_props V inst (av_unknown a)
                           (v\<lparr> vi_published := None, vi_name := name \<rparr>) db1) (\<lambda>(r, db2).
                         Ret (wrap_err ''building common ideo props owner of video: '' r, db2))))))))"

fun updated_items :: "('key, 'db) fed_env \<Rightarrow> as_item list \<Rightarrow> video \<Rightarrow> 'db \<Rightarrow> (video result \<times> 'db) outcome" where
  "updated_items V [] v db = Ret (Inr v, db)"
| "updated_items V (Item_Type (AS_Video a) # is) v db =
     outcome_bind (updated_item V a v db) (\<lambda>(r, db'). case r of
       Inl e \<Rightarrow> Ret (Inl e, db') | Inr v' \<Rightarrow> updated_items V is v' db')"
| "updated_items V (_ # is) v db = updated_items V is v db"

text \<open>Storing fills the row it is given, which the streams are then updated with.\<close>

definition upsert_video :: "('key, 'db) fed_env \<Rightarrow> as_item list \<Rightarrow> 'db \<Rightarrow> (go_error option \<times> 'db) outcome" where
  "upsert_video V items db =
     outcome_bind (updated_items V items no_video db) (\<lambda>(r, db1). case r of
       Inl e \<Rightarrow> Ret (Some e, db1)
     | Inr v \<Rightarrow>
         (let (r, db2) = video_upsert (fe_store V) v db1 in
          case r of
            Inl e \<Rightarrow> Ret (Some (Wrap ''saving video: '' e), db2)
          | Inr v' \<Rightarrow>
              outcome_bind (fe_update_access V v' db2) (\<lambda>(e, db3).
                Ret (map_option (Wrap ''update stream acces for new video: '') e, db3))))"

fun delete_video :: "('key, 'db) fed_env \<Rightarrow> as_item list \<Rightarrow> 'db \<Rightarrow> go_error option \<times> 'db" where
  "delete_video V [] db = (None, db)"
| "delete_video V (Item_Iri u # is) db =
     (case video_delete_by_iri (fe_store V) (url_string u) db of
        (Some e, db1) \<Rightarrow> (Some (Wrap ''saving video: '' e), db1)
      | (None, db1) \<Rightarrow>
          (case fe_delete_access V (url_string u) db1 of
             (Some e, db2) \<Rightarrow> (Some (Wrap ''remove stream access for video: '' e), db2)
           | (None, db2) \<Rightarrow> delete_video V is db2))"
| "delete_video V (_ # is) db = delete_video V is db"

section \<open>Lemmas\<close>

text \<open>An observation of the database that the tables of the federation leave alone.\<close>

definition fed_frames :: "('key, 'db) fed_env \<Rightarrow> ('db \<Rightarrow> 'x) \<Rightarrow> bool" where
  "fed_frames V f =
     ((\<forall>a db. f (snd (as_upsert_actor (fe_store V) a db)) = f db) \<and>
      (\<forall>i db. f (snd (as_create_instance (fe_store V) i db)) = f db) \<and>
      (\<forall>v db. f (snd (as_upsert_video (fe_store V) v db)) = f db))"

lemma store_frames:
  assumes "fed_frames V f"
  shows "as_upsert_actor (fe_store V) a db = (r1, d1) \<Longrightarrow> f d1 = f db"
    "as_create_instance (fe_store V) i db = (r2, d2) \<Longrightarrow> f d2 = f db"
    "as_upsert_video (fe_store V) v db = (r3, d3) \<Longrightarrow> f d3 = f db"
  using assms unfolding fed_frames_def by (metis snd_conv)+

lemma create_actor_frame:
  assumes "fed_frames V f" "f db = c" shows "keeps_frame f c (service_create_actor V iri inst db)"
  unfolding service_create_actor_def create_actor_from_remote_account_def upsert_actor_def Let_def
  using store_frames(1)[OF assms(1)] assms(2)
  by (intro frame_intros keeps_bind_value) (auto split: prod.splits)

lemma owner_channel_frame:
  "fed_frames V f \<Longrightarrow> f db = c \<Longrightarrow> keeps_frame f c (add_owner_and_channel V inst iris v db)"
proof (induction iris arbitrary: v db)
  case (Cons iri iris)
  note IH = Cons.IH[OF Cons.prems(1)]
  show ?case
    unfolding add_owner_and_channel.simps
  proof (intro keeps_bind create_actor_frame Cons.prems keeps_sum, goal_cases)
    case (1 r w e) then show ?case by (intro IH)
  next
    case (2 r w a) then show ?case
      by (cases "get_actor_type a") (simp_all, (intro frame_intros keeps_bind_value IH | assumption)+)
  qed
qed (auto intro!: frame_intros)

lemma instance_frame:
  assumes "fed_frames V f" "f db = c" shows "keeps_frame f c (add_instance V inst u v db)"
proof -
  have up: "keeps_frame f c (upsert_instance_by_actor V a d)" if "f d = c" for a d
    unfolding upsert_instance_by_actor_def instance_upsert_def
    using store_frames(2)[OF assms(1)] that
    by (intro frame_intros keeps_bind_value) auto
  show ?thesis
    unfolding add_instance_def
    by (intro frame_intros create_actor_frame up assms)
qed

lemma guest_frame:
  assumes "fed_frames V f" "f db = c" shows "keeps_frame f c (add_guest V inst g v db)"
  unfolding add_guest_def by (intro frame_intros create_actor_frame assms)

lemma common_props_frame:
  assumes "fed_frames V f" "f db = c" shows "keeps_frame f c (parse_common_unknown_props V inst m v db)"
  unfolding parse_common_unknown_props_def Let_def
  by (intro frame_intros keeps_bind_value instance_frame guest_frame assms)

lemma announced_item_frame:
  assumes "fed_frames V f" "f db = c" shows "keeps_frame f c (announced_item V inst u v db)"
  unfolding announced_item_def Let_def
  by (rule keeps_bind_value) (intro frame_intros common_props_frame assms)

lemma announced_items_frame:
  "fed_frames V f \<Longrightarrow> f db = c \<Longrightarrow> keeps_frame f c (announced_items V inst items v db)"
proof (induction items arbitrary: v db)
  case (Cons i items)
  then show ?case
    by (cases i) (auto intro!: frame_intros announced_item_frame)
qed (auto intro!: frame_intros)

lemma video_upsert_frame: "fed_frames V f \<Longrightarrow> video_upsert (fe_store V) v db = (r, db') \<Longrightarrow> f db' = f db"
  using store_frames(3)[of V f] by (auto simp: video_upsert_def split: prod.splits)

text \<open>A video can only be given a stream if it has an owner, a channel and an instance.\<close>

lemma create_access_needs:
  assumes "create_stream_access_by_video S N U new_id aid lid v db = Ret x"
  shows "vi_owner v \<noteq> None" "vi_channel v \<noteq> None" "\<exists>i. vi_instance v = Some i \<and> in_actor i \<noteq> None"
  using assms by (auto simp: create_stream_access_by_video_def outcome_simps)

lemma create_access_no_block:
  assumes "create_stream_access_by_video S N U new_id aid lid v db = Block" shows False
proof -
  have g: "build_guest_accounts S N new_id n as d \<noteq> Block" for n as d
    by (induction as arbitrary: n d) (auto simp: outcome_simps deref_def split: option.splits)
  have d: "deref p \<noteq> Block" for p :: "'a option" by (cases p) auto
  have "upsert_live_stream S x d \<noteq> Block" for x d
    by (auto simp: upsert_live_stream_def Let_def outcome_simps deref_def split: sum.splits option.splits prod.splits)
  then show ?thesis using assms g
    by (auto simp: create_stream_access_by_video_def outcome_simps federated_id_def Let_def deref_def split: option.splits)
qed

lemma create_access_without_instance:
  "vi_instance v = None \<Longrightarrow> create_stream_access_by_video S N U new_id aid lid v db = Panic"
  using create_access_needs(3)[of S N U new_id aid lid v db] create_access_no_block[of S N U new_id aid lid v db]
  by (cases "create_stream_access_by_video S N U new_id aid lid v db") auto

lemma extract_shig_guests: "extract_shig_data m v = Inr p \<Longrightarrow> vp_shig p \<noteq> None"
  by (auto simp: extract_shig_data_def result_bind_Inr)

lemma extracted_guests:
  assumes "extract_video_unknown_properties U m = Inr p" "vp_shig_active p" shows "vp_shig p \<noteq> None"
proof -
  obtain v where v: "(case map_of m ''peertubeShig'' of Some (DObj d) \<Rightarrow> extract_shig_data d v | _ \<Rightarrow> Inr v) = Inr p"
    "\<not> vp_shig_active v"
    using assms(1) by (auto simp: extract_video_unknown_properties_def result_bind_Inr Let_def)
  show ?thesis
  proof (cases "\<exists>d. map_of m ''peertubeShig'' = Some (DObj d)")
    case True
    then show ?thesis using v(1) extract_shig_guests by auto
  next
    case False
    then have "p = v" using v(1) by (cases "map_of m ''peertubeShig''") (auto split: dyn.splits)
    then show ?thesis using v(2) assms(2) by simp
  qed
qed

lemma json_no_time:
  assumes "\<forall>(k, d)\<in>set m. from_json d" shows "exclude_unknown_null_time m key = None"
proof -
  have "map_of m key \<noteq> Some (DTime t)" for t using assms map_of_SomeD[of m key "DTime t"] by fastforce
  then show ?thesis
    by (auto simp: exclude_unknown_null_time_def exclude_unknown_time_def split: option.splits dyn.splits)
qed

lemma owner_channel_instance:
  "returns_only (\<lambda>(r, _). \<forall>w. r = Inr w \<longrightarrow> vi_instance w = vi_instance v) (add_owner_and_channel V inst iris v db)"
proof (induction iris arbitrary: v db)
  case (Cons iri iris)
  show ?case
    unfolding add_owner_and_channel.simps
  proof (intro returns_bind returns_prod returns_sum, goal_cases)
    case (1 x r d e) then show ?case by (intro Cons.IH)
  next
    case (2 x r d a)
    show ?case
      using Cons.IH[of "v\<lparr> vi_owner := Some a \<rparr>" d] Cons.IH[of "v\<lparr> vi_channel := Some a \<rparr>" d] Cons.IH[of v d]
      by (cases "get_actor_type a") (simp_all, (intro ret_intros | simp)+)
  qed
qed (auto intro!: ret_intros)

text \<open>What the instance and the guests of a video leave alone.\<close>

definition same_publication :: "video \<Rightarrow> video \<Rightarrow> bool" where
  "same_publication v w = (vi_shig_active w = vi_shig_active v \<and> vi_published w = vi_published v)"

lemma add_instance_same: "returns_only (\<lambda>(w, _). same_publication v w) (add_instance V inst u v db)"
  unfolding add_instance_def by (intro ret_intros) (auto simp: same_publication_def)

lemma add_guest_same: "returns_only (\<lambda>(w, _). same_publication v w) (add_guest V inst g v db)"
  unfolding add_guest_def by (intro ret_intros) (auto simp: same_publication_def)

lemma common_props:
  "returns_only (\<lambda>(r, _). \<forall>w. r = Inr w \<longrightarrow> vi_published w = vi_published v \<and>
      (\<not> vi_shig_active w \<longrightarrow> vi_instance w = vi_instance v)) (parse_common_unknown_props V inst m v db)"
  unfolding parse_common_unknown_props_def Let_def
  by (intro ret_intros)
    (auto simp: same_publication_def dest!: returns_onlyD[OF add_instance_same] returns_onlyD[OF add_guest_same])

lemma wrap_err_Inr: "wrap_err s r = Inr x \<longleftrightarrow> r = Inr x"
  by (cases r) auto

lemma announced_item_instance:
  "returns_only (\<lambda>(r, _). \<forall>w. r = Inr w \<and> \<not> vi_shig_active w \<longrightarrow> vi_instance w = vi_instance v)
     (announced_item V inst u v db)"
  unfolding announced_item_def Let_def
  by (intro ret_intros) (auto dest!: returns_onlyD[OF common_props] simp: wrap_err_Inr)

lemma announced_item_published:
  assumes "\<And>b raw. fe_unmarshal V b = Inr raw \<Longrightarrow> \<forall>(k, d)\<in>set raw. from_json d"
  shows "returns_only (\<lambda>(r, _). \<forall>w. r = Inr w \<longrightarrow> vi_published w = None) (announced_item V inst u v db)"
proof -
  have "exclude_unknown_null_time raw ''published'' = None" if "do_request (fe_crypto V) (fe_unmarshal V) req = Inr raw" for req raw
  proof -
    note r = that
    obtain b where "fe_unmarshal V b = Inr raw" using r by (auto simp: do_request_def wrap_err_Inr split: sum.splits)
    from json_no_time[OF assms[OF this]] show ?thesis .
  qed
  then show ?thesis
    unfolding announced_item_def Let_def
    by (intro ret_intros) (auto dest!: returns_onlyD[OF common_props] simp: wrap_err_Inr)
qed

text \<open>The steps of an announcement that succeeded.\<close>

lemma add_video_steps:
  "returns_only (\<lambda>(e, db'). e = None \<longrightarrow> (\<exists>inst owners v db1 w db2 v' db3.
     add_owner_and_channel V inst owners no_video db = Ret (Inr v, db1) \<and>
     announced_items V inst items v db1 = Ret (Inr w, db2) \<and>
     video_upsert (fe_store V) w db2 = (Inr v', db3) \<and> fe_create_access V v' db3 = Ret (None, db')))
   (add_video V items tf db)"
  unfolding add_video_def Let_def by (intro ret_intros) (auto, blast)

text \<open>An environment for the examples: every address answers with an account that owns
  its key, or with a video.\<close>

definition sample_doc :: "url \<Rightarrow> string \<Rightarrow> as_account" where
  "sample_doc u ty = \<lparr> aa_id = Some (Some u), aa_type = ty, aa_username = Some ''n'', aa_inbox = Some u, aa_outbox = None,
     aa_following = None, aa_followers = None, aa_endpoints = None,
     aa_keys = Some [\<lparr> ak_is_key = True, ak_present = True, ak_id = Inr u, ak_owner = Some (Some u), ak_pem = Some ''k'' \<rparr>] \<rparr>"

definition sample_crypto :: "unit crypto_lib" where
  "sample_crypto = \<lparr> cr_request_error = (\<lambda>_. None), cr_pem_decode = (\<lambda>_. None), cr_private_key = (\<lambda>_. Inr ()),
     cr_sign = (\<lambda>_ _ _ _. None), cr_fetch = (\<lambda>r. Inr (Inr (sq_url r))) \<rparr>"

definition sample_keys :: "unit key_lib" where
  "sample_keys = \<lparr> kl_parse_pkix = (\<lambda>_. Inr (Some (Rsa_Key ()))), kl_parse_pkcs1 = (\<lambda>_. Inl (Err [])),
     kl_marshal_pkix = (\<lambda>_. Inr ''k''), kl_pem_decode = (\<lambda>_. Some (''PUBLIC KEY'', ''k'')), kl_pem_encode = (\<lambda>t b. t @ b) \<rparr>"

definition sample_accounts :: account_lib where
  "sample_accounts = \<lparr> al_unmarshal = Inr, al_to_type = (\<lambda>raw. Inr (map_option (\<lambda>u.
     sample_doc u (if ur_path u = ''/a/'' then ''Person'' else ''Group'')) (simple_parse_url raw))) \<rparr>"

definition sample_ap_store :: "live_stream list ap_store" where
  "sample_ap_store = \<lparr> as_actor_by_iri = (\<lambda>_ _. Inr (stream_actor ''shig'')), as_first_actor = (\<lambda>a _. Inr a),
     as_actors_by_ids = (\<lambda>_ _. Inr []), as_upsert_actor = (\<lambda>a db. (Inr (a\<lparr> at_id := 1 \<rparr>), db)),
     as_first_follow = (\<lambda>f _. Inr f), as_find_follows = (\<lambda>_ _ _ _. Inr []), as_create_follow = (\<lambda>f db. (Inr f, db)),
     as_save_follow = (\<lambda>f db. (Inr f, db)),
     as_instance_by_actor = (\<lambda>_ _. Inr \<lparr> in_id = 1, in_actor_id = 1, in_actor = Some (stream_actor ''shig'') \<rparr>),
     as_create_instance = (\<lambda>i db. (Inr i, db)), as_upsert_video = (\<lambda>v db. (Inr v, db)), as_delete_video = (\<lambda>_ db. (None, db)) \<rparr>"

definition sample_object :: "bool \<Rightarrow> props" where
  "sample_object active = [(''type'', DStr ''Video''), (''name'', DStr ''talk''), (''published'', DStr ''2024-01-01T00:00:00Z''),
     (''latencyMode'', DNum 1), (''uuid'', DStr ''5''), (''state'', DNum 1), (''isLiveBroadcast'', DBool True),
     (''permanentLive'', DBool False), (''liveSaveReplay'', DBool False),
     (''peertubeShig'', DObj [(''shigActive'', DBool active), (''shigInstanceUrl'', DStr ''http://localhost''),
        (''firstGuest'', DStr []), (''secondGuest'', DStr []), (''thirdGuest'', DStr [])])]"

definition sample_fed :: "bool \<Rightarrow> (unit, live_stream list) fed_env" where
  "sample_fed active = \<lparr>
     fe_config = \<lparr> fc_enable = True, fc_https = False, fc_private = False, fc_release = ''1'', fc_username = ''shig'',
       fc_register_token = ''t'', fc_url = home_url \<rparr>,
     fe_store = sample_ap_store, fe_net = iri_net, fe_crypto = sample_crypto, fe_keys = sample_keys,
     fe_accounts = sample_accounts, fe_uuids = nat_uuids, fe_unmarshal = (\<lambda>_. Inr (sample_object active)),
     fe_create_access = create_stream_access_by_video list_streams iri_net nat_uuids (\<lambda>_. ''1'') ''2'' 9,
     fe_update_access = update_stream_access_by_video list_streams iri_net nat_uuids (\<lambda>_. ''1'') ''2'' 9,
     fe_delete_access = delete_stream_access_by_video list_streams nat_uuids \<rparr>"

abbreviation sample_followers :: "url option list" where
  "sample_followers \<equiv> [Some (home_url\<lparr> ur_path := ''/a/followers'' \<rparr>), Some (home_url\<lparr> ur_path := ''/c/followers'' \<rparr>)]"

lemma sample_signed:
  "\<exists>req. get_signed_request (fe_config (sample_fed b)) sample_ap_store iri_net sample_crypto
      (get_actor_iri iri_net (stream_actor ''shig'')) u db = Ret (Inr req) \<and> sq_url req = u"
proof -
  have n: "nt_parse_url iri_net s \<noteq> None" if "has_prefix s ''http://''" for s
    using that by (auto simp: iri_net_def simple_parse_url_def has_prefix_iff Let_def has_prefix_def)
  obtain k where "nt_parse_url iri_net ''http://localhost/accounts/shig#main-key'' = Some k"
    using n[of "''http://localhost/accounts/shig#main-key''"] by (auto simp: has_prefix_def)
  then show ?thesis
    by (simp add: sample_iri get_signed_request_def sign_request_def sample_ap_store_def sample_crypto_def unsigned_def Let_def
        get_key_pair_def get_actor_by_actor_iri_def lookup_result_def crypto_public_key_def url_string_def)
qed

lemma sample_create_actor:
  assumes "nt_parse_url iri_net s = Some u" "url_string u = s"
  shows "\<exists>a. service_create_actor (sample_fed b) s (stream_actor ''shig'') db = Ret (Inr a, db) \<and>
    at_type a = (if ur_path u = ''/a/'' then ''Person'' else ''Group'') \<and> at_iri a = s \<and> at_inbox a = s"
proof -
  obtain req where r: "get_signed_request (fe_config (sample_fed b)) sample_ap_store iri_net sample_crypto
      (get_actor_iri iri_net (stream_actor ''shig'')) s db = Ret (Inr req)" "sq_url req = s"
    using sample_signed by blast
  have e: "fe_store (sample_fed b) = sample_ap_store" "fe_net (sample_fed b) = iri_net" "fe_crypto (sample_fed b) = sample_crypto"
    "fe_keys (sample_fed b) = sample_keys" "fe_accounts (sample_fed b) = sample_accounts"
    by (simp_all add: sample_fed_def)
  have p: "simple_parse_url s = Some u" using assms(1) by (simp add: iri_net_def)
  have x: "cr_fetch sample_crypto r = Inr (Inr (sq_url r))" "as_upsert_actor sample_ap_store a db = (Inr (a\<lparr> at_id := 1 \<rparr>), db)"
    "al_unmarshal sample_accounts = Inr" for r a
    by (simp_all add: sample_crypto_def sample_ap_store_def sample_accounts_def)
  have "al_to_type sample_accounts s = Inr (Some (sample_doc u (if ur_path u = ''/a/'' then ''Person'' else ''Group'')))"
    by (simp add: sample_accounts_def p)
  moreover have "create_actor sample_keys (sample_doc u ty) = Inr (no_actor\<lparr> at_iri := s, at_name := ''n'', at_type := ty,
      at_inbox := s, at_shared_inbox := [], at_outbox := [], at_following := [], at_followers := [],
      at_public_key := ''RSA PUBLIC KEYk'' \<rparr>)" for ty
    by (simp add: create_actor_def extract_preferred_username_def extract_public_key_def sample_keys_def sample_doc_def
        export_rsa_public_key_as_pem_str_def address_or_empty_def extract_shared_inbox_def assms(2))
  moreover have "aa_id (sample_doc u ty) = Some (Some u)" for ty by (simp add: sample_doc_def)
  ultimately show ?thesis
    by (simp add: service_create_actor_def create_actor_from_remote_account_def e r fetch_account_as_actor_def x upsert_actor_def)
qed

lemma sample_fed_sel:
  "fe_config (sample_fed b) = fe_config (sample_fed False)" "fe_store (sample_fed b) = sample_ap_store"
  "fe_net (sample_fed b) = iri_net" "fe_crypto (sample_fed b) = sample_crypto"
  "fe_unmarshal (sample_fed b) x = Inr (sample_object b)" "fe_uuids (sample_fed b) = nat_uuids"
  "fe_create_access (sample_fed b) = create_stream_access_by_video list_streams iri_net nat_uuids (\<lambda>_. ''1'') ''2'' 9"
  by (simp_all add: sample_fed_def)

lemma sample_instance_actor:
  "get_local_instance_actor (fe_config (sample_fed b)) sample_ap_store iri_net db = Ret (Inr (stream_actor ''shig''))"
proof -
  have "\<forall>s\<in>set [''federation'', ''accounts'', ''shig'']. plain_segment s \<and> set s \<inter> set ''?#'' = {}"
    by (simp add: plain_segment_def)
  from reparse_bare[OF iri_net_ok home_url_ok _ this] show ?thesis
    by (simp add: get_local_instance_actor_def sample_fed_def build_account_iri_def get_actor_by_actor_iri_def sample_ap_store_def
        lookup_result_def)
qed

lemma sample_owners: "build_owner_iris_from_follower sample_followers =
    Ret [home_url\<lparr> ur_path := ''/a/'' \<rparr>, home_url\<lparr> ur_path := ''/c/'' \<rparr>]"
  by (simp add: has_suffix_def has_prefix_def trim_suffix_def home_url_def)

lemma sample_owner_channel:
  "\<exists>v. add_owner_and_channel (sample_fed b) (stream_actor ''shig'') [home_url\<lparr> ur_path := ''/a/'' \<rparr>, home_url\<lparr> ur_path := ''/c/'' \<rparr>]
      no_video db = Ret (Inr v, db) \<and> vi_owner v \<noteq> None \<and> vi_channel v \<noteq> None \<and> vi_instance v = None \<and> vi_guests v = []
     \<and> (\<forall>a. vi_owner v = Some a \<longrightarrow> at_iri a = ''http://localhost:8080/a/'')
     \<and> (\<forall>a. vi_channel v = Some a \<longrightarrow> at_iri a = ''http://localhost:8080/c/'')"
proof -
  have n: "nt_parse_url iri_net (url_string (home_url\<lparr> ur_path := p \<rparr>)) = Some (home_url\<lparr> ur_path := p \<rparr>)"
    if "p \<in> {''/a/'', ''/c/''}" for p
    using that by (auto simp: iri_net_def home_url_def absolute_url_def has_prefix_def intro!: simple_parse_printed)
  obtain a c where
    a: "service_create_actor (sample_fed b) (url_string (home_url\<lparr> ur_path := ''/a/'' \<rparr>)) (stream_actor ''shig'') db = Ret (Inr a, db)"
      "at_type a = ''Person''" "at_iri a = url_string (home_url\<lparr> ur_path := ''/a/'' \<rparr>)" and
    c: "service_create_actor (sample_fed b) (url_string (home_url\<lparr> ur_path := ''/c/'' \<rparr>)) (stream_actor ''shig'') db = Ret (Inr c, db)"
      "at_type c = ''Group''" "at_iri c = url_string (home_url\<lparr> ur_path := ''/c/'' \<rparr>)"
    using sample_create_actor[OF n refl, of "''/a/''" b db] sample_create_actor[OF n refl, of "''/c/''" b db] by auto
  have t: "get_actor_type a = Person" "get_actor_type c = Group"
    using a(2) c(2) by (simp_all add: get_actor_type_def actor_type_from_string_def to_lower_def lower_char_def Let_def)
  show ?thesis using a c t by (simp add: no_video_def home_url_def url_string_def)
qed

lemma sample_item:
  "\<exists>w. announced_item (sample_fed b) (stream_actor ''shig'') home_url v db = Ret (Inr w, db) \<and>
     vi_owner w = vi_owner v \<and> vi_channel w = vi_channel v \<and> vi_guests w = vi_guests v \<and> vi_uuid w = ''5'' \<and>
     vi_shig_active w = b \<and> vi_published w = None \<and>
     vi_instance w = (if b then Some \<lparr> in_id = 1, in_actor_id = 1, in_actor = Some (stream_actor ''shig'') \<rparr> else vi_instance v)"
proof -
  obtain req where "get_signed_request (fe_config (sample_fed b)) sample_ap_store iri_net sample_crypto
      (get_actor_iri iri_net (stream_actor ''shig'')) (url_string home_url) db = Ret (Inr req)" "sq_url req = url_string home_url"
    using sample_signed by blast
  then have r: "get_signed_request (fe_config (sample_fed False)) sample_ap_store iri_net sample_crypto
      (get_actor_iri iri_net (stream_actor ''shig'')) (url_string home_url) db = Ret (Inr req)"
    using sample_fed_sel(1)[of b] by simp
  have d: "do_request sample_crypto (fe_unmarshal (sample_fed c)) req = Inr (sample_object c)" for c
    by (simp add: do_request_def sample_crypto_def sample_fed_sel(5))
  have s5: "show_nat 5 = ''5''" by (simp add: show_nat.simps digit_def)
  have p: "\<exists>p. extract_video_unknown_properties nat_uuids (sample_object b) = Inr p \<and> vp_shig_active p = b \<and> vp_uuid p = ''5'' \<and>
      vp_instance_url p = ''http://localhost'' \<and> vp_shig p = Some \<lparr> sg_first = [], sg_second = [], sg_third = [] \<rparr>"
    by (simp add: extract_video_unknown_properties_def sample_object_def exclude_unknown_uint_def exclude_unknown_bool_def
        exclude_unknown_string_def exclude_unknown_uuid_def extract_shig_data_def nat_uuids_def read_nat_def digit_val_def
        s5 Let_def)
  have n: "\<exists>k. nt_parse_url iri_net ''http://localhost/federation/accounts/shig'' = Some k"
    by (simp add: iri_net_def simple_parse_url_def has_prefix_def Let_def)
  have t: "exclude_unknown_string (sample_object b) ''type'' = Inr ''Video''" "exclude_unknown_string (sample_object b) ''name'' = Inr ''talk''"
    "exclude_unknown_null_time (sample_object b) ''published'' = None" "to_lower ''Video'' = ''video''"
    by (simp_all add: exclude_unknown_string_def exclude_unknown_null_time_def exclude_unknown_time_def sample_object_def
        to_lower_def lower_char_def)
  have g: "get_instance_of (sample_fed c) k db = Some \<lparr> in_id = 1, in_actor_id = 1, in_actor = Some (stream_actor ''shig'') \<rparr>" for k c
    by (simp add: get_instance_of_def get_instance_by_actor_iri_def sample_fed_sel(2-) sample_ap_store_def lookup_result_def)
  obtain q k where q: "extract_video_unknown_properties nat_uuids (sample_object b) = Inr q" "vp_shig_active q = b" "vp_uuid q = ''5''"
      "vp_instance_url q = ''http://localhost''" "vp_shig q = Some \<lparr> sg_first = [], sg_second = [], sg_third = [] \<rparr>"
    and k: "nt_parse_url iri_net ''http://localhost/federation/accounts/shig'' = Some k"
    using p n by blast
  show ?thesis
    by (simp add: announced_item_def sample_fed_sel(2-) sample_fed_sel(1)[of b] r d t parse_common_unknown_props_def Let_def
        add_instance_def add_guest_def g q k)
qed

section \<open>Properties\<close>



text \<open>Announcing a video whose instance does not run this plugin panics as soon as
  the video is stored: no instance is known for it, and none is asked for.\<close>

theorem announcement_panics_without_instance:
  assumes "fe_create_access V = create_stream_access_by_video S N U new_id aid lid"
    and "\<forall>v db. case as_upsert_video (fe_store V) v db of (Inr v', _) \<Rightarrow> vi_instance v' = vi_instance v | _ \<Rightarrow> False"
    and "build_owner_iris_from_follower tf = Ret owners"
    and "get_local_instance_actor (fe_config V) (fe_store V) (fe_net V) db = Ret (Inr inst)"
    and "add_owner_and_channel V inst owners no_video db = Ret (Inr v, db1)"
    and "announced_item V inst u v db1 = Ret (Inr w, db2)" "\<not> vi_shig_active w"
  shows "add_video V [Item_Iri u] tf db = Panic"
proof -
  have "vi_instance w = None"
    using returns_onlyD[OF announced_item_instance assms(6)] returns_onlyD[OF owner_channel_instance assms(5)] assms(7)
    by (simp add: no_video_def)
  moreover obtain v' db3 where u: "as_upsert_video (fe_store V) w db2 = (Inr v', db3)" "vi_instance v' = vi_instance w"
    using assms(2)[rule_format, of w db2] by (auto split: prod.splits sum.splits)
  ultimately have "create_stream_access_by_video S N U new_id aid lid v' db3 = Panic"
    by (simp add: create_access_without_instance)
  then show ?thesis using assms(1,3-6) u(1) by (simp add: add_video_def video_upsert_def Let_def)
qed

lemma announcement_panics_without_instance_witness:
  "add_video (sample_fed False) [Item_Iri home_url] sample_followers [] = Panic"
proof -
  obtain v where v: "add_owner_and_channel (sample_fed False) (stream_actor ''shig'')
      [home_url\<lparr> ur_path := ''/a/'' \<rparr>, home_url\<lparr> ur_path := ''/c/'' \<rparr>] no_video [] = Ret (Inr v, [])"
    using sample_owner_channel[of False "[]"] by blast
  obtain w where w: "announced_item (sample_fed False) (stream_actor ''shig'') home_url v [] = Ret (Inr w, [])"
    "\<not> vi_shig_active w"
    using sample_item[of False v "[]"] by auto
  have u: "\<forall>v db. case as_upsert_video (fe_store (sample_fed False)) v db of (Inr v', _) \<Rightarrow> vi_instance v' = vi_instance v | _ \<Rightarrow> False"
    by (simp add: sample_fed_sel(2) sample_ap_store_def)
  have g: "get_local_instance_actor (fe_config (sample_fed False)) (fe_store (sample_fed False)) (fe_net (sample_fed False)) [] =
      Ret (Inr (stream_actor ''shig''))"
    using sample_instance_actor by (simp add: sample_fed_sel(2-))
  show ?thesis by (rule announcement_panics_without_instance[OF sample_fed_sel(7) u sample_owners g v w])
qed

text \<open>The time a video was published is never kept: what the JSON decoder makes
  of the announced object has no time in it.\<close>

theorem publication_time_never_stored:
  assumes "\<And>b raw. fe_unmarshal V b = Inr raw \<Longrightarrow> \<forall>(k, d)\<in>set raw. from_json d"
    and "announced_item V inst u v db = Ret (Inr w, db')"
  shows "vi_published w = None"
  using returns_onlyD[OF announced_item_published[OF assms(1)] assms(2)] by simp

lemma publication_time_never_stored_witness:
  "\<exists>w. announced_item (sample_fed True) (stream_actor ''shig'') home_url no_video [] = Ret (Inr w, []) \<and> vi_published w = None"
proof -
  obtain w where w: "announced_item (sample_fed True) (stream_actor ''shig'') home_url no_video [] = Ret (Inr w, [])"
    using sample_item[of True no_video "[]"] by blast
  have j: "\<forall>(k, d)\<in>set raw. from_json d" if "fe_unmarshal (sample_fed True) b = Inr raw" for b raw
    using that by (auto simp: sample_fed_sel(5) sample_object_def)
  have "vi_published w = None" by (rule publication_time_never_stored[OF _ w]) (rule j)
  then show ?thesis using w by blast
qed

end
