(* ===== verification/Actor_Document.thy ===== *)
theory Actor_Document
  imports Outbox
begin

text \<open>
  The document an instance publishes about its actor
  (\<^verbatim>\<open>models/application_actor.go\<close>, \<^verbatim>\<open>request/http_response.go\<close>,
  \<^verbatim>\<open>crypto/signer.go\<close>), and what another instance makes of it when it
  fetches the actor: the two sides of the exchange use the same addresses and the
  same key.
\<close>

section \<open>The document\<close>

record application =
  ap_name :: string
  ap_username :: string
  ap_inbox :: "url option"
  ap_approves :: bool
  ap_outbox :: "url option"
  ap_id :: url
  ap_key_id :: "url option"
  ap_key_owner :: url
  ap_key_pem :: string
  ap_published :: "nat option"
  ap_url :: url
  ap_discoverable :: bool
  ap_followers :: url
  ap_shared_inbox :: "url option"

text \<open>An actor whose own address cannot be parsed has no document.\<close>

definition build_activity_application ::
  "net \<Rightarrow> fed_config \<Rightarrow> string \<Rightarrow> nat option \<Rightarrow> actor \<Rightarrow> application outcome" where
  "build_activity_application N C server_name init_time a =
     outcome_bind (deref (get_actor_iri N a)) (\<lambda>iri.
       let key = crypto_public_key N iri (at_public_key a)
       in Ret \<lparr> ap_name = server_name, ap_username = at_name a, ap_inbox = get_inbox_iri N a, ap_approves = fc_private C,
            ap_outbox = get_outbox_iri N a, ap_id = iri, ap_key_id = pk_id key, ap_key_owner = pk_owner key, ap_key_pem = pk_pem key,
            ap_published = init_time, ap_url = iri, ap_discoverable = True,
            ap_followers = iri\<lparr> ur_path := ur_path iri @ ''/followers'' \<rparr>, ap_shared_inbox = get_shared_inbox_iri N a \<rparr>)"

text \<open>What a reader of accounts finds in the document.\<close>

definition account_of_application :: "application \<Rightarrow> as_account" where
  "account_of_application p = \<lparr> aa_id = Some (Some (ap_id p)), aa_type = ''Application'', aa_username = Some (ap_username p),
     aa_inbox = ap_inbox p, aa_outbox = ap_outbox p, aa_following = None, aa_followers = Some (ap_followers p),
     aa_endpoints = Some [(True, Some (Some (ap_shared_inbox p)))],
     aa_keys = Some [\<lparr> ak_is_key = True, ak_present = True,
       ak_id = (case ap_key_id p of None \<Rightarrow> Inl (Err ''no id'') | Some u \<Rightarrow> Inr u),
       ak_owner = Some (Some (ap_key_owner p)), ak_pem = Some (ap_key_pem p) \<rparr>] \<rparr>"

section \<open>Keys made here\<close>

text \<open>Generating, marshalling and encoding belong to the cryptography library.\<close>

record 'key keygen =
  kg_generate :: "('key \<times> string) result"
  kg_marshal_pkix :: "'key \<Rightarrow> string result"
  kg_pem_encode :: "string \<Rightarrow> string \<Rightarrow> string"

definition generate_keys :: "'key keygen \<Rightarrow> (string \<times> string) result" where
  "generate_keys G =
     (case kg_generate G of
        Inl e \<Rightarrow> Inl e
      | Inr (public, private_bytes) \<Rightarrow>
          (let private_pem = kg_pem_encode G ''RSA PRIVATE KEY'' private_bytes in
           case kg_marshal_pkix G public of
             Inl e \<Rightarrow> Inl e
           | Inr b \<Rightarrow> Inr (private_pem, kg_pem_encode G ''PUBLIC KEY'' b)))"

section \<open>Lemmas\<close>

text \<open>What the two libraries of keys promise each other: an encoded block is decoded to
  itself, a marshalled key is parsed, and a key in one encoding is refused by the
  parser of the other.\<close>

definition key_codecs :: "'key key_lib \<Rightarrow> bool" where
  "key_codecs K =
     ((\<forall>ty b. kl_pem_decode K (kl_pem_encode K ty b) = Some (ty, b) \<and> kl_pem_encode K ty b \<noteq> []) \<and>
      (\<forall>k b. kl_marshal_pkix K k = Inr b \<longrightarrow> kl_parse_pkix K b = Inr (Some (Rsa_Key k)) \<and> (\<exists>e. kl_parse_pkcs1 K b = Inl e)))"

lemma create_actor_Inr:
  assumes "create_actor K a = Inr x"
  obtains u name key key_id owner pem where
    "aa_id a = Some (Some u)" "extract_preferred_username a = Inr name" "extract_public_key K a = Inr (key, key_id, owner)"
    "url_string owner = url_string u" "export_rsa_public_key_as_pem_str K key = Inr pem"
    "x = no_actor\<lparr> at_iri := url_string u, at_name := name, at_type := aa_type a, at_inbox := address_or_empty (aa_inbox a),
       at_shared_inbox := address_or_empty (extract_shared_inbox a), at_outbox := address_or_empty (aa_outbox a),
       at_following := address_or_empty (aa_following a), at_followers := address_or_empty (aa_followers a), at_public_key := pem \<rparr>"
proof -
  obtain u where u: "aa_id a = Some (Some u)"
    using assms by (cases "aa_id a"; cases "the (aa_id a)") (auto simp: create_actor_def)
  obtain name where n: "extract_preferred_username a = Inr name"
    using assms u by (cases "extract_preferred_username a") (auto simp: create_actor_def)
  obtain key key_id owner where k: "extract_public_key K a = Inr (key, key_id, owner)"
    using assms u n by (cases "extract_public_key K a") (auto simp: create_actor_def)
  show thesis
    using assms u n k by (cases "export_rsa_public_key_as_pem_str K key") (auto simp: create_actor_def split: if_splits intro!: that)
qed

lemma key_of_entries_Inr:
  "key_of_entries K ks = Inr (key, key_id, owner) \<Longrightarrow>
     \<exists>k\<in>set ks. \<exists>pem ty b. ak_id k = Inr key_id \<and> ak_owner k = Some (Some owner) \<and> ak_pem k = Some pem \<and> kl_pem_decode K pem = Some (ty, b) \<and>
       (ty = ''PUBLIC KEY'' \<and> kl_parse_pkix K b = Inr (Some (Rsa_Key key)) \<or>
        ty = ''RSA PUBLIC KEY'' \<and> kl_parse_pkcs1 K b = Inr (Some (Rsa_Key key)))"
proof (induction ks)
  case (Cons k ks)
  have skip: ?case if "key_of_entries K ks = Inr (key, key_id, owner)" using Cons.IH[OF that] by fastforce
  show ?case
    using Cons.prems skip
    by (auto split: if_splits sum.splits option.splits any_key.splits)
qed simp

lemma created_actor_owns_key_facts:
  assumes "create_actor K a = Inr x"
  shows "\<exists>key b. kl_marshal_pkix K key = Inr b \<and> at_public_key x = kl_pem_encode K ''RSA PUBLIC KEY'' b"
proof (rule create_actor_Inr[OF assms], goal_cases)
  case (1 u name key key_id owner pem)
  then show ?case by (cases "kl_marshal_pkix K key") (auto simp: export_rsa_public_key_as_pem_str_def)
qed

text \<open>Addresses under an actor's address.\<close>

lemma split_rooted:
  "\<forall>s\<in>set ss. plain_segment s \<Longrightarrow> ss \<noteq> [] \<Longrightarrow> split_on (CHR ''/'') (rooted ss) = [] # ss"
proof (induction ss)
  case (Cons s ss)
  have s: "CHR ''/'' \<notin> set s" using Cons.prems by (simp add: plain_segment_def)
  show ?case
  proof (cases "ss = []")
    case True
    then show ?thesis using s by (simp add: rooted_def split_on_free)
  next
    case False
    then obtain t ts where t: "ss = t # ts" by (cases ss) auto
    have "rooted (s # ss) = CHR ''/'' # s @ rooted ss" using False by (simp add: rooted_def)
    moreover have r: "rooted ss = CHR ''/'' # drop 1 (rooted ss)" using t by (simp add: rooted_def)
    moreover have "split_on (CHR ''/'') (drop 1 (rooted ss)) = ss" using Cons.IH Cons.prems False r by (metis list.sel(3) split_on.simps(2) list.set_intros(2))
    ultimately show ?thesis using split_on_app[OF s, of "drop 1 (rooted ss)"] by simp
  qed
qed simp

lemma join_path_onto:
  assumes "ur_path u = rooted ss" "ss \<noteq> []" "ts \<noteq> []" "\<forall>s\<in>set (ss @ ts). plain_segment s"
  shows "join_path u ts = u\<lparr> ur_path := rooted (ss @ ts) \<rparr>"
proof -
  have "concat (map (split_on (CHR ''/'')) ts) = ts"
    using assms(4) by (induction ts) (auto dest: plain_segmentD(4))
  then have c: "concat (map (split_on (CHR ''/'')) (ur_path u # ts)) = [] # ss @ ts"
    using split_rooted[of ss] assms by simp
  have "clean_segments [] ((ss @ ts) @ []) = ss @ ts"
    using assms(4) by (subst clean_segments_app) (auto dest: plain_segmentD)
  then have "path_join (ur_path u # ts) = rooted (ss @ ts)" unfolding path_join_def c by simp
  moreover have "has_prefix (ur_path u) ''/''" using assms(1,2) by (cases ss) (auto simp: rooted_def has_prefix_def)
  moreover have "\<not> ends_with_slash (last (ur_path u # ts))" using rooted_last(2)[of ts] assms(3,4) by simp
  ultimately show ?thesis by (simp add: join_path_def Let_def)
qed

text \<open>An address of an instance with the given segments.\<close>

definition at_path :: "url \<Rightarrow> string list \<Rightarrow> url" where
  "at_path u ss = u\<lparr> ur_path := rooted ss \<rparr>"

definition clean_home :: "url \<Rightarrow> bool" where
  "clean_home u = (absolute_url (u\<lparr> ur_path := ''/'' \<rparr>) \<and> ur_path u = [])"

definition clean_segment :: "string \<Rightarrow> bool" where
  "clean_segment s = (plain_segment s \<and> set s \<inter> set ''?#'' = {})"

lemma at_path_absolute:
  assumes "clean_home u" "ss \<noteq> []" "\<forall>s\<in>set ss. clean_segment s"
  shows "absolute_url (at_path u ss)"
proof -
  have "set (rooted ss) \<inter> set ''?#'' = {}" using assms(3) by (auto simp: rooted_def clean_segment_def)
  moreover have "has_prefix (rooted ss) ''/''" using assms(2) by (cases ss) (auto simp: rooted_def has_prefix_def)
  ultimately show ?thesis using assms(1) by (simp add: at_path_def clean_home_def absolute_url_def)
qed

lemma at_path_parsed:
  assumes "parses_printed N" "clean_home u" "ss \<noteq> []" "\<forall>s\<in>set ss. clean_segment s"
  shows "nt_parse_url N (url_string (at_path u ss)) = Some (at_path u ss)"
  using assms(1) at_path_absolute[OF assms(2-4)] by (simp add: parses_printed_def)

lemma reparse_home:
  assumes "parses_printed N" "clean_home u" "ss \<noteq> []" "\<forall>s\<in>set ss. clean_segment s"
  shows "reparse N (join_path u ss) = Some (at_path u ss)"
  using reparse_bare[OF assms(1), of u ss] assms by (simp add: clean_home_def clean_segment_def at_path_def)

lemma reparse_onto:
  assumes "parses_printed N" "clean_home u" "ss \<noteq> []" "ts \<noteq> []" "\<forall>s\<in>set (ss @ ts). clean_segment s"
  shows "reparse N (join_path (at_path u ss) ts) = Some (at_path u (ss @ ts))"
proof -
  have "join_path (at_path u ss) ts = at_path u (ss @ ts)"
    using join_path_onto[of "at_path u ss" ss ts] assms by (simp add: at_path_def clean_segment_def)
  then show ?thesis using at_path_parsed[OF assms(1,2), of "ss @ ts"] assms(3,5) by (simp add: reparse_def)
qed

text \<open>The actor of an instance, address by address.\<close>

lemma fixed_segments:
  "clean_segment ''federation'' \<and> clean_segment ''accounts'' \<and> clean_segment ''inbox'' \<and> clean_segment ''outbox'' \<and>
   clean_segment ''followers'' \<and> clean_segment ''following''"
  by (simp add: clean_segment_def plain_segment_def)

lemma new_instance_actor_addresses:
  assumes "parses_printed N" "clean_home u" "clean_segment name"
  shows "new_instance_actor N (Inr (private, public)) u name = Ret (Inr
    \<lparr> at_id = 0, at_type = ''Application'', at_public_key = public, at_private_key = private,
      at_iri = url_string (at_path u [''federation'', ''accounts'', name]),
      at_following = url_string (at_path u [''federation'', ''accounts'', name, ''following'']),
      at_followers = url_string (at_path u [''federation'', ''accounts'', name, ''followers'']),
      at_inbox = url_string (at_path u [''federation'', ''accounts'', name, ''inbox'']),
      at_outbox = url_string (at_path u [''federation'', ''accounts'', name, ''outbox'']),
      at_shared_inbox = url_string (at_path u [''federation'', ''inbox'']), at_name = name \<rparr>)"
  using assms fixed_segments
  by (simp add: new_instance_actor_def actor_at_def build_account_iri_def build_following_iri_def build_followers_iri_def
      build_inbox_iri_def build_outbox_iri_def build_shared_inbox_iri_def reparse_home reparse_onto)

section \<open>Properties\<close>


definition word_codec :: "string \<Rightarrow> string \<Rightarrow> string" where
  "word_codec ty b = replicate (length ty) (CHR ''x'') @ CHR ''-'' # ty @ b"

definition word_decode :: "string \<Rightarrow> (string \<times> string) option" where
  "word_decode s = (let n = length (takeWhile (\<lambda>c. c = CHR ''x'') s); r = drop (Suc n) s in Some (take n r, drop n r))"

definition word_keys :: "unit key_lib" where
  "word_keys = \<lparr> kl_parse_pkix = (\<lambda>_. Inr (Some (Rsa_Key ()))), kl_parse_pkcs1 = (\<lambda>_. Inl (Err ''use ParsePKIXPublicKey'')),
     kl_marshal_pkix = (\<lambda>_. Inr ''k''), kl_pem_decode = word_decode, kl_pem_encode = word_codec \<rparr>"

lemma word_keys_ok: "key_codecs word_keys"
proof -
  have "takeWhile (\<lambda>c. c = CHR ''x'') (word_codec ty b) = replicate (length ty) (CHR ''x'')" for ty b
    unfolding word_codec_def by (intro takeWhile_stop) auto
  then have "word_decode (word_codec ty b) = Some (ty, b)" for ty b
    by (simp add: word_decode_def Let_def) (simp add: word_codec_def)
  then show ?thesis by (simp add: key_codecs_def word_keys_def) (simp add: word_codec_def)
qed

definition word_keygen :: "unit keygen" where
  "word_keygen = \<lparr> kg_generate = Inr ((), ''p''), kg_marshal_pkix = kl_marshal_pkix word_keys, kg_pem_encode = kl_pem_encode word_keys \<rparr>"

lemma home_clean: "clean_home home_url"
  using home_url_ok by (simp add: clean_home_def)


text \<open>C13: an actor made from an account carries the address of that account and a key
  the account's document says belongs to that address.\<close>

theorem created_actor_owns_key:
  assumes "create_actor K a = Inr x"
  shows "\<exists>u ks k key_id owner pem ty b key. aa_id a = Some (Some u) \<and> at_iri x = url_string u \<and> at_name x \<noteq> [] \<and>
    aa_keys a = Some ks \<and> k \<in> set ks \<and> ak_id k = Inr key_id \<and> ak_owner k = Some (Some owner) \<and> url_string owner = at_iri x \<and>
    ak_pem k = Some pem \<and> kl_pem_decode K pem = Some (ty, b) \<and>
    (kl_parse_pkix K b = Inr (Some (Rsa_Key key)) \<or> kl_parse_pkcs1 K b = Inr (Some (Rsa_Key key))) \<and>
    (\<exists>b'. kl_marshal_pkix K key = Inr b' \<and> at_public_key x = kl_pem_encode K ''RSA PUBLIC KEY'' b')"
proof (rule create_actor_Inr[OF assms], goal_cases)
  case (1 u name key key_id owner pem)
  obtain ks where ks: "aa_keys a = Some ks" "key_of_entries K ks = Inr (key, key_id, owner)"
    using 1(3) by (cases "aa_keys a") (auto simp: extract_public_key_def)
  obtain k p ty b where k: "k \<in> set ks" "ak_id k = Inr key_id" "ak_owner k = Some (Some owner)" "ak_pem k = Some p"
    "kl_pem_decode K p = Some (ty, b)" "kl_parse_pkix K b = Inr (Some (Rsa_Key key)) \<or> kl_parse_pkcs1 K b = Inr (Some (Rsa_Key key))"
    using key_of_entries_Inr[OF ks(2)] by blast
  obtain b' where "kl_marshal_pkix K key = Inr b'" "pem = kl_pem_encode K ''RSA PUBLIC KEY'' b'"
    using 1(5) by (cases "kl_marshal_pkix K key") (auto simp: export_rsa_public_key_as_pem_str_def)
  moreover have "name \<noteq> []" using 1(2) by (auto simp: extract_preferred_username_def split: option.splits if_splits)
  ultimately show ?case using 1(1,4,6) ks(1) k by fastforce
qed

definition word_account :: as_account where
  "word_account = \<lparr> aa_id = Some (Some home_url), aa_type = ''Person'', aa_username = Some ''n'', aa_inbox = None, aa_outbox = None,
     aa_following = None, aa_followers = None, aa_endpoints = None,
     aa_keys = Some [\<lparr> ak_is_key = True, ak_present = True, ak_id = Inr home_url, ak_owner = Some (Some home_url),
       ak_pem = Some (word_codec ''PUBLIC KEY'' ''k'') \<rparr>] \<rparr>"

lemma word_account_ok: "\<exists>x. create_actor word_keys word_account = Inr x \<and> at_public_key x = word_codec ''RSA PUBLIC KEY'' ''k''"
proof -
  have "word_decode (word_codec ''PUBLIC KEY'' ''k'') = Some (''PUBLIC KEY'', ''k'')" "word_codec ''PUBLIC KEY'' ''k'' \<noteq> []"
    using word_keys_ok by (simp_all add: key_codecs_def word_keys_def)
  then show ?thesis
    by (simp add: create_actor_def word_account_def extract_preferred_username_def extract_public_key_def word_keys_def
        export_rsa_public_key_as_pem_str_def extract_shared_inbox_def address_or_empty_def)
qed

lemma created_actor_owns_key_witness:
  "\<exists>x. create_actor word_keys word_account = Inr x \<and> at_name x \<noteq> []"
proof -
  obtain x where "create_actor word_keys word_account = Inr x" using word_account_ok by blast
  with created_actor_owns_key[OF this] show ?thesis by blast
qed

text \<open>The key of a fetched actor is kept under a label that announces another
  encoding than the one it is written in: read back, it is refused, and with it all
  other keys of the document.\<close>

theorem exported_key_not_read_back:
  assumes "key_codecs K" "create_actor K a = Inr x"
    and "ak_is_key k" "ak_present k" "is_ok (ak_id k)" "ak_owner k = Some (Some owner)" "ak_pem k = Some (at_public_key x)"
  shows "\<exists>e. key_of_entries K (k # ks) = Inl (Wrap ''parsing public key from block bytes: '' e)"
proof -
  obtain key b where "kl_marshal_pkix K key = Inr b" "at_public_key x = kl_pem_encode K ''RSA PUBLIC KEY'' b"
    using created_actor_owns_key_facts[OF assms(2)] by blast
  moreover from this obtain e where "kl_parse_pkcs1 K b = Inl e" using assms(1) unfolding key_codecs_def by blast
  moreover obtain i where "ak_id k = Inr i" using assms(5) by (auto simp: is_ok_iff)
  moreover have "kl_pem_decode K (at_public_key x) = Some (''RSA PUBLIC KEY'', b)" "at_public_key x \<noteq> []"
    using assms(1) calculation(2) by (simp_all add: key_codecs_def)
  ultimately show ?thesis using assms(3,4,6,7) by simp
qed

lemma exported_key_not_read_back_witness:
  "\<exists>x e. create_actor word_keys word_account = Inr x \<and>
     key_of_entries word_keys [\<lparr> ak_is_key = True, ak_present = True, ak_id = Inr home_url, ak_owner = Some (Some home_url),
       ak_pem = Some (at_public_key x) \<rparr>] = Inl (Wrap ''parsing public key from block bytes: '' e)"
proof -
  obtain x where x: "create_actor word_keys word_account = Inr x" using word_account_ok by blast
  show ?thesis
    using exported_key_not_read_back[OF word_keys_ok x, of "\<lparr> ak_is_key = True, ak_present = True, ak_id = Inr home_url,
      ak_owner = Some (Some home_url), ak_pem = Some (at_public_key x) \<rparr>" home_url "[]"] x by (auto simp: is_ok_iff)
qed

end
