(* ===== verification/Inbox.thy ===== *)
theory Inbox
  imports Video_Service Actor_Document
begin

text \<open>
  What other instances send (\<^verbatim>\<open>internal/activitypub/inbox\<close>,
  \<^verbatim>\<open>remote/resolver.go\<close>): a queued request is verified against the key
  at the address its signature names, and its activity is then given to the handler
  of its type.  Reading signatures and activities belongs to libraries.
\<close>

section \<open>Resolving a key\<close>

text \<open>What the address of a key answers with: one of the three kinds of account the
  code has callbacks for, a key, or something else.\<close>

datatype resolved = Res_Account "as_key list option" | Res_Key as_key | Res_Unmatched

record ('key, 'db) inbox_env =
  ib_fed :: "('key, 'db) fed_env"
  ib_resolve :: "string \<Rightarrow> resolved result"
  ib_key_id :: "request \<Rightarrow> string result"
  ib_verify :: "request \<Rightarrow> 'key any_key option \<Rightarrow> string \<Rightarrow> go_error option"
  ib_parse_error :: "string \<Rightarrow> go_error"
  ib_show_errors :: "(string \<times> go_error) list \<Rightarrow> string"

definition resolve_iri :: "('key, 'db) inbox_env \<Rightarrow> string \<Rightarrow> 'db \<Rightarrow> resolved result outcome" where
  "resolve_iri E iri db =
     (let V = ib_fed E; C = fe_config V in
      outcome_bind (deref (build_account_iri (fe_net V) (fc_url C) (fc_username C))) (\<lambda>local.
        if cr_request_error (fe_crypto V) iri \<noteq> None then Panic
        else outcome_bind (sign_request (fe_store V) (fe_net V) (fe_crypto V) local
               \<lparr> sq_method = ''GET'', sq_url = iri, sq_agent = [], sq_content_type = [], sq_body = None, sq_key_id = [],
                 sq_headers = [] \<rparr> db) (\<lambda>r. Ret (case r of
                 Inl e \<Rightarrow> Inl e
               | Inr req \<Rightarrow> (case cr_fetch (fe_crypto V) req of Inl e \<Rightarrow> Inl e | Inr (Inl e) \<Rightarrow> Inl e
                   | Inr (Inr b) \<Rightarrow> ib_resolve E b)))))"

text \<open>The error of a failed fetch is replaced, since no key was found.\<close>

definition get_resolved_public_key_from_iri :: "('key, 'db) inbox_env \<Rightarrow> string \<Rightarrow> 'db \<Rightarrow> as_key result outcome" where
  "get_resolved_public_key_from_iri E iri db =
     (let failed = Inl (Err (''error resolving publickey from iri, actor may not be valid: '' @ iri)) in
      outcome_bind (resolve_iri E iri db) (\<lambda>r. Ret (case r of
         Inr (Res_Key k) \<Rightarrow> Inr k
       | Inr (Res_Account (Some ks)) \<Rightarrow> (case find ak_is_key ks of Some k \<Rightarrow> Inr k | None \<Rightarrow> failed)
       | _ \<Rightarrow> failed)))"

section \<open>Verification\<close>

definition is_blocked_domain :: "string \<Rightarrow> bool" where "is_blocked_domain domain = False"
definition is_blocked_actor :: "url \<Rightarrow> bool result" where "is_blocked_actor iri = Inr False"

text \<open>The first component named \<^verbatim>\<open>algorithm\<close>; one without a value makes the
  worker panic.\<close>

fun stated_algorithm :: "string list \<Rightarrow> string outcome" where
  "stated_algorithm [] = Ret []"
| "stated_algorithm (c # cs) =
     (let kv = split_on (CHR ''='') c in
      if hd kv = ''algorithm'' then (if length kv < 2 then Panic else Ret (kv ! 1)) else stated_algorithm cs)"

definition trim_quotes :: "string \<Rightarrow> string" where
  "trim_quotes s = (let q = (\<lambda>c. c = CHR 0x22) in rev (dropWhile q (rev (dropWhile q s))))"

text \<open>Every algorithm is tried once.\<close>

fun try_algorithms :: "(string \<Rightarrow> go_error option) \<Rightarrow> string list \<Rightarrow> (string \<times> go_error) list \<Rightarrow> (string \<times> go_error) list option" where
  "try_algorithms v [] tried = Some tried"
| "try_algorithms v (a # as) tried =
     (if map_of tried a \<noteq> None then try_algorithms v as tried
      else case v a of None \<Rightarrow> None | Some e \<Rightarrow> try_algorithms v as (AList.update a e tried))"

definition check_key :: "('key, 'db) inbox_env \<Rightarrow> request \<Rightarrow> url \<Rightarrow> string \<Rightarrow> as_key \<Rightarrow> bool result outcome" where
  "check_key E r key_url algorithm key =
     (let K = fe_keys (ib_fed E) in
      case (case ak_owner key of Some (Some u) \<Rightarrow> Some u | _ \<Rightarrow> None) of
        None \<Rightarrow> Ret (Inl (Err ''public key owner IRI is empty''))
      | Some owner \<Rightarrow>
          if is_blocked_domain (ur_host owner) then Ret (Inl (Err ''domain is blocked''))
          else case is_blocked_actor owner of
            Inl e \<Rightarrow> Ret (Inl e)
          | Inr True \<Rightarrow> Ret (Inr False)
          | Inr False \<Rightarrow>
              outcome_bind (deref (ak_pem key)) (\<lambda>pem. case kl_pem_decode K pem of
                None \<Rightarrow> Ret (Inl (Err ''failed to parse PEM block containing the public key''))
              | Some (_, bytes) \<Rightarrow>
                  (case kl_parse_pkix K bytes of
                     Inl e \<Rightarrow> Ret (Inl (Wrap ''failed to parse DER encoded public key: '' e))
                   | Inr parsed \<Rightarrow>
                       (case try_algorithms (ib_verify E r parsed) [algorithm, ''rsa-sha256'', ''rsa-sha512''] [] of
                          None \<Rightarrow> Ret (Inr True)
                        | Some tried \<Rightarrow> Ret (Inl (Err (''http signature verification error(s) for: '' @ url_string key_url @
                            '': '' @ ib_show_errors E tried)))))))"

definition verify :: "('key, 'db) inbox_env \<Rightarrow> bool \<Rightarrow> request \<Rightarrow> 'db \<Rightarrow> bool result outcome" where
  "verify E force_https r db =
     (case ib_key_id E r of
        Inl e \<Rightarrow> Ret (Inl (Wrap ''failed to create key verifier for request: '' e))
      | Inr key_id \<Rightarrow>
          (case nt_parse_url (fe_net (ib_fed E)) key_id of
             None \<Rightarrow> Ret (Inl (Wrap ''failed to parse key to get key ID: '' (ib_parse_error E key_id)))
           | Some key_url \<Rightarrow>
               if force_https \<and> ur_scheme key_url \<noteq> ''https''
               then Ret (Inl (Err (''federated servers must use https: '' @ url_string key_url)))
               else if rq_header r ''signature'' = [] then Ret (Inl (Err ''http signature header not found in request''))
               else outcome_bind (stated_algorithm (split_on (CHR '','') (rq_header r ''signature''))) (\<lambda>a.
                 let algorithm = trim_quotes a in
                 if algorithm = [] then Ret (Inl (Err ''Unable to determine algorithm to verify request''))
                 else outcome_bind (get_resolved_public_key_from_iri E (url_string key_url) db) (\<lambda>k. case k of
                     Inl e \<Rightarrow> Ret (Inl (Wrap ''failed to resolve actor from IRI to fetch key: '' e))
                   | Inr key \<Rightarrow> check_key E r key_url algorithm key))))"

section \<open>Activities\<close>

record as_activity =
  ac_actor :: "url result list option"
  ac_object :: "as_item list option"
  ac_to :: "url option list option"

datatype activity = Announce as_activity | Update as_activity | Delete as_activity | Accept as_activity | Unmatched

definition handle_announce_request ::
  "('key, 'db) fed_env \<Rightarrow> as_activity \<Rightarrow> 'db \<Rightarrow> (go_error option \<times> 'db) outcome" where
  "handle_announce_request V a db =
     (case ac_object a of
        None \<Rightarrow> Ret (Some (Err ''no object set on vocab.ActivityStreamsCreate''), db)
      | Some items \<Rightarrow>
          (case extract_to (ac_to a) of
             Inl _ \<Rightarrow> Ret (Some (Err ''no object set on vocab.ActivityStreamsCreate''), db)
           | Inr followers \<Rightarrow>
               outcome_bind (add_video V items followers db) (\<lambda>(e, db'). Ret (map_option (Wrap ''inbox announce video: '') e, db'))))"

text \<open>The first object is looked at before the objects are known to be there.\<close>

definition handle_update_request ::
  "('key, 'db) fed_env \<Rightarrow> as_activity \<Rightarrow> 'db \<Rightarrow> (go_error option \<times> 'db) outcome" where
  "handle_update_request V a db =
     (case ac_object a of
        None \<Rightarrow> Panic
      | Some [] \<Rightarrow> Panic
      | Some (Item_Type (AS_Video v) # is) \<Rightarrow>
          outcome_bind (upsert_video V (Item_Type (AS_Video v) # is) db) (\<lambda>(e, db').
            Ret (map_option (Wrap ''inbox update video: '') e, db'))
      | Some _ \<Rightarrow> Ret (None, db))"

definition handle_delete_request ::
  "('key, 'db) fed_env \<Rightarrow> as_activity \<Rightarrow> 'db \<Rightarrow> go_error option \<times> 'db" where
  "handle_delete_request V a db =
     (case ac_object a of
        None \<Rightarrow> (Some (Err ''no object set on vocab.ActivityStreamsCreate''), db)
      | Some items \<Rightarrow> (let (e, db') = delete_video V items db in (map_option (Wrap ''inbox update video: '') e, db')))"

definition save_follow_as_accepted :: "'db ap_store \<Rightarrow> follow \<Rightarrow> 'db \<Rightarrow> go_error option \<times> 'db" where
  "save_follow_as_accepted S f db =
     (case follow_update S (f\<lparr> fo_state := follow_state_string Accepted \<rparr>) db of
        (Inl e, db') \<Rightarrow> (Some (Wrap (''inbox accept: updating follow request with id '' @ fo_iri f @ '' in the database: '') e), db')
      | (Inr _, db') \<Rightarrow> (None, db'))"

definition follow_mismatch :: "string \<Rightarrow> url result \<Rightarrow> actor option \<Rightarrow> go_error option outcome" where
  "follow_mismatch what r a =
     (case r of
        Inl e \<Rightarrow> Ret (Some (Wrap (''comparing '' @ what @ '' with follow actvity: '') e))
      | Inr u \<Rightarrow> outcome_bind (deref a) (\<lambda>x.
          Ret (if url_string u \<noteq> at_iri x then Some (Err (''comparing '' @ what @ '' with follow actvity: %!w(<nil>)'')) else None)))"

definition accept_iri :: "'db ap_store \<Rightarrow> url \<Rightarrow> 'db \<Rightarrow> go_error option \<times> 'db" where
  "accept_iri S u db =
     (if \<not> is_follow_activity_iri u then (None, db)
      else case get_follow_by_iri S (url_string u) db of
        Inl e \<Rightarrow> (Some (Wrap (''inbox accept: getting follow request with id '' @ url_string u @ '' from the database: '') e), db)
      | Inr f \<Rightarrow> (let (e, db') = save_follow_as_accepted S f db in (map_option (Wrap ''saving follow in case one: '') e, db')))"

definition accept_follow :: "'db ap_store \<Rightarrow> as_follow \<Rightarrow> 'db \<Rightarrow> (go_error option \<times> 'db) outcome" where
  "accept_follow S a db =
     (case af_id a of
        Some (Some u) \<Rightarrow>
          (case get_follow_by_iri S (url_string u) db of
             Inl e \<Rightarrow> Ret (Some (Wrap (''inbox accept: getting follow request with id '' @ url_string u @ '' from the database: '') e), db)
           | Inr f \<Rightarrow>
               outcome_bind (follow_mismatch ''actor'' (extract_actor_uri (af_actors a)) (fo_actor f)) (\<lambda>e1. case e1 of
                 Some e \<Rightarrow> Ret (Some e, db)
               | None \<Rightarrow>
                   outcome_bind (follow_mismatch ''target actor'' (extract_object_uri (af_objects a)) (fo_target f)) (\<lambda>e2. case e2 of
                     Some e \<Rightarrow> Ret (Some e, db)
                   | None \<Rightarrow> (let (e, db') = save_follow_as_accepted S f db
                       in Ret (map_option (Wrap ''saving follow in case two: '') e, db')))))
      | _ \<Rightarrow> Ret (Some (Err ''no id property set on follow, or was not an iri''), db))"

fun accept_items :: "'db ap_store \<Rightarrow> as_item list \<Rightarrow> 'db \<Rightarrow> (go_error option \<times> 'db) outcome" where
  "accept_items S [] db = Ret (None, db)"
| "accept_items S (Item_Iri u # is) db =
     (case accept_iri S u db of (Some e, db') \<Rightarrow> Ret (Some e, db') | (None, db') \<Rightarrow> accept_items S is db')"
| "accept_items S (Item_Type (AS_Follow a) # is) db =
     outcome_bind (accept_follow S a db) (\<lambda>(e, db'). case e of Some x \<Rightarrow> Ret (Some x, db') | None \<Rightarrow> accept_items S is db')"
| "accept_items S (_ # is) db = accept_items S is db"

definition handle_accept_request :: "'db ap_store \<Rightarrow> as_activity \<Rightarrow> 'db \<Rightarrow> (go_error option \<times> 'db) outcome" where
  "handle_accept_request S a db =
     (case ac_object a of
        None \<Rightarrow> Ret (Some (Err ''inbox accept: no object set on vocab.ActivityStreamsAccept''), db)
      | Some items \<Rightarrow> accept_items S items db)"

text \<open>Reading the payload fails or gives an activity; one of another type is dropped.\<close>

definition inbox_resolve ::
  "('key, 'db) fed_env \<Rightarrow> (string \<Rightarrow> activity result) \<Rightarrow> string \<Rightarrow> 'db \<Rightarrow> (go_error option \<times> 'db) outcome" where
  "inbox_resolve V read body db =
     (let wrap = (\<lambda>(e, db'). Ret (map_option (Wrap ''handel resolve: '') e, db')) in
      case read body of
        Inl e \<Rightarrow> Ret (Some (Wrap ''handel resolve: '' e), db)
      | Inr (Announce a) \<Rightarrow> outcome_bind (handle_announce_request V a db) wrap
      | Inr (Update a) \<Rightarrow> outcome_bind (handle_update_request V a db) wrap
      | Inr (Delete a) \<Rightarrow> wrap (handle_delete_request V a db)
      | Inr (Accept a) \<Rightarrow> outcome_bind (handle_accept_request (fe_store V) a db) wrap
      | Inr Unmatched \<Rightarrow> Ret (None, db))"

section \<open>The worker\<close>

record inbox_request =
  ir_request :: request
  ir_account :: string
  ir_body :: string

definition inbox_handle ::
  "('key, 'db) inbox_env \<Rightarrow> (string \<Rightarrow> activity result) \<Rightarrow> inbox_request \<Rightarrow> 'db \<Rightarrow> 'db outcome" where
  "inbox_handle E read q db =
     outcome_bind (verify E False (ir_request q) db) (\<lambda>v. case v of
       Inr True \<Rightarrow> outcome_bind (inbox_resolve (ib_fed E) read (ir_body q) db) (\<lambda>(_, db'). Ret db')
     | _ \<Rightarrow> Ret db)"

text \<open>A worker takes one request after the other.  A panic in it is not recovered: the
  process ends and the requests behind it are lost.\<close>

fun inbox_worker ::
  "('key, 'db) inbox_env \<Rightarrow> (string \<Rightarrow> activity result) \<Rightarrow> inbox_request list \<Rightarrow> 'db \<Rightarrow> 'db outcome" where
  "inbox_worker E read [] db = Ret db"
| "inbox_worker E read (q # qs) db = outcome_bind (inbox_handle E read q db) (inbox_worker E read qs)"

section \<open>Lemmas\<close>

lemma try_algorithms_ok:
  "try_algorithms v as tried = None \<longleftrightarrow> (\<exists>a\<in>set as. v a = None \<and> map_of tried a = None)"
proof (induction as arbitrary: tried)
  case (Cons a as)
  show ?case
  proof (cases "map_of tried a = None \<and> v a \<noteq> None")
    case True
    then obtain e where e: "v a = Some e" "map_of tried a = None" by auto
    have "v b = None \<and> map_of (AList.update a e tried) b = None \<longleftrightarrow> v b = None \<and> map_of tried b = None" for b
      using e by (cases "b = a") auto
    then show ?thesis using Cons.IH[of "AList.update a e tried"] e by simp
  next
    case False
    then show ?thesis using Cons.IH[of tried] by (cases "map_of tried a") auto
  qed
qed simp

text \<open>Every algorithm is put to the verifier at most once.\<close>

lemma try_algorithms_tried:
  "try_algorithms v as tried = Some errs \<Longrightarrow> map_of errs = map_of tried ++ (\<lambda>a. if a \<in> set as \<and> map_of tried a = None then v a else None)"
proof (induction as arbitrary: tried)
  case (Cons a as)
  show ?case
  proof (cases "map_of tried a = None")
    case False
    then show ?thesis using Cons by (auto simp: map_add_def fun_eq_iff split: option.splits)
  next
    case True
    then obtain e where e: "v a = Some e" "try_algorithms v as (AList.update a e tried) = Some errs"
      using Cons.prems by (auto split: option.splits)
    from Cons.IH[OF e(2)] e(1) True show ?thesis by (auto simp: map_add_def fun_eq_iff split: option.splits)
  qed
qed (simp add: map_add_def fun_eq_iff)

lemma resolved_key_source:
  assumes "get_resolved_public_key_from_iri E iri db = Ret (Inr k)"
  shows "\<exists>x. resolve_iri E iri db = Ret (Inr x) \<and> (x = Res_Key k \<or> (\<exists>ks. x = Res_Account (Some ks) \<and> k \<in> set ks \<and> ak_is_key k))"
proof -
  obtain r where r: "resolve_iri E iri db = Ret r"
    using assms by (cases "resolve_iri E iri db") (auto simp: get_resolved_public_key_from_iri_def Let_def)
  show ?thesis
    using assms r by (auto simp: get_resolved_public_key_from_iri_def Let_def find_Some_iff set_conv_nth
        split: sum.splits resolved.splits option.splits)
qed

text \<open>When a key is accepted.\<close>

definition accepts_key :: "('key, 'db) inbox_env \<Rightarrow> request \<Rightarrow> string \<Rightarrow> as_key \<Rightarrow> bool" where
  "accepts_key E r a key =
     (\<exists>owner pem ty b parsed alg. ak_owner key = Some (Some owner) \<and> ak_pem key = Some pem \<and>
        kl_pem_decode (fe_keys (ib_fed E)) pem = Some (ty, b) \<and> kl_parse_pkix (fe_keys (ib_fed E)) b = Inr parsed \<and>
        alg \<in> {a, ''rsa-sha256'', ''rsa-sha512''} \<and> ib_verify E r parsed alg = None)"

lemma check_key_accepts: "check_key E r u a key = Ret (Inr True) \<longleftrightarrow> accepts_key E r a key"
proof
  note d = check_key_def Let_def is_blocked_domain_def is_blocked_actor_def
  assume c: "check_key E r u a key = Ret (Inr True)"
  obtain owner where ow: "ak_owner key = Some (Some owner)"
    using c by (cases "ak_owner key"; cases "the (ak_owner key)") (simp_all add: d)
  obtain pem where p: "ak_pem key = Some pem" using c ow by (cases "ak_pem key") (simp_all add: d)
  obtain ty b where b: "kl_pem_decode (fe_keys (ib_fed E)) pem = Some (ty, b)"
    using c ow p by (cases "kl_pem_decode (fe_keys (ib_fed E)) pem") (auto simp: d)
  obtain parsed where k: "kl_parse_pkix (fe_keys (ib_fed E)) b = Inr parsed"
    using c ow p b by (cases "kl_parse_pkix (fe_keys (ib_fed E)) b") (simp_all add: d)
  have "try_algorithms (ib_verify E r parsed) [a, ''rsa-sha256'', ''rsa-sha512''] [] = None"
    using c ow p b k
    by (cases "try_algorithms (ib_verify E r parsed) [a, ''rsa-sha256'', ''rsa-sha512''] []")
      (simp_all add: d del: try_algorithms.simps)
  then show "accepts_key E r a key" using ow p b k unfolding try_algorithms_ok accepts_key_def by fastforce
next
  assume "accepts_key E r a key"
  then obtain owner pem ty b parsed alg where k: "ak_owner key = Some (Some owner)" "ak_pem key = Some pem"
      "kl_pem_decode (fe_keys (ib_fed E)) pem = Some (ty, b)" "kl_parse_pkix (fe_keys (ib_fed E)) b = Inr parsed"
    and a: "alg \<in> {a, ''rsa-sha256'', ''rsa-sha512''}" "ib_verify E r parsed alg = None"
    unfolding accepts_key_def by blast
  have "try_algorithms (ib_verify E r parsed) [a, ''rsa-sha256'', ''rsa-sha512''] [] = None"
    using a unfolding try_algorithms_ok by auto
  then show "check_key E r u a key = Ret (Inr True)"
    using k by (simp add: check_key_def is_blocked_domain_def is_blocked_actor_def Let_def del: try_algorithms.simps)
qed

text \<open>What a verified request has shown.\<close>

lemma verify_shows:
  "returns_only (\<lambda>x. x = Inr True \<longrightarrow> (\<exists>key_id key_url a key. ib_key_id E r = Inr key_id \<and>
       nt_parse_url (fe_net (ib_fed E)) key_id = Some key_url \<and>
       (if force_https then ur_scheme key_url = ''https'' else True) \<and> rq_header r ''signature'' \<noteq> [] \<and>
       stated_algorithm (split_on (CHR '','') (rq_header r ''signature'')) = Ret a \<and> trim_quotes a \<noteq> [] \<and>
       get_resolved_public_key_from_iri E (url_string key_url) db = Ret (Inr key) \<and> accepts_key E r (trim_quotes a) key))
   (verify E force_https r db)"
  unfolding verify_def Let_def
proof (intro returns_sum returns_option returns_if returns_bind, goal_cases)
  case (7 key_id key_url a k key)
  have "accepts_key E r (trim_quotes a) key" if "check_key E r key_url (trim_quotes a) key = Ret (Inr True)"
    using that check_key_accepts by blast
  moreover have "if force_https then ur_scheme key_url = ''https'' else True" using 7(3) by simp
  ultimately show ?case using 7 unfolding returns_only_def by blast
qed (simp_all add: returns_only_def)

text \<open>An inbox for the examples: one key, one signature, a payload that is read as the
  given activity.\<close>

definition sample_key :: as_key where
  "sample_key = \<lparr> ak_is_key = True, ak_present = True, ak_id = Inr home_url, ak_owner = Some (Some home_url), ak_pem = Some ''k'' \<rparr>"

definition sample_inbox :: "(unit, live_stream list) inbox_env" where
  "sample_inbox = \<lparr> ib_fed = sample_fed True, ib_resolve = (\<lambda>_. Inr (Res_Account (Some [sample_key]))),
     ib_key_id = (\<lambda>_. Inr ''http://localhost/key''),
     ib_verify = (\<lambda>_ _ a. if a = ''rsa-sha256'' then None else Some (Err ''bad signature'')),
     ib_parse_error = Err, ib_show_errors = (\<lambda>_. []) \<rparr>"

definition sample_signed_request :: request where
  "sample_signed_request = \<lparr> rq_header = (\<lambda>h. if h = ''signature'' then ''keyId=k,algorithm=hs2019'' else []), rq_vars = (\<lambda>_. None),
     rq_body = None, rq_principal = None \<rparr>"

definition sample_query :: inbox_request where
  "sample_query = \<lparr> ir_request = sample_signed_request, ir_account = ''shig'', ir_body = [] \<rparr>"

lemma sample_resolves: "get_resolved_public_key_from_iri sample_inbox iri db = Ret (Inr sample_key)"
proof -
  have "\<forall>s\<in>set [''federation'', ''accounts'', ''shig'']. plain_segment s \<and> set s \<inter> set ''?#'' = {}"
    by (simp add: plain_segment_def)
  from reparse_bare[OF iri_net_ok home_url_ok _ this]
  have l: "build_account_iri iri_net home_url ''shig'' = Some (at_path home_url [''federation'', ''accounts'', ''shig''])"
    by (simp add: build_account_iri_def at_path_def)
  obtain k where k: "nt_parse_url iri_net (url_string (at_path home_url [''federation'', ''accounts'', ''shig'']) @ ''#main-key'') = Some k"
    by (simp add: iri_net_def at_path_def home_url_def url_string_def rooted_def simple_parse_url_def has_prefix_def Let_def)
  have f: "fc_url (fe_config (sample_fed True)) = home_url" "fc_username (fe_config (sample_fed True)) = ''shig''"
    by (simp_all add: sample_fed_def)
  have x: "cr_request_error sample_crypto u = None" "cr_sign sample_crypto pk u hs body = None" "cr_fetch sample_crypto req = Inr (Inr (sq_url req))"
    for u pk hs body req by (simp_all add: sample_crypto_def)
  have a: "as_actor_by_iri sample_ap_store u db = Inr (stream_actor ''shig'')" for u by (simp add: sample_ap_store_def)
  have k2: "ib_fed sample_inbox = sample_fed True" "ib_resolve sample_inbox b = Inr (Res_Account (Some [sample_key]))" for b
    by (simp_all add: sample_inbox_def)
  have "resolve_iri sample_inbox iri db = Ret (Inr (Res_Account (Some [sample_key])))"
    by (simp add: resolve_iri_def k2 sample_fed_sel(2-4) f l x sign_request_def get_key_pair_def get_actor_by_actor_iri_def a
        lookup_result_def crypto_public_key_def k Let_def)
  then show ?thesis by (simp add: get_resolved_public_key_from_iri_def sample_key_def Let_def)
qed

lemma sample_verified: "verify sample_inbox False (ir_request sample_query) db = Ret (Inr True)"
proof -
  obtain u where u: "nt_parse_url iri_net ''http://localhost/key'' = Some u"
    by (simp add: iri_net_def simple_parse_url_def has_prefix_def Let_def)
  have b: "ib_fed sample_inbox = sample_fed True" "ib_key_id sample_inbox r = Inr ''http://localhost/key''" for r
    by (simp_all add: sample_inbox_def)
  have s: "rq_header (ir_request sample_query) ''signature'' = ''keyId=k,algorithm=hs2019''"
    by (simp add: sample_query_def sample_signed_request_def)
  have a: "stated_algorithm (split_on (CHR '','') ''keyId=k,algorithm=hs2019'') = Ret ''hs2019''"
    using split_on_app[of "CHR '',''" "''keyId=k''" "''algorithm=hs2019''"] split_on_free[of "CHR '',''" "''algorithm=hs2019''"]
      split_on_app[of "CHR ''=''" "''keyId''" "''k''"] split_on_free[of "CHR ''=''" "''k''"]
      split_on_app[of "CHR ''=''" "''algorithm''" "''hs2019''"] split_on_free[of "CHR ''=''" "''hs2019''"]
    by (simp del: split_on.simps)
  have t: "trim_quotes ''hs2019'' = ''hs2019''" by (simp add: trim_quotes_def)
  have "accepts_key sample_inbox (ir_request sample_query) ''hs2019'' sample_key"
    unfolding accepts_key_def by (simp add: sample_inbox_def sample_key_def sample_fed_def sample_keys_def)
  then have "check_key sample_inbox (ir_request sample_query) u ''hs2019'' sample_key = Ret (Inr True)"
    by (simp add: check_key_accepts)
  then show ?thesis by (simp add: verify_def b sample_fed_sel(3) u s a t sample_resolves del: split_on.simps stated_algorithm.simps)
qed

section \<open>Properties\<close>

text \<open>C8: a request passes exactly if its signature header names an algorithm and the
  key fetched from the address it names verifies it, under the named algorithm or
  one of the two common ones; whose key that is plays no part.\<close>

theorem verification_is_key_check:
  "verify E force_https r db = Ret (Inr True) \<longleftrightarrow>
    (\<exists>key_id key_url a key. ib_key_id E r = Inr key_id \<and> nt_parse_url (fe_net (ib_fed E)) key_id = Some key_url \<and>
       (if force_https then ur_scheme key_url = ''https'' else True) \<and> rq_header r ''signature'' \<noteq> [] \<and>
       stated_algorithm (split_on (CHR '','') (rq_header r ''signature'')) = Ret a \<and> trim_quotes a \<noteq> [] \<and>
       get_resolved_public_key_from_iri E (url_string key_url) db = Ret (Inr key) \<and> accepts_key E r (trim_quotes a) key)"
proof
  assume "\<exists>key_id key_url a key. ib_key_id E r = Inr key_id \<and> nt_parse_url (fe_net (ib_fed E)) key_id = Some key_url \<and>
       (if force_https then ur_scheme key_url = ''https'' else True) \<and> rq_header r ''signature'' \<noteq> [] \<and>
       stated_algorithm (split_on (CHR '','') (rq_header r ''signature'')) = Ret a \<and> trim_quotes a \<noteq> [] \<and>
       get_resolved_public_key_from_iri E (url_string key_url) db = Ret (Inr key) \<and> accepts_key E r (trim_quotes a) key"
  then show "verify E force_https r db = Ret (Inr True)" by (auto simp: verify_def Let_def check_key_accepts)
next
  assume v: "verify E force_https r db = Ret (Inr True)"
  from mp[OF returns_onlyD[OF verify_shows v] refl]
  show "\<exists>key_id key_url a key. ib_key_id E r = Inr key_id \<and> nt_parse_url (fe_net (ib_fed E)) key_id = Some key_url \<and>
       (if force_https then ur_scheme key_url = ''https'' else True) \<and> rq_header r ''signature'' \<noteq> [] \<and>
       stated_algorithm (split_on (CHR '','') (rq_header r ''signature'')) = Ret a \<and> trim_quotes a \<noteq> [] \<and>
       get_resolved_public_key_from_iri E (url_string key_url) db = Ret (Inr key) \<and> accepts_key E r (trim_quotes a) key" .
qed

text \<open>C9: every sender whose request verifies deletes every stream: the actor of the
  activity, the owner of the key and the owner of the video are never compared.\<close>

theorem verified_sender_deletes_any_stream:
  assumes "verify E False (ir_request q) db = Ret (Inr True)"
    and "read (ir_body q) = Inr (Delete \<lparr> ac_actor = anyone, ac_object = Some [Item_Iri u], ac_to = to_whom \<rparr>)"
    and "as_delete_video (fe_store (ib_fed E)) (url_string u) db = (None, db1)"
    and "fe_delete_access (ib_fed E) = delete_stream_access_by_video S U"
    and "ud_parse U (path_base (url_string u)) = Inr k" "sb_delete_unscoped S (ud_str U k) db1 = (None, db2)"
    and "streams_counted S U"
  shows "inbox_handle E read q db = Ret db2 \<and> sb_count_uuid S k db2 = 0"
proof
  have "sb_count_uuid S k db2 = (if k = k then 0 else sb_count_uuid S k db1)"
    using assms(6,7) unfolding streams_counted_def by blast
  then show "sb_count_uuid S k db2 = 0" by simp
  show "inbox_handle E read q db = Ret db2"
    using assms(1-6)
    by (simp add: inbox_handle_def inbox_resolve_def handle_delete_request_def video_delete_by_iri_def
        delete_stream_access_by_video_def delete_by_uuid_def Let_def)
qed

lemma verified_sender_deletes_any_stream_witness:
  "\<exists>db. inbox_handle sample_inbox (\<lambda>_. Inr (Delete \<lparr> ac_actor = None, ac_object = Some [Item_Iri home_url], ac_to = None \<rparr>))
     sample_query [] = Ret db \<and> sb_count_uuid list_streams (uuid_or_nil nat_uuids (path_base (url_string home_url))) db = 0"
proof -
  obtain k where k: "ud_parse nat_uuids (path_base (url_string home_url)) = Inr k" by (simp add: nat_uuids_def)
  have d: "as_delete_video (fe_store (ib_fed sample_inbox)) (url_string home_url) [] = (None, [])"
    "fe_delete_access (ib_fed sample_inbox) = delete_stream_access_by_video list_streams nat_uuids"
    "sb_delete_unscoped list_streams (ud_str nat_uuids k) [] = (None, [])"
    by (simp_all add: sample_inbox_def sample_fed_def sample_ap_store_def list_streams_def)
  show ?thesis
    using verified_sender_deletes_any_stream[OF sample_verified _ d(1,2) k d(3) list_streams_laws(2),
        of "\<lambda>_. Inr (Delete \<lparr> ac_actor = None, ac_object = Some [Item_Iri home_url], ac_to = None \<rparr>)" None None] k
    by (simp add: uuid_or_nil_def)
qed

text \<open>Accepting a follow by its address marks the first follow of the table as
  accepted, whatever follow the address names: the lookup is given the address in a
  field that does not restrict it.\<close>

theorem accept_marks_first_follow:
  assumes "first_uses_key S" "as_first_follow S no_follow db = Inr f"
    and "as_save_follow S (f\<lparr> fo_state := ''accepted'' \<rparr>) db = (Inr g, db')"
    and "ac_object a = Some [Item_Iri u]" "is_follow_activity_iri u"
  shows "handle_accept_request S a db = Ret (None, db')"
proof -
  have "as_first_follow S (no_follow\<lparr> fo_iri := i \<rparr>) db = Inr f" for i
    using assms(1,2) unfolding first_uses_key_def by (metis follow.select_convs(1) follow.update_convs(2) follow.surjective)
  then have "get_follow_by_iri S i db = Inr f" for i by (simp add: get_follow_by_iri_def lookup_result_def)
  then show ?thesis
    using assms(3-5) by (simp add: handle_accept_request_def accept_iri_def save_follow_as_accepted_def follow_update_def)
qed

definition follow_list :: "follow list ap_store" where
  "follow_list = \<lparr> as_actor_by_iri = (\<lambda>_ _. Inl err_record_not_found), as_first_actor = (\<lambda>a _. Inl err_record_not_found),
     as_actors_by_ids = (\<lambda>_ _. Inr []), as_upsert_actor = (\<lambda>a db. (Inr a, db)),
     as_first_follow = (\<lambda>f db. case find (\<lambda>g. fo_id f = 0 \<or> fo_id g = fo_id f) db of
        None \<Rightarrow> Inl err_record_not_found | Some g \<Rightarrow> Inr g),
     as_find_follows = (\<lambda>_ _ _ _. Inr []), as_create_follow = (\<lambda>f db. (Inr f, db @ [f])),
     as_save_follow = (\<lambda>f db. (Inr f, map (\<lambda>g. if fo_id g = fo_id f then f else g) db)),
     as_instance_by_actor = (\<lambda>_ _. Inl err_record_not_found),
     as_create_instance = (\<lambda>i db. (Inr i, db)), as_upsert_video = (\<lambda>v db. (Inr v, db)), as_delete_video = (\<lambda>_ db. (None, db)) \<rparr>"

text \<open>The second follow is accepted; the first is marked.\<close>

lemma accept_marks_first_follow_witness:
  "let f = no_follow\<lparr> fo_id := 1, fo_iri := ''a'', fo_state := ''pending'' \<rparr>;
       g = no_follow\<lparr> fo_id := 2, fo_iri := ''http://localhost:8080/federation/follow/38d45114-f79b-41be-9fbd-655ccf52e276'', fo_state := ''pending'' \<rparr>;
       u = home_url\<lparr> ur_path := ''/federation/follow/38d45114-f79b-41be-9fbd-655ccf52e276'' \<rparr>
   in url_string u = fo_iri g \<and>
     handle_accept_request follow_list \<lparr> ac_actor = None, ac_object = Some [Item_Iri u], ac_to = None \<rparr> [f, g] =
       Ret (None, [f\<lparr> fo_state := ''accepted'' \<rparr>, g])"
proof -
  let ?f = "no_follow\<lparr> fo_id := 1, fo_iri := ''a'', fo_state := ''pending'' \<rparr>"
  let ?g = "no_follow\<lparr> fo_id := 2, fo_iri := ''http://localhost:8080/federation/follow/38d45114-f79b-41be-9fbd-655ccf52e276'', fo_state := ''pending'' \<rparr>"
  let ?u = "home_url\<lparr> ur_path := ''/federation/follow/38d45114-f79b-41be-9fbd-655ccf52e276'' \<rparr>"
  have s: "first_uses_key follow_list" by (simp add: first_uses_key_def follow_list_def)
  have f: "as_first_follow follow_list no_follow [?f, ?g] = Inr ?f" by (simp add: follow_list_def no_follow_def)
  have v: "as_save_follow follow_list (?f\<lparr> fo_state := ''accepted'' \<rparr>) [?f, ?g] =
      (Inr (?f\<lparr> fo_state := ''accepted'' \<rparr>), [?f\<lparr> fo_state := ''accepted'' \<rparr>, ?g])"
    by (simp add: follow_list_def no_follow_def)
  have u: "is_follow_activity_iri ?u" by (simp add: is_follow_activity_iri_def is_hex_or_dash_def has_prefix_def)
  have o1: "ac_object \<lparr> ac_actor = None, ac_object = Some [Item_Iri ?u], ac_to = None \<rparr> = Some [Item_Iri ?u]" by simp
  have "url_string ?u = fo_iri ?g" by (simp add: url_string_def home_url_def)
  with accept_marks_first_follow[OF s f v o1 u] show ?thesis by (simp add: Let_def)
qed

text \<open>An update without an object, or with an empty list of objects, ends the
  process once it is verified, and with it the requests waiting behind it.\<close>

theorem update_without_object_ends_worker:
  assumes "verify E False (ir_request q) db = Ret (Inr True)"
    and "read (ir_body q) = Inr (Update a)" "ac_object a \<in> {None, Some []}"
  shows "inbox_worker E read (q # qs) db = Panic"
  using assms by (auto simp: inbox_handle_def inbox_resolve_def handle_update_request_def Let_def)

lemma update_without_object_ends_worker_witness:
  "inbox_worker sample_inbox (\<lambda>_. Inr (Update \<lparr> ac_actor = None, ac_object = Some [], ac_to = None \<rparr>))
     [sample_query, sample_query] [] = Panic"
  by (rule update_without_object_ends_worker[OF sample_verified refl]) simp

end
