(* ===== verification/Federation_Http.thy ===== *)
theory Federation_Http
  imports Inbox Http
begin

text \<open>
  The HTTP side of the federation (\<^verbatim>\<open>internal/activitypub/handler\<close>,
  \<^verbatim>\<open>router.go\<close>, \<^verbatim>\<open>request/http_response.go\<close>,
  \<^verbatim>\<open>webfinger/client.go\<close>, \<^verbatim>\<open>database.go\<close>).  A handler that panics
  aborts its connection; the server recovers it.  The state of the handlers is the
  database, the requests given to the inbox workers and those given to the outbound
  workers.
\<close>

section \<open>The environment\<close>

record register_payload =
  rp_account_url :: string
  rp_token :: string

record 'db fed_state =
  fs_db :: 'db
  fs_inbox :: "inbox_request list"
  fs_outbound :: "signed_request list"

text \<open>Libraries: decoding JSON, unescaping HTML, parsing request addresses, serialising
  a document, signing a response (the headers it sets), and fresh follow identifiers.\<close>

record ('key, 'db) web_env =
  we_fed :: "('key, 'db) fed_env"
  we_decode :: "string \<Rightarrow> register_payload result"
  we_unescape :: "string \<Rightarrow> string"
  we_parse_request_uri :: "string \<Rightarrow> url option"
  we_serialize :: "application \<Rightarrow> string result"
  we_serialize_follow :: "follow_activity \<Rightarrow> string result"
  we_empty_page :: "bool \<Rightarrow> string result"
  we_sign :: "'key option \<Rightarrow> string \<Rightarrow> string list \<Rightarrow> string \<Rightarrow> reply list result"
  we_server_name :: string
  we_init_time :: "nat option"
  we_new_uuid :: string

type_synonym 'db web = "request \<Rightarrow> 'db fed_state \<Rightarrow> (reply list \<times> 'db fed_state) outcome"

abbreviation status_method_not_allowed :: nat where "status_method_not_allowed \<equiv> 405"
abbreviation status_accepted :: nat where "status_accepted \<equiv> 202"
abbreviation status_created :: nat where "status_created \<equiv> 201"

definition err_account_name_not_found :: string where
  "err_account_name_not_found = ''no account name in request found''"
definition err_account_iri_not_found :: string where
  "err_account_iri_not_found = ''no '' @ quoted ''accountIri'' @ '' get parameter in request''"
definition err_account_iri_invalid :: string where
  "err_account_iri_invalid = ''invalid '' @ quoted ''accountIri''"
definition err_no_federation_support :: string where "err_no_federation_support = ''no federation support''"
definition invalid_content_type :: string where "invalid_content_type = ''invalid content type''"
definition invalid_payload :: string where "invalid_payload = ''invalid payload''"

definition get_account_name :: "request \<Rightarrow> string result" where
  "get_account_name r = (case rq_vars r ''accountName'' of None \<Rightarrow> Inl (Err err_account_name_not_found) | Some a \<Rightarrow> Inr a)"

section \<open>Signed responses\<close>

definition sign_response ::
  "('key, 'db) web_env \<Rightarrow> string \<Rightarrow> public_key \<Rightarrow> 'key option \<Rightarrow> reply list result outcome" where
  "sign_response W body public private_key =
     outcome_bind (deref (pk_id public)) (\<lambda>u. Ret (we_sign W private_key (url_string u) [''digest''] body))"

text \<open>The replies written and whether an error is returned.\<close>

definition write_response ::
  "('key, 'db) web_env \<Rightarrow> string \<Rightarrow> public_key \<Rightarrow> 'key option \<Rightarrow> (reply list \<times> bool) outcome" where
  "write_response W payload public private_key =
     (let ct = Set_Header ''Content-Type'' ''application/activity+json'' in
      outcome_bind (sign_response W payload public private_key) (\<lambda>r. Ret (case r of
        Inl _ \<Rightarrow> ([ct, Write_Header status_internal], True)
      | Inr hs \<Rightarrow> (ct # hs @ [Write_Body payload], False))))"

definition write_stream_response ::
  "('key, 'db) web_env \<Rightarrow> string result \<Rightarrow> public_key \<Rightarrow> 'key option \<Rightarrow> (reply list \<times> bool) outcome" where
  "write_stream_response W serialized public private_key =
     (case serialized of Inl _ \<Rightarrow> Ret ([], True) | Inr b \<Rightarrow> write_response W b public private_key)"

section \<open>The handlers\<close>

definition get_actor_handler :: "('key, 'db) web_env \<Rightarrow> 'db web" where
  "get_actor_handler W r st =
     (let V = we_fed W; C = fe_config V; N = fe_net V in
      if \<not> fc_enable C then Ret ([Http_Error status_method_not_allowed err_no_federation_support], st)
      else case get_account_name r of
        Inl e \<Rightarrow> Ret ([Http_Error status_bad_request (error_text e)], st)
      | Inr name \<Rightarrow>
          (case get_actor_for_user_name (fe_store V) name (fs_db st) of
             Inl _ \<Rightarrow> Ret ([Write_Header status_not_found], st)
           | Inr a \<Rightarrow>
               outcome_bind (deref (get_actor_iri N a)) (\<lambda>iri.
               outcome_bind (build_activity_application N C (we_server_name W) (we_init_time W) a) (\<lambda>p.
               outcome_bind (write_stream_response W (we_serialize W p) (crypto_public_key N iri (at_public_key a))
                               (crypto_private_key (fe_crypto V) (at_private_key a))) (\<lambda>(ws, failed).
                 Ret (if failed then ws @ [Write_Header status_internal] else ws, st))))))"

text \<open>The name of the account is only looked up; a body that cannot be read is dropped
  without a status.\<close>

definition accept_inbox_request :: "('key, 'db) web_env \<Rightarrow> 'db web" where
  "accept_inbox_request W r st =
     (let V = we_fed W in
      if \<not> fc_enable (fe_config V) then Ret ([Write_Header status_method_not_allowed], st)
      else case get_account_name r of
        Inl _ \<Rightarrow> Ret ([Write_Header status_bad_request], st)
      | Inr name \<Rightarrow>
          (case get_actor_for_user_name (fe_store V) name (fs_db st) of
             Inl _ \<Rightarrow> Ret ([Write_Header status_not_found], st)
           | Inr _ \<Rightarrow>
               (case rq_body r of
                  Some (Inl _) \<Rightarrow> Ret ([], st)
                | b \<Rightarrow> Ret ([Write_Header status_accepted],
                    st\<lparr> fs_inbox := fs_inbox st @ [\<lparr> ir_request = r, ir_account = name,
                          ir_body = (case b of Some (Inr d) \<Rightarrow> d | _ \<Rightarrow> []) \<rparr>] \<rparr>))))"

definition get_inbox_handler :: "('key, 'db) web_env \<Rightarrow> string \<Rightarrow> 'db web" where
  "get_inbox_handler W meth r st =
     (if meth = ''POST'' then accept_inbox_request W r st else Ret ([Write_Header status_method_not_allowed], st))"

definition accept_shared_inbox_request :: "('key, 'db) web_env \<Rightarrow> 'db web" where
  "accept_shared_inbox_request W r st =
     (let C = fe_config (we_fed W) in
      if \<not> fc_enable C then Ret ([Write_Header status_method_not_allowed], st)
      else case rq_body r of
        Some (Inl _) \<Rightarrow> Ret ([], st)
      | b \<Rightarrow> Ret ([Write_Header status_accepted],
          st\<lparr> fs_inbox := fs_inbox st @ [\<lparr> ir_request = r, ir_account = fc_username C,
                ir_body = (case b of Some (Inr d) \<Rightarrow> d | _ \<Rightarrow> []) \<rparr>] \<rparr>))"

definition get_shared_inbox_handler :: "('key, 'db) web_env \<Rightarrow> string \<Rightarrow> 'db web" where
  "get_shared_inbox_handler W meth r st =
     (if meth = ''POST'' then accept_shared_inbox_request W r st else Ret ([Write_Header status_method_not_allowed], st))"

definition get_object_handler :: "('key, 'db) web_env \<Rightarrow> 'db web" where
  "get_object_handler W r st =
     (let C = fe_config (we_fed W) in
      if \<not> fc_enable C then Ret ([Write_Header status_method_not_allowed], st)
      else if fc_private C then Ret ([Write_Header status_not_found], st)
      else Ret ([Write_Header status_not_found], st))"

definition get_webfinger :: "('key, 'db) web_env \<Rightarrow> 'db web" where
  "get_webfinger W r st =
     (if \<not> fc_enable (fe_config (we_fed W)) then Ret ([Write_Header status_method_not_allowed], st) else Ret ([], st))"

text \<open>The outbox is empty, whichever page is asked for.\<close>

definition get_outbox_handler :: "('key, 'db) web_env \<Rightarrow> actor \<Rightarrow> string \<Rightarrow> string \<Rightarrow> 'db web" where
  "get_outbox_handler W a meth page r st =
     (let V = we_fed W; N = fe_net V in
      if meth \<noteq> ''GET'' then Ret ([Write_Header status_method_not_allowed], st)
      else outcome_bind (deref (get_actor_iri N a)) (\<lambda>iri.
           outcome_bind (write_stream_response W (we_empty_page W (page \<noteq> [])) (crypto_public_key N iri (at_public_key a))
                           (crypto_private_key (fe_crypto V) (at_private_key a))) (\<lambda>(ws, _). Ret (ws, st))))"

section \<open>Registration\<close>

definition get_account_iri_from_get :: "('key, 'db) web_env \<Rightarrow> string \<Rightarrow> url result" where
  "get_account_iri_from_get W iri_string =
     (if length iri_string = 0 then Inl (Err err_account_iri_not_found)
      else case we_parse_request_uri W (we_unescape W iri_string) of
        None \<Rightarrow> Inl (Err err_account_iri_invalid)
      | Some u \<Rightarrow> Inr u)"

definition get_json_account_payload :: "('key, 'db) web_env \<Rightarrow> request \<Rightarrow> (register_payload \<times> url) result" where
  "get_json_account_payload W r =
     (if rq_header r ''Content-Type'' \<noteq> ''application/json'' then Inl (Err invalid_content_type)
      else case (case rq_body r of None \<Rightarrow> we_decode W [] | Some (Inl e) \<Rightarrow> Inl e | Some (Inr b) \<Rightarrow> we_decode W b) of
        Inl _ \<Rightarrow> Inl (Err invalid_payload)
      | Inr p \<Rightarrow>
          (case we_parse_request_uri W (we_unescape W (rp_account_url p)) of
             None \<Rightarrow> Inl (Err err_account_iri_invalid)
           | Some u \<Rightarrow> Inr (p, u)))"

text \<open>What is done once the payload is read.\<close>

definition register_account :: "('key, 'db) web_env \<Rightarrow> url \<Rightarrow> 'db fed_state \<Rightarrow> (reply list \<times> 'db fed_state) outcome" where
  "register_account W account st =
     (let V = we_fed W; C = fe_config V; S = fe_store V; N = fe_net V; failed = [Write_Header status_internal] in
      outcome_bind (get_local_instance_actor C S N (fs_db st)) (\<lambda>r. case r of
        Inl _ \<Rightarrow> Ret (failed, st)
      | Inr inst \<Rightarrow>
          outcome_bind (service_create_actor V (url_string account) inst (fs_db st)) (\<lambda>(r, db1).
            let st1 = st\<lparr> fs_db := db1 \<rparr> in case r of
              Inl _ \<Rightarrow> Ret (failed, st1)
            | Inr remote \<Rightarrow>
                outcome_bind (new_follow N (we_new_uuid W) (fc_url C) inst remote) (\<lambda>f.
                  let (r, db2) = follow_add S f db1; st2 = st1\<lparr> fs_db := db2 \<rparr> in case r of
                    Inl _ \<Rightarrow> Ret (failed, st2)
                  | Inr f' \<Rightarrow>
                      outcome_bind (send_follow_request C S N (fe_crypto V) (we_serialize_follow W) f' db2 (fs_outbound st2))
                        (\<lambda>(e, out). let st3 = st2\<lparr> fs_outbound := out \<rparr> in
                          Ret (if e \<noteq> None then failed else [Write_Header status_created], st3))))))"

text \<open>A wrong token is answered, but the handler goes on.\<close>

definition get_register_handler :: "('key, 'db) web_env \<Rightarrow> 'db web" where
  "get_register_handler W r st =
     (let C = fe_config (we_fed W) in
      if \<not> fc_enable C then Ret ([Http_Error status_method_not_allowed err_no_federation_support], st)
      else let ct = Set_Header ''Content-Type'' ''application/json'' in
        case get_json_account_payload W r of
          Inl e \<Rightarrow> Ret ([ct, Http_Error status_bad_request (error_text e)], st)
        | Inr (p, account) \<Rightarrow>
            outcome_bind (register_account W account st) (\<lambda>(ws, st').
              Ret (ct # (if rp_token p \<noteq> fc_register_token C then [Http_Error status_forbidden []] else []) @ ws, st')))"

section \<open>The router\<close>

datatype fed_endpoint = To_Webfinger | To_Actor | To_Inbox | To_Shared_Inbox | To_Object | To_Register

definition extend_router :: "(string \<times> string option \<times> fed_endpoint) list" where
  "extend_router =
     [(''/.well-known/webfinger'', Some ''GET'', To_Webfinger),
      (''/federation/accounts/{accountName}'', Some ''GET'', To_Actor),
      (''/federation/accounts/{accountName}/inbox'', Some ''POST'', To_Inbox),
      (''/federation/inbox'', Some ''POST'', To_Shared_Inbox),
      (''/federation/'', None, To_Object),
      (''/federation/register'', Some ''POST'', To_Register)]"

fun serve_endpoint :: "('key, 'db) web_env \<Rightarrow> string \<Rightarrow> fed_endpoint \<Rightarrow> 'db web" where
  "serve_endpoint W meth To_Webfinger = get_webfinger W"
| "serve_endpoint W meth To_Actor = get_actor_handler W"
| "serve_endpoint W meth To_Inbox = get_inbox_handler W meth"
| "serve_endpoint W meth To_Shared_Inbox = get_shared_inbox_handler W meth"
| "serve_endpoint W meth To_Object = get_object_handler W"
| "serve_endpoint W meth To_Register = get_register_handler W"

section \<open>Webfinger\<close>

definition trim_left_at :: "string \<Rightarrow> string" where "trim_left_at = dropWhile (\<lambda>c. c = CHR ''@'')"

text \<open>An account without a server makes the lookup panic.  The query is escaped by the
  library, the answer is its JSON list of links.\<close>

definition get_webfinger_links ::
  "net \<Rightarrow> (url \<Rightarrow> string \<Rightarrow> (string, dyn) gomap list result) \<Rightarrow> string \<Rightarrow> (string, dyn) gomap list result outcome" where
  "get_webfinger_links N get account =
     (let account = trim_left_at account; parts = split_on (CHR ''@'') account in
      if length parts < 2 then Panic
      else case nt_parse_url N (''https://'' @ parts ! 1) of
        None \<Rightarrow> Ret (Inl (Err (''unable to parse fediverse server host '' @ parts ! 1)))
      | Some u \<Rightarrow> Ret (get (u\<lparr> ur_path := ''/.well-known/webfinger'' \<rparr>) (''acct:'' @ account)))"

record webfinger_link =
  wl_rel :: string
  wl_type :: string
  wl_href :: string

record webfinger_response =
  wr_aliases :: "string list"
  wr_subject :: string
  wr_links :: "webfinger_link list"

definition make_webfinger_response :: "net \<Rightarrow> fed_config \<Rightarrow> string \<Rightarrow> string \<Rightarrow> webfinger_response outcome" where
  "make_webfinger_response N C account host =
     outcome_bind (deref (build_account_iri N (fc_url C) account)) (\<lambda>a.
     outcome_bind (deref (build_stream_url_iri N (fc_url C))) (\<lambda>s.
       Ret \<lparr> wr_aliases = [url_string a], wr_subject = ''acct:'' @ account @ ''@'' @ host,
         wr_links = [\<lparr> wl_rel = ''self'', wl_type = ''application/activity+json'', wl_href = url_string a \<rparr>,
                     \<lparr> wl_rel = ''https://webfinger.net/rel/profile-page'', wl_type = ''text/html'', wl_href = url_string a \<rparr>,
                     \<lparr> wl_rel = ''alternate'', wl_type = ''application/x-mpegURL'', wl_href = url_string s \<rparr>] \<rparr>))"

fun make_webfinger_request_response_from_data :: "(string, dyn) gomap list \<Rightarrow> string outcome" where
  "make_webfinger_request_response_from_data [] = Ret []"
| "make_webfinger_request_response_from_data (l # ls) =
     (if map_of l ''rel'' = Some (DStr ''self'')
      then (case map_of l ''href'' of Some (DStr s) \<Rightarrow> Ret s | _ \<Rightarrow> Panic)
      else make_webfinger_request_response_from_data ls)"

section \<open>The database of the ActivityPub library\<close>

definition outbox_for_inbox :: "'db ap_store \<Rightarrow> net \<Rightarrow> (string \<Rightarrow> go_error) \<Rightarrow> url \<Rightarrow> 'db \<Rightarrow> url result" where
  "outbox_for_inbox S N parse_error inbox db =
     (case get_actor_for_iri S inbox 0 db of
        Inl e \<Rightarrow> Inl e
      | Inr a \<Rightarrow> (case nt_parse_url N (at_outbox a) of None \<Rightarrow> Inl (parse_error (at_outbox a)) | Some u \<Rightarrow> Inr u))"

fun parse_iris :: "net \<Rightarrow> (string \<Rightarrow> go_error) \<Rightarrow> actor list \<Rightarrow> url list result" where
  "parse_iris N parse_error [] = Inr []"
| "parse_iris N parse_error (a # as) =
     (case nt_parse_url N (at_iri a) of
        None \<Rightarrow> Inl (Wrap ''parsing invalid account uri: '' (parse_error (at_iri a)))
      | Some u \<Rightarrow> result_bind (parse_iris N parse_error as) (\<lambda>us. Inr (u # us)))"

definition db_followers :: "'db ap_store \<Rightarrow> net \<Rightarrow> (string \<Rightarrow> go_error) \<Rightarrow> url \<Rightarrow> 'db \<Rightarrow> url list result" where
  "db_followers S N parse_error iri db =
     result_bind (get_actor_for_iri S iri 1 db) (\<lambda>acct.
       case get_actor_followers S (at_id acct) db of
         Inl e \<Rightarrow> Inl (Err (''getting followers for actor id '' @ show_nat (at_id acct) @ '': '' @ error_text e))
       | Inr follows \<Rightarrow>
           (case get_all_actors_by_ids S (map fo_actor_id follows) db of
              Inl e \<Rightarrow> Inl (Wrap (''getting follower actors for actor ids '' @ show_nat (at_id acct) @ '': '') e)
            | Inr actors \<Rightarrow> parse_iris N parse_error actors))"

section \<open>Lemmas\<close>

lemma follow_request_out:
  "returns_only (\<lambda>(e, out'). (e \<noteq> None \<and> out' = out) \<or> (e = None \<and> (\<exists>req. out' = out @ [req] \<and> sq_method req = ''POST'')))
     (send_follow_request C S N X ser f db out)"
proof -
  have sign: "returns_only (\<lambda>r. \<forall>q. r = Inr q \<longrightarrow> sq_method q = sq_method req) (sign_request S N X iri req db)" for iri req
    unfolding sign_request_def Let_def by (intro ret_intros) auto
  have create: "returns_only (\<lambda>r. \<forall>q. r = Inr q \<longrightarrow> sq_method q = ''POST'') (create_signed_request S N X rel pay u iri db)" for rel pay u iri
    unfolding create_signed_request_def
    using sign[of "unsigned ''POST'' (url_string u) rel (Some pay)" iri] by (auto simp: unsigned_def intro!: ret_intros)
  have send: "returns_only (\<lambda>(e, out'). (e \<noteq> None \<and> out' = out) \<or> (e = None \<and> (\<exists>req. out' = out @ [req] \<and> sq_method req = ''POST'')))
     (send_to_user C S N X inbox pay db out)" for inbox pay
    unfolding send_to_user_def
    by (intro ret_intros) (auto dest: returns_onlyD[OF create] split: sum.splits)
  show ?thesis
    unfolding send_follow_request_def by (intro ret_intros send) auto
qed

lemma register_account_out:
  "returns_only (\<lambda>(ws, st'). fs_inbox st' = fs_inbox st \<and>
      ((ws = [Write_Header status_internal] \<and> fs_outbound st' = fs_outbound st) \<or>
       (ws = [Write_Header status_created] \<and> (\<exists>req. fs_outbound st' = fs_outbound st @ [req] \<and> sq_method req = ''POST''))))
     (register_account W account st)"
  unfolding register_account_def Let_def
proof (intro ret_intros, goal_cases)
  case (4 r inst x r' db1 remote f r2 db2 f' y e out)
  then have "send_follow_request (fe_config (we_fed W)) (fe_store (we_fed W)) (fe_net (we_fed W)) (fe_crypto (we_fed W))
      (we_serialize_follow W) f' db2 (fs_outbound st) = Ret (e, out)" by simp
  from returns_onlyD[OF follow_request_out this] show ?case by auto
qed simp_all

lemma first_actor_for_name:
  assumes "first_uses_key S" "as_first_actor S no_actor db = Inr a"
  shows "get_actor_for_user_name S name db = Inr a"
proof -
  have "as_first_actor S (no_actor\<lparr> at_name := name \<rparr>) db = Inr a"
    using assms(1)[unfolded first_uses_key_def, THEN conjunct1, rule_format, of "no_actor\<lparr> at_name := name \<rparr>" no_actor db] assms(2)
    by simp
  then show ?thesis by (simp add: get_actor_for_user_name_def lookup_result_def)
qed

text \<open>Handlers for the examples: the body of a registration is its token.\<close>

definition sample_web :: "bool \<Rightarrow> (unit, live_stream list) web_env" where
  "sample_web enable = \<lparr> we_fed = (sample_fed True)\<lparr> fe_config := (fe_config (sample_fed True))\<lparr> fc_enable := enable \<rparr> \<rparr>,
     we_decode = (\<lambda>b. Inr \<lparr> rp_account_url = ''http://localhost:8080/a/'', rp_token = b \<rparr>), we_unescape = id,
     we_parse_request_uri = simple_parse_url, we_serialize = (\<lambda>_. Inr []), we_serialize_follow = (\<lambda>_. Inr []),
     we_empty_page = (\<lambda>_. Inr []), we_sign = (\<lambda>_ _ _ _. Inr []), we_server_name = [], we_init_time = None,
     we_new_uuid = ''38d45114-f79b-41be-9fbd-655ccf52e276'' \<rparr>"

definition registration :: "string \<Rightarrow> request" where
  "registration token = \<lparr> rq_header = (\<lambda>h. if h = ''Content-Type'' then ''application/json'' else []), rq_vars = (\<lambda>_. None),
     rq_body = Some (Inr token), rq_principal = None \<rparr>"

abbreviation no_requests :: "live_stream list fed_state" where
  "no_requests \<equiv> \<lparr> fs_db = [], fs_inbox = [], fs_outbound = [] \<rparr>"

lemma sample_payload: "get_json_account_payload (sample_web b) (registration t) =
    Inr (\<lparr> rp_account_url = ''http://localhost:8080/a/'', rp_token = t \<rparr>, home_url\<lparr> ur_path := ''/a/'' \<rparr>)"
  by (simp add: get_json_account_payload_def registration_def sample_web_def simple_parse_url_def has_prefix_def Let_def home_url_def)

lemma sample_web_sel:
  "fe_store (we_fed (sample_web b)) = sample_ap_store" "fe_net (we_fed (sample_web b)) = iri_net"
  "fe_crypto (we_fed (sample_web b)) = sample_crypto" "fc_enable (fe_config (we_fed (sample_web b))) = b"
  "fc_register_token (fe_config (we_fed (sample_web b))) = ''t''" "we_fed (sample_web True) = sample_fed True"
  "fe_store (sample_fed True) = sample_ap_store" "fe_net (sample_fed True) = iri_net" "fe_crypto (sample_fed True) = sample_crypto"
  "fc_enable (fe_config (sample_fed True))" "fc_register_token (fe_config (sample_fed True)) = ''t''"
  by (simp_all add: sample_web_def sample_fed_def)

lemma sample_register: "\<exists>st'. register_account (sample_web True) (home_url\<lparr> ur_path := ''/a/'' \<rparr>) no_requests = Ret ([Write_Header 201], st')"
proof -
  let ?w = "''38d45114-f79b-41be-9fbd-655ccf52e276''"
  have u: "url_string (home_url\<lparr> ur_path := ''/a/'' \<rparr>) = ''http://localhost:8080/a/''" by (simp add: url_string_def home_url_def)
  have n: "nt_parse_url iri_net ''http://localhost:8080/a/'' = Some (home_url\<lparr> ur_path := ''/a/'' \<rparr>)"
    by (simp add: iri_net_def home_url_def simple_parse_url_def has_prefix_def Let_def)
  obtain a where a: "service_create_actor (sample_fed True) ''http://localhost:8080/a/'' (stream_actor ''shig'') [] = Ret (Inr a, [])"
      "at_iri a = ''http://localhost:8080/a/''" "at_inbox a = ''http://localhost:8080/a/''"
    using sample_create_actor[OF n, of True "[]"] u by auto
  have p: "clean_segment ?w" by (simp add: clean_segment_def plain_segment_def)
  have segs: "\<forall>s\<in>set [''federation'', ''follow'', ?w]. clean_segment s" "\<forall>s\<in>set [''federation'', ''accounts'', ''shig'']. clean_segment s"
    using p by (simp_all add: clean_segment_def plain_segment_def)
  define fi where "fi = at_path home_url [''federation'', ''follow'', ?w]"
  define loc where "loc = at_path home_url [''federation'', ''accounts'', ''shig'']"
  have f: "build_follow_activity_iri iri_net ?w home_url = Some fi" "nt_parse_url iri_net (url_string fi) = Some fi"
    using reparse_home[OF iri_net_ok home_clean _ segs(1)] at_path_parsed[OF iri_net_ok home_clean _ segs(1)]
    by (simp_all add: build_follow_activity_iri_def fi_def)
  have l: "build_account_iri iri_net home_url ''shig'' = Some loc"
    using reparse_home[OF iri_net_ok home_clean _ segs(2)] by (simp add: build_account_iri_def loc_def)
  obtain k where k: "nt_parse_url iri_net (url_string loc @ ''#main-key'') = Some k"
    by (simp add: loc_def iri_net_def at_path_def home_url_def url_string_def rooted_def simple_parse_url_def has_prefix_def Let_def)
  obtain s where s: "nt_parse_url iri_net ''http://localhost/accounts/shig'' = Some s"
    by (simp add: iri_net_def simple_parse_url_def has_prefix_def Let_def)
  have c: "fc_url (fe_config (sample_fed True)) = home_url" "fc_username (fe_config (sample_fed True)) = ''shig''"
    by (simp_all add: sample_fed_def)
  have x: "cr_request_error sample_crypto v = None" "cr_sign sample_crypto pk v hs body = None"
    "as_actor_by_iri sample_ap_store v db = Inr (stream_actor ''shig'')" "as_create_follow sample_ap_store g db = (Inr g, db)"
    "we_serialize_follow (sample_web True) fa = Inr []" "we_new_uuid (sample_web True) = ?w" "at_iri (stream_actor ''shig'') = ''http://localhost/accounts/shig''"
    for v pk hs body db g fa by (simp_all add: sample_crypto_def sample_ap_store_def sample_web_def stream_actor_def)
  show ?thesis
    by (simp add: register_account_def sample_web_sel sample_instance_actor u a new_follow_def c f x follow_add_def
        send_follow_request_def follow_to_as_def s n get_inbox_iri_def send_to_user_def l create_signed_request_def unsigned_def
        sign_request_def get_key_pair_def get_actor_by_actor_iri_def lookup_result_def crypto_public_key_def k Let_def)
qed

section \<open>Properties\<close>

text \<open>An instance without federation answers every request of the federation's
  routes with 405, but one that panics nowhere, and keeps its state.\<close>

theorem disabled_federation_refuses:
  assumes "\<not> fc_enable (fe_config (we_fed W))"
  shows "\<exists>ws. serve_endpoint W meth e r st = Ret (ws, st) \<and> status ws = 405"
  using assms
  by (cases e) (auto simp: get_webfinger_def get_actor_handler_def get_inbox_handler_def accept_inbox_request_def
    get_shared_inbox_handler_def accept_shared_inbox_request_def get_object_handler_def get_register_handler_def Let_def)

lemma disabled_federation_refuses_witness:
  "\<exists>ws. serve_endpoint (sample_web False) ''POST'' To_Register (registration ''t'') no_requests = Ret (ws, no_requests) \<and> status ws = 405"
  using disabled_federation_refuses[of "sample_web False"] by (simp add: sample_web_sel del: serve_endpoint.simps)

text \<open>C12: the register token decides nothing but the status: with a wrong one the
  account is fetched and stored, the follow is stored and its request is sent
  exactly as with the right one, and the answer is 403.\<close>

theorem wrong_token_registers_all_the_same:
  assumes "fc_enable (fe_config (we_fed W))"
    and "get_json_account_payload W r = Inr (p, u)" "rp_token p \<noteq> fc_register_token (fe_config (we_fed W))"
    and "get_json_account_payload W r' = Inr (p', u)" "rp_token p' = fc_register_token (fe_config (we_fed W))"
    and "get_register_handler W r' st = Ret (ws', st')"
  shows "\<exists>ws. get_register_handler W r st = Ret (ws, st') \<and> status ws = 403"
proof -
  obtain ws st'' where "register_account W u st = Ret (ws, st'')" "st' = st''"
    using assms(1,4-6) by (cases "register_account W u st") (auto simp: get_register_handler_def Let_def)
  then show ?thesis using assms(1-3) by (simp add: get_register_handler_def Let_def)
qed

lemma wrong_token_registers_all_the_same_witness:
  "\<exists>ws st'. get_register_handler (sample_web True) (registration ''guess'') no_requests = Ret (ws, st') \<and> status ws = 403"
proof -
  obtain st' where "register_account (sample_web True) (home_url\<lparr> ur_path := ''/a/'' \<rparr>) no_requests = Ret ([Write_Header 201], st')"
    using sample_register by blast
  then have r: "\<exists>ws. get_register_handler (sample_web True) (registration ''t'') no_requests = Ret (ws, st')"
    by (simp add: get_register_handler_def sample_payload sample_web_sel Let_def)
  then obtain ws where w: "get_register_handler (sample_web True) (registration ''t'') no_requests = Ret (ws, st')" by blast
  have t: "fc_enable (fe_config (we_fed (sample_web True)))"
    "rp_token \<lparr> rp_account_url = ''http://localhost:8080/a/'', rp_token = ''guess'' \<rparr> \<noteq> fc_register_token (fe_config (we_fed (sample_web True)))"
    "rp_token \<lparr> rp_account_url = ''http://localhost:8080/a/'', rp_token = ''t'' \<rparr> = fc_register_token (fe_config (we_fed (sample_web True)))"
    by (simp_all add: sample_web_sel)
  from wrong_token_registers_all_the_same[OF t(1) sample_payload t(2) sample_payload t(3) w] show ?thesis by blast
qed

text \<open>A registration that is read sends one request, and only if it is answered
  with success; it never touches the queue of the inbox.\<close>

theorem registration_sends_one_request:
  assumes "fc_enable (fe_config (we_fed W))" "get_json_account_payload W r = Inr (p, u)"
    and "rp_token p = fc_register_token (fe_config (we_fed W))" "get_register_handler W r st = Ret (ws, st')"
  shows "fs_inbox st' = fs_inbox st \<and>
    (if status ws = 201 then \<exists>req. fs_outbound st' = fs_outbound st @ [req] \<and> sq_method req = ''POST''
     else status ws = 500 \<and> fs_outbound st' = fs_outbound st)"
proof -
  obtain ws1 where w: "register_account W u st = Ret (ws1, st')" "ws = Set_Header ''Content-Type'' ''application/json'' # ws1"
    using assms by (cases "register_account W u st") (auto simp: get_register_handler_def Let_def)
  from returns_onlyD[OF register_account_out w(1)] show ?thesis using w(2) by auto
qed

lemma registration_sends_one_request_witness:
  "\<exists>ws st' req. get_register_handler (sample_web True) (registration ''t'') no_requests = Ret (ws, st') \<and> fs_outbound st' = [req]"
proof -
  obtain st' where "register_account (sample_web True) (home_url\<lparr> ur_path := ''/a/'' \<rparr>) no_requests = Ret ([Write_Header 201], st')"
    using sample_register by blast
  then have w: "get_register_handler (sample_web True) (registration ''t'') no_requests =
      Ret ([Set_Header ''Content-Type'' ''application/json'', Write_Header 201], st')"
    by (simp add: get_register_handler_def sample_payload sample_web_sel Let_def)
  have t: "fc_enable (fe_config (we_fed (sample_web True)))"
    "rp_token \<lparr> rp_account_url = ''http://localhost:8080/a/'', rp_token = ''t'' \<rparr> = fc_register_token (fe_config (we_fed (sample_web True)))"
    by (simp_all add: sample_web_sel)
  from registration_sends_one_request[OF t(1) sample_payload t(2) w] w show ?thesis by auto
qed

text \<open>The name in the address of an inbox is not checked against the accounts of
  the instance: whatever name is given, the first stored actor is found, the request
  is queued, and the same document is published.\<close>

theorem account_name_not_checked:
  assumes "fc_enable (fe_config (we_fed W))" "first_uses_key (fe_store (we_fed W))"
    and "as_first_actor (fe_store (we_fed W)) no_actor (fs_db st) = Inr a"
    and "rq_vars r ''accountName'' = Some name" "rq_body r = Some (Inr body)" "rq_vars r' ''accountName'' = Some name'"
  shows "get_inbox_handler W ''POST'' r st =
      Ret ([Write_Header 202], st\<lparr> fs_inbox := fs_inbox st @ [\<lparr> ir_request = r, ir_account = name, ir_body = body \<rparr>] \<rparr>) \<and>
    get_actor_handler W r st = get_actor_handler W r' st"
  using assms first_actor_for_name[OF assms(2,3)]
  by (simp add: get_inbox_handler_def accept_inbox_request_def get_actor_handler_def get_account_name_def Let_def)

definition one_actor_web :: "(unit, unit) web_env" where
  "one_actor_web = \<lparr> we_fed = \<lparr> fe_config = fe_config (sample_fed True), fe_store =
       \<lparr> as_actor_by_iri = (\<lambda>_ _. Inr no_actor), as_first_actor = (\<lambda>_ _. Inr (stream_actor ''shig'')),
         as_actors_by_ids = (\<lambda>_ _. Inr []), as_upsert_actor = (\<lambda>a db. (Inr a, db)), as_first_follow = (\<lambda>_ _. Inr no_follow),
         as_find_follows = (\<lambda>_ _ _ _. Inr []), as_create_follow = (\<lambda>f db. (Inr f, db)), as_save_follow = (\<lambda>f db. (Inr f, db)),
         as_instance_by_actor = (\<lambda>_ _. Inl err_record_not_found), as_create_instance = (\<lambda>i db. (Inr i, db)),
         as_upsert_video = (\<lambda>v db. (Inr v, db)), as_delete_video = (\<lambda>_ db. (None, db)) \<rparr>,
       fe_net = iri_net, fe_crypto = sample_crypto, fe_keys = sample_keys, fe_accounts = sample_accounts, fe_uuids = nat_uuids,
       fe_unmarshal = (\<lambda>_. Inr []), fe_create_access = (\<lambda>_ db. Ret (None, db)), fe_update_access = (\<lambda>_ db. Ret (None, db)),
       fe_delete_access = (\<lambda>_ db. (None, db)) \<rparr>,
     we_decode = (\<lambda>_. Inl (Err [])), we_unescape = id, we_parse_request_uri = simple_parse_url, we_serialize = (\<lambda>_. Inr []),
     we_serialize_follow = (\<lambda>_. Inr []), we_empty_page = (\<lambda>_. Inr []), we_sign = (\<lambda>_ _ _ _. Inr []), we_server_name = [],
     we_init_time = None, we_new_uuid = [] \<rparr>"

definition to_account :: "string \<Rightarrow> request" where
  "to_account name = \<lparr> rq_header = (\<lambda>_. []), rq_vars = (\<lambda>v. if v = ''accountName'' then Some name else None),
     rq_body = Some (Inr ''b''), rq_principal = None \<rparr>"

lemma account_name_not_checked_witness:
  "\<exists>st. get_inbox_handler one_actor_web ''POST'' (to_account ''nobody'') \<lparr> fs_db = (), fs_inbox = [], fs_outbound = [] \<rparr> =
     Ret ([Write_Header 202], st)"
proof -
  have w: "fc_enable (fe_config (we_fed one_actor_web))" "first_uses_key (fe_store (we_fed one_actor_web))"
    "as_first_actor (fe_store (we_fed one_actor_web)) no_actor (fs_db \<lparr> fs_db = (), fs_inbox = [], fs_outbound = [] \<rparr>) =
       Inr (stream_actor ''shig'')"
    by (simp_all add: one_actor_web_def first_uses_key_def sample_fed_def)
  have r: "rq_vars (to_account n) ''accountName'' = Some n" "rq_body (to_account n) = Some (Inr ''b'')" for n
    by (simp_all add: to_account_def)
  from account_name_not_checked[OF w r(1) r(2) r(1), of "''nobody''" "''shig''"] show ?thesis by blast
qed

end
