(* ===== verification/Remote_Objects.thy ===== *)
theory Remote_Objects
  imports Inbox
begin

text \<open>
  The objects of the federation that are made and read beside the inbox: notes and
  activities (\<^verbatim>\<open>models/activity.go\<close>, \<^verbatim>\<open>message.go\<close>, the messages of
  \<^verbatim>\<open>outbox/sender.go\<close>), actors read from other instances
  (\<^verbatim>\<open>models/external_entity.go\<close>, the actor lookups of
  \<^verbatim>\<open>remote/resolver.go\<close>), and what the ActivityPub library asks of the program
  (\<^verbatim>\<open>database.go\<close>, \<^verbatim>\<open>federating_protocol.go\<close>).
\<close>

section \<open>Notes and activities\<close>

text \<open>The properties that address an object; a tag is a mention of somebody.\<close>

record addressed =
  ad_id :: "url option"
  ad_to :: "url option list"
  ad_audience :: "url option list"
  ad_cc :: "url option list"
  ad_tags :: "(string \<times> url option) list"

record ap_note = addressed +
  nt_content :: string
  nt_published :: int
  nt_attributed :: "url option"

record activity = addressed +
  av_actor :: "url option list"
  av_objects :: "ap_note list"

definition public_audience :: string where "public_audience = ''https://www.w3.org/ns/activitystreams#Public''"

text \<open>To the public; the error of parsing the constant is dropped.\<close>

definition make_public :: "net \<Rightarrow> 'z addressed_scheme \<Rightarrow> 'z addressed_scheme" where
  "make_public N x =
     (let public = nt_parse_url N public_audience in x\<lparr> ad_to := [public], ad_audience := [public] \<rparr>)"

definition make_note_public :: "net \<Rightarrow> ap_note \<Rightarrow> ap_note" where "make_note_public N n = make_public N n"

definition make_direct :: "url option \<Rightarrow> 'z addressed_scheme \<Rightarrow> 'z addressed_scheme" where
  "make_direct u x = x\<lparr> ad_cc := [u, u], ad_tags := [(''Mention'', u), (''Mention'', u)] \<rparr>"

definition make_note_direct :: "ap_note \<Rightarrow> url option \<Rightarrow> ap_note" where "make_note_direct n u = make_direct u n"
definition make_activity_direct :: "activity \<Rightarrow> url option \<Rightarrow> activity" where "make_activity_direct a u = make_direct u a"

definition make_activity_public :: "net \<Rightarrow> activity \<Rightarrow> bool \<Rightarrow> activity" where
  "make_activity_public N a is_private = (if \<not> is_private then make_public N a else a)"

definition make_create_activity :: "url option \<Rightarrow> activity" where
  "make_create_activity i =
     \<lparr> ad_id = i, ad_to = [], ad_audience = [], ad_cc = [], ad_tags = [], av_actor = [], av_objects = [] \<rparr>"

definition make_update_activity :: "net \<Rightarrow> url option \<Rightarrow> bool \<Rightarrow> activity" where
  "make_update_activity N i is_private =
     (let a = make_create_activity i in if \<not> is_private then a\<lparr> ad_cc := [nt_parse_url N public_audience] \<rparr> else a)"

definition make_note :: "string \<Rightarrow> url option \<Rightarrow> url option \<Rightarrow> int \<Rightarrow> ap_note" where
  "make_note text i attributed now =
     \<lparr> ad_id = i, ad_to = [], ad_audience = [], ad_cc = [], ad_tags = [], nt_content = text, nt_published = now,
       nt_attributed = attributed \<rparr>"

definition create_create_activity :: "net \<Rightarrow> string \<Rightarrow> url \<Rightarrow> url option \<Rightarrow> activity" where
  "create_create_activity N i instance local_actor =
     (make_create_activity (build_resource_iri N instance i))\<lparr> av_actor := [local_actor] \<rparr>"

text \<open>A note of the local actor in an activity; both identifiers are fresh.\<close>

definition create_base_outbound_message ::
  "fed_config \<Rightarrow> net \<Rightarrow> string \<Rightarrow> string \<Rightarrow> string \<Rightarrow> int \<Rightarrow> activity \<times> string \<times> ap_note \<times> string" where
  "create_base_outbound_message C N note_id i text now =
     (let local = build_account_iri N (fc_url C) (fc_username C);
          n = make_note text (build_resource_iri N (fc_url C) note_id) local now;
          activity = (create_create_activity N i (fc_url C) local)\<lparr> av_objects := [n] \<rparr>
      in (activity, i, n, note_id))"

section \<open>Actors of other instances\<close>

text \<open>An entity of which the identifier, the inbox or the address in it may be missing.\<close>

record external_entity =
  ee_username :: "string option"
  ee_key :: "as_key list option"
  ee_id :: "url option option"
  ee_inbox :: "url option option"

definition err_no_username :: go_error where
  "err_no_username = Err ''remote activitypub entity does not have a preferred username set, rejecting''"
definition err_no_key :: go_error where
  "err_no_key = Err ''remote activitypub entity does not have a public key set, rejecting''"

text \<open>The name of the property that holds a key belongs to the vocabulary.\<close>

definition make_actor_from_external :: "string \<Rightarrow> external_entity \<Rightarrow> actor result outcome" where
  "make_actor_from_external key_property e =
     (case ee_username e of
        None \<Rightarrow> Ret (Inl err_no_username)
      | Some name \<Rightarrow>
          if name = [] then Ret (Inl err_no_username)
          else if ee_key e = None then Ret (Inl err_no_key)
          else
            outcome_bind (deref (ee_id e)) (\<lambda>i. outcome_bind (deref i) (\<lambda>iri.
            outcome_bind (deref (ee_inbox e)) (\<lambda>b. outcome_bind (deref b) (\<lambda>inbox.
              Ret (Inr (no_actor\<lparr> at_type := ''Person'', at_public_key := key_property, at_iri := url_string iri,
                at_inbox := url_string inbox, at_name := name \<rparr>)))))))"

definition get_full_username :: "(url \<Rightarrow> string) \<Rightarrow> external_entity \<Rightarrow> string outcome" where
  "get_full_username hostname e =
     outcome_bind (deref (ee_id e)) (\<lambda>i. outcome_bind (deref i) (\<lambda>iri.
     outcome_bind (deref (ee_username e)) (\<lambda>name. Ret (name @ ''@'' @ hostname iri))))"

text \<open>What is found at an address: an account of one of the three kinds the callbacks are
  for, or something none of them matches, which is no error.\<close>

record ('key, 'db) actor_env =
  ac_inbox :: "('key, 'db) inbox_env"
  ac_resolve :: "string \<Rightarrow> external_entity option result"
  ac_key_property :: string

definition fetch_resource :: "('key, 'db) inbox_env \<Rightarrow> string \<Rightarrow> 'db \<Rightarrow> string result outcome" where
  "fetch_resource E iri db =
     (let V = ib_fed E; C = fe_config V in
      outcome_bind (deref (build_account_iri (fe_net V) (fc_url C) (fc_username C))) (\<lambda>local.
        if cr_request_error (fe_crypto V) iri \<noteq> None then Panic
        else outcome_bind (sign_request (fe_store V) (fe_net V) (fe_crypto V) local
               \<lparr> sq_method = ''GET'', sq_url = iri, sq_agent = [], sq_content_type = [], sq_body = None, sq_key_id = [],
                 sq_headers = [] \<rparr> db) (\<lambda>r. Ret (case r of Inl e \<Rightarrow> Inl e
                 | Inr req \<Rightarrow> (case cr_fetch (fe_crypto V) req of Inl e \<Rightarrow> Inl e | Inr b \<Rightarrow> b)))))"

text \<open>Without an actor the error says only that there is none, whatever went wrong.\<close>

definition get_resolved_actor_from_iri :: "('key, 'db) actor_env \<Rightarrow> string \<Rightarrow> 'db \<Rightarrow> actor result outcome" where
  "get_resolved_actor_from_iri A iri db =
     (let failed = Inl (Err ''error resolving actor from property value'') in
      outcome_bind (fetch_resource (ac_inbox A) iri db) (\<lambda>r. case r of
        Inl _ \<Rightarrow> Ret failed
      | Inr b \<Rightarrow>
          (case ac_resolve A b of
             Inl _ \<Rightarrow> Ret failed
           | Inr None \<Rightarrow> Ret failed
           | Inr (Some e) \<Rightarrow>
               outcome_bind (make_actor_from_external (ac_key_property A) e) (\<lambda>r. Ret (case r of Inl _ \<Rightarrow> failed | Inr x \<Rightarrow> Inr x)))))"

datatype actor_item = Actor_Iri url | Actor_Entity external_entity | Actor_Other string

text \<open>Only the first actor of the property counts.\<close>

definition get_resolved_actor_from_property ::
  "('key, 'db) actor_env \<Rightarrow> actor_item option list \<Rightarrow> 'db \<Rightarrow> actor result outcome" where
  "get_resolved_actor_from_property A actors db =
     (case actors of
        Some item # _ \<Rightarrow>
          (case item of
             Actor_Iri u \<Rightarrow> get_resolved_actor_from_iri A (url_string u) db
           | Actor_Entity e \<Rightarrow> make_actor_from_external (ac_key_property A) e
           | Actor_Other n \<Rightarrow> Ret (Inl (Err (''unrecognized external ActivityPub type: '' @ n))))
      | _ \<Rightarrow> Ret (Inl (Err ''unknown error resolving actor from property value'')))"

section \<open>What the ActivityPub library asks\<close>

text \<open>The identifiers that are locked.\<close>

record ap_database = apd_locked :: "string list"

definition db_lock :: "url option \<Rightarrow> ap_database \<Rightarrow> (unit result \<times> ap_database) outcome" where
  "db_lock i d =
     (case i of
        None \<Rightarrow> Ret (Inl (Err ''lock id was nil''), d)
      | Some u \<Rightarrow>
          if url_string u \<in> set (apd_locked d) then Block
          else Ret (Inr (), d\<lparr> apd_locked := url_string u # apd_locked d \<rparr>))"

definition db_unlock :: "url \<Rightarrow> ap_database \<Rightarrow> ap_database" where
  "db_unlock u d = d\<lparr> apd_locked := removeAll (url_string u) (apd_locked d) \<rparr>"

definition db_inbox_contains :: "url \<Rightarrow> url \<Rightarrow> bool result" where "db_inbox_contains inbox i = Inr False"
definition db_get_inbox :: "url \<Rightarrow> activity list option result" where "db_get_inbox inbox = Inr None"
definition db_set_inbox :: "activity list \<Rightarrow> go_error option" where "db_set_inbox inbox = None"
definition db_owns :: "url \<Rightarrow> bool result" where "db_owns i = Inr False"
definition db_actor_for_outbox :: "url \<Rightarrow> url option result" where "db_actor_for_outbox i = Inr None"
definition db_actor_for_inbox :: "url \<Rightarrow> url option result" where "db_actor_for_inbox i = Inr None"
definition db_inboxes_for_iri :: "url \<Rightarrow> url list result" where "db_inboxes_for_iri i = Inr []"
definition db_exists :: "url \<Rightarrow> bool result" where "db_exists i = Inr False"
definition db_get :: "url \<Rightarrow> activity option result" where "db_get i = Inr None"
definition db_create :: "activity \<Rightarrow> go_error option" where "db_create a = None"
definition db_update :: "activity \<Rightarrow> go_error option" where "db_update a = None"
definition db_delete :: "url \<Rightarrow> go_error option" where "db_delete i = None"
definition db_get_outbox :: "url \<Rightarrow> activity list result" where "db_get_outbox i = Inr []"
definition db_set_outbox :: "activity list \<Rightarrow> go_error option" where "db_set_outbox out = None"
definition db_new_id :: "activity \<Rightarrow> url option result" where "db_new_id a = Inr None"
definition db_following :: "url \<Rightarrow> url list option result" where "db_following i = Inr None"
definition db_liked :: "url \<Rightarrow> url list option result" where "db_liked i = Inr None"

definition post_inbox_request_body_hook :: "activity \<Rightarrow> go_error option" where "post_inbox_request_body_hook a = None"
definition authenticate_post_inbox :: "request \<Rightarrow> bool result" where "authenticate_post_inbox r = Inr True"
definition protocol_blocked :: "url list \<Rightarrow> bool result" where "protocol_blocked iris = Inr False"
definition default_callback :: "activity \<Rightarrow> go_error option" where "default_callback a = None"
definition max_inbox_forwarding_recursion_depth :: int where "max_inbox_forwarding_recursion_depth = 0"
definition max_delivery_recursion_depth :: int where "max_delivery_recursion_depth = 0"
definition filter_forwarding :: "url list \<Rightarrow> activity \<Rightarrow> url list result" where "filter_forwarding recipients a = Inr []"
definition protocol_get_inbox :: "request \<Rightarrow> activity list option result" where "protocol_get_inbox r = Inr None"

section \<open>The queue of outgoing requests\<close>

text \<open>The queue is made with the workers; before, it is nil, and whoever adds to it waits
  for ever.\<close>

record outbound_pool =
  op_started :: bool
  op_taken :: "signed_request list"

definition init_outbound_worker_pool :: "outbound_pool \<Rightarrow> outbound_pool" where
  "init_outbound_worker_pool p = p\<lparr> op_started := True \<rparr>"

definition add_to_outbound_queue :: "signed_request \<Rightarrow> outbound_pool \<Rightarrow> outbound_pool outcome" where
  "add_to_outbound_queue r p = (if op_started p then Ret (p\<lparr> op_taken := op_taken p @ [r] \<rparr>) else Block)"

definition send_activity_pub_message_to_inbox :: "(signed_request \<Rightarrow> go_error option) \<Rightarrow> signed_request \<Rightarrow> go_error option" where
  "send_activity_pub_message_to_inbox do_it r = (case do_it r of Some e \<Rightarrow> Some e | None \<Rightarrow> None)"

text \<open>What the worker logs for each request; a request that fails is not sent again.\<close>

fun outbound_worker :: "(signed_request \<Rightarrow> go_error option) \<Rightarrow> signed_request list \<Rightarrow> (signed_request \<times> go_error option) list" where
  "outbound_worker do_it [] = []"
| "outbound_worker do_it (r # rs) = (r, send_activity_pub_message_to_inbox do_it r) # outbound_worker do_it rs"

section \<open>Lemmas\<close>

lemma resolve_iri_fetches:
  "resolve_iri E iri db = outcome_bind (fetch_resource E iri db) (\<lambda>r. Ret (case r of Inl e \<Rightarrow> Inl e | Inr b \<Rightarrow> ib_resolve E b))"
proof -
  have k: "outcome_bind (outcome_bind m f) g = outcome_bind m (\<lambda>x. outcome_bind (f x) g)"
    for m :: "'x outcome" and f :: "'x \<Rightarrow> 'y outcome" and g :: "'y \<Rightarrow> 'z outcome"
    by (cases m) auto
  show ?thesis unfolding resolve_iri_def fetch_resource_def Let_def k
    by (cases "deref (build_account_iri (fe_net (ib_fed E)) (fc_url (fe_config (ib_fed E))) (fc_username (fe_config (ib_fed E))))")
      (auto simp: k intro!: arg_cong2[where f = outcome_bind] split: sum.splits)
qed

lemma external_actor:
  "make_actor_from_external p e = Ret (Inr a) \<Longrightarrow>
    at_public_key a = p \<and> at_private_key a = [] \<and> at_type a = ''Person'' \<and> ee_key e \<noteq> None \<and> Some (at_name a) = ee_username e"
  by (auto simp: make_actor_from_external_def outcome_simps no_actor_def split: option.splits if_splits)

lemma resolved_from_iri:
  assumes "get_resolved_actor_from_iri A iri db = Ret (Inr a)"
  shows "\<exists>e. make_actor_from_external (ac_key_property A) e = Ret (Inr a)"
proof (cases "fetch_resource (ac_inbox A) iri db")
  case (Ret r)
  show ?thesis
  proof (cases r)
    case (Inr b)
    show ?thesis
    proof (cases "ac_resolve A b")
      case (Inr x)
      then obtain e where "x = Some e"
        using assms Ret \<open>r = Inr b\<close> by (cases x) (auto simp: get_resolved_actor_from_iri_def)
      then show ?thesis using assms Ret \<open>r = Inr b\<close> Inr
        by (cases "make_actor_from_external (ac_key_property A) e")
          (auto simp: get_resolved_actor_from_iri_def split: sum.splits)
    qed (use assms Ret Inr in \<open>simp add: get_resolved_actor_from_iri_def\<close>)
  qed (use assms Ret in \<open>simp add: get_resolved_actor_from_iri_def\<close>)
qed (use assms in \<open>simp_all add: get_resolved_actor_from_iri_def\<close>)

text \<open>An actor that is looked up at another instance, by its address or from an
  activity, is never stored with its key: whatever key the instance publishes, the
  actor has the name of the property in its place, and is a person.\<close>

theorem resolved_actor_has_no_key:
  assumes "get_resolved_actor_from_property A actors db = Ret (Inr a)"
  shows "at_public_key a = ac_key_property A \<and> at_type a = ''Person'' \<and> at_private_key a = []"
proof (cases actors)
  case (Cons x xs)
  then obtain item where x: "x = Some item" using assms by (cases x) (auto simp: get_resolved_actor_from_property_def)
  show ?thesis
  proof (cases item)
    case (Actor_Iri u)
    then have g: "get_resolved_actor_from_iri A (url_string u) db = Ret (Inr a)"
      using assms Cons x by (simp add: get_resolved_actor_from_property_def)
    obtain e where e: "make_actor_from_external (ac_key_property A) e = Ret (Inr a)"
      using resolved_from_iri[OF g] by (elim exE)
    show ?thesis using external_actor[OF e] by simp
  next
    case (Actor_Entity e)
    then have e: "make_actor_from_external (ac_key_property A) e = Ret (Inr a)"
      using assms Cons x by (simp add: get_resolved_actor_from_property_def)
    show ?thesis using external_actor[OF e] by simp
  qed (use assms Cons x in \<open>simp add: get_resolved_actor_from_property_def\<close>)
qed (use assms in \<open>simp add: get_resolved_actor_from_property_def\<close>)

lemma direct_stays_public:
  "ad_to (make_note_direct (make_note_public N n) u) = [nt_parse_url N public_audience]"
  by (simp add: make_note_direct_def make_direct_def make_note_public_def make_public_def Let_def)

lemma direct_note_twice:
  "ad_cc (make_note_direct n u) = [u, u]" "length (ad_tags (make_activity_direct a u)) = 2"
  by (simp_all add: make_note_direct_def make_activity_direct_def make_direct_def)

lemma lock_excludes:
  assumes "db_lock (Some u) d = Ret (Inr (), d')"
  shows "db_lock (Some u) d' = Block" and "db_lock (Some u) (db_unlock u d') \<noteq> Block"
  using assms by (auto simp: db_lock_def db_unlock_def split: if_splits)

end
