(* ===== verification/Lobby_Api.thy ===== *)
theory Lobby_Api
  imports Commands
begin

text \<open>
  What the HTTP side asks of the lobby manager (the interface of
  \<^verbatim>\<open>internal/stream/live_lobby_manager.go\<close>) and the service that calls it
  (\<^verbatim>\<open>internal/stream/live_lobby_service.go\<close>).  The interface is a record of
  functions over the manager's state; the contract the service relies on is a
  locale, interpreted by the manager of the lobbies.
\<close>

section \<open>The interface\<close>

text \<open>The deprecated calls return a structure of which the service reads the
  description and the flag \<^verbatim>\<open>Active\<close>.\<close>

record endpoint_data =
  ed_sdp :: "session_description option"
  ed_active :: bool

record 'w lobby_api =
  la_new_ingress :: "uuid \<Rightarrow> uuid \<Rightarrow> session_description \<Rightarrow> 'w \<Rightarrow> ((web_rtc option \<times> go_error option) \<times> 'w) outcome"
  la_new_egress :: "uuid \<Rightarrow> uuid \<Rightarrow> session_description \<Rightarrow> 'w \<Rightarrow> ((web_rtc option \<times> go_error option) \<times> 'w) outcome"
  la_leave :: "uuid \<Rightarrow> uuid \<Rightarrow> bool result"
  la_start :: "uuid \<Rightarrow> string \<Rightarrow> string \<Rightarrow> uuid \<Rightarrow> unit result"
  la_stop :: "uuid \<Rightarrow> uuid \<Rightarrow> unit result"
  la_init_egress :: "uuid \<Rightarrow> uuid \<Rightarrow> endpoint_data result"
  la_final_egress :: "uuid \<Rightarrow> uuid \<Rightarrow> session_description \<Rightarrow> endpoint_data result"
  la_main_egress :: "uuid \<Rightarrow> uuid \<Rightarrow> session_description \<Rightarrow> endpoint_data result"
  la_host_pipe :: "uuid \<Rightarrow> session_description \<Rightarrow> uuid \<Rightarrow> endpoint_data result"
  la_host_ingress :: "uuid \<Rightarrow> session_description \<Rightarrow> uuid \<Rightarrow> endpoint_data result"
  la_close_host :: "uuid \<Rightarrow> uuid \<Rightarrow> bool result"

section \<open>The service\<close>

definition err_lobby_not_active :: go_error where "err_lobby_not_active = Err ''lobby not active''"

text \<open>A resource the manager returns without an error is read through its pointer.\<close>

definition access_lobby ::
  "((web_rtc option \<times> go_error option) \<times> 'w) outcome
     \<Rightarrow> ((session_description \<times> string) result \<times> 'w) outcome" where
  "access_lobby answer =
     outcome_bind answer (\<lambda>((r, err), w'). case err of
       Some e \<Rightarrow> Ret (Inl (Wrap ''accessing lobby: '' e), w')
     | None \<Rightarrow> outcome_bind (deref r) (\<lambda>x. Ret (Inr (wr_sdp x, wr_id x), w')))"

definition create_lobby_ingress_endpoint ::
  "'w lobby_api \<Rightarrow> session_description \<Rightarrow> uuid \<Rightarrow> uuid \<Rightarrow> 'w \<Rightarrow> ((session_description \<times> string) result \<times> 'w) outcome" where
  "create_lobby_ingress_endpoint M sdp lobby user w = access_lobby (la_new_ingress M lobby user sdp w)"

definition create_lobby_egress_endpoint ::
  "'w lobby_api \<Rightarrow> session_description \<Rightarrow> uuid \<Rightarrow> uuid \<Rightarrow> 'w \<Rightarrow> ((session_description \<times> string) result \<times> 'w) outcome" where
  "create_lobby_egress_endpoint M sdp lobby user w = access_lobby (la_new_egress M lobby user sdp w)"

definition service_leave_lobby :: "'w lobby_api \<Rightarrow> uuid \<Rightarrow> uuid \<Rightarrow> bool result" where
  "service_leave_lobby M lobby user = wrap_err ''leave lobby: '' (la_leave M lobby user)"

definition service_start_live_stream :: "'w lobby_api \<Rightarrow> uuid \<Rightarrow> string \<Rightarrow> string \<Rightarrow> uuid \<Rightarrow> unit result" where
  "service_start_live_stream M lobby key rtmp_url user = wrap_err ''start live stream: '' (la_start M lobby key rtmp_url user)"

definition service_stop_live_stream :: "'w lobby_api \<Rightarrow> uuid \<Rightarrow> uuid \<Rightarrow> unit result" where
  "service_stop_live_stream M lobby user = wrap_err ''stop live stream: '' (la_stop M lobby user)"

text \<open>The deprecated calls.\<close>

definition init_lobby_egress_endpoint ::
  "'w lobby_api \<Rightarrow> uuid \<Rightarrow> uuid \<Rightarrow> session_description option result" where
  "init_lobby_egress_endpoint M lobby user =
     (case la_init_egress M lobby user of
        Inl e \<Rightarrow> Inl (Wrap ''start listening lobby: '' e)
      | Inr d \<Rightarrow> if \<not> ed_active d then Inl err_lobby_not_active else Inr (ed_sdp d))"

definition final_create_lobby_egress_endpoint ::
  "'w lobby_api \<Rightarrow> session_description \<Rightarrow> uuid \<Rightarrow> uuid \<Rightarrow> bool result" where
  "final_create_lobby_egress_endpoint M offer lobby user =
     (case la_final_egress M lobby user offer of
        Inl e \<Rightarrow> Inl (Wrap ''listening lobby: '' e)
      | Inr d \<Rightarrow> if \<not> ed_active d then Inl err_lobby_not_active else Inr (ed_active d))"

definition create_main_stream_lobby_egress_endpoint ::
  "'w lobby_api \<Rightarrow> session_description \<Rightarrow> uuid \<Rightarrow> uuid \<Rightarrow> session_description option result" where
  "create_main_stream_lobby_egress_endpoint M offer lobby user =
     (case la_main_egress M lobby user offer of
        Inl e \<Rightarrow> Inl (Wrap ''accessing lobby: '' e) | Inr d \<Rightarrow> Inr (ed_sdp d))"

definition create_lobby_host_pipe_connection ::
  "'w lobby_api \<Rightarrow> session_description \<Rightarrow> uuid \<Rightarrow> uuid \<Rightarrow> (session_description option \<times> string) result" where
  "create_lobby_host_pipe_connection M offer lobby inst =
     (case la_host_pipe M lobby offer inst of
        Inl e \<Rightarrow> Inl (Wrap ''creating lobby host pipe connection: '' e) | Inr d \<Rightarrow> Inr (ed_sdp d, []))"

definition create_lobby_host_ingress_connection ::
  "'w lobby_api \<Rightarrow> session_description \<Rightarrow> uuid \<Rightarrow> uuid \<Rightarrow> (session_description option \<times> string) result" where
  "create_lobby_host_ingress_connection M offer lobby inst =
     (case la_host_ingress M lobby offer inst of
        Inl e \<Rightarrow> Inl (Wrap ''creating lobby host ingress connection: '' e) | Inr d \<Rightarrow> Inr (ed_sdp d, []))"

definition close_lobby_host_connection :: "'w lobby_api \<Rightarrow> uuid \<Rightarrow> uuid \<Rightarrow> bool result" where
  "close_lobby_host_connection M lobby inst = wrap_err ''closing host pipe: '' (la_close_host M lobby inst)"

section \<open>The contract\<close>

text \<open>What the service relies on: a resource comes with every call that reports no
  error.\<close>

locale lobby_provider =
  fixes M :: "'w lobby_api"
  assumes ingress_given: "la_new_ingress M i u d w = Ret ((r, None), w') \<Longrightarrow> r \<noteq> None"
    and egress_given: "la_new_egress M i u d w = Ret ((r, None), w') \<Longrightarrow> r \<noteq> None"
begin

lemma ingress_panics_only_with_manager:
  "create_lobby_ingress_endpoint M d i u w = Panic \<Longrightarrow> la_new_ingress M i u d w = Panic"
  by (fastforce simp: create_lobby_ingress_endpoint_def access_lobby_def outcome_simps
      dest: ingress_given split: option.splits)

lemma egress_panics_only_with_manager:
  "create_lobby_egress_endpoint M d i u w = Panic \<Longrightarrow> la_new_egress M i u d w = Panic"
  by (fastforce simp: create_lobby_egress_endpoint_def access_lobby_def outcome_simps
      dest: egress_given split: option.splits)

lemma ingress_answer:
  "la_new_ingress M i u d w = Ret ((r, e), w') \<Longrightarrow>
   \<exists>a. create_lobby_ingress_endpoint M d i u w = Ret (a, w') \<and> (is_ok a \<longleftrightarrow> e = None)"
  using ingress_given[of i u d w r w']
  by (cases e; cases r) (auto simp: create_lobby_ingress_endpoint_def access_lobby_def)

lemma egress_answer:
  "la_new_egress M i u d w = Ret ((r, e), w') \<Longrightarrow>
   \<exists>a. create_lobby_egress_endpoint M d i u w = Ret (a, w') \<and> (is_ok a \<longleftrightarrow> e = None)"
  using egress_given[of i u d w r w']
  by (cases e; cases r) (auto simp: create_lobby_egress_endpoint_def access_lobby_def)

end

end
