(* ===== verification/Lobby_Repository.thy ===== *)
theory Lobby_Repository
  imports Lobby Lobby_Api
begin

text \<open>
  The running lobbies of an instance and the manager in front of them
  (\<^verbatim>\<open>internal/lobby/lobby_repository.go\<close>, \<^verbatim>\<open>lobby_manager.go\<close>).  The
  database is a parameter.  A lobby removes a session in its sequencer and asks
  the manager's goroutine to delete it when no user is left; it waits for the
  answer, so removal, deletion and stopping are one operation here.
\<close>

section \<open>State\<close>

text \<open>The database: looking a lobby up by its identifier and saving one.\<close>

record 'db store =
  st_find :: "string \<Rightarrow> 'db \<Rightarrow> lobby_entity result"
  st_save :: "lobby_entity \<Rightarrow> 'db \<Rightarrow> go_error option \<times> 'db"

record ('pc, 'db) env =
  en_lib :: "'pc lib"
  en_net :: net
  en_rtp :: "'pc engine"
  en_instance_id :: "string \<Rightarrow> uuid"
  en_home :: url
  en_token :: string
  en_store :: "'db store"

record ('pc, 'db) world =
  wd_lobbies :: "(uuid, 'pc lobby) gomap"
  wd_db :: 'db
  wd_graph :: graph

definition err_lobby_not_found :: go_error where "err_lobby_not_found = Err ''lobby not found''"

section \<open>The repository\<close>

definition new_lobby_repository :: "'db \<Rightarrow> graph \<Rightarrow> ('pc, 'db) world" where
  "new_lobby_repository db g = \<lparr> wd_lobbies = [], wd_db = db, wd_graph = g \<rparr>"

definition query_lobby_entity :: "('pc, 'db) env \<Rightarrow> string \<Rightarrow> 'db \<Rightarrow> lobby_entity result" where
  "query_lobby_entity V i db =
     (case st_find (en_store V) i db of
        Inl e \<Rightarrow>
          (let err = Wrap (''finding lobby for stream '' @ i @ '': '') e
           in if errors_is e err_record_not_found then Inl (Join err err_lobby_not_found) else Inl err)
      | Inr x \<Rightarrow> Inr x)"

definition update_lobby_entity :: "('pc, 'db) env \<Rightarrow> lobby_entity \<Rightarrow> 'db \<Rightarrow> lobby_entity result \<times> 'db" where
  "update_lobby_entity V x db =
     (case st_save (en_store V) x db of
        (Some e, db') \<Rightarrow> (Inl (Wrap (''updating lobby '' @ lb_uuid_str (en_lib V) (le_uuid x) @ '': '') e), db')
      | (None, db') \<Rightarrow> (Inr x, db'))"

text \<open>A lobby is filed under the identifier that was asked for.\<close>

definition get_or_create_lobby ::
  "('pc, 'db) env \<Rightarrow> uuid \<Rightarrow> ('pc, 'db) world \<Rightarrow> ('pc lobby result \<times> ('pc, 'db) world) outcome" where
  "get_or_create_lobby V i w =
     (case map_of (wd_lobbies w) i of
        Some l \<Rightarrow> Ret (Inr l, w)
      | None \<Rightarrow>
          (case query_lobby_entity V (lb_uuid_str (en_lib V) i) (wd_db w) of
             Inl e \<Rightarrow> Ret (Inl (Wrap ''fetching lobby entity: '' e), w)
           | Inr x \<Rightarrow>
               (case update_lobby_entity V (x\<lparr> le_running := True \<rparr>) (wd_db w) of
                  (Inl e, db) \<Rightarrow> Ret (Inl (Wrap ''updating lobby entity as running: '' e), w\<lparr> wd_db := db \<rparr>)
                | (Inr x', db) \<Rightarrow>
                    outcome_bind (new_lobby (en_lib V) (en_net V) (en_instance_id V) x' (en_home V) (en_token V) (wd_graph w))
                      (\<lambda>(l, g). Ret (Inr l, w\<lparr> wd_lobbies := AList.update i l (wd_lobbies w), wd_db := db, wd_graph := g \<rparr>)))))"

definition get_lobby :: "uuid \<Rightarrow> ('pc, 'db) world \<Rightarrow> 'pc lobby option" where
  "get_lobby i w = map_of (wd_lobbies w) i"

definition put_lobby :: "uuid \<Rightarrow> 'pc lobby \<Rightarrow> ('pc, 'db) world \<Rightarrow> ('pc, 'db) world" where
  "put_lobby i l w = w\<lparr> wd_lobbies := AList.update i l (wd_lobbies w) \<rparr>"

definition set_lobby_live :: "('pc, 'db) env \<Rightarrow> uuid \<Rightarrow> bool \<Rightarrow> ('pc, 'db) world \<Rightarrow> bool \<times> ('pc, 'db) world" where
  "set_lobby_live V i live w =
     (case map_of (wd_lobbies w) i of
        Some l \<Rightarrow>
          (let l' = l\<lparr> ly_entity := (ly_entity l)\<lparr> le_live := live \<rparr> \<rparr>;
               (r, db) = update_lobby_entity V (ly_entity l') (wd_db w)
           in (\<not> is_ok r, (put_lobby i l' w)\<lparr> wd_db := db \<rparr>))
      | None \<Rightarrow> (False, w))"

definition delete_lobby :: "('pc, 'db) env \<Rightarrow> uuid \<Rightarrow> ('pc, 'db) world \<Rightarrow> bool \<times> ('pc, 'db) world" where
  "delete_lobby V i w =
     (case map_of (wd_lobbies w) i of
        Some l \<Rightarrow>
          if sr_len (ly_sessions l) > 0 then (False, w)
          else
            (let l' = l\<lparr> ly_entity := (ly_entity l)\<lparr> le_running := False \<rparr> \<rparr>;
                 (r, db) = update_lobby_entity V (ly_entity l') (wd_db w)
             in case r of
                  Inl _ \<Rightarrow> (False, (put_lobby i l' w)\<lparr> wd_db := db \<rparr>)
                | Inr _ \<Rightarrow> (True, w\<lparr> wd_lobbies := AList.delete i (wd_lobbies w), wd_db := db \<rparr>))
      | None \<Rightarrow> (False, w))"

definition repo_lobbies_len :: "('pc, 'db) world \<Rightarrow> nat" where
  "repo_lobbies_len w = length (wd_lobbies w)"

definition lobby_is_host :: "('pc, 'db) env \<Rightarrow> string \<Rightarrow> bool" where
  "lobby_is_host V stream_host = (url_string (en_home V) = stream_host)"

text \<open>The sequencer of the lobby filed under an identifier removes a user's session.
  When no user's session is left the lobby is deleted under its own identifier,
  and then stopped whatever came of it.\<close>

definition stop_filed :: "uuid \<Rightarrow> ('pc, 'db) world \<Rightarrow> ('pc, 'db) world" where
  "stop_filed i w = (case map_of (wd_lobbies w) i of Some l \<Rightarrow> put_lobby i (stop_lobby l) w | None \<Rightarrow> w)"

definition leave :: "('pc, 'db) env \<Rightarrow> uuid \<Rightarrow> item \<Rightarrow> ('pc, 'db) world \<Rightarrow> bool \<times> ('pc, 'db) world" where
  "leave V i it w =
     (case map_of (wd_lobbies w) i of
        None \<Rightarrow> (False, w)
      | Some l \<Rightarrow>
          if ly_done l then (False, w)
          else
            (let (ok, last, l') = seq_garbage it l; w1 = put_lobby i l' w
             in (ok, if last then stop_filed i (snd (delete_lobby V (ly_id l) w1)) else w1)))"

section \<open>The manager\<close>

text \<open>The goroutine of the manager deletes the lobbies it is told and answers each; \<open>leave\<close>
  is a lobby whose deletion it serves.\<close>

fun collect_lobbies :: "('pc, 'db) env \<Rightarrow> uuid list \<Rightarrow> ('pc, 'db) world \<Rightarrow> bool list \<times> ('pc, 'db) world" where
  "collect_lobbies V [] w = ([], w)"
| "collect_lobbies V (i # is) w =
     (let (ok, w1) = delete_lobby V i w; (oks, w2) = collect_lobbies V is w1 in (ok # oks, w2))"

definition new_lobby_manager :: "'db \<Rightarrow> graph \<Rightarrow> ('pc, 'db) world" where
  "new_lobby_manager db g = new_lobby_repository db g"

datatype manager_event = Mgr_Done | Mgr_Ctx

text \<open>What the manager returns: the response and the error, of which one is nil.\<close>

type_synonym ('pc, 'db) reply_of = "((web_rtc option \<times> go_error option) \<times> ('pc, 'db) world) outcome"

definition finish_resource :: "manager_event \<Rightarrow> command \<Rightarrow> web_rtc option \<times> go_error option" where
  "finish_resource mev c = (case mev of Mgr_Done \<Rightarrow> (co_response c, co_err c) | Mgr_Ctx \<Rightarrow> (None, Some (Err ''time out'')))"

definition run_resource ::
  "('pc, 'db) env \<Rightarrow> seq_event \<Rightarrow> signal_event \<Rightarrow> wait_event \<Rightarrow> manager_event \<Rightarrow> uuid \<Rightarrow> command \<Rightarrow> 'pc lobby
     \<Rightarrow> ('pc, 'db) world \<Rightarrow> ('pc, 'db) reply_of" where
  "run_resource V qev sev ev mev i c l w =
     outcome_bind (run_command (en_lib V) (en_rtp V) qev sev ev c l (wd_graph w)) (\<lambda>(c', l', g).
       Ret (finish_resource mev c', (put_lobby i l' w)\<lparr> wd_graph := g \<rparr>))"

definition err_new_session_fails :: go_error where "err_new_session_fails = Err ''creating new session failes''"

definition new_ingress_resource ::
  "('pc, 'db) env \<Rightarrow> seq_event \<Rightarrow> signal_event \<Rightarrow> wait_event \<Rightarrow> manager_event \<Rightarrow> uuid \<Rightarrow> uuid \<Rightarrow> uuid \<Rightarrow> uuid
     \<Rightarrow> session_description \<Rightarrow> ('pc, 'db) world \<Rightarrow> ('pc, 'db) reply_of" where
  "new_ingress_resource V qev sev ev mev session_id signal_id i user offer w =
     outcome_bind (get_or_create_lobby V i w) (\<lambda>(r, w1). case r of
       Inl e \<Rightarrow> Ret ((None, Some (Wrap ''getting or creating lobby: '' e)), w1)
     | Inr l \<Rightarrow>
         (let (ok, l1) = lobby_new_session qev session_id signal_id user user_session l; w2 = put_lobby i l1 w1 in
          if \<not> ok then Ret ((None, Some err_new_session_fails), w2)
          else run_resource V qev sev ev mev i (new_create_ingress False user offer silent_signal_channel) l1 w2))"

definition new_egress_resource ::
  "('pc, 'db) env \<Rightarrow> seq_event \<Rightarrow> signal_event \<Rightarrow> wait_event \<Rightarrow> manager_event \<Rightarrow> uuid \<Rightarrow> uuid
     \<Rightarrow> session_description \<Rightarrow> ('pc, 'db) world \<Rightarrow> ('pc, 'db) reply_of" where
  "new_egress_resource V qev sev ev mev i user offer w =
     outcome_bind (get_or_create_lobby V i w) (\<lambda>(r, w1). case r of
       Inl e \<Rightarrow> Ret ((None, Some (Wrap ''getting or creating lobby: '' e)), w1)
     | Inr l \<Rightarrow> run_resource V qev sev ev mev i (new_create_egress False user offer unidirectional_signal_channel) l w1)"

text \<open>The calls that are not implemented yet.\<close>

definition leave_lobby :: "uuid \<Rightarrow> uuid \<Rightarrow> bool result" where "leave_lobby i user = Inr False"
definition start_live_stream :: "uuid \<Rightarrow> string \<Rightarrow> string \<Rightarrow> uuid \<Rightarrow> unit result" where
  "start_live_stream i key rtmp_url user = Inr ()"
definition stop_live_stream :: "uuid \<Rightarrow> uuid \<Rightarrow> unit result" where "stop_live_stream i user = Inr ()"

definition mgr_create_lobby_ingress_endpoint :: "uuid \<Rightarrow> uuid \<Rightarrow> session_description \<Rightarrow> endpoint_data result" where
  "mgr_create_lobby_ingress_endpoint i user offer = Inr \<lparr> ed_sdp = None, ed_active = False \<rparr>"
definition mgr_init_lobby_egress_endpoint :: "uuid \<Rightarrow> uuid \<Rightarrow> endpoint_data result" where
  "mgr_init_lobby_egress_endpoint i user = Inr \<lparr> ed_sdp = None, ed_active = False \<rparr>"
definition mgr_final_create_lobby_egress_endpoint :: "uuid \<Rightarrow> uuid \<Rightarrow> session_description \<Rightarrow> endpoint_data result" where
  "mgr_final_create_lobby_egress_endpoint i user offer = Inr \<lparr> ed_sdp = None, ed_active = False \<rparr>"
definition mgr_create_main_stream_lobby_egress_endpoint ::
  "uuid \<Rightarrow> uuid \<Rightarrow> session_description \<Rightarrow> endpoint_data result" where
  "mgr_create_main_stream_lobby_egress_endpoint i user offer = Inr \<lparr> ed_sdp = None, ed_active = False \<rparr>"
definition mgr_create_lobby_host_pipe :: "uuid \<Rightarrow> session_description \<Rightarrow> uuid \<Rightarrow> endpoint_data result" where
  "mgr_create_lobby_host_pipe i offer inst = Inr \<lparr> ed_sdp = None, ed_active = False \<rparr>"
definition mgr_create_lobby_host_ingress :: "uuid \<Rightarrow> session_description \<Rightarrow> uuid \<Rightarrow> endpoint_data result" where
  "mgr_create_lobby_host_ingress i offer inst = Inr \<lparr> ed_sdp = None, ed_active = False \<rparr>"
definition mgr_close_lobby_host_pipe :: "uuid \<Rightarrow> uuid \<Rightarrow> bool result" where
  "mgr_close_lobby_host_pipe i inst = Inr False"

text \<open>The manager behind its interface; the fresh identifiers and what ends each wait
  are arguments.\<close>

definition lobby_manager ::
  "('pc, 'db) env \<Rightarrow> seq_event \<Rightarrow> signal_event \<Rightarrow> wait_event \<Rightarrow> manager_event \<Rightarrow> uuid \<Rightarrow> uuid
     \<Rightarrow> ('pc, 'db) world lobby_api" where
  "lobby_manager V qev sev ev mev session_id signal_id =
     \<lparr> la_new_ingress = new_ingress_resource V qev sev ev mev session_id signal_id,
       la_new_egress = new_egress_resource V qev sev ev mev,
       la_leave = leave_lobby, la_start = start_live_stream, la_stop = stop_live_stream,
       la_init_egress = mgr_init_lobby_egress_endpoint,
       la_final_egress = mgr_final_create_lobby_egress_endpoint,
       la_main_egress = mgr_create_main_stream_lobby_egress_endpoint,
       la_host_pipe = mgr_create_lobby_host_pipe, la_host_ingress = mgr_create_lobby_host_ingress,
       la_close_host = mgr_close_lobby_host_pipe \<rparr>"

section \<open>Lemmas\<close>

lemma put_lobby_simps [simp]:
  "map_of (wd_lobbies (put_lobby i l w)) = (map_of (wd_lobbies w))(i \<mapsto> l)"
  "wd_db (put_lobby i l w) = wd_db w" "wd_graph (put_lobby i l w) = wd_graph w"
  by (simp_all add: put_lobby_def)

lemma get_or_create_present:
  "map_of (wd_lobbies w) i = Some l \<Longrightarrow> get_or_create_lobby V i w = Ret (Inr l, w)"
  by (simp add: get_or_create_lobby_def)

text \<open>The lobby that is returned is the one that is filed.\<close>

lemma get_or_create_filed:
  assumes "get_or_create_lobby V i w = Ret (Inr l, w')"
  shows "map_of (wd_lobbies w') i = Some l"
  using assms
  by (auto simp: get_or_create_lobby_def outcome_simps split: option.splits sum.splits prod.splits)

lemma stop_filed_lookup:
  "map_of (wd_lobbies (stop_filed i w)) k =
     (if k = i then map_option stop_lobby (map_of (wd_lobbies w) i) else map_of (wd_lobbies w) k)"
  by (auto simp: stop_filed_def split: option.splits)

lemma stop_filed_db [simp]: "wd_db (stop_filed i w) = wd_db w"
  by (auto simp: stop_filed_def split: option.splits)

text \<open>A deletion is refused while a session is left.\<close>

lemma delete_lobby_cases:
  assumes "delete_lobby V i w = (ok, w')"
  shows "(\<forall>k. k \<noteq> i \<longrightarrow> map_of (wd_lobbies w') k = map_of (wd_lobbies w) k) \<and>
    (ok \<longrightarrow> map_of (wd_lobbies w') i = None \<and> (\<exists>l. map_of (wd_lobbies w) i = Some l \<and> ly_sessions l = [])) \<and>
    (\<not> ok \<longrightarrow> (map_of (wd_lobbies w) i = None \<and> map_of (wd_lobbies w') i = None \<or>
       (\<exists>l l'. map_of (wd_lobbies w) i = Some l \<and> map_of (wd_lobbies w') i = Some l' \<and>
          ly_sessions l' = ly_sessions l \<and> ly_done l' = ly_done l \<and> ly_hub l' = ly_hub l)))"
  using assms
  by (auto simp: delete_lobby_def sr_len_def Let_def split_beta split: option.splits if_splits sum.splits)

text \<open>A lobby in which somebody is left survives the collection, whatever else is
  collected.\<close>

lemma collect_keeps_lobbies:
  "collect_lobbies V is w = (oks, w') \<Longrightarrow> map_of (wd_lobbies w) i = Some l \<Longrightarrow> ly_sessions l \<noteq> [] \<Longrightarrow>
    \<exists>l'. map_of (wd_lobbies w') i = Some l' \<and> ly_sessions l' = ly_sessions l"
proof (induction "is" arbitrary: w l oks)
  case (Cons k ks)
  obtain ok w1 where d: "delete_lobby V k w = (ok, w1)" by (cases "delete_lobby V k w")
  obtain os where c: "collect_lobbies V ks w1 = (os, w')" using Cons.prems(1) d by (auto simp: Let_def split: prod.splits)
  have "\<exists>l1. map_of (wd_lobbies w1) i = Some l1 \<and> ly_sessions l1 = ly_sessions l"
    using delete_lobby_cases[OF d] Cons.prems(2,3) by (cases "i = k"; cases ok) auto
  then show ?case using Cons.IH[OF c] Cons.prems(3) by auto
qed simp

text \<open>What leaving does, by what is left in the lobby.\<close>

lemma leave_result:
  assumes "leave V i it w = (ok, w')" "map_of (wd_lobbies w) i = Some l" "\<not> ly_done l" "lobby_inv l"
  shows "\<exists>l'. (ok \<longleftrightarrow> find_by_user_id (ly_sessions l) (it_user it) \<noteq> None) \<and> lobby_inv l' \<and> ly_id l' = ly_id l \<and>
    ly_entity l' = ly_entity l \<and> \<not> ly_done l' \<and>
    find_by_user_id (ly_sessions l') = (find_by_user_id (ly_sessions l))(it_user it := None) \<and>
    w' = (if len_user_session (ly_sessions l') = 0
          then stop_filed i (snd (delete_lobby V (ly_id l) (put_lobby i l' w))) else put_lobby i l' w)"
proof -
  obtain r where r: "delete_by_user (it_user it) (ly_sessions l) = (r, ok)"
    using assms(1-3) by (cases "delete_by_user (it_user it) (ly_sessions l)")
      (auto simp: leave_def seq_garbage_def Let_def)
  let ?l = "l\<lparr> ly_sessions := r \<rparr>"
  have g: "seq_garbage it l = (ok, len_user_session r = 0, ?l)" by (simp add: seq_garbage_def r)
  have "lobby_inv ?l" by (rule garbage_keeps[OF assms(4) g])
  then show ?thesis
    using delete_by_user_spec[OF inv_table(1)[OF assms(4)] r] assms(1-3)
    by (intro exI[of _ ?l]) (auto simp: leave_def g Let_def)
qed

section \<open>Properties\<close>

text \<open>No session is one of a user when the counter says so.\<close>

lemma no_user_sessions:
  assumes "sr_inv r"
  shows "len_user_session r = 0 \<longleftrightarrow> (\<forall>u s. find_by_user_id r u = Some s \<longrightarrow> ss_type s \<noteq> user_session)"
proof -
  have "len_user_session r = 0 \<longleftrightarrow> (\<forall>(k, s)\<in>set r. ss_type s \<noteq> user_session)"
    by (auto simp: len_user_session_eq filter_empty_conv)
  also have "\<dots> \<longleftrightarrow> (\<forall>k s. map_of r k = Some s \<longrightarrow> ss_type s \<noteq> user_session)"
    using sr_mem[OF assms] by (fastforce split: prod.splits)
  also have "\<dots> \<longleftrightarrow> (\<forall>u s. find_by_user_id r u = Some s \<longrightarrow> ss_type s \<noteq> user_session)"
  proof -
    have "find_by_user_id r (ss_user s) = Some s" if "map_of r k = Some s" for k s
      using that sr_inv_id[OF assms that] find_user_iff[OF assms] by blast
    moreover have "\<exists>k. map_of r k = Some s" if "find_by_user_id r u = Some s" for u s
      using that find_user_iff[OF assms] by blast
    ultimately show ?thesis by blast
  qed
  finally show ?thesis .
qed

lemma no_sessions_empty:
  assumes "sr_inv r" "\<forall>u. find_by_user_id r u = None"
  shows "r = []"
proof (cases r)
  case (Cons e r')
  obtain k s where "e = (k, s)" by (cases e)
  then have "map_of r k = Some s" by (simp add: Cons)
  then have "find_by_user_id r (ss_user s) = Some s"
    using sr_inv_id[OF assms(1)] find_user_iff[OF assms(1)] by blast
  then show ?thesis using assms(2) by simp
qed


text \<open>A database that knows every lobby, and one that answers like a query for many
  rows that found none: with an empty entity and no error.\<close>

definition known_store :: "unit store" where
  "known_store = \<lparr> st_find = (\<lambda>i _. Inr (new_lobby_entity (of_nat (read_nat i)) 8 ''s'' ''home'')),
     st_save = (\<lambda>_ db. (None, db)) \<rparr>"

definition empty_store :: "unit store" where
  "empty_store = \<lparr> st_find = (\<lambda>_ _. Inr (new_lobby_entity 0 0 [] [])), st_save = (\<lambda>_ db. (None, db)) \<rparr>"

definition demo_env :: "unit store \<Rightarrow> (local_track list, unit) env" where
  "demo_env st = \<lparr> en_lib = list_lib, en_net = sample_net, en_rtp = shig_engine list_lib of_nat,
     en_instance_id = (\<lambda>_. 5), en_home = sample_iri, en_token = ''t'', en_store = st \<rparr>"

text \<open>A lobby with one session.\<close>

definition lobby_with :: "uuid \<Rightarrow> session_type \<Rightarrow> local_track list lobby" where
  "lobby_with i ty =
     \<lparr> ly_id = i, ly_done = False, ly_entity = new_lobby_entity i 8 ''s'' ''home'',
       ly_hub = rm_hub (sample_room\<lparr> rm_hub := (rm_hub sample_room)\<lparr> hb_live := 8 \<rparr> \<rparr>),
       ly_sessions = [(2, new_session 2 3 7 8 ty)],
       ly_connector = new_connector (\<lambda>_. 5) sample_iri sample_iri ''s'' ''8'' ''t'' \<rparr>"

lemma lobby_with_inv: "lobby_inv (lobby_with i ty)"
  using session_inv_new[of 2 3 7 8 ty]
  by (auto simp: lobby_inv_def lobby_with_def sr_inv_def new_session_def new_lobby_entity_def split: if_splits)

lemma lobby_with_simps [simp]:
  "ly_id (lobby_with i ty) = i" "\<not> ly_done (lobby_with i ty)"
  "find_by_user_id (ly_sessions (lobby_with i ty)) u = (if u = 7 then Some (new_session 2 3 7 8 ty) else None)"
  by (simp_all add: lobby_with_def find_by_user_id_def new_session_def)


lemma refusal_strands:
  assumes "leave V i it w = (ok, w')" "map_of (wd_lobbies w) i = Some l" "\<not> ly_done l" "lobby_inv l"
    and "\<forall>u s. find_by_user_id (ly_sessions l) u = Some s \<longrightarrow> u = it_user it \<or> ss_type s \<noteq> user_session"
    and "(\<exists>u. u \<noteq> it_user it \<and> find_by_user_id (ly_sessions l) u \<noteq> None) \<or>
      ly_id l \<noteq> i"
  shows "\<exists>l'. map_of (wd_lobbies w') i = Some l' \<and> ly_done l' \<and> get_or_create_lobby V i w' = Ret (Inr l', w') \<and>
    (\<forall>qev sev ev mev sid gid user offer. \<exists>w2.
       new_ingress_resource V qev sev ev mev sid gid i user offer w' = Ret ((None, Some err_new_session_fails), w2) \<and>
       map_of (wd_lobbies w2) i = Some l')"
proof -
  obtain l1 where l1: "lobby_inv l1" "ly_id l1 = ly_id l"
    "find_by_user_id (ly_sessions l1) = (find_by_user_id (ly_sessions l))(it_user it := None)"
    "w' = (if len_user_session (ly_sessions l1) = 0
          then stop_filed i (snd (delete_lobby V (ly_id l) (put_lobby i l1 w))) else put_lobby i l1 w)"
    using leave_result[OF assms(1-4)] by blast
  note sr = inv_table(1)[OF l1(1)]
  have "\<forall>u s. find_by_user_id (ly_sessions l1) u = Some s \<longrightarrow> ss_type s \<noteq> user_session"
    using assms(5) by (auto simp: l1(3))
  then have w': "w' = stop_filed i (snd (delete_lobby V (ly_id l) (put_lobby i l1 w)))"
    using no_user_sessions[OF sr] l1(4) by simp
  obtain ok2 w2 where d: "delete_lobby V (ly_id l) (put_lobby i l1 w) = (ok2, w2)"
    by (cases "delete_lobby V (ly_id l) (put_lobby i l1 w)")
  have "\<exists>l2. map_of (wd_lobbies w2) i = Some l2"
  proof (cases "ly_id l = i")
    case True
    then obtain u where "u \<noteq> it_user it" "find_by_user_id (ly_sessions l) u \<noteq> None"
      using assms(6) by blast
    then have "find_by_user_id (ly_sessions l1) u \<noteq> None" by (simp add: l1(3))
    then have "ly_sessions l1 \<noteq> []" by (auto simp: find_by_user_id_def)
    then show ?thesis using delete_lobby_cases[OF d] True by auto
  next
    case False
    then show ?thesis using delete_lobby_cases[OF d] by simp
  qed
  then obtain l2 where l2: "map_of (wd_lobbies w') i = Some (stop_lobby l2)"
    by (auto simp: w' d stop_filed_lookup)
  note g = get_or_create_present[OF l2]
  have "new_ingress_resource V qev sev ev mev sid gid i user offer w' =
      Ret ((None, Some err_new_session_fails), put_lobby i (stop_lobby l2) w')" for qev sev ev mev sid gid user offer
    by (cases qev) (simp_all add: new_ingress_resource_def g lobby_new_session_def seq_create_def stop_lobby_def)
  then show ?thesis using l2 g by (intro exI[of _ "stop_lobby l2"]) (auto simp: stop_lobby_def)
qed

text \<open>When the last user leaves and the deletion is refused, because the session
  of another instance is left or the lobby carries another identifier than it is
  filed under, the lobby is stopped all the same and stays: whoever comes next
  gets the stopped lobby and is refused a session, and is so ever after.\<close>

theorem refused_deletion_strands_lobby:
  assumes "leave V i it w = (ok, w')" "map_of (wd_lobbies w) i = Some l" "\<not> ly_done l" "lobby_inv l"
    and "\<forall>u s. find_by_user_id (ly_sessions l) u = Some s \<longrightarrow> u = it_user it \<or> ss_type s \<noteq> user_session"
    and "(\<exists>u. u \<noteq> it_user it \<and> find_by_user_id (ly_sessions l) u \<noteq> None) \<or>
      ly_id l \<noteq> i"
  shows "\<exists>l'. map_of (wd_lobbies w') i = Some l' \<and> ly_done l' \<and> get_or_create_lobby V i w' = Ret (Inr l', w') \<and>
    (\<forall>qev sev ev mev sid gid user offer. \<exists>w2.
       new_ingress_resource V qev sev ev mev sid gid i user offer w' = Ret ((None, Some err_new_session_fails), w2) \<and>
       map_of (wd_lobbies w2) i = Some l')"
  by (rule refusal_strands[OF assms])

text \<open>The session of the remote instance is left when the only user goes.\<close>

lemma refused_deletion_strands_lobby_witness:
  "\<exists>ok w' l'. leave (demo_env known_store) 4 (new_item 6)
      \<lparr> wd_lobbies = [(4, lobby_with 4 instance_session)], wd_db = (), wd_graph = \<lparr> gr_on = False, gr_calls = [] \<rparr> \<rparr> = (ok, w') \<and>
     map_of (wd_lobbies w') 4 = Some l' \<and> ly_done l'"
proof -
  let ?w = "\<lparr> wd_lobbies = [(4, lobby_with 4 instance_session)], wd_db = (), wd_graph = \<lparr> gr_on = False, gr_calls = [] \<rparr> \<rparr>"
  obtain ok w' where e: "leave (demo_env known_store) 4 (new_item 6) ?w = (ok, w')"
    by (cases "leave (demo_env known_store) 4 (new_item 6) ?w")
  have m: "map_of (wd_lobbies ?w) 4 = Some (lobby_with 4 instance_session)" by simp
  have "ss_type (new_session 2 3 7 8 instance_session) \<noteq> user_session"
    by (simp add: new_session_def instance_session_def user_session_def)
  then have "\<forall>u s. find_by_user_id (ly_sessions (lobby_with 4 instance_session)) u = Some s \<longrightarrow>
      u = it_user (new_item 6) \<or> ss_type s \<noteq> user_session"
    by (auto split: if_splits)
  moreover have "\<exists>u. u \<noteq> it_user (new_item 6) \<and> find_by_user_id (ly_sessions (lobby_with 4 instance_session)) u \<noteq> None"
    by (intro exI[of _ 7]) (simp add: new_item_def)
  ultimately show ?thesis
    using refused_deletion_strands_lobby[OF e m lobby_with_simps(2) lobby_with_inv] e by blast
qed

text \<open>A lobby nobody knows is created all the same when the query answers with an
  empty entity: it is filed under the wanted identifier but carries the nil one,
  so it can never be deleted under its own.\<close>

theorem unknown_lobby_misfiled:
  assumes "map_of (wd_lobbies w) i = None" "st_find (en_store V) (lb_uuid_str (en_lib V) i) (wd_db w) = Inr (new_lobby_entity 0 0 [] [])"
    and "get_or_create_lobby V i w = Ret (Inr l, w')" "i \<noteq> 0" "map_of (wd_lobbies w) 0 = None"
  shows "map_of (wd_lobbies w') i = Some l \<and> ly_id l = uuid_nil \<and> delete_lobby V (ly_id l) w' = (False, w')"
proof -
  obtain x db where x: "update_lobby_entity V ((new_lobby_entity 0 0 [] [])\<lparr> le_running := True \<rparr>) (wd_db w) = (Inr x, db)"
    and x': "x = (new_lobby_entity 0 0 [] [])\<lparr> le_running := True \<rparr>"
    using assms(1-3)
    by (auto simp: get_or_create_lobby_def query_lobby_entity_def update_lobby_entity_def split: sum.splits prod.splits option.splits)
  obtain g where n: "new_lobby (en_lib V) (en_net V) (en_instance_id V) x (en_home V) (en_token V) (wd_graph w) = Ret (l, g)"
    and w': "w' = w\<lparr> wd_lobbies := AList.update i l (wd_lobbies w), wd_db := db, wd_graph := g \<rparr>"
    using assms(1-3) x by (auto simp: get_or_create_lobby_def query_lobby_entity_def outcome_simps)
  have "ly_id l = 0" using n x' by (auto simp: new_lobby_def new_lobby_entity_def Let_def split: option.splits)
  then show ?thesis using assms(4,5) by (simp add: w' delete_lobby_def)
qed

lemma unknown_lobby_misfiled_witness:
  "\<exists>l w'. get_or_create_lobby (demo_env empty_store) 4
      \<lparr> wd_lobbies = [], wd_db = (), wd_graph = \<lparr> gr_on = False, gr_calls = [] \<rparr> \<rparr> = Ret (Inr l, w') \<and> ly_id l = 0"
proof -
  let ?w = "\<lparr> wd_lobbies = [], wd_db = (), wd_graph = \<lparr> gr_on = False, gr_calls = [] \<rparr> \<rparr> :: (local_track list, unit) world"
  obtain l w' where g: "get_or_create_lobby (demo_env empty_store) 4 ?w = Ret (Inr l, w')"
    by (auto simp: get_or_create_lobby_def query_lobby_entity_def update_lobby_entity_def demo_env_def empty_store_def
        new_lobby_def sample_net_def Let_def)
  from unknown_lobby_misfiled[OF _ _ g] g show ?thesis by (auto simp: demo_env_def empty_store_def)
qed

text \<open>The call that switches a lobby live reports the opposite of what happened:
  false when the change was saved and true when it was not.\<close>

theorem set_lobby_live_inverted:
  assumes "map_of (wd_lobbies w) i = Some l" "set_lobby_live V i live w = (ok, w')"
  shows "(ok \<longleftrightarrow> fst (st_save (en_store V) ((ly_entity l)\<lparr> le_live := live \<rparr>) (wd_db w)) \<noteq> None) \<and>
    (\<exists>l'. map_of (wd_lobbies w') i = Some l' \<and> le_live (ly_entity l') = live)"
  using assms
  by (auto simp: set_lobby_live_def update_lobby_entity_def Let_def split: prod.splits option.splits)

lemma set_lobby_live_inverted_witness:
  "\<not> fst (set_lobby_live (demo_env known_store) 4 True
      \<lparr> wd_lobbies = [(4, lobby_with 4 user_session)], wd_db = (), wd_graph = \<lparr> gr_on = False, gr_calls = [] \<rparr> \<rparr>)"
proof -
  let ?w = "\<lparr> wd_lobbies = [(4, lobby_with 4 user_session)], wd_db = (), wd_graph = \<lparr> gr_on = False, gr_calls = [] \<rparr> \<rparr>"
  have "map_of (wd_lobbies ?w) 4 = Some (lobby_with 4 user_session)" by simp
  from set_lobby_live_inverted[OF this surjective_pairing[of "set_lobby_live (demo_env known_store) 4 True ?w"]]
  show ?thesis by (simp add: demo_env_def known_store_def)
qed

section \<open>Properties of the manager\<close>

lemma run_command_result:
  assumes "run_command L E qev sev ev c l g = Ret (c', l', g')"
  shows "qev = Seq_Taken \<and> seq_command L E sev ev c l g = Ret (c', l', g') \<or>
    ly_done l \<and> c' = set_error err_lobby_closed c \<and> l' = l \<and> g' = g"
  using assms by (cases qev) (auto simp: run_command_def split: if_splits)

lemma execute_create_egress:
  assumes "execute L (shig_engine L new_id) sev ev (new_create_egress d u offer k) s g = Ret (c', s', g')"
    and "\<not> sg_received (ss_signal s)"
  shows "co_response c' = None \<and> co_err c' \<noteq> None"
proof -
  have f: "fresh_command (new_create_egress d u offer k)" by simp
  obtain r s1 g1 where c: "create_egress_endpoint L (shig_engine L new_id) sev ev offer k s g = Ret (r, s1, g1)"
    and fin: "finish_create L (new_create_egress d u offer k) (r, s1, g1) = Ret (c', s', g')"
    using assms(1) by (auto simp: execute_def new_create_egress_def new_command_def outcome_simps)
  have "\<not> is_ok r" using create_egress_cases[OF c] assms(2) by auto
  then obtain e where "r = Inl e" by (auto simp: is_ok_iff) (cases r; auto)
  then show ?thesis using finish_create_result[OF fin f] by simp
qed

text \<open>A command that was run has an error or a response, so the manager keeps the
  contract of its interface.\<close>

lemma seq_command_answer:
  assumes "seq_command L E sev ev c l g = Ret (c', l', g')" "fresh_command c" "co_err c' = None"
  shows "co_response c' \<noteq> None"
proof (cases "ly_done l \<or> find_by_user_id (ly_sessions l) (get_user_id c) = None")
  case True
  then show ?thesis using assms set_error_fresh[OF assms(2)] by (auto simp: seq_command_def handle_def split: if_splits)
next
  case False
  then obtain s where s: "find_by_user_id (ly_sessions l) (get_user_id c) = Some s" "\<not> ly_done l" by auto
  then obtain c1 s' where x: "execute L E sev ev c s g = Ret (c1, s', g')" and c': "c' = set_error err_no_session c1"
    using assms(1) by (auto simp: seq_command_def handle_def outcome_simps)
  from execute_result[OF x assms(2)] assms(3) c' show ?thesis by auto
qed

lemma run_resource_answer:
  assumes "run_resource V qev sev ev mev i c l w = Ret ((r, None), w')" "fresh_command c"
  shows "r \<noteq> None"
proof -
  obtain c' l' g where c: "run_command (en_lib V) (en_rtp V) qev sev ev c l (wd_graph w) = Ret (c', l', g)"
    and f: "finish_resource mev c' = (r, None)"
    using assms(1) by (auto simp: run_resource_def outcome_simps)
  have "co_err c' = None" "r = co_response c'" using f by (auto simp: finish_resource_def split: manager_event.splits)
  with run_command_result[OF c] seq_command_answer[of "en_lib V" "en_rtp V" sev ev c l "wd_graph w" c' l' g] assms(2)
    set_error_fresh[OF assms(2)]
  show ?thesis by auto
qed

lemma new_resource_answer:
  "new_ingress_resource V qev sev ev mev s3 g3 i u d w = Ret ((r, None), w') \<Longrightarrow> r \<noteq> None"
  "new_egress_resource V qev sev ev mev i u d w = Ret ((r, None), w') \<Longrightarrow> r \<noteq> None"
proof -
  assume n: "new_ingress_resource V qev sev ev mev s3 g3 i u d w = Ret ((r, None), w')"
  obtain r1 w1 where g: "get_or_create_lobby V i w = Ret (r1, w1)"
    using n by (auto simp: new_ingress_resource_def outcome_simps)
  with n obtain l where r1: "r1 = Inr l" by (cases r1) (auto simp: new_ingress_resource_def)
  obtain ok l1 where "lobby_new_session qev s3 g3 u user_session l = (ok, l1)"
    by (cases "lobby_new_session qev s3 g3 u user_session l")
  with n g r1 show "r \<noteq> None"
    by (auto simp: new_ingress_resource_def Let_def split: if_splits dest!: run_resource_answer)
next
  assume n: "new_egress_resource V qev sev ev mev i u d w = Ret ((r, None), w')"
  obtain r1 w1 where g: "get_or_create_lobby V i w = Ret (r1, w1)"
    using n by (auto simp: new_egress_resource_def outcome_simps)
  with n show "r \<noteq> None" by (cases r1) (auto simp: new_egress_resource_def dest: run_resource_answer)
qed

interpretation manager: lobby_provider "lobby_manager V qev sev ev mev s3 g3"
  for V :: "('pc, 'db) env" and qev sev ev mev s3 g3
  by unfold_locales (unfold lobby_manager_def lobby_api.simps, erule new_resource_answer, erule new_resource_answer)


lemma demo_env_simps [simp]:
  "en_lib (demo_env st) = list_lib" "en_rtp (demo_env st) = shig_engine list_lib of_nat" "en_store (demo_env st) = st"
  by (simp_all add: demo_env_def)


lemma seq_create_taken:
  assumes "find_by_user_id (ly_sessions l) user \<noteq> None"
  shows "\<not> fst (seq_create i j ((new_item user)\<lparr> it_type := ty \<rparr>) l)"
  using assms by (auto simp: seq_create_def sr_new_def find_by_user_id_def new_session_def new_item_def split: option.splits)

lemma command_keeps_user:
  assumes "seq_command L (shig_engine L new_id) sev ev c l g = Ret (c', l', g')" "lobby_inv l"
  shows "(find_by_user_id (ly_sessions l') u \<noteq> None) = (find_by_user_id (ly_sessions l) u \<noteq> None)"
proof (cases "ly_done l \<or> find_by_user_id (ly_sessions l) (get_user_id c) = None")
  case True
  then have "l' = l" using assms(1) by (auto simp: seq_command_def handle_def split: if_splits)
  then show ?thesis by simp
next
  case False
  then obtain s where s: "find_by_user_id (ly_sessions l) (get_user_id c) = Some s" by auto
  obtain c1 s' where x: "execute L (shig_engine L new_id) sev ev c s g = Ret (c1, s', g')"
    and l': "ly_sessions l' = fst (sr_update s' (ly_sessions l))"
    using assms(1) False s by (auto simp: seq_command_def handle_def outcome_simps)
  note sr = inv_table(1)[OF assms(2)]
  have m: "map_of (ly_sessions l) (ss_id s) = Some s" using s find_user_iff[OF sr] by blast
  note up = update_session_inv[OF sr m execute_names[OF x]]
  have names: "ss_user s' = ss_user s" "ss_id s' = ss_id s" using execute_names[OF x] by (simp_all add: same_names_def)
  have sr': "sr_inv (ly_sessions l')" using up(1) by (simp add: l')
  have k: "(\<exists>k y. map_of (ly_sessions l') k = Some y \<and> ss_user y = u) \<longleftrightarrow>
      (\<exists>k y. map_of (ly_sessions l) k = Some y \<and> ss_user y = u)"
    unfolding l' up(2) using m names(1) by (metis fun_upd_apply option.inject)
  show ?thesis
    using k find_user_None[OF sr', of u] find_user_None[OF sr, of u] by metis
qed

text \<open>Once a call for an ingress endpoint has made the user's session, its outcome
  does not matter: a second call is refused, also when the first one failed or
  timed out and gave the user nothing.\<close>

theorem second_ingress_call_refused:
  assumes "new_ingress_resource V Seq_Taken sev ev mev sid gid i user offer w = Ret (r, w')"
    and "map_of (wd_lobbies w) i = Some l" "lobby_inv l" "find_by_id (ly_sessions l) sid = None"
    and "en_rtp V = shig_engine (en_lib V) new_id"
    and "map_of (wd_lobbies w') i = Some l'" "find_by_id (ly_sessions l') sid' = None"
  shows "\<exists>w2. new_ingress_resource V Seq_Taken sev' ev' mev' sid' gid' i user offer' w' =
    Ret ((None, Some err_new_session_fails), w2)"
proof -
  obtain ok l1 where n: "seq_create sid gid ((new_item user)\<lparr> it_type := user_session \<rparr>) l = (ok, l1)"
    by (cases "seq_create sid gid ((new_item user)\<lparr> it_type := user_session \<rparr>) l")
  have inv1: "lobby_inv l1" by (rule create_keeps[OF assms(3,4) n])
  have refuse: "\<not> fst (seq_create sid' gid' ((new_item user)\<lparr> it_type := user_session \<rparr>) l')"
  proof (cases ok)
    case False
    then have l': "l' = l1"
      using assms(1,6) get_or_create_present[OF assms(2)] n
      by (auto simp: new_ingress_resource_def lobby_new_session_def)
    show ?thesis
    proof (cases "ly_done l")
      case True
      then show ?thesis using n l' by (simp add: seq_create_def)
    next
      case f: False
      let ?s = "new_session sid gid user (hb_live (ly_hub l)) user_session :: 'a session"
      obtain r1 where r1: "sr_new ?s (ly_sessions l) = (r1, False)" "l1 = l\<lparr> ly_sessions := r1 \<rparr>"
        using n f False by (auto simp: seq_create_def new_item_def split: prod.splits)
      then have "find_by_user_id (ly_sessions l1) user \<noteq> None"
        by (auto simp: sr_new_def find_by_user_id_def new_session_def split: option.splits)
      then show ?thesis using l' seq_create_taken by blast
    qed
  next
    case True
    have nd: "\<not> ly_done l" using n True by (auto simp: seq_create_def)
    have u1: "find_by_user_id (ly_sessions l1) user \<noteq> None"
    proof -
      let ?s = "new_session sid gid user (hb_live (ly_hub l)) user_session :: 'a session"
      obtain r1 where r1: "sr_new ?s (ly_sessions l) = (r1, True)" "l1 = l\<lparr> ly_sessions := r1 \<rparr>"
        using n nd True by (auto simp: seq_create_def new_item_def split: prod.splits)
      have "fresh_for (ly_sessions l) ?s" using assms(4) by (simp add: fresh_for_def find_by_id_def new_session_def)
      from sr_new_spec[OF inv_table(1)[OF assms(3)] this r1(1)] show ?thesis by (simp add: r1(2) new_session_def)
    qed
    obtain c' g where run: "run_command (en_lib V) (en_rtp V) Seq_Taken sev ev
        (new_create_ingress False user offer silent_signal_channel) l1 (wd_graph w) = Ret (c', l', g)"
      using assms(1,6) get_or_create_present[OF assms(2)] n True
      by (auto simp: new_ingress_resource_def lobby_new_session_def run_resource_def outcome_simps)
    then have sc: "seq_command (en_lib V) (shig_engine (en_lib V) new_id) sev ev
        (new_create_ingress False user offer silent_signal_channel) l1 (wd_graph w) = Ret (c', l', g)"
      by (simp add: run_command_def assms(5))
    have "find_by_user_id (ly_sessions l') user \<noteq> None"
      using command_keeps_user[OF sc inv1] u1 by simp
    then show ?thesis using seq_create_taken by blast
  qed
  have "lobby_new_session Seq_Taken sid' gid' user user_session l' = (False, snd (seq_create sid' gid'
      ((new_item user)\<lparr> it_type := user_session \<rparr>) l'))"
    using refuse by (simp add: lobby_new_session_def prod_eq_iff)
  then show ?thesis
    by (simp add: new_ingress_resource_def get_or_create_present[OF assms(6)])
qed

lemma second_ingress_call_refused_witness:
  "\<exists>w2. new_ingress_resource (demo_env known_store) Seq_Taken Messenger_Ready Gathered Mgr_Done 12 13 4 7
      \<lparr> sd_type = SdpOffer, sd_sdp = [] \<rparr>
      \<lparr> wd_lobbies = [(4, lobby_with 4 user_session)], wd_db = (), wd_graph = \<lparr> gr_on = False, gr_calls = [] \<rparr> \<rparr> =
    Ret ((None, Some err_new_session_fails), w2)"
proof -
  let ?w = "\<lparr> wd_lobbies = [(4, lobby_with 4 user_session)], wd_db = (), wd_graph = \<lparr> gr_on = False, gr_calls = [] \<rparr> \<rparr>"
  have m: "map_of (wd_lobbies ?w) 4 = Some (lobby_with 4 user_session)" by simp
  have f: "find_by_id (ly_sessions (lobby_with 4 user_session)) 10 = None"
    "find_by_id (ly_sessions (lobby_with 4 user_session)) 12 = None"
    by (simp_all add: find_by_id_def lobby_with_def)
  have "seq_create 10 11 ((new_item 7)\<lparr> it_type := user_session \<rparr>) (lobby_with 4 user_session) = (False, lobby_with 4 user_session)"
    by (simp add: seq_create_def lobby_with_def sr_new_def new_session_def new_item_def)
  then have n: "new_ingress_resource (demo_env known_store) Seq_Taken Messenger_Ready Gathered Mgr_Ctx 10 11 4 7
      \<lparr> sd_type = SdpOffer, sd_sdp = [] \<rparr> ?w = Ret ((None, Some err_new_session_fails), put_lobby 4 (lobby_with 4 user_session) ?w)"
    by (simp add: new_ingress_resource_def get_or_create_present[OF m] lobby_new_session_def)
  have p: "put_lobby 4 (lobby_with 4 user_session) ?w = ?w" by (simp add: put_lobby_def)
  have e: "en_rtp (demo_env known_store) = shig_engine (en_lib (demo_env known_store)) of_nat" by simp
  from second_ingress_call_refused[OF n[unfolded p] m lobby_with_inv f(1) e m f(2)]
  show ?thesis .
qed

end
