(* ===== verification/Media_Http.thy ===== *)
theory Media_Http
  imports Auth Stream Lobby_Repository
begin

text \<open>
  The HTTP interface of an instance (\<^verbatim>\<open>internal/media\<close>): the handlers of
  streams and lobbies, the queries and payloads they share, and the routes with
  the guards in front of them.  A handler works on the request tokens, the database
  and the lobbies.  Hashing, JSON, the cookie store and the clock are parameters;
  a header set after the status is written does not reach the client.
\<close>

section \<open>The environment\<close>

record ('db, 'w) media_env =
  me_streams :: "'db stream_store"
  me_uuids :: uuid_lib
  me_api :: "'w lobby_api"
  me_store_get :: "request \<Rightarrow> cookie_session result"
  me_save :: "cookie_session \<Rightarrow> go_error option"
  me_cookie :: "cookie_session \<Rightarrow> string"
  me_new_id :: string
  me_ts :: timestamp
  me_draw :: "nat \<Rightarrow> nat"
  me_md5 :: "string \<Rightarrow> string"
  me_write :: "string \<Rightarrow> go_error option"
  me_json_streams :: "live_stream list \<Rightarrow> string result"
  me_json_stream :: "live_stream \<Rightarrow> string result"
  me_json_lobby :: "lobby_entity option \<Rightarrow> string result"
  me_decode_stream :: "string \<Rightarrow> live_stream result"
  me_decode_info :: "string \<Rightarrow> live_stream_info result"
  me_decode_user :: "string \<Rightarrow> auth_user result"
  me_new_uuid1 :: uuid
  me_new_uuid2 :: uuid
  me_url :: "request \<Rightarrow> string"

type_synonym ('db, 'w) media_state = "token_store \<times> 'db \<times> 'w"
type_synonym ('db, 'w) media_handler = "(token_store \<times> 'db \<times> 'w) handler"

section \<open>Queries and payloads\<close>

definition err_space_request_id_not_found :: go_error where
  "err_space_request_id_not_found = Err ''reading space id from request''"
definition err_media_space_not_found :: go_error where
  "err_media_space_not_found = Err ''reading space from manager''"
definition err_stream_request_id_not_found :: go_error where
  "err_stream_request_id_not_found = Err ''reading stream id from request''"
definition err_media_stream_not_found :: go_error where
  "err_media_stream_not_found = Err ''reading stream from manager''"
definition media_invalid_content_type :: go_error where "media_invalid_content_type = Err ''invalid content type''"
definition media_invalid_payload :: go_error where "media_invalid_payload = Err ''invalid payload''"
definition media_empty_payload :: go_error where "media_empty_payload = Err ''empty payload''"

definition http_error :: "string \<Rightarrow> nat \<Rightarrow> reply list" where
  "http_error response code = [Http_Error code response]"

definition get_space_identifier :: "request \<Rightarrow> string result" where
  "get_space_identifier r = (case rq_vars r ''space'' of None \<Rightarrow> Inl err_space_request_id_not_found | Some s \<Rightarrow> Inr s)"

definition get_live_stream :: "('db, 'w) media_env \<Rightarrow> request \<Rightarrow> 'db \<Rightarrow> live_stream result outcome" where
  "get_live_stream E r db =
     (case get_space_identifier r of
        Inl e \<Rightarrow> Ret (Inl e)
      | Inr sp \<Rightarrow>
          (case rq_vars r ''id'' of
             None \<Rightarrow> Ret (Inl err_stream_request_id_not_found)
           | Some i \<Rightarrow>
               outcome_bind (find_by_uuid_and_space_identifier (me_streams E) (me_uuids E) i sp db) (\<lambda>x. Ret (case x of
                 Inl e \<Rightarrow> if errors_is e err_stream_not_found then Inl (Join e err_media_stream_not_found) else Inl e
               | Inr s \<Rightarrow> Inr s))))"

definition get_space :: "(string \<Rightarrow> space result) \<Rightarrow> request \<Rightarrow> space result" where
  "get_space manager_get r =
     (case get_space_identifier r of
        Inl e \<Rightarrow> Inl e
      | Inr i \<Rightarrow>
          (case manager_get i of
             Inl e \<Rightarrow> if errors_is e err_space_not_found then Inl (Join e err_media_space_not_found)
                      else Inl (Wrap ''getting space from manager: '' e)
           | Inr s \<Rightarrow> Inr s))"

definition get_or_create_space :: "(string \<Rightarrow> space result) \<Rightarrow> request \<Rightarrow> space result" where
  "get_or_create_space manager_create r = (case get_space_identifier r of Inl e \<Rightarrow> Inl e | Inr i \<Rightarrow> manager_create i)"

definition handle_resource_error :: "go_error \<Rightarrow> reply list" where
  "handle_resource_error e =
     (if errors_is e err_media_stream_not_found \<or> errors_is e err_media_space_not_found then [Write_Header status_not_found]
      else if errors_is e err_space_request_id_not_found \<or> errors_is e err_stream_request_id_not_found
      then [Write_Header status_bad_request]
      else http_error ''error get media'' status_internal)"

text \<open>A JSON payload is the body, which may fail to be read, once its content type is
  right; what decoding makes of it is the caller's.\<close>

definition get_json_payload :: "request \<Rightarrow> string result result" where
  "get_json_payload r =
     (if rq_header r ''Content-Type'' \<noteq> ''application/json'' then Inl media_invalid_content_type
      else Inr (case rq_body r of None \<Rightarrow> Inr [] | Some b \<Rightarrow> b))"

definition decode_payload :: "(string \<Rightarrow> 'a result) \<Rightarrow> request \<Rightarrow> 'a result" where
  "decode_payload dec r =
     (case get_json_payload r of
        Inl e \<Rightarrow> Inl e
      | Inr (Inl _) \<Rightarrow> Inl media_invalid_payload
      | Inr (Inr b) \<Rightarrow> (case dec b of Inl _ \<Rightarrow> Inl media_invalid_payload | Inr x \<Rightarrow> Inr x))"

definition get_stream_live_info_payload :: "('db, 'w) media_env \<Rightarrow> request \<Rightarrow> live_stream_info result" where
  "get_stream_live_info_payload E r = decode_payload (me_decode_info E) r"
definition get_stream_resource_payload :: "('db, 'w) media_env \<Rightarrow> request \<Rightarrow> live_stream result" where
  "get_stream_resource_payload E r = decode_payload (me_decode_stream E) r"
definition get_json_auth_payload :: "('db, 'w) media_env \<Rightarrow> request \<Rightarrow> auth_user result" where
  "get_json_auth_payload E r = decode_payload (me_decode_user E) r"

definition get_sdp_payload :: "request \<Rightarrow> sdp_type \<Rightarrow> session_description result" where
  "get_sdp_payload r ty =
     (if rq_header r ''Content-Type'' \<noteq> ''application/sdp'' then Inl media_invalid_content_type
      else case rq_body r of
        None \<Rightarrow> Inl media_empty_payload
      | Some (Inl _) \<Rightarrow> Inl media_invalid_payload
      | Some (Inr b) \<Rightarrow> Inr \<lparr> sd_type = ty, sd_sdp = b \<rparr>)"

section \<open>Users\<close>

definition session_user :: "('db, 'w) media_env \<Rightarrow> request \<Rightarrow> principal result" where
  "session_user E r = get_principal_from_session (me_store_get E) r"

definition session_error :: "go_error \<Rightarrow> reply list" where
  "session_error e =
     (if errors_is e err_not_authenticated then http_error ''no session'' status_forbidden
      else if errors_is e err_no_user_session then http_error ''no user session'' status_forbidden
      else http_error ''internal error'' status_internal)"

definition get_user_from_session :: "('db, 'w) media_env \<Rightarrow> request \<Rightarrow> reply list \<times> principal result" where
  "get_user_from_session E r = (case session_user E r of Inl e \<Rightarrow> (session_error e, Inl e) | Inr u \<Rightarrow> ([], Inr u))"

definition user_uuid :: "('db, 'w) media_env \<Rightarrow> principal \<Rightarrow> uuid result" where
  "user_uuid E u = get_uuid (ud_parse (me_uuids E)) u"

text \<open>Starting and deleting a session hands its cookie to the client.\<close>

definition begin_session :: "('db, 'w) media_env \<Rightarrow> request \<Rightarrow> reply list \<times> go_error option" where
  "begin_session E r =
     (case start_session (me_store_get E) (me_save E) (ud_parse (me_uuids E)) (ud_str (me_uuids E)) (me_new_id E) r of
        Inl e \<Rightarrow> ([], Some e) | Inr s \<Rightarrow> ([Set_Header ''Set-Cookie'' (me_cookie E s)], None))"

definition end_session :: "('db, 'w) media_env \<Rightarrow> request \<Rightarrow> reply list \<times> go_error option" where
  "end_session E r =
     (case delete_session (me_store_get E) (me_save E) r of
        Inl e \<Rightarrow> ([], Some e) | Inr s \<Rightarrow> ([Set_Header ''Set-Cookie'' (me_cookie E s)], None))"

section \<open>Lobby handlers\<close>

text \<open>The answer with its status first and its headers after.\<close>

definition sdp_created :: "('db, 'w) media_env \<Rightarrow> string \<Rightarrow> string \<Rightarrow> reply list" where
  "sdp_created E sdp resource_id =
     [Write_Header 201, Set_Header ''etag'' (me_md5 E sdp), Set_Header ''Location'' (''resource/'' @ resource_id)] @
     (case me_write E sdp of
        Some _ \<Rightarrow> http_error ''error build response'' status_internal
      | None \<Rightarrow> [Write_Body sdp, Set_Header ''Content-Length'' (show_nat (length sdp))])"

definition sdp_type_header :: reply where "sdp_type_header = Set_Header ''Content-Type'' ''application/sdp''"
definition json_type_header :: reply where "json_type_header = Set_Header ''Content-Type'' ''application/json''"

definition resource_reply ::
  "('db, 'w) media_env \<Rightarrow> string \<Rightarrow> (session_description \<times> string) result \<Rightarrow> reply list" where
  "resource_reply E failed a =
     (case a of
        Inl e \<Rightarrow> if errors_is e err_session_already_exists
                 then Write_Header 409 # http_error ''session already exists'' 409
                 else http_error failed status_internal
      | Inr (d, i) \<Rightarrow> sdp_created E (sd_sdp d) i)"

text \<open>A session that cannot be started is answered, but the handler goes on.\<close>

definition whip :: "('db, 'w) media_env \<Rightarrow> ('db, 'w) media_handler" where
  "whip E r st =
     (let (cookie, failed) = begin_session E r;
          ws = sdp_type_header # cookie @ (if failed = None then [] else http_error ''error'' status_internal) in
      prepend ws (calling (get_live_stream E r (fst (snd st))) st (\<lambda>ls. case ls of
        Inl e \<Rightarrow> (handle_resource_error e, st)
      | Inr live_stream \<Rightarrow>
          (case get_sdp_payload r SdpOffer of
             Inl e \<Rightarrow> ([Write_Header status_bad_request, Write_Body (error_text e)], st)
           | Inr offer \<Rightarrow>
               (case principal_from_context r of
                  None \<Rightarrow> ([Write_Header status_bad_request], st)
                | Some user \<Rightarrow>
                    (case user_uuid E user of
                       Inl _ \<Rightarrow> (http_error ''error user'' status_bad_request, st)
                     | Inr user_id \<Rightarrow>
                         (let (tok, m') = set_new_request_token (me_ts E) (me_draw E) (pr_uuid user) (fst st);
                              st = (m', snd st) in
                          prepend tok (calling (deref (ls_lobby live_stream)) st (\<lambda>le.
                            calling (create_lobby_ingress_endpoint (me_api E) offer (le_uuid le) user_id (snd (snd st))) st (\<lambda>(a, w').
                              (resource_reply E ''error build whip'' a, (m', fst (snd st), w'))))))))))))"

text \<open>What the handlers of a user with a session have in common: the user, the
  identifier and the stream.\<close>

definition with_session_user ::
  "('db, 'w) media_env \<Rightarrow> (uuid \<Rightarrow> live_stream \<Rightarrow> ('db, 'w) media_handler) \<Rightarrow> ('db, 'w) media_handler" where
  "with_session_user E f r st =
     prepend [sdp_type_header]
       (case session_user E r of
          Inl e \<Rightarrow> (session_error e, st)
        | Inr user \<Rightarrow>
            (case user_uuid E user of
               Inl _ \<Rightarrow> (http_error ''error user'' status_bad_request, st)
             | Inr user_id \<Rightarrow> calling (get_live_stream E r (fst (snd st))) st (\<lambda>ls. case ls of
                   Inl e \<Rightarrow> (handle_resource_error e, st)
                 | Inr live_stream \<Rightarrow> f user_id live_stream r st)))"

definition whep :: "('db, 'w) media_env \<Rightarrow> ('db, 'w) media_handler" where
  "whep E = with_session_user E (\<lambda>user_id live_stream r st.
     case get_sdp_payload r SdpOffer of
       Inl _ \<Rightarrow> ([Write_Header status_bad_request], st)
     | Inr offer \<Rightarrow> calling (deref (ls_lobby live_stream)) st (\<lambda>le.
         calling (create_lobby_egress_endpoint (me_api E) offer (le_uuid le) user_id (snd (snd st))) st (\<lambda>(a, w').
           (resource_reply E ''error build whep'' a, (fst st, fst (snd st), w')))))"

definition leaving :: "('db, 'w) media_env \<Rightarrow> request \<Rightarrow> bool result \<Rightarrow> reply list" where
  "leaving E r answer =
     (case answer of
        Inl e \<Rightarrow> if errors_is e err_lobby_not_active then [Write_Header status_not_found] else http_error ''error'' status_internal
      | Inr False \<Rightarrow> http_error ''error'' status_internal
      | Inr True \<Rightarrow> (let (cookie, failed) = end_session E r
          in cookie @ (if failed = None then [] else http_error ''error'' status_internal) @ [Write_Header 200]))"

definition whip_delete :: "('db, 'w) media_env \<Rightarrow> ('db, 'w) media_handler" where
  "whip_delete E = with_session_user E (\<lambda>user_id live_stream r st.
     calling (deref (ls_lobby live_stream)) st (\<lambda>le.
       (leaving E r (service_leave_lobby (me_api E) (le_uuid le) user_id), st)))"

text \<open>The deprecated offer of an egress endpoint: the description comes through a
  pointer.\<close>

definition whep_offer :: "('db, 'w) media_env \<Rightarrow> ('db, 'w) media_handler" where
  "whep_offer E = with_session_user E (\<lambda>user_id live_stream r st.
     calling (deref (ls_lobby live_stream)) st (\<lambda>le.
       case init_lobby_egress_endpoint (me_api E) (le_uuid le) user_id of
         Inl e \<Rightarrow> (if errors_is e err_lobby_not_active then [Write_Header status_not_found]
                   else http_error ''error build whep'' status_internal, st)
       | Inr d \<Rightarrow> calling (deref d) st (\<lambda>answer. (Write_Header 201 # (case me_write E (sd_sdp answer) of
             Some _ \<Rightarrow> http_error ''error build response'' status_internal
           | None \<Rightarrow> [Write_Body (sd_sdp answer), Set_Header ''etag'' (me_md5 E (sd_sdp answer)),
               Set_Header ''Content-Length'' (show_nat (length (sd_sdp answer)))]), st))))"

section \<open>Pipes between instances\<close>

text \<open>The deprecated handlers of another instance: its principal is in the context.\<close>

definition with_instance ::
  "('db, 'w) media_env \<Rightarrow> (uuid \<Rightarrow> session_description \<Rightarrow> lobby_entity \<Rightarrow> ('db, 'w) media_state \<Rightarrow> reply list \<times> ('db, 'w) media_state)
     \<Rightarrow> ('db, 'w) media_handler" where
  "with_instance E f r st =
     prepend [sdp_type_header] (calling (get_live_stream E r (fst (snd st))) st (\<lambda>ls. case ls of
        Inl e \<Rightarrow> (handle_resource_error e, st)
      | Inr live_stream \<Rightarrow>
          (case get_sdp_payload r SdpOffer of
             Inl e \<Rightarrow> ([Write_Header status_bad_request, Write_Body (error_text e)], st)
           | Inr offer \<Rightarrow>
               (case principal_from_context r of
                  None \<Rightarrow> ([Write_Header status_bad_request], st)
                | Some user \<Rightarrow>
                    (case user_uuid E user of
                       Inl _ \<Rightarrow> (http_error ''error user'' status_bad_request, st)
                     | Inr user_id \<Rightarrow>
                         (let (tok, m') = set_new_request_token (me_ts E) (me_draw E) (pr_uuid user) (fst st);
                              st = (m', snd st) in
                          prepend tok (calling (deref (ls_lobby live_stream)) st (\<lambda>le. f user_id offer le st))))))))"

definition pipe_reply ::
  "('db, 'w) media_env \<Rightarrow> (session_description option \<times> string) result \<Rightarrow> (go_error \<Rightarrow> reply list) \<Rightarrow> ('db, 'w) media_state
     \<Rightarrow> reply list \<times> ('db, 'w) media_state" where
  "pipe_reply E a on_error st =
     (case a of
        Inl e \<Rightarrow> (on_error e, st)
      | Inr (d, i) \<Rightarrow> calling (deref d) st (\<lambda>answer. (sdp_created E (sd_sdp answer) i, st)))"

definition open_pipe :: "('db, 'w) media_env \<Rightarrow> ('db, 'w) media_handler" where
  "open_pipe E = with_instance E (\<lambda>user_id offer le st.
     pipe_reply E (create_lobby_host_pipe_connection (me_api E) offer (le_uuid le) user_id) (\<lambda>e.
       if errors_is e err_session_already_exists then Write_Header 409 # http_error ''session already exists'' 409
       else http_error ''error build host pipe'' status_internal) st)"

definition open_host_ingress :: "('db, 'w) media_env \<Rightarrow> ('db, 'w) media_handler" where
  "open_host_ingress E = with_instance E (\<lambda>user_id offer le st.
     pipe_reply E (create_lobby_host_ingress_connection (me_api E) offer (le_uuid le) user_id)
       (\<lambda>_. http_error ''error build host ingress connection'' status_internal) st)"

definition close_pipe :: "('db, 'w) media_env \<Rightarrow> ('db, 'w) media_handler" where
  "close_pipe E = with_session_user E (\<lambda>user_id live_stream r st.
     calling (deref (ls_lobby live_stream)) st (\<lambda>le.
       (leaving E r (close_lobby_host_connection (me_api E) (le_uuid le) user_id), st)))"

section \<open>Live streams\<close>

text \<open>What is read, and the error that is returned: the stream and the user are given
  back as pointers, and for a user who is not the owner the error is the nil one of
  the call before.\<close>

definition reading_request_data ::
  "('db, 'w) media_env \<Rightarrow> request \<Rightarrow> 'db \<Rightarrow> (reply list \<times> (live_stream option \<times> uuid) result) outcome" where
  "reading_request_data E r db =
     outcome_bind (get_live_stream E r db) (\<lambda>ls. case ls of
       Inl e \<Rightarrow> Ret (handle_resource_error e, Inl e)
     | Inr live_stream \<Rightarrow>
         (case get_user_from_session E r of
            (ws, Inl e) \<Rightarrow> Ret (ws @ http_error ''forbidden'' status_forbidden, Inl e)
          | (_, Inr user) \<Rightarrow>
              outcome_bind (deref (ls_account live_stream)) (\<lambda>a.
                if ac_uuid a \<noteq> pr_uuid user then Ret (http_error ''forbidden'' status_forbidden, Inr (None, uuid_nil))
                else case user_uuid E user of
                  Inl e \<Rightarrow> Ret (http_error ''internal error'' status_internal, Inl e)
                | Inr u \<Rightarrow> Ret ([], Inr (Some live_stream, u)))))"

definition with_request_data ::
  "('db, 'w) media_env \<Rightarrow> (live_stream option \<Rightarrow> uuid \<Rightarrow> ('db, 'w) media_handler) \<Rightarrow> ('db, 'w) media_handler" where
  "with_request_data E f r st =
     prepend [json_type_header] (calling (reading_request_data E r (fst (snd st))) st (\<lambda>(ws, d). case d of
       Inl _ \<Rightarrow> (ws, st)
     | Inr (ls, u) \<Rightarrow> prepend ws (f ls u r st)))"

text \<open>The service reads the lobby of the stream.\<close>

definition lobby_of :: "live_stream option \<Rightarrow> lobby_entity outcome" where
  "lobby_of ls = outcome_bind (deref ls) (\<lambda>x. deref (ls_lobby x))"

definition publish_live_stream :: "('db, 'w) media_env \<Rightarrow> ('db, 'w) media_handler" where
  "publish_live_stream E = with_request_data E (\<lambda>ls user_id r st.
     case get_stream_live_info_payload E r of
       Inl _ \<Rightarrow> (http_error ''invalid payload'' status_bad_request, st)
     | Inr info \<Rightarrow> calling (lobby_of ls) st (\<lambda>le.
         case service_start_live_stream (me_api E) (le_uuid le) (li_stream_key info) (li_rtmp_url info) user_id of
           Inl _ \<Rightarrow> (http_error ''error start live stream'' status_internal, st)
         | Inr _ \<Rightarrow> ([Write_Header 201], st)))"

definition stop_live_stream_handler :: "('db, 'w) media_env \<Rightarrow> ('db, 'w) media_handler" where
  "stop_live_stream_handler E = with_request_data E (\<lambda>ls user_id r st.
     calling (lobby_of ls) st (\<lambda>le.
       case service_stop_live_stream (me_api E) (le_uuid le) user_id of
         Inl _ \<Rightarrow> (http_error ''error can not stop live stream'' status_bad_request, st)
       | Inr _ \<Rightarrow> ([Write_Header 201], st)))"

definition encoded :: "string result \<Rightarrow> string \<Rightarrow> reply list" where
  "encoded r failed = (case r of Inl _ \<Rightarrow> http_error failed status_internal | Inr b \<Rightarrow> [Write_Body b])"

definition get_status_of_live_stream :: "('db, 'w) media_env \<Rightarrow> ('db, 'w) media_handler" where
  "get_status_of_live_stream E r st =
     prepend [json_type_header] (calling (get_live_stream E r (fst (snd st))) st (\<lambda>ls. case ls of
       Inl e \<Rightarrow> (handle_resource_error e, st)
     | Inr live_stream \<Rightarrow>
         (case get_user_from_session E r of
            (ws, Inl _) \<Rightarrow> (ws @ http_error ''forbidden'' status_forbidden, st)
          | (_, Inr _) \<Rightarrow> (encoded (me_json_lobby E (ls_lobby live_stream)) ''stream invalid'' @ [Write_Header 200], st))))"

section \<open>Streams\<close>

definition titled :: "live_stream \<Rightarrow> live_stream" where
  "titled x = (case ls_video x of None \<Rightarrow> x | Some v \<Rightarrow> x\<lparr> ls_title := vi_name v \<rparr>)"

definition get_stream_list :: "('db, 'w) media_env \<Rightarrow> ('db, 'w) media_handler" where
  "get_stream_list E r st =
     prepend [json_type_header]
       (case get_space_identifier r of
          Inl e \<Rightarrow> (handle_resource_error e, st)
        | Inr sp \<Rightarrow>
            (case service_all_by_space_identifier (me_streams E) sp (fst (snd st)) of
               Inl _ \<Rightarrow> (http_error ''error reading stream list'' status_internal, st)
             | Inr xs \<Rightarrow> (encoded (me_json_streams E (map titled xs)) ''error reading stream list'', st)))"

definition get_stream :: "('db, 'w) media_env \<Rightarrow> ('db, 'w) media_handler" where
  "get_stream E r st =
     prepend [json_type_header] (calling (get_live_stream E r (fst (snd st))) st (\<lambda>ls. case ls of
       Inl e \<Rightarrow> (handle_resource_error e, st)
     | Inr x \<Rightarrow> (encoded (me_json_stream E (titled x)) ''stream invalid'', st)))"

definition with_db :: "('db, 'w) media_state \<Rightarrow> 'db \<Rightarrow> ('db, 'w) media_state" where
  "with_db st db = (fst st, db, snd (snd st))"

definition delete_stream_handler :: "('db, 'w) media_env \<Rightarrow> ('db, 'w) media_handler" where
  "delete_stream_handler E r st =
     prepend [json_type_header]
       (case principal_from_context r of
          None \<Rightarrow> ([Write_Header status_internal], st)
        | Some user \<Rightarrow>
            (case rq_vars r ''id'' of
               None \<Rightarrow> ([Write_Header status_bad_request], st)
             | Some i \<Rightarrow>
                 calling (service_delete (me_streams E) (me_uuids E) i (pr_uuid user) (fst (snd st))) st (\<lambda>(e, db').
                   (if e = None then [Write_Header 200] else http_error ''error delete stream'' status_internal, with_db st db'))))"

text \<open>The user, the space and the payload of a handler that changes a stream.\<close>

definition with_stream_resource ::
  "('db, 'w) media_env \<Rightarrow> (principal \<Rightarrow> string \<Rightarrow> live_stream \<Rightarrow> ('db, 'w) media_handler) \<Rightarrow> ('db, 'w) media_handler" where
  "with_stream_resource E f r st =
     prepend [json_type_header]
       (case principal_from_context r of
          None \<Rightarrow> ([Write_Header status_internal], st)
        | Some user \<Rightarrow>
            (case get_space_identifier r of
               Inl e \<Rightarrow> (handle_resource_error e, st)
             | Inr sp \<Rightarrow>
                 (case get_stream_resource_payload E r of
                    Inl _ \<Rightarrow> ([Write_Header status_bad_request], st)
                  | Inr x \<Rightarrow> f user sp x r st)))"

definition create_stream_handler :: "('db, 'w) media_env \<Rightarrow> ('db, 'w) media_handler" where
  "create_stream_handler E = with_stream_resource E (\<lambda>user sp x r st.
     calling (create_stream (me_streams E) (me_uuids E) (me_new_uuid1 E) (me_new_uuid2 E) x sp (pr_uuid user) (fst (snd st))) st (\<lambda>(a, db').
       (case a of
          Inl _ \<Rightarrow> http_error ''error create stream'' status_internal
        | Inr i \<Rightarrow> [Set_Header ''Location'' (me_url E r @ ''/'' @ i), Write_Header 201], with_db st db')))"

definition update_stream_handler :: "('db, 'w) media_env \<Rightarrow> ('db, 'w) media_handler" where
  "update_stream_handler E = with_stream_resource E (\<lambda>user sp x r st.
     calling (update_stream (me_streams E) (me_uuids E) x sp (pr_uuid user) (fst (snd st))) st (\<lambda>(e, db').
       (if e = None then [Write_Header 204] else http_error ''error update stream'' status_internal, with_db st db')))"

section \<open>Authentication and settings\<close>

definition get_authentication_handler ::
  "('db, 'w) media_env \<Rightarrow> (auth_user \<Rightarrow> string result) \<Rightarrow> (string \<Rightarrow> string result) \<Rightarrow> ('db, 'w) media_handler" where
  "get_authentication_handler E auth_token json_token r st =
     prepend [json_type_header]
       (case get_json_auth_payload E r of
          Inl _ \<Rightarrow> (http_error [] status_bad_request, st)
        | Inr user \<Rightarrow>
            (case auth_token user of
               Inl _ \<Rightarrow> (http_error ''error reading stream list'' status_not_found, st)
             | Inr token \<Rightarrow> (encoded (json_token token) ''error reading stream list'', st)))"

text \<open>The token is set behind the body.\<close>

definition get_settings :: "string result \<Rightarrow> (request \<Rightarrow> string) \<Rightarrow> ('db, 'w) media_handler" where
  "get_settings servers csrf_token r st =
     (json_type_header # encoded servers ''stream invalid'' @ [Set_Header ''X-CSRF-Token'' (csrf_token r)], st)"

text \<open>The handlers of the federation are empty.\<close>

definition fed_whep :: "('db, 'w) media_handler" where "fed_whep r st = ([], st)"
definition fed_whip :: "('db, 'w) media_handler" where "fed_whip r st = ([], st)"
definition fed_resource :: "('db, 'w) media_handler" where "fed_resource r st = ([], st)"

section \<open>The router\<close>

datatype media_route = Route_Authenticate | Route_Streams | Route_Stream | Route_Setting | Route_Whip | Route_Whep | Route_Leave
  | Route_Publish | Route_Status | Route_Stop | Route_Fed_Whep | Route_Fed_Whip | Route_Fed_Leave

definition new_router :: "(string \<times> string \<times> media_route) list" where
  "new_router =
     [(''/authenticate'', ''POST'', Route_Authenticate),
      (''/space/{space}/streams'', ''GET'', Route_Streams),
      (''/space/{space}/stream/{id}'', ''GET'', Route_Stream),
      (''/space/setting'', ''GET'', Route_Setting),
      (''/space/{space}/stream/{id}/whip'', ''POST'', Route_Whip),
      (''/space/{space}/stream/{id}/whep'', ''POST'', Route_Whep),
      (''/space/{space}/stream/{id}/res'', ''DELETE'', Route_Leave),
      (''/space/{space}/stream/{id}/live'', ''POST'', Route_Publish),
      (''/space/{space}/stream/{id}/live'', ''GET'', Route_Status),
      (''/space/{space}/stream/{id}/live'', ''DELETE'', Route_Stop),
      (''/fed/space/{space}/stream/{id}/whep'', ''POST'', Route_Fed_Whep),
      (''/fed/space/{space}/stream/{id}/whip'', ''POST'', Route_Fed_Whip),
      (''/fed/space/{space}/stream/{id}/res'', ''DELETE'', Route_Fed_Leave)]"

record gates =
  ga_parser :: jwt_parser
  ga_security :: security_config
  ga_auth_token :: "auth_user \<Rightarrow> string result"
  ga_json_token :: "string \<Rightarrow> string result"
  ga_servers :: "string result"
  ga_csrf_token :: "request \<Rightarrow> string"

text \<open>The guard of each route; the CSRF check in front of the settings is a library's.\<close>

fun route_handler :: "('db, 'w) media_env \<Rightarrow> gates \<Rightarrow> media_route \<Rightarrow> ('db, 'w) media_handler" where
  "route_handler E G Route_Authenticate = get_authentication_handler E (ga_auth_token G) (ga_json_token G)"
| "route_handler E G Route_Streams = http_middleware (ga_parser G) (ga_security G) (get_stream_list E)"
| "route_handler E G Route_Stream = http_middleware (ga_parser G) (ga_security G) (get_stream E)"
| "route_handler E G Route_Setting = http_middleware (ga_parser G) (ga_security G) (get_settings (ga_servers G) (ga_csrf_token G))"
| "route_handler E G Route_Whip = http_middleware (ga_parser G) (ga_security G) (whip E)"
| "route_handler E G Route_Whep = token_middleware (me_ts E) (me_draw E) (session_user E) (whep E)"
| "route_handler E G Route_Leave = token_middleware (me_ts E) (me_draw E) (session_user E) (whip_delete E)"
| "route_handler E G Route_Publish = token_middleware (me_ts E) (me_draw E) (session_user E) (publish_live_stream E)"
| "route_handler E G Route_Status = token_middleware (me_ts E) (me_draw E) (session_user E) (get_status_of_live_stream E)"
| "route_handler E G Route_Stop = token_middleware (me_ts E) (me_draw E) (session_user E) (stop_live_stream_handler E)"
| "route_handler E G Route_Fed_Whep = http_middleware (ga_parser G) (ga_security G) fed_whep"
| "route_handler E G Route_Fed_Whip = http_middleware (ga_parser G) (ga_security G) fed_whip"
| "route_handler E G Route_Fed_Leave = http_middleware (ga_parser G) (ga_security G) fed_resource"

section \<open>Lemmas\<close>

lemma calling_cases:
  "P ([Abort], st) \<Longrightarrow> P ([Hang], st) \<Longrightarrow> (\<And>x. m = Ret x \<Longrightarrow> P (k x)) \<Longrightarrow> P (calling m st k)"
  by (cases m) auto

text \<open>Whether a reply fixes the status, and headers that are set before it does.\<close>

fun fixes_status :: "reply \<Rightarrow> bool" where
  "fixes_status (Set_Header _ _) = False"
| "fixes_status _ = True"

definition late_header :: "string \<Rightarrow> reply list \<Rightarrow> bool" where
  "late_header h ws = (\<forall>v. Set_Header h v \<notin> set (takeWhile (\<lambda>x. \<not> fixes_status x) ws))"

lemma header_of_late: "late_header h ws \<Longrightarrow> header_of h ws cur = cur"
proof (induction ws arbitrary: cur)
  case (Cons w ws)
  then show ?case by (cases w) (auto simp: late_header_def)
qed simp

lemma late_header_simps [simp]:
  "late_header h []" "late_header h (Http_Error c t # ws)" "late_header h (Write_Header c # ws)" "late_header h (Write_Body b # ws)"
  "late_header h (Abort # ws)" "late_header h (Hang # ws)"
  "late_header h (Set_Header k v # ws) \<longleftrightarrow> k \<noteq> h \<and> late_header h ws"
  by (auto simp: late_header_def)

lemma late_header_append [simp]:
  "late_header h ws \<Longrightarrow> late_header h vs \<Longrightarrow> late_header h (ws @ vs)"
proof (induction ws)
  case (Cons w ws)
  then show ?case by (cases w) auto
qed simp

lemma late_header_error [simp]: "late_header h (handle_resource_error e)" "late_header h (http_error t c)" "late_header h (session_error e)"
  by (auto simp: handle_resource_error_def http_error_def session_error_def)

text \<open>The headers a handler sets before it fixes the status.\<close>

lemma late_header_resource [simp]: "late_header h (resource_reply E f a)"
  by (auto simp: resource_reply_def sdp_created_def split: sum.splits)

lemma late_header_begin:
  "h \<noteq> ''Set-Cookie'' \<Longrightarrow> late_header h (fst (begin_session E r))"
  by (auto simp: begin_session_def split: sum.splits)

lemma late_header_token:
  "h \<noteq> request_token_header \<Longrightarrow> late_header h (fst (set_new_request_token ts draw u m))"
  by (auto simp: set_new_request_token_def Let_def)

lemma late_header_calling:
  "(\<And>x. m = Ret x \<Longrightarrow> late_header h (fst (k x))) \<Longrightarrow> late_header h (fst (calling m st k))"
  by (rule calling_cases) auto

lemma whip_late:
  assumes "h \<noteq> ''Content-Type''" "h \<noteq> ''Set-Cookie''" "h \<noteq> request_token_header"
  shows "late_header h (fst (whip E r st))"
proof -
  obtain cookie failed where b: "begin_session E r = (cookie, failed)" by (cases "begin_session E r")
  have l: "late_header h cookie" using late_header_begin[OF assms(2), of E r] b by simp
  show ?thesis
    unfolding whip_def Let_def b set_new_request_token_def
    using assms(1,3) l
    by (auto simp: sdp_type_header_def intro!: late_header_append late_header_calling split: sum.splits option.splits prod.splits)
qed

text \<open>An instance for the examples: one stream, its lobby, and a cookie of the user 8.\<close>

definition media_stream :: live_stream where
  "media_stream = sample_stream\<lparr> ls_lobby := Some (new_lobby_entity 4 5 ''ch@localhost'' []) \<rparr>"

definition media_request :: "string \<Rightarrow> request" where
  "media_request user = \<lparr> rq_header = (\<lambda>h. if h = ''Content-Type'' then ''application/sdp'' else []),
     rq_vars = (\<lambda>v. if v = ''space'' then Some ''ch@localhost'' else if v = ''id'' then Some ''5'' else None),
     rq_body = Some (Inr []), rq_principal = Some \<lparr> pr_uuid = user \<rparr> \<rparr>"

abbreviation media_world :: "(local_track list, unit) world" where
  "media_world \<equiv> \<lparr> wd_lobbies = [(4, lobby_with 4 user_session)], wd_db = (), wd_graph = \<lparr> gr_on = False, gr_calls = [] \<rparr> \<rparr>"

definition media_sample :: "(live_stream list, (local_track list, unit) world) media_env" where
  "media_sample = \<lparr> me_streams = list_streams, me_uuids = nat_uuids,
     me_api = lobby_manager (demo_env known_store) Seq_Taken Messenger_Ready Gathered Mgr_Ctx 10 11,
     me_store_get = (\<lambda>_. Inr \<lparr> cs_id = [], cs_values = [(''authenticated'', SBool True), (''userUuid'', SStr ''8'')], cs_max_age = 0 \<rparr>),
     me_save = (\<lambda>_. None), me_cookie = (\<lambda>_. []), me_new_id = [], me_ts = 0, me_draw = id, me_md5 = id, me_write = (\<lambda>_. None),
     me_json_streams = (\<lambda>_. Inr []), me_json_stream = (\<lambda>_. Inr []), me_json_lobby = (\<lambda>_. Inr []),
     me_decode_stream = (\<lambda>_. Inl (Err [])), me_decode_info = (\<lambda>_. Inl (Err [])), me_decode_user = (\<lambda>_. Inl (Err [])),
     me_new_uuid1 = 1, me_new_uuid2 = 2, me_url = (\<lambda>_. []) \<rparr>"

lemma media_stream_found: "get_live_stream media_sample (media_request u) [media_stream] = Ret (Inr media_stream)"
  by (simp add: get_live_stream_def get_space_identifier_def media_request_def media_sample_def find_by_uuid_and_space_identifier_def
      find_by_uuid_def nat_uuids_def lookup_result_def list_streams_def media_stream_def sample_stream_def loaded_def
      default_space_def read_nat_def digit_val_def)

lemma media_session_user: "session_user media_sample r = Inr \<lparr> pr_uuid = ''8'' \<rparr>"
  by (simp add: session_user_def get_principal_from_session_def get_session_def media_sample_def)

section \<open>Properties\<close>

text \<open>Whatever an ingress request comes to, the address of the resource, its tag and
  the length of the answer never reach the client: they are set behind the status.\<close>

theorem whip_answer_without_headers:
  "header_of ''Location'' (fst (whip E r st)) None = None \<and> header_of ''etag'' (fst (whip E r st)) None = None \<and>
   header_of ''Content-Length'' (fst (whip E r st)) None = None"
  using header_of_late[OF whip_late, of _ E r st None] by (simp add: request_token_header_def)

text \<open>Publishing or stopping a live stream as somebody who does not own it is
  answered with 403, and then the handler goes on without a stream and panics.\<close>

theorem nonowner_publish_panics:
  assumes "get_live_stream E r (fst (snd st)) = Ret (Inr x)" "ls_account x = Some a"
    and "session_user E r = Inr u" "ac_uuid a \<noteq> pr_uuid u"
  shows "stop_live_stream_handler E r st = ([json_type_header, Http_Error 403 ''forbidden'', Abort], st) \<and>
    publish_live_stream E r st =
      ([json_type_header, Http_Error 403 ''forbidden''] @
        (if is_ok (get_stream_live_info_payload E r) then [Abort] else [Http_Error 400 ''invalid payload'']), st)"
proof -
  have "reading_request_data E r (fst (snd st)) = Ret (http_error ''forbidden'' status_forbidden, Inr (None, uuid_nil))"
    using assms by (simp add: reading_request_data_def get_user_from_session_def)
  then show ?thesis
    by (auto simp: stop_live_stream_handler_def publish_live_stream_def with_request_data_def lobby_of_def http_error_def prepend_def
        is_ok_def split: sum.splits)
qed

lemma nonowner_publish_panics_witness:
  "\<forall>m. fst (stop_live_stream_handler media_sample (media_request ''8'') (m, [media_stream], media_world)) =
     [json_type_header, Http_Error 403 ''forbidden'', Abort]"
proof
  fix m :: token_store
  have f: "get_live_stream media_sample (media_request ''8'') (fst (snd (m, [media_stream], media_world))) = Ret (Inr media_stream)"
    using media_stream_found by simp
  have a: "ls_account media_stream = Some default_account" by (simp add: media_stream_def sample_stream_def loaded_def)
  have n: "ac_uuid default_account \<noteq> pr_uuid \<lparr> pr_uuid = ''8'' \<rparr>" by (simp add: default_account_def)
  show "fst (stop_live_stream_handler media_sample (media_request ''8'') (m, [media_stream], media_world)) =
     [json_type_header, Http_Error 403 ''forbidden'', Abort]"
    using nonowner_publish_panics[OF f a media_session_user n] by simp
qed

text \<open>Leaving a lobby over HTTP never succeeds with the lobbies of the instance:
  no request is answered with 200, the session is not ended and nothing changes.\<close>

theorem whip_delete_never_leaves:
  assumes "me_api E = lobby_manager V qev sev ev mev sid gid"
  shows "snd (whip_delete E r st) = st \<and> status (fst (whip_delete E r st)) \<noteq> 200 \<and>
    header_of ''Set-Cookie'' (fst (whip_delete E r st)) None = None"
proof -
  have l: "leaving E r (service_leave_lobby (me_api E) i u) = http_error ''error'' status_internal" for i u
    by (simp add: assms lobby_manager_def service_leave_lobby_def leave_lobby_def leaving_def)
  define P where "P = (\<lambda>z. snd z = st \<and> status (fst z) \<noteq> 200 \<and> late_header ''Set-Cookie'' (fst z))"
  have e: "P (handle_resource_error x, st)" "P (session_error x, st)" "P (http_error t 500, st)" "P (http_error t 400, st)"
    "P ([Abort], st)" "P ([Hang], st)" for x t
    by (auto simp: P_def handle_resource_error_def session_error_def http_error_def)
  have p: "P (prepend [sdp_type_header] z)" if "P z" for z
    using that by (simp add: P_def sdp_type_header_def)
  have i: "P (calling (deref y) st (\<lambda>le. (http_error ''error'' status_internal, st)))" for y :: "lobby_entity option"
    by (intro calling_cases[where P = P] e)
  have g: "P (calling m st (\<lambda>ls. case ls of Inl x \<Rightarrow> (handle_resource_error x, st)
      | Inr y \<Rightarrow> calling (deref (ls_lobby y)) st (\<lambda>le. (http_error ''error'' status_internal, st))))" for m
    by (intro calling_cases[where P = P] e) (auto simp: e i split: sum.splits)
  have "P (whip_delete E r st)"
    unfolding whip_delete_def with_session_user_def l
    by (rule p) (auto simp: e g split: sum.splits)
  then have "snd (whip_delete E r st) = st \<and> status (fst (whip_delete E r st)) \<noteq> 200 \<and>
      late_header ''Set-Cookie'' (fst (whip_delete E r st))" by (simp add: P_def)
  then show ?thesis using header_of_late by blast
qed

lemma whip_delete_never_leaves_witness:
  "\<forall>m. status (fst (whip_delete media_sample (media_request ''8'') (m, [media_stream], media_world))) \<noteq> 200"
proof
  fix m :: token_store
  have "me_api media_sample = lobby_manager (demo_env known_store) Seq_Taken Messenger_Ready Gathered Mgr_Ctx 10 11"
    by (simp add: media_sample_def)
  from whip_delete_never_leaves[OF this]
  show "status (fst (whip_delete media_sample (media_request ''8'') (m, [media_stream], media_world))) \<noteq> 200" by blast
qed

text \<open>An ingress request reaches the lobby of its stream under the identifier of the
  user, once the user has a new request token.  The lobby is entered even if the
  session of the user could not be started; the answer is then 500, although a
  resource was made.\<close>

theorem whip_enters_lobby:
  assumes "me_api E = lobby_manager V qev sev ev mev sid gid"
    and "get_live_stream E r db = Ret (Inr x)" "ls_lobby x = Some le" "get_sdp_payload r SdpOffer = Inr offer"
    and "principal_from_context r = Some u" "user_uuid E u = Inr user_id"
    and "new_ingress_resource V qev sev ev mev sid gid (le_uuid le) user_id offer w = Ret ((res, e), w')"
  shows "\<exists>ws. whip E r (m, db, w) =
      (ws, set_token (me_ts E) (pr_uuid u) (new_request_token (me_draw E)) expiration m, db, w') \<and>
    (status ws = 201 \<longleftrightarrow> snd (begin_session E r) = None \<and> e = None)"
proof -
  obtain a where a: "create_lobby_ingress_endpoint (me_api E) offer (le_uuid le) user_id w = Ret (a, w')" "is_ok a \<longleftrightarrow> e = None"
    using manager.ingress_answer[of V qev sev ev mev sid gid "le_uuid le" user_id offer w res e w'] assms(1,7)
    by (auto simp: lobby_manager_def)
  obtain cookie failed where b: "begin_session E r = (cookie, failed)" by (cases "begin_session E r")
  have c: "status (cookie @ ws) = status ws" for ws
    using b by (auto simp: begin_session_def split: sum.splits)
  have st: "status (resource_reply E ''error build whip'' a) = 201 \<longleftrightarrow> is_ok a"
    by (cases a) (auto simp: resource_reply_def http_error_def sdp_created_def)
  show ?thesis
    using assms(2-6) a st
    by (cases failed) (auto simp: whip_def b c set_new_request_token_def Let_def prepend_def sdp_type_header_def http_error_def)
qed

lemma whip_enters_lobby_witness:
  "\<forall>m. \<exists>ws m' w'. whip media_sample (media_request ''7'') (m, [media_stream], media_world) = (ws, m', [media_stream], w') \<and> status ws \<noteq> 201"
proof
  fix m :: token_store
  let ?o = "\<lparr> sd_type = SdpOffer, sd_sdp = [] \<rparr>"
  have a: "me_api media_sample = lobby_manager (demo_env known_store) Seq_Taken Messenger_Ready Gathered Mgr_Ctx 10 11"
    by (simp add: media_sample_def)
  have l: "ls_lobby media_stream = Some (new_lobby_entity 4 5 ''ch@localhost'' [])" by (simp add: media_stream_def)
  have o1: "get_sdp_payload (media_request ''7'') SdpOffer = Inr ?o" by (simp add: get_sdp_payload_def media_request_def)
  have p: "principal_from_context (media_request ''7'') = Some \<lparr> pr_uuid = ''7'' \<rparr>"
    by (simp add: principal_from_context_def media_request_def)
  have u: "user_uuid media_sample \<lparr> pr_uuid = ''7'' \<rparr> = Inr 7"
    by (simp add: user_uuid_def get_uuid_def media_sample_def nat_uuids_def read_nat_def digit_val_def)
  have "seq_create 10 11 ((new_item 7)\<lparr> it_type := user_session \<rparr>) (lobby_with 4 user_session) = (False, lobby_with 4 user_session)"
    by (simp add: seq_create_def lobby_with_def sr_new_def new_session_def new_item_def)
  moreover have m: "map_of (wd_lobbies media_world) 4 = Some (lobby_with 4 user_session)" by simp
  ultimately have n: "new_ingress_resource (demo_env known_store) Seq_Taken Messenger_Ready Gathered Mgr_Ctx 10 11
      (le_uuid (new_lobby_entity 4 5 ''ch@localhost'' [])) 7 ?o media_world =
      Ret ((None, Some err_new_session_fails), put_lobby 4 (lobby_with 4 user_session) media_world)"
    by (simp add: new_ingress_resource_def get_or_create_present[OF m] lobby_new_session_def new_lobby_entity_def)
  from whip_enters_lobby[OF a media_stream_found l o1 p u n, of m]
  show "\<exists>ws m' w'. whip media_sample (media_request ''7'') (m, [media_stream], media_world) = (ws, m', [media_stream], w') \<and> status ws \<noteq> 201"
    by auto
qed

text \<open>C20: apart from asking for a token, no route serves a request that has neither a
  bearer token the instance accepts nor the request token of its session's user:
  it is refused with 400 or 403 and changes nothing.\<close>

theorem unauthenticated_requests_refused:
  assumes "route \<noteq> Route_Authenticate"
    and "\<not> (has_prefix (rq_header r ''Authorization'') ''Bearer '' \<and>
           is_ok (validate_token (ga_parser G) (trim_prefix (rq_header r ''Authorization'') ''Bearer '') (sc_jwt (ga_security G))))"
    and "rq_header r request_token_header = [] \<or>
         (\<forall>u. session_user E r = Inr u \<longrightarrow> get_token (me_ts E) (fst st) (pr_uuid u) \<noteq> rq_header r request_token_header)"
  shows "snd (route_handler E G route r st) = st \<and> status (fst (route_handler E G route r st)) \<in> {400, 403}"
proof -
  have h: "snd (http_middleware (ga_parser G) (ga_security G) f r st) = st \<and>
      status (fst (http_middleware (ga_parser G) (ga_security G) f r st)) \<in> {400, 403}" for f :: "('a, 'b) media_handler"
    using assms(2) by (auto simp: http_middleware_def Let_def is_ok_def split: sum.splits)
  have t: "snd (token_middleware (me_ts E) (me_draw E) (session_user E) f r st) = st \<and>
      status (fst (token_middleware (me_ts E) (me_draw E) (session_user E) f r st)) \<in> {400, 403}" for f :: "('a, 'b) media_handler"
    using assms(3) by (auto simp: token_middleware_def forbidden_def Let_def split: sum.splits)
  show ?thesis using assms(1) h t by (cases route) simp_all
qed

lemma unauthenticated_requests_refused_witness:
  "\<forall>m G. status (fst (route_handler media_sample G Route_Whip (media_request ''7'') (m, [media_stream], media_world))) \<in> {400, 403}"
proof (intro allI, goal_cases)
  case (1 m G)
  have "\<not> has_prefix (rq_header (media_request ''7'') ''Authorization'') ''Bearer ''" by (simp add: media_request_def has_prefix_def)
  then have b: "\<not> (has_prefix (rq_header (media_request ''7'') ''Authorization'') ''Bearer '' \<and>
      is_ok (validate_token (ga_parser G) (trim_prefix (rq_header (media_request ''7'') ''Authorization'') ''Bearer '') (sc_jwt (ga_security G))))"
    by simp
  have t: "rq_header (media_request ''7'') request_token_header = [] \<or>
      (\<forall>u. session_user media_sample (media_request ''7'') = Inr u \<longrightarrow>
         get_token (me_ts media_sample) (fst (m, [media_stream], media_world)) (pr_uuid u) \<noteq>
           rq_header (media_request ''7'') request_token_header)"
    by (simp add: media_request_def request_token_header_def)
  from unauthenticated_requests_refused[OF _ b t, of Route_Whip] show ?case by blast
qed

end
