(* ===== verification/Config.thy ===== *)
theory Config
  imports Auth Iri
begin

text \<open>
  The configuration of an instance: the environment and the file
  (\<^verbatim>\<open>internal/config\<close>), the validation of its sections
  (\<^verbatim>\<open>internal/sfu/config.go\<close>, \<^verbatim>\<open>internal/rtp/config.go\<close>,
  \<^verbatim>\<open>internal/activitypub/instance/config.go\<close>,
  \<^verbatim>\<open>internal/metric/config.go\<close>, \<^verbatim>\<open>internal/telemetry\<close>) and the values
  a session's context carries.  Reading and decoding the file is a library's; a
  section the file lacks is a nil pointer.
\<close>

section \<open>Sections\<close>

record server_config =
  sv_host :: string
  sv_port :: int

record storage_config =
  so_name :: string
  so_data_source :: string

record log_config =
  lo_file :: string
  lo_level :: string

record prometheus_config =
  pm_enable :: bool
  pm_endpoint :: string
  pm_port :: int

record metric_config =
  mc_prometheus :: "prometheus_config option"

record security_section =
  ss_jwt :: "jwt_config option"
  ss_trusted_origins :: "string list"

record ice_server =
  ic_urls :: "string list"
  ic_username :: string
  ic_credential :: string
  ic_credential_type :: string

record rtp_config =
  rc_ice_server :: "ice_server list"

record trusted_instance =
  ti_actor :: string
  ti_name :: string

record federation_config =
  fe_https :: bool
  fe_enable :: bool
  fe_domain :: string
  fe_release :: string
  fe_username :: string
  fe_server_name :: string
  fe_private :: bool
  fe_register_token :: string
  fe_trusted :: "trusted_instance list"
  fe_url :: "url option"
  fe_init_valid :: bool

record sfu_config =
  cf_server :: "server_config option"
  cf_security :: "security_section option"
  cf_storage :: "storage_config option"
  cf_log :: "log_config option"
  cf_metric :: "metric_config option"
  cf_telemetry :: "bool option"
  cf_rtp :: "rtp_config option"
  cf_federation :: "federation_config option"

record environment =
  en_port :: int
  en_domain :: string
  en_register_token :: string

section \<open>Validation\<close>

text \<open>A check that may fail, or panic, before the next one.\<close>

definition attempt :: "'a result outcome \<Rightarrow> ('a \<Rightarrow> 'b result outcome) \<Rightarrow> 'b result outcome" where
  "attempt m f = outcome_bind m (\<lambda>r. case r of Inl e \<Rightarrow> Ret (Inl e) | Inr x \<Rightarrow> f x)"

definition validate_server_config :: "server_config \<Rightarrow> environment \<Rightarrow> server_config result" where
  "validate_server_config c env =
     (let c = (if en_port env \<ge> 1 then c\<lparr> sv_port := en_port env \<rparr> else c) in
      if length (sv_host c) < 1 then Inl (Err ''server.Host should not be empty'')
      else if sv_port c < 1 then Inl (Err ''server.Port should not be empty'')
      else Inr c)"

definition validate_metric_config :: "metric_config \<Rightarrow> unit result outcome" where
  "validate_metric_config c =
     outcome_bind (deref (mc_prometheus c)) (\<lambda>p.
       if length (pm_endpoint p) = 0 then Ret (Inl (Err ''metric.prometheus.endpoint should not be empty''))
       else if pm_port p < 1 then Ret (Inl (Err ''metric.prometheus.port should not be empty''))
       else Ret (Inr ()))"

definition validate_security_section :: "security_section \<Rightarrow> unit result outcome" where
  "validate_security_section c =
     outcome_bind (deref (ss_jwt c)) (\<lambda>j.
       Ret (validate_security_config \<lparr> sc_jwt = j, sc_trusted_origins = ss_trusted_origins c \<rparr>))"

definition validate_config_ice_server :: "ice_server \<Rightarrow> nat \<Rightarrow> unit result" where
  "validate_config_ice_server s n =
     (if length (ic_urls s) = 0 then Inl (Err (''rtp.iceServer[]{urls=} has to be set for ice server, entry '' @ show_nat n))
      else if length (ic_credential_type s) \<noteq> 0 \<and> ic_credential_type s \<noteq> ''password'' \<and> ic_credential_type s \<noteq> ''oauth''
      then Inl (Err (''rtp.iceServer[]{credentialType=} has to be 'password', 'oauth' ore empty, entry '' @ show_nat n))
      else Inr ())"

text \<open>A loop over the entries with their index that ends at the first error.\<close>

fun first_invalid :: "('a \<Rightarrow> nat \<Rightarrow> unit result) \<Rightarrow> nat \<Rightarrow> 'a list \<Rightarrow> unit result" where
  "first_invalid f n [] = Inr ()"
| "first_invalid f n (x # xs) = (case f x n of Inl e \<Rightarrow> Inl e | Inr _ \<Rightarrow> first_invalid f (Suc n) xs)"

definition validate_rtp_config :: "rtp_config \<Rightarrow> unit result" where
  "validate_rtp_config c = first_invalid validate_config_ice_server 0 (rc_ice_server c)"

definition validate_trusted_instances :: "net \<Rightarrow> trusted_instance \<Rightarrow> nat \<Rightarrow> unit result" where
  "validate_trusted_instances N i n =
     (if nt_parse_url N (ti_actor i) = None
      then Inl (Err (''federation.trustedInstances[]{actor=} has to be set for an instance, entry '' @ show_nat n))
      else if length (ti_name i) < 1
      then Inl (Err (''federation.trustedInstances[]{name=} has to be set for an instance, entry '' @ show_nat n))
      else Inr ())"

definition overridden :: "federation_config \<Rightarrow> environment \<Rightarrow> federation_config" where
  "overridden c env =
     (let c = (if length (en_domain env) > 0 then c\<lparr> fe_domain := en_domain env \<rparr> else c);
          c = (if length (en_register_token env) > 0 then c\<lparr> fe_register_token := en_register_token env \<rparr> else c);
          c = (if length (fe_username c) < 1 then c\<lparr> fe_username := ''shig'' \<rparr> else c)
      in if length (fe_server_name c) < 1 then c\<lparr> fe_server_name := ''shig'' \<rparr> else c)"

definition federation_address :: "federation_config \<Rightarrow> string" where
  "federation_address c = protocol_of (fe_https c) @ ''://'' @ fe_domain c"

definition validate_federation_config ::
  "net \<Rightarrow> (string \<Rightarrow> go_error) \<Rightarrow> federation_config \<Rightarrow> environment \<Rightarrow> federation_config result" where
  "validate_federation_config N parse_error c env =
     (if \<not> fe_enable c then Inr c
      else let c = overridden c env in
        if length (fe_register_token c) < 1
        then Inl (Err ''Federation is enabled but register token is not set properly.'')
        else if length (fe_domain c) < 3 then Inl (Err ''Federation is enabled but domain is not set properly.'')
        else if length (fe_release c) < 1 then Inl (Err ''Federation is enabled but release vesion is not set properly.'')
        else let u = federation_address c in
          case nt_parse_url N u of
            None \<Rightarrow> Inl (Wrap ''parsing instance url: '' (parse_error u))
          | Some url \<Rightarrow>
              (let c = c\<lparr> fe_url := Some url, fe_init_valid := True \<rparr> in
               case first_invalid (validate_trusted_instances N) 0 (fe_trusted c) of
                 Inl e \<Rightarrow> Inl e | Inr _ \<Rightarrow> Inr c))"

definition validate_telemetry_config :: "bool option \<Rightarrow> unit result" where "validate_telemetry_config c = Inr ()"

section \<open>Reading the file and the environment\<close>

record viper =
  vp_bind :: "string \<Rightarrow> go_error option"
  vp_string :: "string \<Rightarrow> string"
  vp_int :: "string \<Rightarrow> int"
  vp_stat :: "string \<Rightarrow> go_error option"
  vp_read :: "string \<Rightarrow> go_error option"
  vp_unmarshal :: "string \<Rightarrow> sfu_config result"

definition parse_env :: "viper \<Rightarrow> environment" where
  "parse_env V =
     (if vp_bind V ''domain'' \<noteq> None \<or> vp_bind V ''register_token'' \<noteq> None \<or> vp_bind V ''port'' \<noteq> None
      then \<lparr> en_port = 0, en_domain = [], en_register_token = [] \<rparr>
      else \<lparr> en_port = vp_int V ''port'', en_domain = vp_string V ''domain'',
        en_register_token = vp_string V ''register_token'' \<rparr>)"

definition validate_config ::
  "net \<Rightarrow> (string \<Rightarrow> go_error) \<Rightarrow> sfu_config \<Rightarrow> environment \<Rightarrow> sfu_config result outcome" where
  "validate_config N parse_error c env =
     outcome_bind (deref (cf_storage c)) (\<lambda>st.
     if so_name st \<noteq> ''sqlite3'' then Ret (Inl (Err ''store.name currently supportes only Sqlite3''))
     else if length (so_data_source st) = 0 then Ret (Inl (Err ''store.dataSource should not be empty''))
     else outcome_bind (deref (cf_log c)) (\<lambda>lo.
     if length (lo_file lo) = 0 then Ret (Inl (Err ''log.logfile should not be empty''))
     else attempt (outcome_bind (deref (cf_metric c)) validate_metric_config) (\<lambda>_.
       attempt (outcome_bind (deref (cf_security c)) validate_security_section) (\<lambda>_.
       attempt (outcome_bind (deref (cf_rtp c)) (\<lambda>r. Ret (validate_rtp_config r))) (\<lambda>_.
       attempt (outcome_bind (deref (cf_federation c)) (\<lambda>f. Ret (validate_federation_config N parse_error f env))) (\<lambda>f.
       attempt (outcome_bind (deref (cf_server c)) (\<lambda>s. Ret (validate_server_config s env))) (\<lambda>s.
       attempt (Ret (validate_telemetry_config (cf_telemetry c))) (\<lambda>_.
         Ret (Inr (c\<lparr> cf_federation := Some f, cf_server := Some s \<rparr>))))))))))"

definition parse_config ::
  "viper \<Rightarrow> net \<Rightarrow> (string \<Rightarrow> go_error) \<Rightarrow> string \<Rightarrow> environment \<Rightarrow> sfu_config result outcome" where
  "parse_config V N parse_error file env =
     (case vp_stat V file of
        Some e \<Rightarrow> Ret (Inl (Wrap ''opening config file: '' e))
      | None \<Rightarrow>
          (case vp_read V file of
             Some e \<Rightarrow> Ret (Inl (Wrap ''reading config file: '' e))
           | None \<Rightarrow>
               (case vp_unmarshal V file of
                  Inl e \<Rightarrow> Ret (Inl (Wrap ''loading config file: '' e))
                | Inr c \<Rightarrow> validate_config N parse_error c env)))"

section \<open>The configuration of the peer connections\<close>

datatype ice_credential_type = ICE_Credential_Password | ICE_Credential_Oauth | ICE_Credential_Unknown

record webrtc_ice_server =
  wi_urls :: "string list"
  wi_username :: string
  wi_credential :: string
  wi_credential_type :: ice_credential_type

definition new_ice_credential_type :: "string \<Rightarrow> ice_credential_type" where
  "new_ice_credential_type raw =
     (if raw = ''oauth'' then ICE_Credential_Password
      else if raw = ''password'' then ICE_Credential_Oauth
      else ICE_Credential_Unknown)"

definition get_ice_server :: "rtp_config \<Rightarrow> webrtc_ice_server list" where
  "get_ice_server c =
     map (\<lambda>s. \<lparr> wi_urls = ic_urls s, wi_username = ic_username s, wi_credential = ic_credential s,
       wi_credential_type = new_ice_credential_type (ic_credential_type s) \<rparr>) (rc_ice_server c)"

text \<open>The engine is made of this configuration.\<close>

definition get_webrtc_conf :: "rtp_config \<Rightarrow> webrtc_ice_server list" where
  "get_webrtc_conf c = get_ice_server c"

section \<open>The context of a session\<close>

text \<open>A context is a list of bindings, the newest first; reading a value as a string
  panics where there is none.\<close>

type_synonym go_context = "(string \<times> string) list"

definition session_id_ctx_key :: string where "session_id_ctx_key = ''sessionId''"
definition user_id_ctx_key :: string where "user_id_ctx_key = ''liveStreamId''"
definition live_stream_id_ctx_key :: string where "live_stream_id_ctx_key = ''userId''"

definition context_with_session_value :: "go_context \<Rightarrow> string \<Rightarrow> string \<Rightarrow> string \<Rightarrow> go_context" where
  "context_with_session_value ctx session_id live_stream_id user_id =
     (user_id_ctx_key, user_id) # (live_stream_id_ctx_key, live_stream_id) # (session_id_ctx_key, session_id) # ctx"

definition copy_session_context :: "go_context \<Rightarrow> go_context outcome" where
  "copy_session_context ctx =
     outcome_bind (deref (map_of ctx session_id_ctx_key)) (\<lambda>s.
     outcome_bind (deref (map_of ctx live_stream_id_ctx_key)) (\<lambda>l.
     outcome_bind (deref (map_of ctx user_id_ctx_key)) (\<lambda>u.
       Ret (context_with_session_value [] s l u))))"

text \<open>The attributes of the span.\<close>

definition new_trace_span :: "go_context \<Rightarrow> (string \<times> string) list outcome" where
  "new_trace_span ctx =
     outcome_bind (deref (map_of ctx session_id_ctx_key)) (\<lambda>s.
     outcome_bind (deref (map_of ctx live_stream_id_ctx_key)) (\<lambda>l.
     outcome_bind (deref (map_of ctx user_id_ctx_key)) (\<lambda>u.
       Ret [(session_id_ctx_key, s), (live_stream_id_ctx_key, l), (user_id_ctx_key, u)])))"

section \<open>Lemmas\<close>

lemma attempt_Inr:
  "attempt m f = Ret (Inr y) \<longleftrightarrow> (\<exists>x. m = Ret (Inr x) \<and> f x = Ret (Inr y))"
  by (cases m) (auto simp: attempt_def split: sum.splits)

lemma first_invalid_ok:
  "first_invalid f n xs = Inr () \<longleftrightarrow> (\<forall>i<length xs. f (xs ! i) (n + i) = Inr ())"
proof (induction xs arbitrary: n)
  case (Cons x xs)
  have "(\<forall>i<length (x # xs). f ((x # xs) ! i) (n + i) = Inr ()) \<longleftrightarrow>
      f x n = Inr () \<and> (\<forall>i<length xs. f (xs ! i) (Suc n + i) = Inr ())"
    by (auto simp: nth_Cons less_Suc_eq_0_disj split: nat.splits)
  then show ?case using Cons.IH[of "Suc n"] by (auto split: sum.splits)
qed simp

lemma first_invalid_first:
  assumes "\<forall>x\<in>set xs. f x = g x" shows "first_invalid f n xs = first_invalid g n xs"
  using assms by (induction xs arbitrary: n) (auto split: sum.splits)

lemma valid_federation:
  assumes "validate_federation_config N pe c env = Inr c'"
  shows "if fe_enable c then fe_url c' = nt_parse_url N (federation_address c') \<and>
      fe_url c' \<noteq> None \<and> length (fe_domain c') \<ge> 3 \<and> fe_register_token c' \<noteq> [] \<and> fe_release c' \<noteq> [] \<and>
      fe_username c' \<noteq> [] \<and> fe_server_name c' \<noteq> []
    else c' = c"
proof (cases "fe_enable c")
  case True
  define d where "d = overridden c env"
  have d: "fe_username d \<noteq> []" "fe_server_name d \<noteq> []" by (auto simp: d_def overridden_def Let_def)
  show ?thesis using assms True d
    unfolding validate_federation_config_def d_def[symmetric]
    by (auto simp: Let_def federation_address_def split: if_splits option.splits sum.splits simp del: append.simps)
qed (use assms in \<open>simp add: validate_federation_config_def\<close>)

text \<open>The trace of a session: the value filed under the name of the user is the one of
  the stream, and the other way round; copying keeps the values.\<close>

lemma span_labels:
  "new_trace_span (context_with_session_value ctx s l u) =
     Ret [(''sessionId'', s), (''userId'', l), (''liveStreamId'', u)]"
  "copy_session_context (context_with_session_value ctx s l u) = Ret (context_with_session_value [] s l u)"
  by (simp_all add: new_trace_span_def copy_session_context_def context_with_session_value_def
      session_id_ctx_key_def user_id_ctx_key_def live_stream_id_ctx_key_def)

lemma credential_type_known:
  assumes "validate_rtp_config c = Inr ()" "s \<in> set (rc_ice_server c)"
  shows "ic_urls s \<noteq> []" "ic_credential_type s \<in> {[], ''password'', ''oauth''}"
proof -
  obtain i where "i < length (rc_ice_server c)" "s = rc_ice_server c ! i" using assms(2) by (metis in_set_conv_nth)
  then have "validate_config_ice_server s i = Inr ()"
    using assms(1) by (simp add: validate_rtp_config_def first_invalid_ok)
  then show "ic_urls s \<noteq> []" "ic_credential_type s \<in> {[], ''password'', ''oauth''}"
    by (auto simp: validate_config_ice_server_def split: if_splits)
qed

lemma parse_config_Inr:
  assumes "parse_config V N pe file env = Ret (Inr c)"
  obtains d where "vp_unmarshal V file = Inr d" "validate_config N pe d env = Ret (Inr c)"
  using assms by (auto simp: parse_config_def split: option.splits sum.splits)

lemma validate_config_Inr:
  assumes "validate_config N pe d env = Ret (Inr c)"
  obtains st lo m se r f s f' s' where
    "cf_storage d = Some st" "cf_log d = Some lo" "cf_metric d = Some m" "cf_security d = Some se" "cf_rtp d = Some r"
    "cf_federation d = Some f" "cf_server d = Some s"
    "so_name st = ''sqlite3''" "so_data_source st \<noteq> []" "lo_file lo \<noteq> []"
    "validate_metric_config m = Ret (Inr ())" "validate_security_section se = Ret (Inr ())"
    "validate_rtp_config r = Inr ()" "validate_federation_config N pe f env = Inr f'"
    "validate_server_config s env = Inr s'" "c = d\<lparr> cf_federation := Some f', cf_server := Some s' \<rparr>"
  using assms unfolding validate_config_def
  by (auto simp: outcome_simps attempt_Inr split: if_splits)

section \<open>Properties\<close>

definition sample_config :: "bool \<Rightarrow> sfu_config" where
  "sample_config federated =
     \<lparr> cf_server = Some \<lparr> sv_host = ''0.0.0.0'', sv_port = 8080 \<rparr>,
       cf_security = Some \<lparr> ss_jwt = Some \<lparr> jc_enabled = True, jc_key = ''k'', jc_default_expire_time = 604800 \<rparr>,
         ss_trusted_origins = [''*''] \<rparr>,
       cf_storage = Some \<lparr> so_name = ''sqlite3'', so_data_source = ''shig.db'' \<rparr>,
       cf_log = Some \<lparr> lo_file = ''stdout'', lo_level = ''DEBUG'' \<rparr>,
       cf_metric = Some \<lparr> mc_prometheus = Some \<lparr> pm_enable = True, pm_endpoint = ''/metrics'', pm_port = 8091 \<rparr> \<rparr>,
       cf_telemetry = Some True,
       cf_rtp = Some \<lparr> rc_ice_server = [\<lparr> ic_urls = [''turn:t''], ic_username = ''u'', ic_credential = ''c'',
         ic_credential_type = ''password'' \<rparr>] \<rparr>,
       cf_federation = Some \<lparr> fe_https = False, fe_enable = federated, fe_domain = ''localhost:8080'', fe_release = ''v0'',
         fe_username = [], fe_server_name = [], fe_private = False, fe_register_token = ''t'', fe_trusted = [],
         fe_url = None, fe_init_valid = False \<rparr> \<rparr>"

definition sample_viper :: "bool \<Rightarrow> viper" where
  "sample_viper federated = \<lparr> vp_bind = (\<lambda>_. None), vp_string = (\<lambda>_. []), vp_int = (\<lambda>_. 0), vp_stat = (\<lambda>_. None),
     vp_read = (\<lambda>_. None), vp_unmarshal = (\<lambda>_. Inr (sample_config federated)) \<rparr>"

text \<open>C27: a configuration the program accepts has every section, a positive port for
  the server (the one of the environment, when that is set) and for the metrics, a
  database, a log file, a key for the tokens and an origin; every ICE server has an
  address and a known kind of credential; and an enabled federation has an address
  parsed from a domain of at least three characters, a token, a release and names.\<close>

theorem accepted_config_bounds:
  assumes "parse_config V N pe file env = Ret (Inr c)"
  obtains sv st lo pm j os r f where
    "cf_server c = Some sv" "sv_host sv \<noteq> []" "1 \<le> sv_port sv" "1 \<le> en_port env \<Longrightarrow> sv_port sv = en_port env"
    "cf_storage c = Some st" "so_name st = ''sqlite3''" "so_data_source st \<noteq> []"
    "cf_log c = Some lo" "lo_file lo \<noteq> []"
    "cf_metric c = Some \<lparr> mc_prometheus = Some pm \<rparr>" "pm_endpoint pm \<noteq> []" "1 \<le> pm_port pm"
    "cf_security c = Some \<lparr> ss_jwt = Some j, ss_trusted_origins = os \<rparr>" "jc_key j \<noteq> []" "os \<noteq> []"
    "cf_rtp c = Some r" "\<And>s. s \<in> set (rc_ice_server r) \<Longrightarrow> ic_urls s \<noteq> [] \<and> ic_credential_type s \<in> {[], ''password'', ''oauth''}"
    "cf_federation c = Some f"
    "fe_enable f \<Longrightarrow> fe_url f = nt_parse_url N (federation_address f) \<and> fe_url f \<noteq> None \<and>
       3 \<le> length (fe_domain f) \<and> fe_register_token f \<noteq> [] \<and> fe_release f \<noteq> [] \<and> fe_username f \<noteq> [] \<and> fe_server_name f \<noteq> []"
proof -
  obtain d where d: "validate_config N pe d env = Ret (Inr c)" using parse_config_Inr[OF assms] by blast
  then obtain st lo m se r f s f' s' where
    k: "cf_storage d = Some st" "cf_log d = Some lo" "cf_metric d = Some m" "cf_security d = Some se" "cf_rtp d = Some r"
    and w: "so_name st = ''sqlite3''" "so_data_source st \<noteq> []" "lo_file lo \<noteq> []"
    and v: "validate_metric_config m = Ret (Inr ())" "validate_security_section se = Ret (Inr ())"
    "validate_rtp_config r = Inr ()" "validate_federation_config N pe f env = Inr f'"
    "validate_server_config s env = Inr s'" and c: "c = d\<lparr> cf_federation := Some f', cf_server := Some s' \<rparr>"
    by (rule validate_config_Inr) blast
  obtain pm where pm: "m = \<lparr> mc_prometheus = Some pm \<rparr>" "pm_endpoint pm \<noteq> []" "1 \<le> pm_port pm"
    using v(1) by (cases m) (auto simp: validate_metric_config_def outcome_simps split: if_splits)
  obtain j os where j: "se = \<lparr> ss_jwt = Some j, ss_trusted_origins = os \<rparr>" "jc_key j \<noteq> []" "os \<noteq> []"
    using v(2) by (cases se) (auto simp: validate_security_section_def validate_security_config_def outcome_simps split: if_splits)
  have sv: "sv_host s' \<noteq> []" "1 \<le> sv_port s'" "1 \<le> en_port env \<Longrightarrow> sv_port s' = en_port env"
    using v(5) by (auto simp: validate_server_config_def Let_def split: if_splits)
  have e: "fe_enable f' = fe_enable f"
    using v(4) by (auto simp: validate_federation_config_def overridden_def Let_def split: if_splits option.splits sum.splits)
  have fd: "fe_url f' = nt_parse_url N (federation_address f') \<and> fe_url f' \<noteq> None \<and> 3 \<le> length (fe_domain f') \<and>
      fe_register_token f' \<noteq> [] \<and> fe_release f' \<noteq> [] \<and> fe_username f' \<noteq> [] \<and> fe_server_name f' \<noteq> []" if "fe_enable f'"
    by (rule valid_federation[OF v(4), unfolded if_P[OF that[unfolded e]]])
  show thesis
    by (rule that[of s' st lo pm j os r f'], goal_cases)
      (use k w c pm j sv fd credential_type_known[OF v(3)] in \<open>blast | simp\<close>)+
qed

lemma parse_sample_config:
  "parse_config (sample_viper False) iri_net (\<lambda>_. Err []) [] (parse_env (sample_viper False)) = Ret (Inr (sample_config False))"
  by (simp add: parse_config_def sample_viper_def parse_env_def validate_config_def attempt_def sample_config_def
      validate_metric_config_def validate_security_section_def validate_security_config_def validate_rtp_config_def
      validate_config_ice_server_def validate_federation_config_def validate_server_config_def validate_telemetry_config_def)

lemma accepted_config_bounds_witness:
  "\<exists>sv. cf_server (sample_config False) = Some sv \<and> 1 \<le> sv_port sv"
  by (rule accepted_config_bounds[OF parse_sample_config]) blast

text \<open>A file that would be accepted but for one missing section is not refused with
  an error: reading it panics.\<close>

theorem missing_section_panics:
  assumes "vp_stat V file = None" "vp_read V file = None" "vp_unmarshal V file = Inr c'"
    and "validate_config N pe c env = Ret (Inr d)"
    and "c' \<in> {c\<lparr> cf_storage := None \<rparr>, c\<lparr> cf_log := None \<rparr>, c\<lparr> cf_metric := None \<rparr>, c\<lparr> cf_security := None \<rparr>,
      c\<lparr> cf_rtp := None \<rparr>, c\<lparr> cf_federation := None \<rparr>, c\<lparr> cf_server := None \<rparr>}"
  shows "parse_config V N pe file env = Panic"
proof -
  have "validate_config N pe c' env = Panic"
    by (rule validate_config_Inr[OF assms(4)])
      (use assms(5) in \<open>auto simp: validate_config_def attempt_def\<close>)
  then show ?thesis using assms(1-3) by (simp add: parse_config_def)
qed

lemma missing_section_panics_witness:
  "parse_config ((sample_viper False)\<lparr> vp_unmarshal := \<lambda>_. Inr ((sample_config False)\<lparr> cf_federation := None \<rparr>) \<rparr>)
     iri_net (\<lambda>_. Err []) [] (parse_env (sample_viper False)) = Panic"
proof -
  have "validate_config iri_net (\<lambda>_. Err []) (sample_config False) (parse_env (sample_viper False)) = Ret (Inr (sample_config False))"
    using parse_sample_config by (simp add: parse_config_def sample_viper_def)
  from missing_section_panics[OF _ _ _ this] show ?thesis by (simp add: sample_viper_def)
qed

end
