(* ===== verification/Gauges.thy ===== *)
theory Gauges
  imports Metric_Graph Config Http
begin

text \<open>
  The gauges of lobbies, sessions and tracks (\<^verbatim>\<open>internal/metric/lobby.go\<close>,
  \<^verbatim>\<open>lobby_session.go\<close>, \<^verbatim>\<open>lobby_session_track.go\<close>,
  \<^verbatim>\<open>http.go\<close>), the registration of all metrics (\<^verbatim>\<open>handler.go\<close>),
  the middleware that counts requests and the loop of a statistics worker
  (\<^verbatim>\<open>internal/rtp/stats/worker.go\<close>).  The vectors belong to the Prometheus
  library: the model records the calls made on them and asks the library whether a
  set of labels or a registration is accepted.  A refused lookup returns no gauge.
\<close>

section \<open>Vectors and calls\<close>

datatype vector = Running_Lobby | Running_Sessions | Track_Packet | Track_Packet_Bytes | Track_Nack | Track_Pli | Track_Fir
  | Track_Packet_Loss_Total | Track_Packet_Loss | Track_Jitter | Track_Rtt | Graph_Nodes | Graph_Edges
  | Total_Requests | Response_Status | Http_Duration

type_synonym metric_labels = "(string, string) gomap"

datatype 'f vector_call = Vec_Inc vector metric_labels | Vec_Dec vector metric_labels | Vec_Set vector metric_labels 'f
  | Vec_Observe vector metric_labels 'f | Vec_Delete vector metric_labels

record 'f prometheus =
  pl_get :: "vector \<Rightarrow> metric_labels \<Rightarrow> go_error option"
  pl_register :: "vector \<Rightarrow> vector list \<Rightarrow> go_error option"
  pl_float :: "int \<Rightarrow> 'f"

text \<open>The variables of the package: whether each metric was made, what the library has
  registered, and the calls.\<close>

record 'f metrics =
  mt_lobby :: bool
  mt_sessions :: bool
  mt_tracks :: bool
  mt_graph :: graph
  mt_registered :: "vector list"
  mt_calls :: "'f vector_call list"

definition vec_call :: "'f vector_call \<Rightarrow> 'f metrics \<Rightarrow> 'f metrics" where
  "vec_call c m = m\<lparr> mt_calls := mt_calls m @ [c] \<rparr>"

text \<open>\<^verbatim>\<open>With\<close> panics for labels the vector does not take.\<close>

definition with_labels :: "'f prometheus \<Rightarrow> vector \<Rightarrow> metric_labels \<Rightarrow> 'f vector_call \<Rightarrow> 'f metrics \<Rightarrow> 'f metrics outcome" where
  "with_labels P v ls c m = (case pl_get P v ls of None \<Rightarrow> Ret (vec_call c m) | Some _ \<Rightarrow> Panic)"

text \<open>The lookup whose result is used if it is an error: there is no gauge then.\<close>

definition if_lookup_failed :: "'f prometheus \<Rightarrow> vector \<Rightarrow> metric_labels \<Rightarrow> 'f metrics \<Rightarrow> 'f metrics outcome" where
  "if_lookup_failed P v ls m = (case pl_get P v ls of Some _ \<Rightarrow> Panic | None \<Rightarrow> Ret m)"

section \<open>Lobbies and sessions\<close>

definition running_lobby_inc :: "'f prometheus \<Rightarrow> string \<Rightarrow> string \<Rightarrow> 'f metrics \<Rightarrow> 'f metrics outcome" where
  "running_lobby_inc P stream lobby m =
     (if mt_lobby m then if_lookup_failed P Running_Lobby [(''stream'', stream), (''lobby'', lobby)] m else Ret m)"

definition running_lobby_dec :: "string \<Rightarrow> string \<Rightarrow> 'f metrics \<Rightarrow> 'f metrics" where
  "running_lobby_dec stream lobby m =
     (if mt_lobby m then vec_call (Vec_Delete Running_Lobby [(''stream'', stream), (''lobby'', lobby)]) m else m)"

definition running_sessions_inc :: "'f prometheus \<Rightarrow> string \<Rightarrow> 'f metrics \<Rightarrow> 'f metrics outcome" where
  "running_sessions_inc P lobby m =
     (if mt_sessions m then if_lookup_failed P Running_Sessions [(''lobby'', lobby)] m else Ret m)"

definition running_sessions_dec :: "'f prometheus \<Rightarrow> string \<Rightarrow> 'f metrics \<Rightarrow> 'f metrics outcome" where
  "running_sessions_dec P lobby m =
     (if mt_sessions m then if_lookup_failed P Running_Sessions [(''lobby'', lobby)] m else Ret m)"

definition running_sessions_delete :: "string \<Rightarrow> 'f metrics \<Rightarrow> 'f metrics" where
  "running_sessions_delete lobby m =
     (if mt_sessions m then vec_call (Vec_Delete Running_Sessions [(''lobby'', lobby)]) m else m)"

section \<open>Tracks\<close>

definition to_prom_labels :: "metric_labels \<Rightarrow> metric_labels" where
  "to_prom_labels labels = map (\<lambda>(key, val). (key, val)) labels"

definition track_set :: "'f prometheus \<Rightarrow> vector \<Rightarrow> metric_labels \<Rightarrow> int \<Rightarrow> 'f metrics \<Rightarrow> 'f metrics outcome" where
  "track_set P v labels n m =
     (if mt_tracks m
      then with_labels P v (to_prom_labels labels) (Vec_Set v (to_prom_labels labels) (pl_float P n)) m else Ret m)"

definition packet_inc :: "'f prometheus \<Rightarrow> metric_labels \<Rightarrow> 64 word \<Rightarrow> 'f metrics \<Rightarrow> 'f metrics outcome" where
  "packet_inc P labels pkg m = track_set P Track_Packet labels (uint pkg) m"
definition packet_bytes_inc :: "'f prometheus \<Rightarrow> metric_labels \<Rightarrow> 64 word \<Rightarrow> 'f metrics \<Rightarrow> 'f metrics outcome" where
  "packet_bytes_inc P labels pkg m = track_set P Track_Packet_Bytes labels (uint pkg) m"

definition track_lookup :: "'f prometheus \<Rightarrow> vector \<Rightarrow> metric_labels \<Rightarrow> 'f metrics \<Rightarrow> 'f metrics outcome" where
  "track_lookup P v labels m = (if mt_tracks m then if_lookup_failed P v (to_prom_labels labels) m else Ret m)"

definition nack_inc :: "'f prometheus \<Rightarrow> metric_labels \<Rightarrow> 32 word \<Rightarrow> 'f metrics \<Rightarrow> 'f metrics outcome" where
  "nack_inc P labels nack m = track_lookup P Track_Nack labels m"
definition pli_inc :: "'f prometheus \<Rightarrow> metric_labels \<Rightarrow> 32 word \<Rightarrow> 'f metrics \<Rightarrow> 'f metrics outcome" where
  "pli_inc P labels pli m = track_lookup P Track_Pli labels m"
definition fir_inc :: "'f prometheus \<Rightarrow> metric_labels \<Rightarrow> 32 word \<Rightarrow> 'f metrics \<Rightarrow> 'f metrics outcome" where
  "fir_inc P labels fir m = track_lookup P Track_Fir labels m"
definition packet_loss_total_inc :: "'f prometheus \<Rightarrow> metric_labels \<Rightarrow> 64 word \<Rightarrow> 'f metrics \<Rightarrow> 'f metrics outcome" where
  "packet_loss_total_inc P labels pkg m = track_lookup P Track_Packet_Loss_Total labels m"
definition packet_loss_inc :: "'f prometheus \<Rightarrow> metric_labels \<Rightarrow> 64 word \<Rightarrow> 'f metrics \<Rightarrow> 'f metrics outcome" where
  "packet_loss_inc P labels pkg m = (if pkg = 0 then Ret m else track_lookup P Track_Packet_Loss labels m)"
definition jitter_inc :: "'f prometheus \<Rightarrow> metric_labels \<Rightarrow> 'f \<Rightarrow> 'f metrics \<Rightarrow> 'f metrics outcome" where
  "jitter_inc P labels jitter m = track_lookup P Track_Jitter labels m"
definition rtt_inc :: "'f prometheus \<Rightarrow> metric_labels \<Rightarrow> 64 word \<Rightarrow> 'f metrics \<Rightarrow> 'f metrics outcome" where
  "rtt_inc P labels rtt m = (if rtt = 0 then Ret m else track_lookup P Track_Rtt labels m)"

definition track_delete :: "vector \<Rightarrow> metric_labels \<Rightarrow> 'f metrics \<Rightarrow> 'f metrics" where
  "track_delete v labels m = (if mt_tracks m then vec_call (Vec_Delete v (to_prom_labels labels)) m else m)"

definition packet_del :: "metric_labels \<Rightarrow> 'f metrics \<Rightarrow> 'f metrics" where "packet_del = track_delete Track_Packet"
definition packet_bytes_del :: "metric_labels \<Rightarrow> 'f metrics \<Rightarrow> 'f metrics" where
  "packet_bytes_del = track_delete Track_Packet_Bytes"
definition nack_del :: "metric_labels \<Rightarrow> 'f metrics \<Rightarrow> 'f metrics" where "nack_del = track_delete Track_Nack"
definition pli_del :: "metric_labels \<Rightarrow> 'f metrics \<Rightarrow> 'f metrics" where "pli_del = track_delete Track_Pli"
definition fir_del :: "metric_labels \<Rightarrow> 'f metrics \<Rightarrow> 'f metrics" where "fir_del = track_delete Track_Fir"
definition packet_loss_total_del :: "metric_labels \<Rightarrow> 'f metrics \<Rightarrow> 'f metrics" where
  "packet_loss_total_del = track_delete Track_Packet_Loss_Total"
definition packet_loss_del :: "metric_labels \<Rightarrow> 'f metrics \<Rightarrow> 'f metrics" where
  "packet_loss_del = track_delete Track_Packet_Loss"
definition jitter_del :: "metric_labels \<Rightarrow> 'f metrics \<Rightarrow> 'f metrics" where "jitter_del = track_delete Track_Jitter"
definition rtt_del :: "metric_labels \<Rightarrow> 'f metrics \<Rightarrow> 'f metrics" where "rtt_del = track_delete Track_Rtt"

definition clean_track_stats :: "metric_labels \<Rightarrow> 'f metrics \<Rightarrow> 'f metrics" where
  "clean_track_stats labels m =
     (let m = packet_del labels m; m = packet_bytes_del labels m; m = nack_del labels m; m = pli_del labels m;
          m = fir_del labels m; m = packet_loss_total_del labels m; m = packet_loss_del labels m; m = jitter_del labels m
      in rtt_del labels m)"

text \<open>Every call of the recording is commented out.\<close>

definition record_track_stats :: "metric_labels \<Rightarrow> 'st \<Rightarrow> 'f metrics \<Rightarrow> 'f metrics" where
  "record_track_stats labels stats_rec m = m"

text \<open>The loop of a worker: the events its \<^verbatim>\<open>select\<close> takes, in their order.\<close>

datatype worker_event = Worker_Cancel | Worker_Tick

fun stats_worker :: "(unit \<Rightarrow> 'st) \<Rightarrow> metric_labels \<Rightarrow> worker_event list \<Rightarrow> 'f metrics \<Rightarrow> bool \<times> 'f metrics" where
  "stats_worker get labels [] m = (True, m)"
| "stats_worker get labels (Worker_Cancel # es) m = (False, clean_track_stats labels m)"
| "stats_worker get labels (Worker_Tick # es) m = stats_worker get labels es (record_track_stats labels (get ()) m)"

section \<open>Registration\<close>

text \<open>Registering one vector after the other, each with the text of its error.\<close>

fun register_all :: "'f prometheus \<Rightarrow> (vector \<times> string) list \<Rightarrow> 'f metrics \<Rightarrow> go_error option \<times> 'f metrics" where
  "register_all P [] m = (None, m)"
| "register_all P ((v, msg) # vs) m =
     (case pl_register P v (mt_registered m) of
        Some e \<Rightarrow> (Some (Wrap msg e), m)
      | None \<Rightarrow> register_all P vs (m\<lparr> mt_registered := v # mt_registered m \<rparr>))"

definition new_lobby_metrics :: "'f prometheus \<Rightarrow> 'f metrics \<Rightarrow> go_error option \<times> 'f metrics" where
  "new_lobby_metrics P m =
     (if mt_lobby m then (Some (Err ''lobby metric already exists''), m)
      else register_all P [(Running_Lobby, ''register runningLobby metric: '')] (m\<lparr> mt_lobby := True \<rparr>))"

definition new_lobby_session_metrics :: "'f prometheus \<Rightarrow> 'f metrics \<Rightarrow> go_error option \<times> 'f metrics" where
  "new_lobby_session_metrics P m =
     (if mt_sessions m then (Some (Err ''lobby session metric already exists''), m)
      else register_all P [(Running_Sessions, ''register runningSessions metric: '')] (m\<lparr> mt_sessions := True \<rparr>))"

definition new_track_metric :: "'f prometheus \<Rightarrow> 'f metrics \<Rightarrow> go_error option \<times> 'f metrics" where
  "new_track_metric P m =
     register_all P
       [(Track_Packet, ''register packet metric: ''), (Track_Packet_Bytes, ''register packet metric: ''),
        (Track_Nack, ''register nack metric: ''), (Track_Pli, ''register pli metric: ''),
        (Track_Fir, ''register fir metric: ''), (Track_Packet_Loss_Total, ''register packetLossTotal metric: ''),
        (Track_Packet_Loss, ''register packetLoss metric: ''), (Track_Jitter, ''register jitter metric: ''),
        (Track_Rtt, ''register rtt metric: '')] m"

definition new_lobby_session_track_metrics :: "'f prometheus \<Rightarrow> 'f metrics \<Rightarrow> go_error option \<times> 'f metrics" where
  "new_lobby_session_track_metrics P m =
     (if mt_tracks m then (Some (Err ''lobby session track metric already exists''), m)
      else case new_track_metric P m of
          (Some _, m') \<Rightarrow> (Some (Err ''create ingress metric''), m')
        | (None, m') \<Rightarrow> (None, m'\<lparr> mt_tracks := True \<rparr>))"

definition new_service_graph_metrics :: "'f prometheus \<Rightarrow> 'f metrics \<Rightarrow> go_error option \<times> 'f metrics" where
  "new_service_graph_metrics P m =
     (if gr_on (mt_graph m) then (Some (Err ''node graph metric already exists''), m)
      else register_all P [(Graph_Nodes, ''register nodeGraph node metric: ''), (Graph_Edges, ''register nodeGraph edge metric: '')]
        (m\<lparr> mt_graph := (mt_graph m)\<lparr> gr_on := True \<rparr> \<rparr>))"

definition new_http_metric :: "'f prometheus \<Rightarrow> 'f metrics \<Rightarrow> go_error option \<times> 'f metrics" where
  "new_http_metric P m =
     register_all P [(Total_Requests, ''register totalRequest metric: ''), (Response_Status, ''register responseStatus metric: ''),
       (Http_Duration, ''register httpDuration metric: '')] m"

text \<open>A step that may fail, with the text its error is wrapped in.\<close>

definition setup_step ::
  "string \<Rightarrow> go_error option \<times> 'm \<Rightarrow> ('m \<Rightarrow> go_error option \<times> 'm) \<Rightarrow> go_error option \<times> 'm" where
  "setup_step msg r k = (case r of (Some e, m) \<Rightarrow> (Some (Wrap msg e), m) | (None, m) \<Rightarrow> k m)"

definition extend_metric_router :: "'f prometheus \<Rightarrow> prometheus_config \<Rightarrow> 'f metrics \<Rightarrow> go_error option \<times> 'f metrics" where
  "extend_metric_router P c m =
     (if pm_enable c then
        setup_step ''creating http metric setup: '' (new_http_metric P m) (\<lambda>m.
        setup_step ''creating lobby metric setup: '' (new_lobby_metrics P m) (\<lambda>m.
        setup_step ''creating session metric setup: '' (new_lobby_session_metrics P m) (\<lambda>m.
        setup_step ''creating track metric setup: '' (new_lobby_session_track_metrics P m) (\<lambda>m.
        setup_step ''creating service graph metric setup: '' (new_service_graph_metrics P m) (\<lambda>m. (None, m))))))
      else (None, m))"

text \<open>The error of the setup is only logged.\<close>

definition serve_metrics :: "'f prometheus \<Rightarrow> metric_config \<Rightarrow> 'f metrics \<Rightarrow> (go_error option \<times> 'f metrics) outcome" where
  "serve_metrics P c m =
     outcome_bind (deref (mc_prometheus c)) (\<lambda>p. Ret (None, snd (extend_metric_router P p m)))"

section \<open>The middleware\<close>

text \<open>The writer keeps the last status it was given; a status is written by
  \<^verbatim>\<open>http.Error\<close> too.\<close>

fun recorded_status :: "nat \<Rightarrow> reply list \<Rightarrow> nat" where
  "recorded_status c [] = c"
| "recorded_status c (Write_Header d # rs) = recorded_status d rs"
| "recorded_status c (Http_Error d _ # rs) = recorded_status d rs"
| "recorded_status c (_ # rs) = recorded_status c rs"

definition new_response_writer :: nat where "new_response_writer = 200"

definition get_prometheus_middleware ::
  "'f prometheus \<Rightarrow> (request \<Rightarrow> string) \<Rightarrow> 'f \<Rightarrow> 's handler \<Rightarrow> ('s \<times> 'f metrics) handler" where
  "get_prometheus_middleware P path_template elapsed next r st =
     (let (ws, s) = next r (fst st); path = path_template r;
          code = recorded_status new_response_writer ws in
      if Abort \<in> set ws \<or> Hang \<in> set ws then (ws, (s, snd st))
      else (ws, (s, vec_call (Vec_Observe Http_Duration [(''path'', path)] elapsed)
        (vec_call (Vec_Inc Total_Requests [(''path'', path)])
        (vec_call (Vec_Inc Response_Status [(''status'', show_nat code)]) (snd st))))))"

section \<open>What the vectors show\<close>

text \<open>A vector shows a set of labels once it was used with them, until it is deleted.\<close>

fun apply_vec :: "'f vector_call \<Rightarrow> (vector \<times> (string \<Rightarrow> string option)) set \<Rightarrow> (vector \<times> (string \<Rightarrow> string option)) set" where
  "apply_vec (Vec_Inc v ls) s = insert (v, map_of ls) s"
| "apply_vec (Vec_Dec v ls) s = insert (v, map_of ls) s"
| "apply_vec (Vec_Set v ls x) s = insert (v, map_of ls) s"
| "apply_vec (Vec_Observe v ls x) s = insert (v, map_of ls) s"
| "apply_vec (Vec_Delete v ls) s = s - {(v, map_of ls)}"

definition shown_vec :: "'f metrics \<Rightarrow> (vector \<times> (string \<Rightarrow> string option)) set" where
  "shown_vec m = fold apply_vec (mt_calls m) {}"

lemma shown_vec_call: "shown_vec (vec_call c m) = apply_vec c (shown_vec m)"
  by (simp add: shown_vec_def vec_call_def)

lemma vec_call_flags [simp]:
  "mt_lobby (vec_call c m) = mt_lobby m" "mt_sessions (vec_call c m) = mt_sessions m" "mt_tracks (vec_call c m) = mt_tracks m"
  by (simp_all add: vec_call_def)

lemma to_prom_labels_id [simp]: "to_prom_labels ls = ls"
  by (simp add: to_prom_labels_def)

definition track_vectors :: "vector set" where
  "track_vectors = {Track_Packet, Track_Packet_Bytes, Track_Nack, Track_Pli, Track_Fir, Track_Packet_Loss_Total,
     Track_Packet_Loss, Track_Jitter, Track_Rtt}"

lemma shown_clean:
  "shown_vec (clean_track_stats ls m) =
     (if mt_tracks m then shown_vec m - track_vectors \<times> {map_of ls} else shown_vec m)"
  by (auto simp: clean_track_stats_def Let_def packet_del_def packet_bytes_del_def nack_del_def pli_del_def fir_del_def
      packet_loss_total_del_def packet_loss_del_def jitter_del_def rtt_del_def track_delete_def shown_vec_call track_vectors_def)

lemma worker_stopped:
  "stats_worker get ls es m = (False, m') \<Longrightarrow> m' = clean_track_stats ls m"
  by (induction get ls es m rule: stats_worker.induct) (auto simp: record_track_stats_def)

text \<open>A lobby's and a session's life, as the gauges are told of it.\<close>

datatype lobby_event = Lobby_Started string string | Lobby_Stopped string string
  | Session_Started string | Session_Ended string | Sessions_Dropped string

fun on_lobby_event :: "'f prometheus \<Rightarrow> lobby_event \<Rightarrow> 'f metrics \<Rightarrow> 'f metrics outcome" where
  "on_lobby_event P (Lobby_Started s l) m = running_lobby_inc P s l m"
| "on_lobby_event P (Lobby_Stopped s l) m = Ret (running_lobby_dec s l m)"
| "on_lobby_event P (Session_Started l) m = running_sessions_inc P l m"
| "on_lobby_event P (Session_Ended l) m = running_sessions_dec P l m"
| "on_lobby_event P (Sessions_Dropped l) m = Ret (running_sessions_delete l m)"

fun on_lobby_events :: "'f prometheus \<Rightarrow> lobby_event list \<Rightarrow> 'f metrics \<Rightarrow> 'f metrics outcome" where
  "on_lobby_events P [] m = Ret m"
| "on_lobby_events P (e # es) m = outcome_bind (on_lobby_event P e m) (on_lobby_events P es)"

definition takes_lobby_labels :: "'f prometheus \<Rightarrow> bool" where
  "takes_lobby_labels P =
     ((\<forall>s l. pl_get P Running_Lobby [(''stream'', s), (''lobby'', l)] = None) \<and>
      (\<forall>l. pl_get P Running_Sessions [(''lobby'', l)] = None))"

lemma lobby_event_shows_less:
  assumes "takes_lobby_labels P"
  shows "\<exists>m'. on_lobby_event P e m = Ret m' \<and> shown_vec m' \<subseteq> shown_vec m"
  using assms
  by (cases e) (auto simp: takes_lobby_labels_def running_lobby_inc_def running_lobby_dec_def running_sessions_inc_def
      running_sessions_dec_def running_sessions_delete_def if_lookup_failed_def shown_vec_call)

text \<open>What the library documents: a name is registered once.\<close>

definition registers_once :: "'f prometheus \<Rightarrow> bool" where
  "registers_once P = (\<forall>v vs. v \<in> set vs \<longrightarrow> pl_register P v vs \<noteq> None)"

lemma register_all_grows:
  "register_all P vs m = (r, m') \<Longrightarrow> set (mt_registered m) \<subseteq> set (mt_registered m')"
  by (induction P vs m arbitrary: r m' rule: register_all.induct) (force split: option.splits)+

lemma register_all_done:
  "register_all P ((v, msg) # vs) m = (None, m') \<Longrightarrow> v \<in> set (mt_registered m')"
  by (auto split: option.splits dest: register_all_grows)

lemma setup_step_None:
  "setup_step msg r k = (None, m') \<longleftrightarrow> (\<exists>m. r = (None, m) \<and> k m = (None, m'))"
  by (auto simp: setup_step_def split: prod.splits option.splits)

lemma setup_keeps_http:
  assumes "extend_metric_router P c m = (None, m')" "pm_enable c"
  shows "Total_Requests \<in> set (mt_registered m')"
proof -
  obtain a b d e where s: "new_http_metric P m = (None, a)" "new_lobby_metrics P a = (None, b)"
    "new_lobby_session_metrics P b = (None, d)" "new_lobby_session_track_metrics P d = (None, e)"
    "new_service_graph_metrics P e = (None, m')"
    using assms by (auto simp: extend_metric_router_def setup_step_None)
  have "Total_Requests \<in> set (mt_registered a)" using s(1) unfolding new_http_metric_def by (rule register_all_done)
  moreover have "set (mt_registered a) \<subseteq> set (mt_registered b)" "set (mt_registered b) \<subseteq> set (mt_registered d)"
    using s(2,3) unfolding new_lobby_metrics_def new_lobby_session_metrics_def
    by (auto simp del: register_all.simps split: if_splits dest!: register_all_grows)
  moreover have "set (mt_registered d) \<subseteq> set (mt_registered e)"
    using s(4) unfolding new_lobby_session_track_metrics_def new_track_metric_def
    by (auto simp del: register_all.simps split: if_splits prod.splits option.splits dest!: register_all_grows)
  moreover have "set (mt_registered e) \<subseteq> set (mt_registered m')"
    using s(5) unfolding new_service_graph_metrics_def
    by (auto simp del: register_all.simps split: if_splits dest!: register_all_grows)
  ultimately show ?thesis by blast
qed

section \<open>Properties\<close>

definition sample_prometheus :: "int prometheus" where
  "sample_prometheus = \<lparr> pl_get = (\<lambda>_ _. None), pl_register = (\<lambda>v vs. if v \<in> set vs then Some (Err ''duplicate'') else None),
     pl_float = id \<rparr>"

definition no_metrics :: "int metrics" where
  "no_metrics = \<lparr> mt_lobby = False, mt_sessions = False, mt_tracks = False,
     mt_graph = \<lparr> gr_on = False, gr_calls = [] \<rparr>, mt_registered = [], mt_calls = [] \<rparr>"



text \<open>A worker that is cancelled, after any number of ticks, leaves no entry of its
  track in any of the nine track vectors, and every other entry as it was; the ticks
  themselves record nothing.\<close>

theorem cancelled_worker_cleans_up:
  assumes "stats_worker get labels es m = (False, m')" "mt_tracks m"
  shows "shown_vec m' = shown_vec m - track_vectors \<times> {map_of labels}"
  using worker_stopped[OF assms(1)] assms(2) by (simp add: shown_clean)

lemma cancelled_worker_cleans_up_witness:
  "shown_vec (snd (stats_worker (\<lambda>_. ()) [(''track'', ''t'')] [Worker_Tick, Worker_Cancel, Worker_Tick]
     (no_metrics\<lparr> mt_tracks := True, mt_calls := [Vec_Set Track_Packet [(''track'', ''t'')] 1] \<rparr>))) = {}"
proof -
  let ?m = "no_metrics\<lparr> mt_tracks := True, mt_calls := [Vec_Set Track_Packet [(''track'', ''t'')] 1] \<rparr>"
  obtain m' where w: "stats_worker (\<lambda>_. ()) [(''track'', ''t'')] [Worker_Tick, Worker_Cancel, Worker_Tick] ?m = (False, m')"
    by simp
  from cancelled_worker_cleans_up[OF w] show ?thesis
    by (simp only: w snd_conv) (simp add: shown_vec_def track_vectors_def)
qed

text \<open>The metrics are set up once: a second setup fails at its first registration
  and changes nothing, while the server of the metrics starts all the same.\<close>

theorem metrics_registered_once:
  assumes "registers_once P" "pm_enable c" "extend_metric_router P c m = (None, m')"
  shows "\<exists>e. extend_metric_router P c m' = (Some e, m')"
    and "serve_metrics P \<lparr> mc_prometheus = Some c \<rparr> m' = Ret (None, m')"
proof -
  obtain e where "pl_register P Total_Requests (mt_registered m') = Some e"
    using assms(1) setup_keeps_http[OF assms(3,2)] unfolding registers_once_def by blast
  then have "extend_metric_router P c m' =
      (Some (Wrap ''creating http metric setup: '' (Wrap ''register totalRequest metric: '' e)), m')"
    using assms(2) by (simp add: extend_metric_router_def new_http_metric_def setup_step_def)
  then show "\<exists>e. extend_metric_router P c m' = (Some e, m')"
    "serve_metrics P \<lparr> mc_prometheus = Some c \<rparr> m' = Ret (None, m')"
    by (simp_all add: serve_metrics_def)
qed

lemma metrics_registered_once_witness:
  "\<exists>e m'. extend_metric_router sample_prometheus \<lparr> pm_enable = True, pm_endpoint = ''/m'', pm_port = 1 \<rparr> m' = (Some e, m')"
proof -
  let ?c = "\<lparr> pm_enable = True, pm_endpoint = ''/m'', pm_port = 1 \<rparr>"
  have r: "registers_once sample_prometheus" by (simp add: registers_once_def sample_prometheus_def)
  have "\<exists>m'. extend_metric_router sample_prometheus ?c no_metrics = (None, m')"
    by (simp add: extend_metric_router_def setup_step_def new_http_metric_def new_lobby_metrics_def new_lobby_session_metrics_def
        new_lobby_session_track_metrics_def new_track_metric_def new_service_graph_metrics_def sample_prometheus_def no_metrics_def)
  then obtain m' where "extend_metric_router sample_prometheus ?c no_metrics = (None, m')" by blast
  from metrics_registered_once(1)[OF r _ this] show ?thesis by auto
qed

end
