(* ===== verification/Server.thy ===== *)
theory Server
  imports Gauges Actor_Document
begin

text \<open>
  The start of an instance: the log (\<^verbatim>\<open>internal/logging\<close>), the migration of
  the database with the instance's own actor and the trusted instances
  (\<^verbatim>\<open>internal/migration\<close>), the federation's parts
  (\<^verbatim>\<open>internal/activitypub/api.go\<close>), the tracer
  (\<^verbatim>\<open>internal/telemetry\<close>), the server (\<^verbatim>\<open>internal/sfu/server.go\<close>) and
  the main program (\<^verbatim>\<open>cmd/server\<close>).  The database, the file system, the
  exporter of traces and the HTTP server are parameters.
\<close>

section \<open>Environment\<close>

text \<open>\<^verbatim>\<open>Create\<close> fills in the identifier of the row; its errors are not looked at
  here.\<close>

record 'db migration_store =
  mg_auto_migrate :: "'db \<Rightarrow> go_error option \<times> 'db"
  mg_has_actors :: "'db \<Rightarrow> bool"
  mg_create_actor :: "actor \<Rightarrow> 'db \<Rightarrow> actor \<times> 'db"
  mg_create_account :: "account \<Rightarrow> 'db \<Rightarrow> 'db"

record ('db, 'f) server_env =
  se_open :: "string \<Rightarrow> 'db result"
  se_store :: "'db migration_store"
  se_ap :: "'db ap_store"
  se_net :: net
  se_parse_error :: "string \<Rightarrow> go_error"
  se_keys :: "(string \<times> string) result"
  se_md5_hex :: "string \<Rightarrow> string"
  se_must_parse :: "string \<Rightarrow> uuid"
  se_uuid_str :: "uuid \<Rightarrow> string"
  se_prometheus :: "'f prometheus"
  se_exporter :: "unit result"
  se_resource :: "unit result"
  se_procs :: nat
  se_open_file :: "string \<Rightarrow> go_error option"
  se_app_env :: string

section \<open>Log\<close>

datatype log_level = Level_Warn | Level_Error | Level_Debug | Level_Info
datatype log_format = Json_Log | Text_Log

record slog =
  sl_file :: "string option"
  sl_level :: log_level
  sl_format :: log_format

definition new_slog :: "('db, 'f) server_env \<Rightarrow> log_config \<Rightarrow> slog result" where
  "new_slog E c =
     (case (if lo_file c \<noteq> ''stdout'' then se_open_file E (lo_file c) else None) of
        Some e \<Rightarrow> Inl (Err (''opening log file: '' @ error_text e))
      | None \<Rightarrow> Inr \<lparr> sl_file = (if lo_file c \<noteq> ''stdout'' then Some (lo_file c) else None),
          sl_level = (if lo_level c = ''WARN'' then Level_Warn else if lo_level c = ''ERROR'' then Level_Error
                      else if lo_level c = ''DEBUG'' then Level_Debug else Level_Info),
          sl_format = (if se_app_env E = ''production'' then Json_Log else Text_Log) \<rparr>)"

section \<open>Migration\<close>

definition build_trusted_instance_account ::
  "('db, 'f) server_env \<Rightarrow> trusted_instance \<Rightarrow> 'db \<Rightarrow> (go_error option \<times> 'db) outcome" where
  "build_trusted_instance_account E i db =
     (case nt_parse_url (se_net E) (ti_actor i) of
        None \<Rightarrow> Ret (Some (Wrap ''migration parsing trusted instance actor id: '' (se_parse_error E (ti_actor i))), db)
      | Some iri \<Rightarrow>
          outcome_bind (new_trusted_instance_actor (se_net E) iri (ti_name i)) (\<lambda>a. case a of
            Inl e \<Rightarrow> Ret (Some (Wrap ''migration building actor: '' e), db)
          | Inr actor \<Rightarrow>
              (let db1 = snd (mg_create_actor (se_store E) actor db) in
               case as_actor_by_iri (se_ap E) (url_string iri) db1 of
                 Inl e \<Rightarrow> Ret (Some (Wrap ''migration loading actor: '' e), db1)
               | Inr saved \<Rightarrow>
                   (let account = create_instance_account (se_md5_hex E) (se_must_parse E) (se_uuid_str E)
                          (ti_name i @ ''@'' @ ur_host iri) (at_id saved);
                        db2 = mg_create_account (se_store E) account db1
                    in Ret (None, snd (as_create_instance (se_ap E) (new_instance saved) db2))))))"

fun build_trusted_instances ::
  "('db, 'f) server_env \<Rightarrow> trusted_instance list \<Rightarrow> 'db \<Rightarrow> (go_error option \<times> 'db) outcome" where
  "build_trusted_instances E [] db = Ret (None, db)"
| "build_trusted_instances E (i # is) db =
     outcome_bind (build_trusted_instance_account E i db) (\<lambda>(e, db').
       if e \<noteq> None then Ret (e, db') else build_trusted_instances E is db')"

definition create_instance_actor ::
  "('db, 'f) server_env \<Rightarrow> federation_config option \<Rightarrow> 'db \<Rightarrow> (go_error option \<times> 'db) outcome" where
  "create_instance_actor E fc db =
     outcome_bind (deref fc) (\<lambda>c.
     outcome_bind (deref (fe_url c)) (\<lambda>u.
     outcome_bind (new_instance_actor (se_net E) (se_keys E) u (fe_username c)) (\<lambda>a. case a of
       Inl e \<Rightarrow> Ret (Some (Wrap ''creating instance actor: '' e), db)
     | Inr actor \<Rightarrow>
         (let (created, db1) = mg_create_actor (se_store E) actor db;
              db2 = snd (as_create_instance (se_ap E) (new_instance created) db1)
          in build_trusted_instances E (fe_trusted c) db2))))"

definition migrate ::
  "('db, 'f) server_env \<Rightarrow> federation_config option \<Rightarrow> 'db \<Rightarrow> (go_error option \<times> 'db) outcome" where
  "migrate E fc db =
     (case mg_auto_migrate (se_store E) db of
        (Some e, db') \<Rightarrow> Ret (Some (Wrap ''migrating the space schema: '' e), db')
      | (None, db') \<Rightarrow>
          if mg_has_actors (se_store E) db' then
            (case as_first_actor (se_ap E) no_actor db' of
               Inl e \<Rightarrow> if errors_is e err_record_not_found then create_instance_actor E fc db' else Ret (None, db')
             | Inr _ \<Rightarrow> Ret (None, db'))
          else Ret (None, db'))"

section \<open>The parts of the federation\<close>

definition new_ap_api ::
  "('db, 'f) server_env \<Rightarrow> federation_config option \<Rightarrow> 'db \<Rightarrow> (go_error option \<times> 'db) outcome" where
  "new_ap_api E fc db =
     outcome_bind (migrate E fc db) (\<lambda>(e, db').
       Ret (case e of Some x \<Rightarrow> Some (Wrap ''creation schema for federation: '' x) | None \<Rightarrow> None, db'))"

text \<open>The numbers of the workers that take jobs from the queue.\<close>

definition init_worker_pool :: "nat \<Rightarrow> nat list" where "init_worker_pool procs = [1..<procs + 1]"

definition boostrap_api :: "('db, 'f) server_env \<Rightarrow> federation_config \<Rightarrow> (nat list \<times> nat list) option" where
  "boostrap_api E c =
     (if fe_enable c then Some (init_worker_pool (se_procs E), init_worker_pool (se_procs E)) else None)"

section \<open>The server\<close>

definition new_store :: "('db, 'f) server_env \<Rightarrow> storage_config \<Rightarrow> 'db result" where
  "new_store E c =
     (if so_name c = ''sqlite3'' then wrap_err ''connecting sqlite3 database: '' (se_open E (so_data_source c))
      else Inl (Err (''creating storage '' @ so_name c @ '' not supported'')))"

text \<open>The exporter dials and waits for the collector at most five seconds.\<close>

definition new_tempo_exporter :: "('db, 'f) server_env \<Rightarrow> unit result" where
  [simp]: "new_tempo_exporter E = wrap_err ''creating HTTP trace exporter: '' (se_exporter E)"

definition new_tracer_provider :: "('db, 'f) server_env \<Rightarrow> bool option \<Rightarrow> unit result outcome" where
  "new_tracer_provider E c =
     outcome_bind (deref c) (\<lambda>enable. Ret (
       case (if enable then new_tempo_exporter E else Inr ()) of
         Inl e \<Rightarrow> Inl (Wrap ''creating OTLP trace exporter: '' e)
       | Inr _ \<Rightarrow> wrap_err ''creating OTLP resource: '' (se_resource E)))"

record ('db, 'f) server =
  sr_addr :: string
  sr_home :: url
  sr_ice :: "webrtc_ice_server list"
  sr_register_token :: string
  sr_workers :: "(nat list \<times> nat list) option"
  sr_db :: 'db
  sr_metrics :: "'f metrics"

definition home_of :: "('db, 'f) server_env \<Rightarrow> federation_config \<Rightarrow> url outcome" where
  "home_of E f =
     outcome_bind (deref (fe_url f)) (\<lambda>u.
     outcome_bind (deref (nt_parse_url (se_net E) (url_string u))) (\<lambda>host.
       Ret (host\<lparr> ur_path := ''federation/accounts/'' @ fe_username f \<rparr>)))"

definition new_server ::
  "('db, 'f) server_env \<Rightarrow> sfu_config \<Rightarrow> 'f metrics \<Rightarrow> ('db, 'f) server result outcome" where
  "new_server E c m =
     outcome_bind (deref (cf_storage c)) (\<lambda>st. case new_store E st of
       Inl e \<Rightarrow> Ret (Inl (Wrap ''setup storage '' e))
     | Inr db \<Rightarrow>
         outcome_bind (migrate E (cf_federation c) db) (\<lambda>(e, db1). case e of
           Some x \<Rightarrow> Ret (Inl (Wrap ''bild database shema '' x))
         | None \<Rightarrow>
             outcome_bind (deref (cf_rtp c)) (\<lambda>rtp.
             outcome_bind (deref (cf_federation c)) (\<lambda>f.
             outcome_bind (home_of E f) (\<lambda>home.
             outcome_bind (new_ap_api E (cf_federation c) db1) (\<lambda>(e, db2). case e of
               Some x \<Rightarrow> Ret (Inl (Wrap ''creating federation api: '' x))
             | None \<Rightarrow>
                 outcome_bind (deref (cf_metric c)) (\<lambda>mc.
                 outcome_bind (serve_metrics (se_prometheus E) mc m) (\<lambda>(e, m'). case e of
                   Some x \<Rightarrow> Ret (Inl (Wrap ''serving metrics: '' x))
                 | None \<Rightarrow>
                     outcome_bind (new_tracer_provider E (cf_telemetry c)) (\<lambda>t. case t of
                       Inl x \<Rightarrow> Ret (Inl (Wrap ''starting telemetry tracer provider: '' x))
                     | Inr _ \<Rightarrow>
                         outcome_bind (deref (cf_server c)) (\<lambda>s. Ret (Inr
                           \<lparr> sr_addr = sv_host s @ '':'' @ show_int (sv_port s), sr_home = home,
                             sr_ice = get_webrtc_conf rtp, sr_register_token = fe_register_token f,
                             sr_workers = boostrap_api E f, sr_db = db2, sr_metrics = m' \<rparr>)))))))))))"

definition err_server_closed :: go_error where "err_server_closed = Err ''http: Server closed''"

text \<open>The end of serving, which always has an error.\<close>

definition server_serve :: "go_error \<Rightarrow> go_error option" where
  "server_serve e = (if \<not> errors_is e err_server_closed then Some (Wrap ''listening and serve: '' e) else None)"

definition server_shutdown :: "go_error option \<Rightarrow> go_error option \<Rightarrow> go_error option" where
  "server_shutdown tracer http =
     (case tracer of
        Some e \<Rightarrow> Some (Wrap ''shutting down tracer provider: '' e)
      | None \<Rightarrow> (case http of Some e \<Rightarrow> Some (Wrap ''shuting down http server: '' e) | None \<Rightarrow> None))"

text \<open>The main program up to the point where it serves: an error ends it with a panic.\<close>

definition start_program ::
  "('db, 'f) server_env \<Rightarrow> viper \<Rightarrow> string \<Rightarrow> 'f metrics \<Rightarrow> ('db, 'f) server outcome" where
  "start_program E V file m =
     outcome_bind (parse_config V (se_net E) (se_parse_error E) file (parse_env V)) (\<lambda>c. case c of
       Inl e \<Rightarrow> Panic
     | Inr conf \<Rightarrow>
         outcome_bind (deref (cf_log conf)) (\<lambda>lo. case new_slog E lo of
           Inl e \<Rightarrow> Panic
         | Inr log \<Rightarrow>
             outcome_bind (new_server E conf m) (\<lambda>s. case s of Inl e \<Rightarrow> Panic | Inr server \<Rightarrow> Ret server)))"

section \<open>Lemmas\<close>

text \<open>What the documentation of the database promises: migrating a migrated schema does
  nothing, the schema and a first row stay, and a row created in an empty table is
  found.\<close>

definition has_first :: "('db, 'f) server_env \<Rightarrow> 'db \<Rightarrow> bool" where
  "has_first E db = is_ok (as_first_actor (se_ap E) no_actor db)"

definition tables_kept :: "('db, 'f) server_env \<Rightarrow> ('db \<Rightarrow> bool) \<Rightarrow> bool" where
  "tables_kept E P =
     ((\<forall>a db. P db \<longrightarrow> P (snd (mg_create_actor (se_store E) a db))) \<and>
      (\<forall>a db. P db \<longrightarrow> P (mg_create_account (se_store E) a db)) \<and>
      (\<forall>i db. P db \<longrightarrow> P (snd (as_create_instance (se_ap E) i db))))"

definition migrated_schema :: "('db, 'f) server_env \<Rightarrow> ('db \<Rightarrow> bool) \<Rightarrow> bool" where
  "migrated_schema E schema =
     ((\<forall>db db'. mg_auto_migrate (se_store E) db = (None, db') \<longrightarrow> schema db') \<and>
      (\<forall>db. schema db \<longrightarrow> mg_auto_migrate (se_store E) db = (None, db)) \<and>
      tables_kept E schema \<and> tables_kept E (has_first E) \<and>
      (\<forall>a db. \<not> has_first E db \<longrightarrow> has_first E (snd (mg_create_actor (se_store E) a db))))"

text \<open>What the tables keep, a whole migration keeps.\<close>

definition leaves :: "('db \<Rightarrow> bool) \<Rightarrow> (go_error option \<times> 'db) outcome \<Rightarrow> bool" where
  "leaves P m = returns_only (\<lambda>r. P (snd r)) m"

lemma trusted_account_keeps:
  assumes "tables_kept E P" "P db" shows "leaves P (build_trusted_instance_account E i db)"
  using assms unfolding leaves_def build_trusted_instance_account_def Let_def
  by (intro ret_intros) (simp_all add: tables_kept_def)

lemma trusted_instances_keep:
  assumes "tables_kept E P" "P db" shows "leaves P (build_trusted_instances E is db)"
  using assms(2)
proof (induction "is" arbitrary: db)
  case (Cons i js)
  note k = trusted_account_keeps[OF assms(1) Cons.prems, of i]
  show ?case unfolding leaves_def build_trusted_instances.simps
  proof (intro ret_intros, goal_cases)
    case (1 x e db')
    then show ?case using k by (simp add: leaves_def returns_only_def)
  next
    case (2 x e db')
    then have "P db'" using k by (auto simp: leaves_def returns_only_def)
    from Cons.IH[OF this] show ?case by (simp add: leaves_def)
  qed
qed (simp add: leaves_def returns_only_def)

lemma error_first:
  "(case r of Inl e \<Rightarrow> Ret (Inl (f e)) | Inr x \<Rightarrow> g x) = Ret (Inr y) \<longleftrightarrow> (\<exists>x. r = Inr x \<and> g x = Ret (Inr y))"
  "(case o' of Some e \<Rightarrow> Ret (Inl (f e)) | None \<Rightarrow> h) = Ret (Inr y) \<longleftrightarrow> o' = None \<and> h = Ret (Inr y)"
  "(case r of Inl e \<Rightarrow> Panic | Inr x \<Rightarrow> k x) = Ret u \<longleftrightarrow> (\<exists>x. r = Inr x \<and> k x = Ret u)"
  "(case r of Inl e \<Rightarrow> Ret (Some (f' e), d) | Inr x \<Rightarrow> g' x) = Ret (None, z) \<longleftrightarrow> (\<exists>x. r = Inr x \<and> g' x = Ret (None, z))"
  by (auto split: sum.splits option.splits)

lemma migrated_once:
  assumes "migrated_schema E schema" "migrate E fc db = Ret (None, db')"
  shows "migrate E fc db' = Ret (None, db')"
proof -
  note L = assms(1)[unfolded migrated_schema_def]
  obtain d where d: "mg_auto_migrate (se_store E) db = (None, d)"
    using assms(2) by (auto simp: migrate_def split: prod.splits option.splits)
  have sd: "schema d" using L d by blast
  have k: "tables_kept E schema" "tables_kept E (has_first E)" using L by blast+
  have "schema db' \<and> (has_first E db' \<or> db' = d)"
  proof (cases "migrate E fc db = create_instance_actor E fc d \<and> \<not> has_first E d")
    case False
    then have "db' = d"
      using assms(2) d by (auto simp: migrate_def has_first_def split: if_splits sum.splits)
    then show ?thesis using sd by simp
  next
    case True
    then have "create_instance_actor E fc d = Ret (None, db')" using assms(2) by simp
    then obtain c u a where c: "fc = Some c" "fe_url c = Some u"
      "new_instance_actor (se_net E) (se_keys E) u (fe_username c) = Ret (Inr a)"
      by (auto simp: create_instance_actor_def outcome_simps error_first)
    define e where "e = snd (as_create_instance (se_ap E) (new_instance (fst (mg_create_actor (se_store E) a d)))
      (snd (mg_create_actor (se_store E) a d)))"
    have "schema (snd (mg_create_actor (se_store E) a d))" "has_first E (snd (mg_create_actor (se_store E) a d))"
      using L sd True k(1) unfolding tables_kept_def by blast+
    then have e: "schema e \<and> has_first E e" using k unfolding e_def tables_kept_def by blast
    have b: "build_trusted_instances E (fe_trusted c) e = Ret (None, db')"
      using conjunct1[OF True] assms(2) c by (simp add: create_instance_actor_def e_def split_beta Let_def)
    show ?thesis
      using trusted_instances_keep[OF k(1), of e "fe_trusted c"] trusted_instances_keep[OF k(2), of e "fe_trusted c"] e b
      by (simp add: leaves_def returns_only_def)
  qed
  then have f: "has_first E db' \<or> db' = d" and "mg_auto_migrate (se_store E) db' = (None, db')" using L by blast+
  then show ?thesis
    using assms(2) d by (cases "has_first E db'") (auto simp: migrate_def has_first_def is_ok_iff)
qed

lemma new_server_Inr:
  assumes "new_server E c m = Ret (Inr s)"
  obtains st db db1 db2 rtp f home mc sv m' where
    "cf_storage c = Some st" "new_store E st = Inr db" "migrate E (cf_federation c) db = Ret (None, db1)"
    "cf_rtp c = Some rtp" "cf_federation c = Some f" "home_of E f = Ret home" "new_ap_api E (Some f) db1 = Ret (None, db2)"
    "cf_metric c = Some mc" "serve_metrics (se_prometheus E) mc m = Ret (None, m')" "cf_server c = Some sv"
    "s = \<lparr> sr_addr = sv_host sv @ '':'' @ show_int (sv_port sv), sr_home = home, sr_ice = get_webrtc_conf rtp,
       sr_register_token = fe_register_token f, sr_workers = boostrap_api E f, sr_db = db2, sr_metrics = m' \<rparr>"
  using assms unfolding new_server_def
  by (auto simp: outcome_simps error_first)

text \<open>The accounts of instances all carry the identifier the generator makes.\<close>

definition unique_accounts :: "('db, 'f) server_env \<Rightarrow> ('db \<Rightarrow> account list) \<Rightarrow> bool" where
  "unique_accounts E accounts =
     ((\<forall>a db. accounts (mg_create_account (se_store E) a db) =
        (if \<exists>b\<in>set (accounts db). ac_uuid b = ac_uuid a then accounts db else accounts db @ [a])) \<and>
      (\<forall>db. accounts (snd (mg_auto_migrate (se_store E) db)) = accounts db) \<and>
      (\<forall>a db. accounts (snd (mg_create_actor (se_store E) a db)) = accounts db) \<and>
      (\<forall>i db. accounts (snd (as_create_instance (se_ap E) i db)) = accounts db))"

definition instance_uuid :: "('db, 'f) server_env \<Rightarrow> string" where
  "instance_uuid E = se_uuid_str E (create_shig_instance_id (se_md5_hex E) (se_must_parse E) [])"

definition one_instance_account :: "('db, 'f) server_env \<Rightarrow> ('db \<Rightarrow> account list) \<Rightarrow> 'db \<Rightarrow> bool" where
  "one_instance_account E accounts db =
     (length (accounts db) \<le> 1 \<and> (\<forall>a\<in>set (accounts db). ac_uuid a = instance_uuid E))"

lemma trusted_account_shared:
  assumes "unique_accounts E accounts" "one_instance_account E accounts db"
  shows "leaves (one_instance_account E accounts) (build_trusted_instance_account E i db)"
proof -
  note U = assms(1)[unfolded unique_accounts_def]
  have a: "one_instance_account E accounts (snd (mg_create_actor (se_store E) x db))" for x
    using assms(2) U by (simp add: one_instance_account_def)
  have c: "one_instance_account E accounts
      (mg_create_account (se_store E) (create_instance_account (se_md5_hex E) (se_must_parse E) (se_uuid_str E) n k) d)"
    if "one_instance_account E accounts d" for n k d
  proof -
    have u: "ac_uuid (create_instance_account (se_md5_hex E) (se_must_parse E) (se_uuid_str E) n k) = instance_uuid E"
      by (simp add: create_instance_account_def instance_uuid_def create_shig_instance_id_def)
    show ?thesis
    proof (cases "accounts d")
      case Nil
      then show ?thesis using U u by (simp add: one_instance_account_def)
    next
      case (Cons b bs)
      then show ?thesis using U u that by (simp add: one_instance_account_def)
    qed
  qed
  have s: "one_instance_account E accounts (snd (as_create_instance (se_ap E) j d))" if "one_instance_account E accounts d" for j d
    using that U by (simp add: one_instance_account_def)
  show ?thesis unfolding leaves_def build_trusted_instance_account_def Let_def
    by (intro ret_intros) (simp_all add: a c s assms(2))
qed

lemma trusted_instances_shared:
  assumes "unique_accounts E accounts" "one_instance_account E accounts db"
  shows "leaves (one_instance_account E accounts) (build_trusted_instances E is db)"
  using assms(2)
proof (induction "is" arbitrary: db)
  case (Cons i js)
  note k = trusted_account_shared[OF assms(1) Cons.prems, of i]
  show ?case unfolding leaves_def build_trusted_instances.simps
  proof (intro ret_intros, goal_cases)
    case (1 x e db')
    then show ?case using k by (simp add: leaves_def returns_only_def)
  next
    case (2 x e db')
    then have "one_instance_account E accounts db'" using k by (auto simp: leaves_def returns_only_def)
    from Cons.IH[OF this] show ?case by (simp add: leaves_def)
  qed
qed (simp add: leaves_def returns_only_def)

section \<open>Properties\<close>

type_synonym sample_db = "actor list \<times> account list \<times> bool"

definition sample_server :: "(sample_db, int) server_env" where
  "sample_server =
     \<lparr> se_open = (\<lambda>_. Inr ([], [], False)),
       se_store = \<lparr> mg_auto_migrate = (\<lambda>(xs, ys, _). (None, (xs, ys, True))), mg_has_actors = (\<lambda>(xs, ys, b). b),
         mg_create_actor = (\<lambda>a (xs, ys, b). (a\<lparr> at_id := length xs + 1 \<rparr>, (xs @ [a\<lparr> at_id := length xs + 1 \<rparr>], ys, b))),
         mg_create_account = (\<lambda>a (xs, ys, b).
           (xs, if \<exists>y\<in>set ys. ac_uuid y = ac_uuid a then ys else ys @ [a], b)) \<rparr>,
       se_ap = \<lparr> as_actor_by_iri = (\<lambda>i (xs, _). case find (\<lambda>a. at_iri a = i) xs of None \<Rightarrow> Inl err_record_not_found | Some a \<Rightarrow> Inr a),
         as_first_actor = (\<lambda>_ (xs, _). case xs of [] \<Rightarrow> Inl err_record_not_found | a # _ \<Rightarrow> Inr a),
         as_actors_by_ids = (\<lambda>_ _. Inr []), as_upsert_actor = (\<lambda>a db. (Inr a, db)),
         as_first_follow = (\<lambda>_ _. Inl err_record_not_found), as_find_follows = (\<lambda>_ _ _ _. Inr []),
         as_create_follow = (\<lambda>f db. (Inr f, db)), as_save_follow = (\<lambda>f db. (Inr f, db)),
         as_instance_by_actor = (\<lambda>_ _. Inl err_record_not_found), as_create_instance = (\<lambda>i db. (Inr i, db)),
         as_upsert_video = (\<lambda>v db. (Inr v, db)), as_delete_video = (\<lambda>_ db. (None, db)) \<rparr>,
       se_net = iri_net, se_parse_error = (\<lambda>_. Err []), se_keys = Inr (''private'', ''public''),
       se_md5_hex = id, se_must_parse = (\<lambda>_. 7), se_uuid_str = (\<lambda>u. show_nat (unat u)),
       se_prometheus = sample_prometheus, se_exporter = Inr (), se_resource = Inr (), se_procs = 2,
       se_open_file = (\<lambda>_. None), se_app_env = [] \<rparr>"

lemma sample_server_sel:
  "se_net sample_server = iri_net"
  "se_open sample_server = (\<lambda>_. Inr ([], [], False))"
  "se_keys sample_server = Inr (''private'', ''public'')"
  "mg_auto_migrate (se_store sample_server) (xs, ys, b) = (None, (xs, ys, True))"
  "mg_has_actors (se_store sample_server) (xs, ys, b) = b"
  "mg_create_actor (se_store sample_server) a (xs, ys, b) =
     (a\<lparr> at_id := length xs + 1 \<rparr>, (xs @ [a\<lparr> at_id := length xs + 1 \<rparr>], ys, b))"
  "mg_create_account (se_store sample_server) c (xs, ys, b) =
     (xs, if \<exists>y\<in>set ys. ac_uuid y = ac_uuid c then ys else ys @ [c], b)"
  "as_first_actor (se_ap sample_server) k (xs, ys, b) = (case xs of [] \<Rightarrow> Inl err_record_not_found | a # _ \<Rightarrow> Inr a)"
  "as_create_instance (se_ap sample_server) i db = (Inr i, db)"
  "as_actor_by_iri (se_ap sample_server) iri (xs, ys, b) =
     (case find (\<lambda>a. at_iri a = iri) xs of None \<Rightarrow> Inl err_record_not_found | Some a \<Rightarrow> Inr a)"
  by (simp_all add: sample_server_def)

lemma sample_server_tables:
  "migrated_schema sample_server (\<lambda>db. snd (snd db))" "unique_accounts sample_server (\<lambda>db. fst (snd db))"
  by (auto simp: migrated_schema_def tables_kept_def unique_accounts_def has_first_def sample_server_sel split: list.splits)

text \<open>C15: an instance whose file does not enable the federation never gets to serve: its
  address stays nil, and the server reads it whatever the setting says.\<close>

theorem disabled_federation_never_starts:
  assumes "vp_unmarshal V file = Inr c" "cf_federation c = Some f" "\<not> fe_enable f" "fe_url f = None"
  shows "start_program E V file m \<noteq> Ret s"
proof
  assume "start_program E V file m = Ret s"
  then obtain conf where p: "parse_config V (se_net E) (se_parse_error E) file (parse_env V) = Ret (Inr conf)"
    and n: "new_server E conf m = Ret (Inr s)"
    by (auto simp: start_program_def outcome_simps error_first)
  obtain d where "vp_unmarshal V file = Inr d" and v: "validate_config (se_net E) (se_parse_error E) d (parse_env V) = Ret (Inr conf)"
    by (rule parse_config_Inr[OF p])
  then have d: "d = c" using assms(1) by simp
  from v have "\<exists>g. cf_federation conf = Some g \<and> validate_federation_config (se_net E) (se_parse_error E) f (parse_env V) = Inr g"
    unfolding d by (rule validate_config_Inr) (use assms(2) in auto)
  then have "cf_federation conf = Some f" using assms(3) by (auto simp: validate_federation_config_def)
  with n show False by (rule_tac new_server_Inr[OF n]) (simp add: home_of_def assms(4))
qed

lemma disabled_federation_never_starts_witness:
  "\<forall>s. start_program sample_server (sample_viper False) ''config.toml'' no_metrics \<noteq> Ret s"
proof
  fix s
  obtain f where f: "cf_federation (sample_config False) = Some f" "\<not> fe_enable f" "fe_url f = None"
    by (simp add: sample_config_def)
  have "vp_unmarshal (sample_viper False) ''config.toml'' = Inr (sample_config False)" by (simp add: sample_viper_def)
  from disabled_federation_never_starts[OF this f]
  show "start_program sample_server (sample_viper False) ''config.toml'' no_metrics \<noteq> Ret s" .
qed

text \<open>A start migrates the database twice, once for the server and once for the
  federation; the second migration changes nothing.\<close>

theorem second_migration_changes_nothing:
  assumes "migrated_schema E schema" "new_server E c m = Ret (Inr s)"
  shows "\<exists>st db. cf_storage c = Some st \<and> new_store E st = Inr db \<and> migrate E (cf_federation c) db = Ret (None, sr_db s)"
proof (rule new_server_Inr[OF assms(2)], goal_cases)
  case (1 st db db1 db2 rtp f home mc sv m')
  have "migrate E (cf_federation c) db1 = Ret (None, db1)" by (rule migrated_once[OF assms(1) 1(3)])
  then have "db2 = db1" using 1(5,7) by (simp add: new_ap_api_def)
  then show ?case using 1 by simp
qed

text \<open>C30: however many trusted instances the file names, the first migration leaves at
  most one account for them: they share one identifier, and the table takes an
  identifier once.\<close>

theorem trusted_instances_share_account:
  assumes "unique_accounts E accounts" "accounts db = []" "migrate E fc db = Ret (r, db')"
  shows "length (accounts db') \<le> 1"
proof -
  note U = assms(1)[unfolded unique_accounts_def]
  have o1: "one_instance_account E accounts d" if "accounts d = []" for d using that by (simp add: one_instance_account_def)
  have "leaves (one_instance_account E accounts) (create_instance_actor E fc d)" if "accounts d = []" for d
    unfolding leaves_def create_instance_actor_def Let_def split_beta
  proof (intro ret_intros, goal_cases)
    case (2 c u y a)
    show ?case unfolding leaves_def[symmetric]
      by (rule trusted_instances_shared[OF assms(1)], rule o1) (use U that in simp)
  qed (simp_all add: o1 that)
  then have k: "one_instance_account E accounts d'" if "create_instance_actor E fc d = Ret (r, d')" "accounts d = []" for d d'
    using that by (fastforce simp: leaves_def returns_only_def)
  have a: "accounts (snd (mg_auto_migrate (se_store E) db)) = []" using U assms(2) by simp
  have "one_instance_account E accounts db'"
    using assms(3) a by (cases "mg_auto_migrate (se_store E) db")
      (auto simp: migrate_def o1 k split: option.splits if_splits sum.splits)
  then show ?thesis by (simp add: one_instance_account_def)
qed

definition trusted_sample :: "string \<Rightarrow> trusted_instance" where
  "trusted_sample name = \<lparr> ti_actor = url_string (at_path home_url [''federation'', ''accounts'', name]), ti_name = name \<rparr>"

lemma trusted_sample_actor:
  assumes "clean_segment name"
  shows "\<exists>a. new_trusted_instance_actor iri_net (at_path home_url [''federation'', ''accounts'', name]) name = Ret (Inr a) \<and>
    at_iri a = url_string (at_path home_url [''federation'', ''accounts'', name]) \<and>
    nt_parse_url iri_net (ti_actor (trusted_sample name)) = Some (at_path home_url [''federation'', ''accounts'', name])"
proof -
  have h: "clean_home home_url" using home_url_ok by (simp add: clean_home_def)
  have b: "nt_parse_url iri_net (''http'' @ ''://'' @ ''localhost:8080'') = Some home_url"
    by (simp add: iri_net_def simple_parse_url_def home_url_def has_prefix_def)
  have "nt_parse_url iri_net (ti_actor (trusted_sample name)) = Some (at_path home_url [''federation'', ''accounts'', name])"
    using at_path_parsed[OF iri_net_ok h, of "[''federation'', ''accounts'', name]"] fixed_segments assms
    by (simp add: trusted_sample_def)
  moreover have "ur_scheme (at_path home_url ss) = ''http''" "ur_host (at_path home_url ss) = ''localhost:8080''" for ss
    by (simp_all add: at_path_def home_url_def)
  ultimately show ?thesis
    using b fixed_segments assms
    by (simp add: new_trusted_instance_actor_def actor_at_def build_following_iri_def build_followers_iri_def
        build_inbox_iri_def build_outbox_iri_def build_shared_inbox_iri_def
        reparse_home[OF iri_net_ok h] reparse_onto[OF iri_net_ok h])
qed

definition started_config :: sfu_config where
  "started_config = (sample_config True)\<lparr> cf_federation := Some \<lparr> fe_https = False, fe_enable = True,
     fe_domain = ''localhost:8080'', fe_release = ''v0'', fe_username = ''shig'', fe_server_name = ''shig'', fe_private = False,
     fe_register_token = ''t'', fe_trusted = [trusted_sample ''a'', trusted_sample ''b''],
     fe_url = Some home_url, fe_init_valid = True \<rparr> \<rparr>"

lemma trusted_sample_returns:
  assumes "clean_segment name"
  shows "\<exists>db. build_trusted_instance_account sample_server (trusted_sample name) (xs, ys, b) = Ret (None, db)"
proof -
  let ?iri = "at_path home_url [''federation'', ''accounts'', name]"
  obtain a where a: "new_trusted_instance_actor iri_net ?iri name = Ret (Inr a)" "at_iri a = url_string ?iri"
    "nt_parse_url iri_net (ti_actor (trusted_sample name)) = Some ?iri"
    using trusted_sample_actor[OF assms] by blast
  have n: "ti_name (trusted_sample name) = name" by (simp add: trusted_sample_def)
  have "\<exists>y. find (\<lambda>a. at_iri a = url_string ?iri) (xs @ [a\<lparr> at_id := length xs + 1 \<rparr>]) = Some y"
  proof (cases "find (\<lambda>a. at_iri a = url_string ?iri) (xs @ [a\<lparr> at_id := length xs + 1 \<rparr>])")
    case None
    then have "at_iri (a\<lparr> at_id := length xs + 1 \<rparr>) \<noteq> url_string ?iri"
      unfolding find_None_iff by (metis in_set_conv_decomp)
    then show ?thesis using a(2) by simp
  qed blast
  then obtain y where "find (\<lambda>a. at_iri a = url_string ?iri) (xs @ [a\<lparr> at_id := length xs + 1 \<rparr>]) = Some y" by blast
  then show ?thesis
    by (simp add: build_trusted_instance_account_def sample_server_sel a(1,3) n Let_def)
qed

lemma both_trusted_return:
  "\<exists>db'. build_trusted_instances sample_server [trusted_sample ''a'', trusted_sample ''b''] db = Ret (None, db')"
proof -
  have c: "clean_segment ''a''" "clean_segment ''b''" by (simp_all add: clean_segment_def plain_segment_def)
  obtain d where d: "build_trusted_instance_account sample_server (trusted_sample ''a'') db = Ret (None, d)"
    using trusted_sample_returns[OF c(1)] by (cases db) blast
  obtain e where "build_trusted_instance_account sample_server (trusted_sample ''b'') d = Ret (None, e)"
    using trusted_sample_returns[OF c(2)] by (cases d) blast
  then show ?thesis using d by (simp del: split_paired_Ex)
qed

lemma started_migrates:
  "\<exists>db. migrate sample_server (cf_federation started_config) ([], [], False) = Ret (None, db)"
proof -
  have c: "clean_segment ''shig''" by (simp add: clean_segment_def plain_segment_def)
  have h: "clean_home home_url" using home_url_ok by (simp add: clean_home_def)
  show ?thesis
    by (simp add: migrate_def sample_server_sel create_instance_actor_def started_config_def both_trusted_return
        new_instance_actor_addresses[OF iri_net_ok h c] del: build_trusted_instances.simps split_paired_Ex)
qed

lemma started_server:
  "\<exists>s. new_server sample_server started_config no_metrics = Ret (Inr s)"
proof -
  let ?st = "\<lparr> so_name = ''sqlite3'', so_data_source = ''shig.db'' \<rparr>"
  obtain f where f: "cf_federation started_config = Some f" "fe_url f = Some home_url" by (simp add: started_config_def)
  obtain db where m: "migrate sample_server (Some f) ([], [], False) = Ret (None, db)"
    using started_migrates f(1) by auto
  have m2: "migrate sample_server (Some f) db = Ret (None, db)"
    by (rule migrated_once[OF sample_server_tables(1) m])
  obtain rtp sv mc where st: "cf_storage started_config = Some ?st" "cf_rtp started_config = Some rtp"
    "cf_server started_config = Some sv" "cf_telemetry started_config = Some True"
    "cf_metric started_config = Some mc" "mc_prometheus mc \<noteq> None"
    by (simp add: started_config_def sample_config_def)
  have u: "nt_parse_url iri_net (url_string home_url) = Some home_url"
    by (simp add: iri_net_def simple_parse_url_def home_url_def has_prefix_def url_string_def)
  obtain h where h: "home_of sample_server f = Ret h" using f u by (simp add: home_of_def sample_server_sel)
  have n: "new_store sample_server ?st = Inr ([], [], False)" by (simp add: new_store_def sample_server_sel)
  obtain m' where s: "serve_metrics (se_prometheus sample_server) mc no_metrics = Ret (None, m')"
    using st(6) by (auto simp: serve_metrics_def)
  have t: "new_tracer_provider sample_server (Some True) = Ret (Inr ())"
    by (simp add: new_tracer_provider_def sample_server_def)
  show ?thesis by (simp add: new_server_def new_ap_api_def st(1-5) n f(1) m m2 h s t)
qed

lemma second_migration_changes_nothing_witness:
  "\<exists>s :: (sample_db, int) server. migrate sample_server (cf_federation started_config) ([], [], False) = Ret (None, sr_db s)"
proof -
  obtain s where "new_server sample_server started_config no_metrics = Ret (Inr s)" using started_server by blast
  from second_migration_changes_nothing[OF sample_server_tables(1) this]
  obtain st db where "cf_storage started_config = Some st" "new_store sample_server st = Inr db"
    "migrate sample_server (cf_federation started_config) db = Ret (None, sr_db s)" by blast
  moreover from this(1) have "st = \<lparr> so_name = ''sqlite3'', so_data_source = ''shig.db'' \<rparr>"
    by (simp add: started_config_def sample_config_def)
  ultimately have "migrate sample_server (cf_federation started_config) ([], [], False) = Ret (None, sr_db s)"
    by (simp add: new_store_def sample_server_sel)
  then show ?thesis by blast
qed

lemma trusted_instances_share_account_witness:
  "\<exists>db. migrate sample_server (cf_federation started_config) ([], [], False) = Ret (None, db) \<and> length (fst (snd db)) \<le> 1"
proof -
  obtain db where m: "migrate sample_server (cf_federation started_config) ([], [], False) = Ret (None, db)"
    using started_migrates by blast
  from trusted_instances_share_account[OF sample_server_tables(2) _ m] show ?thesis using m by auto
qed

text \<open>The address lobbies use for their own instance is the address of the actor the
  migration makes for it, although the one is put together with the path alone and the
  other by joining and parsing.\<close>

theorem lobby_home_is_instance_actor:
  assumes "new_server E c m = Ret (Inr s)" "cf_federation c = Some f" "fe_url f = Some u"
    and "parses_printed (se_net E)" "nt_parse_url (se_net E) (url_string u) = Some u"
    and "clean_home u" "clean_segment (fe_username f)"
  shows "\<exists>iri. build_account_iri (se_net E) u (fe_username f) = Some iri \<and> url_string (sr_home s) = url_string iri"
proof -
  have "home_of E f = Ret (sr_home s)"
    by (rule new_server_Inr[OF assms(1)]) (use assms(2) in simp)
  then have h: "sr_home s = u\<lparr> ur_path := ''federation/accounts/'' @ fe_username f \<rparr>"
    using assms(3,5) by (simp add: home_of_def)
  have i: "build_account_iri (se_net E) u (fe_username f) = Some (at_path u [''federation'', ''accounts'', fe_username f])"
    unfolding build_account_iri_def by (rule reparse_home[OF assms(4,6)]) (use fixed_segments assms(7) in simp_all)
  have "ur_host u \<noteq> []" using assms(6) by (simp add: clean_home_def absolute_url_def)
  then have "url_string (sr_home s) = url_string (at_path u [''federation'', ''accounts'', fe_username f])"
    by (simp add: h url_string_def at_path_def rooted_def)
  then show ?thesis using i by blast
qed

lemma lobby_home_is_instance_actor_witness:
  "\<exists>s. new_server sample_server started_config no_metrics = Ret (Inr s) \<and>
     (\<exists>iri. build_account_iri iri_net home_url ''shig'' = Some iri \<and> url_string (sr_home s) = url_string iri)"
proof -
  obtain s where n: "new_server sample_server started_config no_metrics = Ret (Inr s)" using started_server by blast
  obtain f where f: "cf_federation started_config = Some f" "fe_url f = Some home_url" "fe_username f = ''shig''"
    by (simp add: started_config_def)
  have u: "nt_parse_url iri_net (url_string home_url) = Some home_url"
    by (simp add: iri_net_def simple_parse_url_def home_url_def has_prefix_def url_string_def)
  have h: "clean_home home_url" using home_url_ok by (simp add: clean_home_def)
  have "clean_segment ''shig''" by (simp add: clean_segment_def plain_segment_def)
  with lobby_home_is_instance_actor[OF n f(1,2), unfolded sample_server_sel(1), OF iri_net_ok u h] n f(3) show ?thesis by auto
qed

end
