(* ===== verification/Client.thy ===== *)
theory Client
  imports Federation Stream
begin

text \<open>
  The client of the HTTP interface (\<^verbatim>\<open>pkg/client\<close>) that the command line
  tools use, and the reading of a stream's address
  (\<^verbatim>\<open>internal/cmd/shig_params.go\<close>).  The HTTP client and the JSON codec are
  parameters; a request is answered with the cookies and the request token of the reply
  besides what \<^theory_text>\<open>Federation\<close> reads of it.
\<close>

section \<open>Sessions\<close>

record client_session =
  cs_bearer :: string
  cs_cookie :: "(string \<times> string) option"
  cs_csrf :: string

definition empty_session :: client_session where
  "empty_session = \<lparr> cs_bearer = [], cs_cookie = None, cs_csrf = [] \<rparr>"

definition session_set_bearer :: "string \<Rightarrow> client_session \<Rightarrow> client_session" where
  "session_set_bearer b s = s\<lparr> cs_bearer := b \<rparr>"
definition session_set_cookie :: "(string \<times> string) option \<Rightarrow> client_session \<Rightarrow> client_session" where
  "session_set_cookie c s = s\<lparr> cs_cookie := c \<rparr>"
definition session_set_csrf_token :: "string \<Rightarrow> client_session \<Rightarrow> client_session" where
  "session_set_csrf_token t s = s\<lparr> cs_csrf := t \<rparr>"
definition session_get_bearer :: "client_session \<Rightarrow> string" where "session_get_bearer s = cs_bearer s"
definition session_get_cookie :: "client_session \<Rightarrow> (string \<times> string) option" where "session_get_cookie s = cs_cookie s"
definition session_get_csrf_token :: "client_session \<Rightarrow> string" where "session_get_csrf_token s = cs_csrf s"

record client =
  ct_session :: client_session
  ct_url :: url

datatype client_option = With_Session client_session | With_Url url

fun apply_client_option :: "client_option \<Rightarrow> client \<Rightarrow> client" where
  "apply_client_option (With_Session s) c = c\<lparr> ct_session := s \<rparr>"
| "apply_client_option (With_Url u) c = c\<lparr> ct_url := u \<rparr>"

definition new_client :: "client_option list \<Rightarrow> client" where
  "new_client opts = fold apply_client_option opts
     \<lparr> ct_session = empty_session,
       ct_url = \<lparr> ur_scheme = ''http'', ur_host = ''localhost:8080'', ur_path = [], ur_rest = [] \<rparr> \<rparr>"

section \<open>Requests\<close>

record web_answer = http_answer +
  wa_token :: string
  wa_cookies :: "(string \<times> string) list"

record web =
  wb_request_error :: "string \<Rightarrow> go_error option"
  wb_do :: "http_call \<Rightarrow> web_answer result"
  wb_json_user :: "auth_user \<Rightarrow> string result"
  wb_json_token :: "string \<Rightarrow> string result"
  wb_json_info :: "live_stream_info \<Rightarrow> string result"

definition req_token_header_name :: string where "req_token_header_name = ''X-Req-Token''"

definition common_headers :: "string \<Rightarrow> nat \<Rightarrow> (string \<times> string) list" where
  "common_headers mime n = [(''Accept'', mime), (''Content-Type'', mime), (''Content-Length'', show_nat n)]"

text \<open>A cookie that is missing is dereferenced.\<close>

definition cookie_header :: "client_session \<Rightarrow> (string \<times> string) outcome" where
  "cookie_header s =
     (case session_get_cookie s of None \<Rightarrow> Panic | Some (n, v) \<Rightarrow> Ret (''Cookie'', n @ ''='' @ v))"

text \<open>A request that carries the cookie and the token; the token of the reply replaces the
  one that was used.\<close>

definition with_token ::
  "web \<Rightarrow> string \<Rightarrow> http_call \<Rightarrow> client_session \<Rightarrow> (web_answer result \<times> client_session) outcome" where
  "with_token W what call s =
     outcome_bind (cookie_header s) (\<lambda>cookie.
       case wb_do W (call\<lparr> hc_headers := hc_headers call @ [cookie, (req_token_header_name, session_get_csrf_token s)] \<rparr>) of
         Inl e \<Rightarrow> Ret (Inl (Wrap what e), s)
       | Inr resp \<Rightarrow> Ret (Inr resp, session_set_csrf_token (wa_token resp) s))"

section \<open>The interface of a lobby\<close>

record lobby_api =
  la_client :: client
  la_user :: string
  la_token :: string
  la_url :: string

definition new_lobby_api :: "string \<Rightarrow> string \<Rightarrow> string \<Rightarrow> client_option list \<Rightarrow> lobby_api" where
  "new_lobby_api user token url opts = \<lparr> la_client = new_client opts, la_user = user, la_token = token, la_url = url \<rparr>"

definition la_session :: "lobby_api \<Rightarrow> client_session" where "la_session a = ct_session (la_client a)"
definition la_set_session :: "client_session \<Rightarrow> lobby_api \<Rightarrow> lobby_api" where
  "la_set_session s a = a\<lparr> la_client := (la_client a)\<lparr> ct_session := s \<rparr> \<rparr>"

definition wrong_status :: "web_answer \<Rightarrow> go_error" where
  "wrong_status resp = Err (''server answer with wrong status code '' @ ha_status resp)"

definition lobby_login :: "web \<Rightarrow> lobby_api \<Rightarrow> string result \<times> lobby_api" where
  "lobby_login W a =
     (case wb_json_user W \<lparr> au_user_id = la_user a, au_token = la_token a, au_client = [] \<rparr> of
        Inl e \<Rightarrow> (Inl (Wrap ''creating json object: '' e), a)
      | Inr body \<Rightarrow>
          let url = la_url a @ ''/authenticate'' in
          (case wb_request_error W url of
             Some e \<Rightarrow> (Inl (Wrap ''create login request: '' e), a)
           | None \<Rightarrow>
               (case wb_do W \<lparr> hc_method = ''POST'', hc_url = url, hc_headers = common_headers ''application/json'' (length body),
                       hc_body = body \<rparr> of
                  Inl e \<Rightarrow> (Inl (Wrap ''doing request: '' e), a)
                | Inr resp \<Rightarrow>
                    if ha_code resp \<noteq> 200 then (Inl (wrong_status resp), a)
                    else (case ha_body resp of
                        Inl e \<Rightarrow> (Inl (Wrap ''reading response from start req: '' e), a)
                      | Inr text \<Rightarrow>
                          (case wb_json_token W text of
                             Inl _ \<Rightarrow> (Inl (Err ''unmarshaling data from request.''), a)
                           | Inr jwt \<Rightarrow> (Inr jwt, la_set_session (session_set_bearer (''Bearer '' @ jwt) (la_session a)) a))))))"

text \<open>A body that is a nil buffer is asked for its length when the request is made.\<close>

definition do_request ::
  "web \<Rightarrow> string \<Rightarrow> string \<Rightarrow> string option \<Rightarrow> lobby_api \<Rightarrow> (web_answer result \<times> lobby_api) outcome" where
  "do_request W meth url body a =
     (case wb_request_error W url of
        Some e \<Rightarrow> Ret (Inl (Wrap ''create new request: '' e), a)
      | None \<Rightarrow>
          outcome_bind (deref body) (\<lambda>body.
          outcome_bind (with_token W ''doing request: '' \<lparr> hc_method = meth, hc_url = url,
              hc_headers = common_headers ''application/json'' (length body) @ [(''Authorization'', session_get_bearer (la_session a))],
              hc_body = body \<rparr> (la_session a)) (\<lambda>(r, s). Ret (r, la_set_session s a))))"

definition stream_url :: "string \<Rightarrow> string \<Rightarrow> string \<Rightarrow> string \<Rightarrow> string" where
  "stream_url base space stream what = base @ ''/space/'' @ space @ ''/stream/'' @ stream @ what"

text \<open>What start and stop do with the reply.\<close>

definition created_or_error :: "string \<Rightarrow> string \<Rightarrow> web_answer result \<Rightarrow> unit result" where
  "created_or_error doing reading r =
     (case r of
        Inl e \<Rightarrow> Inl (Wrap doing e)
      | Inr resp \<Rightarrow>
          if ha_status resp \<noteq> ''201 Created'' then Inl (wrong_status resp)
          else (case ha_body resp of Inl e \<Rightarrow> Inl (Wrap reading e) | Inr _ \<Rightarrow> Inr ()))"

definition lobby_start ::
  "web \<Rightarrow> string \<Rightarrow> string \<Rightarrow> live_stream_info \<Rightarrow> lobby_api \<Rightarrow> (unit result \<times> lobby_api) outcome" where
  "lobby_start W space stream info a =
     (case wb_json_info W info of
        Inl e \<Rightarrow> Ret (Inl (Wrap ''creating json object for liveStreamInfo: '' e), a)
      | Inr body \<Rightarrow>
          outcome_bind (do_request W ''POST'' (stream_url (la_url a) space stream ''/live'') (Some body) a) (\<lambda>(r, a).
            Ret (created_or_error ''running start request: '' ''reading response from start req: '' r, a)))"

definition lobby_status :: "web \<Rightarrow> string \<Rightarrow> string \<Rightarrow> lobby_api \<Rightarrow> ((string \<times> go_error option) \<times> lobby_api) outcome" where
  "lobby_status W space stream a =
     outcome_bind (do_request W ''GET'' (stream_url (la_url a) space stream ''/status'') None a) (\<lambda>(r, a). Ret ((''offline'',
       case r of
         Inl e \<Rightarrow> Some (Wrap ''running status request: '' e)
       | Inr resp \<Rightarrow>
           if ha_code resp \<noteq> 200 then Some (wrong_status resp)
           else (case ha_body resp of Inl e \<Rightarrow> Some (Wrap ''reading response from status req: '' e) | Inr _ \<Rightarrow> None)), a))"

definition lobby_stop :: "web \<Rightarrow> string \<Rightarrow> string \<Rightarrow> lobby_api \<Rightarrow> (unit result \<times> lobby_api) outcome" where
  "lobby_stop W space stream a =
     outcome_bind (do_request W ''DELETE'' (stream_url (la_url a) space stream ''/live'') None a) (\<lambda>(r, a).
       Ret (created_or_error ''running stop request: '' ''reading response from stop req: '' r, a))"

section \<open>WHIP and WHEP\<close>

definition read_description :: "sdp_type \<Rightarrow> web_answer \<Rightarrow> session_description result" where
  "read_description ty resp =
     (if ha_status resp \<noteq> ''201 Created'' then Inl (wrong_status resp)
      else case ha_body resp of
          Inl e \<Rightarrow> Inl (Wrap ''reading sdp answer from response body: '' e)
        | Inr text \<Rightarrow> Inr \<lparr> sd_type = ty, sd_sdp = text \<rparr>)"

text \<open>A reply without a cookie is read at the first of none.\<close>

definition whip_get_answer ::
  "web \<Rightarrow> string \<Rightarrow> string \<Rightarrow> session_description \<Rightarrow> client \<Rightarrow> (session_description result \<times> client) outcome" where
  "whip_get_answer W space stream offer c =
     (let url = stream_url (url_string (ct_url c)) space stream ''/whip''; body = sd_sdp offer in
      case wb_request_error W url of
        Some e \<Rightarrow> Ret (Inl (Wrap ''requesting answer: '' e), c)
      | None \<Rightarrow>
          (case wb_do W \<lparr> hc_method = ''POST'', hc_url = url,
                  hc_headers = common_headers ''application/sdp'' (length body) @ [(''Authorization'', session_get_bearer (ct_session c))],
                  hc_body = body \<rparr> of
             Inl e \<Rightarrow> Ret (Inl (Wrap ''requesting answer: '' e), c)
           | Inr resp \<Rightarrow>
               (case wa_cookies resp of
                  [] \<Rightarrow> Panic
                | cookie # _ \<Rightarrow>
                    let s = session_set_csrf_token (wa_token resp) (session_set_cookie (Some cookie) (ct_session c)) in
                    Ret (read_description SdpAnswer resp, c\<lparr> ct_session := s \<rparr>))))"

definition whep_get_offer ::
  "web \<Rightarrow> string \<Rightarrow> string \<Rightarrow> client \<Rightarrow> (session_description result \<times> client) outcome" where
  "whep_get_offer W space stream c =
     (let url = stream_url (url_string (ct_url c)) space stream ''/whep'' in
      case wb_request_error W url of
        Some e \<Rightarrow> Ret (Inl (Wrap ''requesting answer: '' e), c)
      | None \<Rightarrow>
          outcome_bind (with_token W ''requesting answer: '' \<lparr> hc_method = ''POST'', hc_url = url,
              hc_headers = common_headers ''application/sdp'' 0 @ [(''Authorization'', session_get_bearer (ct_session c))], hc_body = [] \<rparr>
              (ct_session c)) (\<lambda>(r, s).
            Ret (case r of Inl e \<Rightarrow> Inl e | Inr resp \<Rightarrow> read_description SdpOffer resp, c\<lparr> ct_session := s \<rparr>)))"

text \<open>The answer always goes to the local instance, whatever the client's address is.\<close>

definition whep_send_answer ::
  "web \<Rightarrow> string \<Rightarrow> string \<Rightarrow> string \<Rightarrow> session_description \<Rightarrow> client \<Rightarrow> (go_error option \<times> client) outcome" where
  "whep_send_answer W space stream bearer answer c =
     (let url = stream_url ''http://localhost:8080'' space stream ''/whep''; body = sd_sdp answer in
      case wb_request_error W url of
        Some e \<Rightarrow> Ret (Some (Wrap ''sending answer: '' e), c)
      | None \<Rightarrow>
          outcome_bind (with_token W ''requesting answer: '' \<lparr> hc_method = ''PATCH'', hc_url = url,
              hc_headers = common_headers ''application/sdp'' (length body) @ [(''Authorization'', bearer)], hc_body = body \<rparr>
              (ct_session c)) (\<lambda>(r, s).
            Ret (case r of
                Inl e \<Rightarrow> Some e
              | Inr resp \<Rightarrow> if ha_status resp \<noteq> ''201 Created'' then Some (wrong_status resp) else None, c\<lparr> ct_session := s \<rparr>)))"

section \<open>The host and the address of a stream\<close>

record host_api =
  ha_client :: client
  ha_host_token :: string

definition new_host_api :: "string \<Rightarrow> client_option list \<Rightarrow> host_api" where
  "new_host_api token opts = \<lparr> ha_client = new_client opts, ha_host_token = token \<rparr>"

definition post_host_offer :: "string \<Rightarrow> string \<Rightarrow> session_description \<Rightarrow> session_description option result" where
  "post_host_offer space stream offer = Inr None"

record shig_params =
  sp_stream :: string
  sp_space :: string
  sp_url :: string
  sp_base :: string

definition note_part :: "string \<Rightarrow> shig_params \<times> string \<Rightarrow> shig_params \<times> string" where
  "note_part part acc =
     (let (p, prv) = acc;
          p = (if prv = ''space'' then p\<lparr> sp_space := part \<rparr> else p);
          p = (if prv = ''stream'' then p\<lparr> sp_stream := part \<rparr> else p)
      in (p, to_lower part))"

definition new_shig_params_by_url :: "(string \<Rightarrow> url result) \<Rightarrow> string \<Rightarrow> shig_params result" where
  "new_shig_params_by_url parse s =
     (case parse s of
        Inl e \<Rightarrow> Inl (Wrap ''parsing url: '' e)
      | Inr u \<Rightarrow>
          Inr (fst (fold note_part (split_on (CHR ''/'') (ur_path u))
            (\<lparr> sp_stream = [], sp_space = [], sp_url = ur_scheme u @ ''://'' @ ur_host u, sp_base = [] \<rparr>, []))))"

section \<open>Properties\<close>

text \<open>Stopping a stream and asking for its status never reach the server: both make
  their request with a body that is a nil pointer, whose length is asked for.\<close>

theorem bodiless_requests_panic:
  "lobby_stop W space stream a =
     (case wb_request_error W (stream_url (la_url a) space stream ''/live'') of
        Some e \<Rightarrow> Ret (Inl (Wrap ''running stop request: '' (Wrap ''create new request: '' e)), a)
      | None \<Rightarrow> Panic) \<and>
   lobby_status W space stream a =
     (case wb_request_error W (stream_url (la_url a) space stream ''/status'') of
        Some e \<Rightarrow> Ret ((''offline'', Some (Wrap ''running status request: '' (Wrap ''create new request: '' e))), a)
      | None \<Rightarrow> Panic)"
  by (simp add: lobby_stop_def lobby_status_def do_request_def deref_def created_or_error_def split: option.splits)

lemma login_gives_no_cookie:
  assumes "lobby_login W a = (Inr jwt, a')"
  shows "session_get_cookie (la_session a') = session_get_cookie (la_session a)" "la_url a' = la_url a"
    and "session_get_bearer (la_session a') = ''Bearer '' @ jwt"
  using assms
  by (auto simp: lobby_login_def Let_def la_set_session_def la_session_def session_set_bearer_def session_get_cookie_def
      session_get_bearer_def split: sum.splits option.splits if_splits)

text \<open>After a login alone a stream cannot be started: the login stores no cookie, and
  the missing cookie is dereferenced; it takes the exchange of a description before.\<close>

theorem start_after_login_panics:
  assumes "lobby_login W (new_lobby_api user token base []) = (Inr jwt, a)"
    and "wb_json_info W info = Inr body" "wb_request_error W (stream_url base space stream ''/live'') = None"
  shows "lobby_start W space stream info a = Panic"
proof -
  have "session_get_cookie (la_session a) = None" "la_url a = base"
    using login_gives_no_cookie[OF assms(1)]
    by (simp_all add: new_lobby_api_def la_session_def new_client_def empty_session_def session_get_cookie_def)
  then show ?thesis
    using assms(2,3) by (simp add: lobby_start_def do_request_def deref_def with_token_def cookie_header_def)
qed

definition sample_web :: web where
  "sample_web =
     \<lparr> wb_request_error = (\<lambda>_. None),
       wb_do = (\<lambda>c. Inr \<lparr> ha_code = (if hc_method c = ''POST'' then 200 else 201), ha_status = ''201 Created'', ha_body = Inr ''v=0'',
         wa_token = hc_method c @ ''-token'', wa_cookies = [(''session'', ''1'')] \<rparr>),
       wb_json_user = (\<lambda>u. Inr (au_user_id u)), wb_json_token = Inr, wb_json_info = (\<lambda>i. Inr (li_stream_key i)) \<rparr>"

lemma start_after_login_panics_witness:
  "lobby_start sample_web ''s'' ''t'' \<lparr> li_stream_key = ''k'', li_rtmp_url = ''r'' \<rparr>
     (snd (lobby_login sample_web (new_lobby_api ''u'' ''t'' ''http://h'' []))) = Panic"
proof -
  let ?a = "snd (lobby_login sample_web (new_lobby_api ''u'' ''t'' ''http://h'' []))"
  have "lobby_login sample_web (new_lobby_api ''u'' ''t'' ''http://h'' []) = (Inr ''v=0'', ?a)"
    by (simp add: lobby_login_def sample_web_def)
  then show ?thesis by (rule start_after_login_panics[where body = "''k''"]) (simp_all add: sample_web_def)
qed

text \<open>C33: after the answer of a WHIP exchange, the request for an offer carries the cookie
  and the request token of the reply, and keeps the token of its own reply for the
  answer that follows.\<close>

theorem whep_carries_whip_token:
  assumes "whip_get_answer W space stream offer c = Ret (Inr d, c')"
    and "wb_request_error W (stream_url (url_string (ct_url c')) space stream ''/whep'') = None"
  shows "\<exists>call resp n v headers.
    wb_do W call = Inr resp \<and> hd (wa_cookies resp) = (n, v) \<and>
    {(''Cookie'', n @ ''='' @ v), (''X-Req-Token'', wa_token resp)} \<subseteq> set headers \<and>
    whep_get_offer W space stream c' =
      (case wb_do W \<lparr> hc_method = ''POST'', hc_url = stream_url (url_string (ct_url c')) space stream ''/whep'',
              hc_headers = headers, hc_body = [] \<rparr> of
         Inl e \<Rightarrow> Ret (Inl (Wrap ''requesting answer: '' e), c')
       | Inr reply \<Rightarrow> Ret (read_description SdpOffer reply,
           c'\<lparr> ct_session := session_set_csrf_token (wa_token reply) (ct_session c') \<rparr>))"
proof -
  obtain call resp cookie rest where w: "wb_do W call = Inr resp" "wa_cookies resp = cookie # rest"
    and s: "c' = c\<lparr> ct_session := session_set_csrf_token (wa_token resp) (session_set_cookie (Some cookie) (ct_session c)) \<rparr>"
    using assms(1) by (auto simp: whip_get_answer_def Let_def split: option.splits sum.splits list.splits)
  obtain n v where nv: "cookie = (n, v)" by (cases cookie)
  let ?h = "common_headers ''application/sdp'' 0 @ [(''Authorization'', session_get_bearer (ct_session c'))] @
      [(''Cookie'', n @ ''='' @ v), (req_token_header_name, session_get_csrf_token (ct_session c'))]"
  have k: "cookie_header (ct_session c') = Ret (''Cookie'', n @ ''='' @ v)"
    using nv by (simp add: s cookie_header_def session_get_cookie_def session_set_csrf_token_def session_set_cookie_def)
  have t: "session_get_csrf_token (ct_session c') = wa_token resp"
    by (simp add: s session_get_csrf_token_def session_set_csrf_token_def)
  have r: "c'\<lparr> ct_session := ct_session c' \<rparr> = c'" by simp
  have "whep_get_offer W space stream c' =
      (case wb_do W \<lparr> hc_method = ''POST'', hc_url = stream_url (url_string (ct_url c')) space stream ''/whep'',
              hc_headers = ?h, hc_body = [] \<rparr> of
         Inl e \<Rightarrow> Ret (Inl (Wrap ''requesting answer: '' e), c')
       | Inr reply \<Rightarrow> Ret (read_description SdpOffer reply,
           c'\<lparr> ct_session := session_set_csrf_token (wa_token reply) (ct_session c') \<rparr>))"
    using assms(2) k r by (simp add: whep_get_offer_def with_token_def Let_def split: sum.splits)
  then show ?thesis using w nv t by (intro exI[of _ call] exI[of _ resp] exI[of _ n] exI[of _ v] exI[of _ ?h])
      (simp add: req_token_header_name_def)
qed

lemma whep_carries_whip_token_witness:
  "\<exists>c'. whip_get_answer sample_web ''s'' ''t'' \<lparr> sd_type = SdpOffer, sd_sdp = ''o'' \<rparr> (new_client []) =
      Ret (Inr \<lparr> sd_type = SdpAnswer, sd_sdp = ''v=0'' \<rparr>, c') \<and>
     (\<exists>r. whep_get_offer sample_web ''s'' ''t'' c' = Ret r)"
proof -
  obtain c' where c: "whip_get_answer sample_web ''s'' ''t'' \<lparr> sd_type = SdpOffer, sd_sdp = ''o'' \<rparr> (new_client []) =
      Ret (Inr \<lparr> sd_type = SdpAnswer, sd_sdp = ''v=0'' \<rparr>, c')"
    by (simp add: whip_get_answer_def sample_web_def read_description_def)
  have "\<exists>r. whep_get_offer sample_web ''s'' ''t'' c' = Ret r"
    using whep_carries_whip_token[OF c] by (auto simp: sample_web_def)
  then show ?thesis using c by blast
qed

text \<open>The address of a stream is read back into its space and its stream, unless the
  space is called space, in any case, which is then taken for the word before the
  space.\<close>

theorem stream_address_read:
  assumes "parse text = Inr u" "ur_path u = ''/space/'' @ s @ ''/stream/'' @ t" "CHR ''/'' \<notin> set s" "CHR ''/'' \<notin> set t"
  shows "\<exists>p. new_shig_params_by_url parse text = Inr p \<and> sp_stream p = t \<and>
    sp_space p = (if to_lower s = ''space'' then ''stream'' else s) \<and> sp_url p = ur_scheme u @ ''://'' @ ur_host u"
proof -
  have "split_on (CHR ''/'') (ur_path u) = [[], ''space'', s, ''stream'', t]"
    using assms(3,4) split_on_app[of "CHR ''/''" "[]"] split_on_app[of "CHR ''/''" "''space''"] split_on_app[of "CHR ''/''" s]
      split_on_app[of "CHR ''/''" "''stream''"] by (simp add: assms(2) split_on_free)
  moreover have "to_lower [] = []" "to_lower ''space'' = ''space''" "to_lower ''stream'' = ''stream''"
    by (simp_all add: to_lower_def lower_char_def)
  ultimately show ?thesis by (simp add: new_shig_params_by_url_def assms(1) note_part_def Let_def)
qed

lemma stream_address_read_witness:
  "\<exists>p. new_shig_params_by_url (\<lambda>_. Inr \<lparr> ur_scheme = ''https'', ur_host = ''h'', ur_path = ''/space/live/stream/7'', ur_rest = [] \<rparr>) ''x'' = Inr p \<and>
     sp_space p = ''live'' \<and> sp_stream p = ''7''"
proof -
  let ?u = "\<lparr> ur_scheme = ''https'', ur_host = ''h'', ur_path = ''/space/live/stream/7'', ur_rest = [] \<rparr> :: url"
  have "ur_path ?u = ''/space/'' @ ''live'' @ ''/stream/'' @ ''7''" by simp
  then show ?thesis
    using stream_address_read[of "\<lambda>_. Inr ?u" "''x''" ?u "''live''" "''7''"] by (fastforce simp: to_lower_def lower_char_def)
qed

end
