(* ===== verification/Sample_Track.thy ===== *)
theory Sample_Track
  imports Go_Strings
begin

text \<open>
  The track the command line tools send samples on
  (\<^verbatim>\<open>internal/sample/local_track.go\<close>) with the layers of a simulcast
  (\<^verbatim>\<open>internal/rtp/simulcast_layer.go\<close>, \<^verbatim>\<open>video_quality.go\<close>).
  Packetizing, the extensions of a packet's header and the writing of packets belong
  to the pion library, and the number of clock ticks in a duration, which the code
  computes in floating point, is a parameter too.  What a loop receives is a list;
  where a list ends the loop is still waiting.
\<close>

section \<open>Simulcast layers\<close>

datatype video_quality = Quality_Low | Quality_Medium | Quality_High | Quality_Off | Quality_Other int

record simulcast_layer =
  sl_quality :: video_quality
  sl_width :: "32 word"
  sl_height :: "32 word"
  sl_bitrate :: "32 word"
  sl_ssrc :: "32 word"

definition simulcast_reset :: "simulcast_layer \<Rightarrow> simulcast_layer" where
  "simulcast_reset l = \<lparr> sl_quality = Quality_Low, sl_width = 0, sl_height = 0, sl_bitrate = 0, sl_ssrc = 0 \<rparr>"

definition get_quality :: "simulcast_layer option \<Rightarrow> video_quality" where
  "get_quality l = (case l of Some x \<Rightarrow> sl_quality x | None \<Rightarrow> Quality_Low)"
definition get_width :: "simulcast_layer option \<Rightarrow> 32 word" where
  "get_width l = (case l of Some x \<Rightarrow> sl_width x | None \<Rightarrow> 0)"
definition get_height :: "simulcast_layer option \<Rightarrow> 32 word" where
  "get_height l = (case l of Some x \<Rightarrow> sl_height x | None \<Rightarrow> 0)"
definition get_bitrate :: "simulcast_layer option \<Rightarrow> 32 word" where
  "get_bitrate l = (case l of Some x \<Rightarrow> sl_bitrate x | None \<Rightarrow> 0)"
definition get_ssrc :: "simulcast_layer option \<Rightarrow> 32 word" where
  "get_ssrc l = (case l of Some x \<Rightarrow> sl_ssrc x | None \<Rightarrow> 0)"

section \<open>Samples, packets and the library\<close>

text \<open>Durations are in nanoseconds, points in time in nanoseconds since the zero time.\<close>

record sample =
  sm_data :: bytes
  sm_duration :: int
  sm_timestamp :: int
  sm_prev_dropped :: "16 word"

record rtp_packet =
  pk_seq :: "16 word"
  pk_time :: "32 word"
  pk_extensions :: "(8 word \<times> bytes) list"
  pk_payload :: bytes

datatype payloader = H264_Payloader | Opus_Payloader | VP8_Payloader bool | VP9_Payloader | G722_Payloader | G711_Payloader

text \<open>A packetizer and the sequencer it shares are one state.\<close>

record 'z rtp_lib =
  rl_new :: "payloader \<Rightarrow> nat \<Rightarrow> 'z"
  rl_next_number :: "'z \<Rightarrow> 'z"
  rl_skip :: "32 word \<Rightarrow> 'z \<Rightarrow> 'z"
  rl_packetize :: "bytes \<Rightarrow> 32 word \<Rightarrow> 'z \<Rightarrow> rtp_packet list \<times> 'z"
  rl_ticks :: "int \<Rightarrow> nat \<Rightarrow> 32 word"
  rl_level :: "8 word \<Rightarrow> bytes result"
  rl_set_extension :: "8 word \<Rightarrow> bytes \<Rightarrow> rtp_packet \<Rightarrow> rtp_packet result"
  rl_write :: "rtp_packet \<Rightarrow> go_error option"

definition mime_type_h264 :: string where "mime_type_h264 = ''video/H264''"
definition mime_type_opus :: string where "mime_type_opus = ''audio/opus''"
definition mime_type_vp8 :: string where "mime_type_vp8 = ''video/VP8''"
definition mime_type_vp9 :: string where "mime_type_vp9 = ''video/VP9''"
definition mime_type_g722 :: string where "mime_type_g722 = ''audio/G722''"
definition mime_type_pcmu :: string where "mime_type_pcmu = ''audio/PCMU''"
definition mime_type_pcma :: string where "mime_type_pcma = ''audio/PCMA''"

definition err_no_payloader_for_codec :: go_error where
  "err_no_payloader_for_codec = Err ''the requested codec does not have a payloader''"

definition payloader_for_codec :: "string \<Rightarrow> payloader result" where
  "payloader_for_codec mime =
     (let m = to_lower mime in
      if m = to_lower mime_type_h264 then Inr H264_Payloader
      else if m = to_lower mime_type_opus then Inr Opus_Payloader
      else if m = to_lower mime_type_vp8 then Inr (VP8_Payloader True)
      else if m = to_lower mime_type_vp9 then Inr VP9_Payloader
      else if m = to_lower mime_type_g722 then Inr G722_Payloader
      else if m = to_lower mime_type_pcmu \<or> m = to_lower mime_type_pcma then Inr G711_Payloader
      else Inl err_no_payloader_for_codec)"

section \<open>The track\<close>

text \<open>A provider of samples is known by a number; the writer of a track by the number of
  its context.\<close>

record 'z sample_track =
  tk_id :: string
  tk_stream :: string
  tk_rid :: string
  tk_packetizer :: "'z option"
  tk_transceiver :: "string option"
  tk_ssrc :: "32 word"
  tk_ssrc_acked :: bool
  tk_clock_rate :: nat
  tk_bound :: bool
  tk_audio_level_id :: "8 word"
  tk_mid_id :: "8 word"
  tk_stream_id_id :: "8 word"
  tk_last_ts :: int
  tk_muted :: bool
  tk_cancel_write :: "nat option"
  tk_provider :: "nat option"
  tk_on_write_complete :: bool
  tk_on_bind :: bool
  tk_on_unbind :: bool

datatype track_option = With_Simulcast string "simulcast_layer option" | With_Stream_Id string | With_Rtcp_Handler

record track_options =
  to_simulcast_id :: string
  to_layer :: "simulcast_layer option"
  to_stream_id :: string
  to_rtcp :: bool

fun apply_track_option :: "track_option \<Rightarrow> track_options \<Rightarrow> track_options" where
  "apply_track_option (With_Simulcast i l) s = s\<lparr> to_layer := l, to_simulcast_id := i \<rparr>"
| "apply_track_option (With_Stream_Id i) s = s\<lparr> to_stream_id := i \<rparr>"
| "apply_track_option With_Rtcp_Handler s = s\<lparr> to_rtcp := True \<rparr>"

definition rid_of :: "simulcast_layer option \<Rightarrow> string" where
  "rid_of l =
     (case l of
        None \<Rightarrow> []
      | Some x \<Rightarrow>
          (case sl_quality x of Quality_High \<Rightarrow> ''f'' | Quality_Medium \<Rightarrow> ''h'' | Quality_Low \<Rightarrow> ''q'' | _ \<Rightarrow> []))"

definition zero_track :: "string \<Rightarrow> string \<Rightarrow> string \<Rightarrow> 'z sample_track" where
  "zero_track i stream rid =
     \<lparr> tk_id = i, tk_stream = stream, tk_rid = rid, tk_packetizer = None, tk_transceiver = None, tk_ssrc = 0,
       tk_ssrc_acked = False, tk_clock_rate = 0, tk_bound = False, tk_audio_level_id = 0, tk_mid_id = 0, tk_stream_id_id = 0,
       tk_last_ts = 0, tk_muted = False, tk_cancel_write = None, tk_provider = None, tk_on_write_complete = False,
       tk_on_bind = False, tk_on_unbind = False \<rparr>"

text \<open>The identifiers are fresh; making the underlying track may fail.\<close>

definition new_local_track ::
  "(string \<Rightarrow> string \<Rightarrow> go_error option) \<Rightarrow> string \<Rightarrow> string \<Rightarrow> track_option list \<Rightarrow> 'z sample_track result" where
  "new_local_track new_static new_id new_stream opts =
     (let s = fold apply_track_option opts \<lparr> to_simulcast_id = [], to_layer = None, to_stream_id = [], to_rtcp = False \<rparr>;
          rid = rid_of (to_layer s);
          stream = (if length (to_stream_id s) = 0 then new_stream else to_stream_id s);
          (i, stream) = (if to_simulcast_id s \<noteq> [] then (to_simulcast_id s, to_simulcast_id s) else (new_id, stream)) in
      case new_static i stream of Some e \<Rightarrow> Inl e | None \<Rightarrow> Inr (zero_track i stream rid))"

definition set_transceiver :: "string option \<Rightarrow> 'z sample_track \<Rightarrow> 'z sample_track" where
  "set_transceiver t s = s\<lparr> tk_transceiver := t \<rparr>"

text \<open>Goroutines that are started.\<close>

datatype spawned = Write_Worker nat bool | Rtcp_Worker | On_Bind_Callback | On_Unbind_Callback

record bind_context =
  bc_ssrc :: "32 word"
  bc_extensions :: "(string \<times> int) list"
  bc_codec :: "(string \<times> nat) result"

record providers =
  pv_on_bind :: "nat \<Rightarrow> go_error option"
  pv_on_unbind :: "nat \<Rightarrow> go_error option"
  pv_close :: "nat \<Rightarrow> go_error option"

definition audio_level_uri :: string where "audio_level_uri = ''urn:ietf:params:rtp-hdrext:ssrc-audio-level''"
definition sdes_mid_uri :: string where "sdes_mid_uri = ''urn:ietf:params:rtp-hdrext:sdes:mid''"
definition sdes_rtp_stream_id_uri :: string where
  "sdes_rtp_stream_id_uri = ''urn:ietf:params:rtp-hdrext:sdes:rtp-stream-id''"

definition note_extension :: "string \<times> int \<Rightarrow> 'z sample_track \<Rightarrow> 'z sample_track" where
  "note_extension e s =
     (let s = (if fst e = audio_level_uri then s\<lparr> tk_audio_level_id := word_of_int (snd e) \<rparr> else s);
          s = (if fst e = sdes_mid_uri then s\<lparr> tk_mid_id := word_of_int (snd e) \<rparr> else s)
      in if fst e = sdes_rtp_stream_id_uri then s\<lparr> tk_stream_id_id := word_of_int (snd e) \<rparr> else s)"

definition track_bind ::
  "'z rtp_lib \<Rightarrow> providers \<Rightarrow> bind_context \<Rightarrow> 'z sample_track \<Rightarrow> (go_error option \<times> spawned list) \<times> 'z sample_track" where
  "track_bind L V t s =
     (case bc_codec t of
        Inl e \<Rightarrow> ((Some e, []), s)
      | Inr (mime, clock) \<Rightarrow>
          (case payloader_for_codec mime of
             Inl e \<Rightarrow> ((Some e, []), s)
           | Inr p \<Rightarrow>
               (let s = fold note_extension (bc_extensions t) (s\<lparr> tk_ssrc := bc_ssrc t \<rparr>);
                    s = s\<lparr> tk_packetizer := Some (rl_new L p clock), tk_clock_rate := clock, tk_bound := True \<rparr>;
                    (err, workers) = (case tk_provider s of
                       None \<Rightarrow> (None, []) | Some q \<Rightarrow> (pv_on_bind V q, [Write_Worker q (tk_on_write_complete s)]))
                in ((err, workers @ [Rtcp_Worker] @ (if tk_on_bind s then [On_Bind_Callback] else [])), s))))"

text \<open>Besides the error, the writer that is cancelled and the callback.\<close>

definition track_unbind ::
  "providers \<Rightarrow> go_error option \<Rightarrow> 'z sample_track \<Rightarrow> (go_error option \<times> nat option \<times> spawned list) \<times> 'z sample_track" where
  "track_unbind V unbind s =
     (let err = (case tk_provider s of None \<Rightarrow> None | Some q \<Rightarrow> pv_on_unbind V q)
      in ((case unbind of Some e \<Rightarrow> Some e | None \<Rightarrow> err, tk_cancel_write s,
            if tk_on_unbind s then [On_Unbind_Callback] else []), s\<lparr> tk_bound := False \<rparr>))"

definition start_write ::
  "providers \<Rightarrow> nat \<Rightarrow> bool \<Rightarrow> 'z sample_track \<Rightarrow> (go_error option \<times> spawned list) \<times> 'z sample_track" where
  "start_write V provider on_complete s =
     (if tk_provider s = Some provider then ((None, []), s)
      else let done = s\<lparr> tk_provider := Some provider, tk_on_write_complete := on_complete \<rparr> in
        if tk_bound s then
          (case (case tk_provider s of None \<Rightarrow> None | Some q \<Rightarrow> pv_on_unbind V q) of
             Some e \<Rightarrow> ((Some e, []), s)
           | None \<Rightarrow>
               (case pv_on_bind V provider of
                  Some e \<Rightarrow> ((Some e, []), s)
                | None \<Rightarrow> ((None, [Write_Worker provider on_complete]), done)))
        else ((None, []), done))"

definition on_bind :: "'z sample_track \<Rightarrow> 'z sample_track" where "on_bind s = s\<lparr> tk_on_bind := True \<rparr>"
definition on_unbind :: "'z sample_track \<Rightarrow> 'z sample_track" where "on_unbind s = s\<lparr> tk_on_unbind := True \<rparr>"
definition set_muted :: "bool \<Rightarrow> 'z sample_track \<Rightarrow> 'z sample_track" where "set_muted m s = s\<lparr> tk_muted := m \<rparr>"
definition is_bound :: "'z sample_track \<Rightarrow> bool" where "is_bound s = tk_bound s"

text \<open>The writer that is cancelled; the error of the provider is dropped.\<close>

definition track_close :: "'z sample_track \<Rightarrow> go_error option \<times> nat option" where
  "track_close s = (None, tk_cancel_write s)"

section \<open>Writing a sample\<close>

text \<open>The difference of two points in time is kept within the range of a duration.\<close>

definition time_sub :: "int \<Rightarrow> int \<Rightarrow> int" where
  "time_sub a b = max (- (2 ^ 63)) (min (2 ^ 63 - 1) (a - b))"

fun skip_numbers :: "'z rtp_lib \<Rightarrow> nat \<Rightarrow> 'z \<Rightarrow> 'z" where
  "skip_numbers L 0 z = z"
| "skip_numbers L (Suc n) z = skip_numbers L n (rl_next_number L z)"

definition bytes_of_string :: "string \<Rightarrow> bytes" where
  "bytes_of_string s = map of_char s"

definition mark_level ::
  "'z rtp_lib \<Rightarrow> 'z sample_track \<Rightarrow> 8 word option \<Rightarrow> rtp_packet \<Rightarrow> rtp_packet result" where
  "mark_level L s level p =
     (if tk_audio_level_id s = 0 then Inr p
      else case level of
          None \<Rightarrow> Inr p
        | Some l \<Rightarrow> (case rl_level L l of Inl e \<Rightarrow> Inl e | Inr d \<Rightarrow> rl_set_extension L (tk_audio_level_id s) d p))"

definition mark_stream :: "'z rtp_lib \<Rightarrow> 'z sample_track \<Rightarrow> rtp_packet \<Rightarrow> rtp_packet result" where
  "mark_stream L s p =
     (case tk_transceiver s of
        None \<Rightarrow> Inr p
      | Some mid \<Rightarrow>
          if tk_rid s = [] \<or> mid = [] \<or> tk_ssrc_acked s then Inr p
          else case (if tk_mid_id s = 0 then Inr p else rl_set_extension L (tk_mid_id s) (bytes_of_string mid) p) of
              Inl e \<Rightarrow> Inl e
            | Inr p \<Rightarrow> if tk_stream_id_id s = 0 then Inr p
                       else rl_set_extension L (tk_stream_id_id s) (bytes_of_string (tk_rid s)) p)"

text \<open>What a packet adds to the errors and to the packets written.\<close>

definition send_packet ::
  "'z rtp_lib \<Rightarrow> 'z sample_track \<Rightarrow> 8 word option \<Rightarrow> rtp_packet \<Rightarrow> go_error list \<times> rtp_packet list" where
  "send_packet L s level p =
     (case mark_level L s level p of
        Inl e \<Rightarrow> ([e], [])
      | Inr p \<Rightarrow>
          (case mark_stream L s p of
             Inl e \<Rightarrow> ([e], [])
           | Inr p \<Rightarrow> ((case rl_write L p of Some e \<Rightarrow> [e] | None \<Rightarrow> []), [p])))"

definition write_sample ::
  "'z rtp_lib \<Rightarrow> sample \<Rightarrow> 8 word option \<Rightarrow> 'z sample_track \<Rightarrow> (go_error option \<times> rtp_packet list) \<times> 'z sample_track" where
  "write_sample L sm level s =
     (case tk_packetizer s of
        None \<Rightarrow> ((None, []), s)
      | Some z \<Rightarrow>
          (let z = skip_numbers L (unat (sm_prev_dropped sm)) z;
               (duration, last) = (if sm_duration sm < 0 then (time_sub (sm_timestamp sm) (tk_last_ts s), sm_timestamp sm)
                                   else (sm_duration sm, tk_last_ts s));
               samples = rl_ticks L duration (tk_clock_rate s);
               z = (if sm_prev_dropped sm > 0 then rl_skip L (samples * ucast (sm_prev_dropped sm)) z else z);
               (packets, z) = rl_packetize L (sm_data sm) samples z;
               sent = map (send_packet L s level) packets;
               errs = concat (map fst sent)
           in ((case errs of [] \<Rightarrow> None | e # _ \<Rightarrow> Some e, concat (map snd sent)),
               s\<lparr> tk_packetizer := Some z, tk_last_ts := last \<rparr>)))"

section \<open>The goroutines\<close>

text \<open>One round of the writer: what the provider gives, its audio level if it has one,
  whether the track is muted, the time, and which case the wait takes.\<close>

record write_round =
  wr_next :: "sample result"
  wr_level :: "8 word option"
  wr_muted :: bool
  wr_now :: int
  wr_cancelled :: bool

datatype worker_state = Still_Writing | Writer_Ended

text \<open>Starting the writer cancels the one before.\<close>

definition writer_starts :: "nat \<Rightarrow> 'z sample_track \<Rightarrow> nat option \<times> 'z sample_track" where
  "writer_starts ctx s = (tk_cancel_write s, s\<lparr> tk_cancel_write := Some ctx \<rparr>)"

fun write_worker ::
  "'z rtp_lib \<Rightarrow> int \<Rightarrow> write_round list \<Rightarrow> 'z sample_track \<Rightarrow> (worker_state \<times> rtp_packet list) \<times> 'z sample_track" where
  "write_worker L next_time [] s = ((Still_Writing, []), s)"
| "write_worker L next_time (r # rs) s =
     (case wr_next r of
        Inl e \<Rightarrow> ((Writer_Ended, []), s)
      | Inr sm \<Rightarrow>
          (let s = set_muted (wr_muted r) s;
               ((err, ps), s) = (if tk_muted s then ((None, []), s) else write_sample L sm (wr_level r) s) in
           if err \<noteq> None then ((Writer_Ended, ps), s)
           else let next_time = next_time + sm_duration sm in
             if next_time - wr_now r > 0 \<and> wr_cancelled r then ((Writer_Ended, ps), s)
             else let ((st, qs), s) = write_worker L next_time rs s in ((st, ps @ qs), s)))"

text \<open>The callback of the end of writing is deferred.\<close>

definition completion_called :: "bool \<Rightarrow> worker_state \<Rightarrow> bool" where
  "completion_called on_complete st = (on_complete \<and> st = Writer_Ended)"

datatype rtcp_packet = Receiver_Report "32 word list" | Other_Rtcp

definition rtcp_acks :: "rtcp_packet \<Rightarrow> 'z sample_track \<Rightarrow> 'z sample_track" where
  "rtcp_acks p s =
     (if tk_ssrc_acked s then s
      else case p of
          Receiver_Report reports \<Rightarrow> if tk_ssrc s \<in> set reports then s\<lparr> tk_ssrc_acked := True \<rparr> else s
        | Other_Rtcp \<Rightarrow> s)"

text \<open>Each read gives packets, or an error of reading or decoding that ends the loop;
  the packets are handed to the handler, if there is one.\<close>

fun rtcp_worker ::
  "bool \<Rightarrow> rtcp_packet list result list \<Rightarrow> 'z sample_track \<Rightarrow> rtcp_packet list \<times> 'z sample_track" where
  "rtcp_worker handler [] s = ([], s)"
| "rtcp_worker handler (Inl e # rs) s = ([], s)"
| "rtcp_worker handler (Inr ps # rs) s =
     (let (qs, s) = rtcp_worker handler rs (fold rtcp_acks ps s) in ((if handler then ps else []) @ qs, s))"

section \<open>Lemmas\<close>

text \<open>What pion documents: packets are numbered one after the other and carry the time
  the packetizer stands at; extensions leave both alone.\<close>

definition packetizes :: "'z rtp_lib \<Rightarrow> ('z \<Rightarrow> 16 word) \<Rightarrow> ('z \<Rightarrow> 32 word) \<Rightarrow> bool" where
  "packetizes L num tm =
     ((\<forall>z. num (rl_next_number L z) = num z + 1 \<and> tm (rl_next_number L z) = tm z) \<and>
      (\<forall>n z. num (rl_skip L n z) = num z \<and> tm (rl_skip L n z) = tm z + n) \<and>
      (\<forall>d n z ps z'. d \<noteq> [] \<longrightarrow> rl_packetize L d n z = (ps, z') \<longrightarrow>
         num z' = num z + of_nat (length ps) \<and> tm z' = tm z + n \<and>
         (\<forall>i<length ps. pk_seq (ps ! i) = num z + of_nat (Suc i) \<and> pk_time (ps ! i) = tm z)) \<and>
      (\<forall>i d p q. rl_set_extension L i d p = Inr q \<longrightarrow> pk_seq q = pk_seq p \<and> pk_time q = pk_time p))"

lemma skip_numbers_num:
  assumes "packetizes L num tm"
  shows "num (skip_numbers L n z) = num z + of_nat n \<and> tm (skip_numbers L n z) = tm z"
  using assms by (induction n arbitrary: z) (auto simp: packetizes_def)

lemma send_packet_ok:
  assumes "packetizes L num tm" "send_packet L s level p = ([], qs)"
  obtains q where "qs = [q]" "pk_seq q = pk_seq p" "pk_time q = pk_time p"
proof -
  have e: "rl_set_extension L i d p = Inr q \<Longrightarrow> pk_seq q = pk_seq p \<and> pk_time q = pk_time p" for i d p q
    using assms(1) unfolding packetizes_def by blast
  obtain q1 where q1: "mark_level L s level p = Inr q1"
    using assms(2) by (cases "mark_level L s level p") (simp_all add: send_packet_def)
  obtain q where q: "mark_stream L s q1 = Inr q"
    using assms(2) q1 by (cases "mark_stream L s q1") (simp_all add: send_packet_def)
  then have qs: "qs = [q]" using assms(2) q1 by (simp add: send_packet_def)
  have "pk_seq q1 = pk_seq p \<and> pk_time q1 = pk_time p"
    using q1 by (auto simp: mark_level_def split: if_splits option.splits sum.splits dest!: e)
  moreover have "pk_seq q = pk_seq q1 \<and> pk_time q = pk_time q1"
    using q by (auto simp: mark_stream_def split: if_splits option.splits sum.splits dest!: e)
  ultimately show thesis using that qs by simp
qed

lemma send_all_ok:
  assumes "packetizes L num tm" "concat (map fst (map (send_packet L s level) ps)) = []"
  shows "map pk_seq (concat (map snd (map (send_packet L s level) ps))) = map pk_seq ps \<and>
    map pk_time (concat (map snd (map (send_packet L s level) ps))) = map pk_time ps"
  using assms(2)
proof (induction ps)
  case (Cons p ps)
  obtain es qs where r: "send_packet L s level p = (es, qs)" by (cases "send_packet L s level p")
  then have "send_packet L s level p = ([], qs)" using Cons.prems by simp
  then obtain q where q: "send_packet L s level p = ([], [q])" "pk_seq q = pk_seq p" "pk_time q = pk_time p"
    using send_packet_ok[OF assms(1)] by metis
  moreover have "concat (map fst (map (send_packet L s level) ps)) = []" using Cons.prems q(1) by simp
  ultimately show ?case using Cons.IH by simp
qed simp

lemma fold_acks: "tk_ssrc_acked s \<Longrightarrow> fold rtcp_acks ps s = s"
  by (induction ps) (auto simp: rtcp_acks_def)

lemma fold_acks_named:
  "Receiver_Report rs \<in> set ps \<Longrightarrow> tk_ssrc s \<in> set rs \<Longrightarrow> tk_ssrc_acked (fold rtcp_acks ps s)"
proof (induction ps arbitrary: s)
  case (Cons p ps)
  have k: "tk_ssrc (rtcp_acks p s) = tk_ssrc s" by (auto simp: rtcp_acks_def split: rtcp_packet.splits)
  show ?case
  proof (cases "p = Receiver_Report rs")
    case True
    then have "tk_ssrc_acked (rtcp_acks p s)" using Cons.prems by (auto simp: rtcp_acks_def)
    then show ?thesis by (simp add: fold_acks)
  next
    case False
    then show ?thesis using Cons k by auto
  qed
qed simp

lemma acks_frame:
  "tk_audio_level_id (fold rtcp_acks ps s) = tk_audio_level_id s" "tk_packetizer (fold rtcp_acks ps s) = tk_packetizer s"
proof -
  have k: "tk_audio_level_id (rtcp_acks p t) = tk_audio_level_id t \<and> tk_packetizer (rtcp_acks p t) = tk_packetizer t" for p t
    by (auto simp: rtcp_acks_def split: rtcp_packet.splits)
  show "tk_audio_level_id (fold rtcp_acks ps s) = tk_audio_level_id s"
    by (induction ps arbitrary: s) (auto simp: k)
  show "tk_packetizer (fold rtcp_acks ps s) = tk_packetizer s"
    by (induction ps arbitrary: s) (auto simp: k)
qed

lemma rtcp_worker_acked: "tk_ssrc_acked s \<Longrightarrow> snd (rtcp_worker h rs s) = s"
  by (induction h rs s rule: rtcp_worker.induct) (auto simp: fold_acks split: prod.splits)

section \<open>Properties\<close>

definition plain_rtp :: "(16 word \<times> 32 word) rtp_lib" where
  "plain_rtp =
     \<lparr> rl_new = (\<lambda>_ _. (0, 0)), rl_next_number = (\<lambda>(q, t). (q + 1, t)), rl_skip = (\<lambda>n (q, t). (q, t + n)),
       rl_packetize = (\<lambda>d n (q, t). if d = [] then ([], (q, t))
         else ([\<lparr> pk_seq = q + 1, pk_time = t, pk_extensions = [], pk_payload = d \<rparr>], (q + 1, t + n))),
       rl_ticks = (\<lambda>d c. word_of_int (d * int c div 1000000000)), rl_level = (\<lambda>l. Inr [l]),
       rl_set_extension = (\<lambda>i d p. if i = 0 then Inl (Err ''id'') else Inr (p\<lparr> pk_extensions := (i, d) # pk_extensions p \<rparr>)),
       rl_write = (\<lambda>_. None) \<rparr>"

lemma plain_rtp_sel:
  "rl_next_number plain_rtp (q, t) = (q + 1, t)" "rl_skip plain_rtp n (q, t) = (q, t + n)"
  "rl_packetize plain_rtp [x] n (q, t) =
     ([\<lparr> pk_seq = q + 1, pk_time = t, pk_extensions = [], pk_payload = [x] \<rparr>], (q + 1, t + n))"
  "rl_ticks plain_rtp d c = word_of_int (d * int c div 1000000000)" "rl_write plain_rtp p = None"
  "rl_set_extension plain_rtp 3 b p = Inr (p\<lparr> pk_extensions := (3, b) # pk_extensions p \<rparr>)"
  by (simp_all add: plain_rtp_def)

lemma plain_rtp_skip: "skip_numbers plain_rtp 2 (q, t) = (q + 2, t)"
  by (simp add: numeral_2_eq_2 plain_rtp_sel)

lemma plain_rtp_ok: "packetizes plain_rtp fst snd"
  by (auto simp: packetizes_def plain_rtp_def split: if_splits)

definition bound_track :: "(16 word \<times> 32 word) sample_track" where
  "bound_track = (zero_track ''t'' ''s'' ''f'')\<lparr> tk_packetizer := Some (65534, 4294967000), tk_clock_rate := 90000, tk_bound := True,
     tk_transceiver := Some ''0'', tk_mid_id := 3, tk_ssrc := 77 \<rparr>"

text \<open>C36: A sample whose predecessors were dropped leaves a gap of just as many numbers,
  and its packets, numbered one after the other, carry the time of the dropped samples
  after the last one; both counters wrap at their width.\<close>

theorem sample_numbers_and_time:
  assumes "packetizes L num tm" "tk_packetizer s = Some z" "sm_data sm \<noteq> []" "0 \<le> sm_duration sm"
    and "write_sample L sm level s = ((None, ps), s')"
  shows "\<exists>z'. tk_packetizer s' = Some z' \<and>
    (let dropped = ucast (sm_prev_dropped sm); ticks = rl_ticks L (sm_duration sm) (tk_clock_rate s) in
      (\<forall>i<length ps. pk_seq (ps ! i) = num z + sm_prev_dropped sm + of_nat (Suc i) \<and> pk_time (ps ! i) = tm z + ticks * dropped) \<and>
      num z' = num z + sm_prev_dropped sm + of_nat (length ps) \<and> tm z' = tm z + ticks * dropped + ticks)"
proof -
  define n where "n = rl_ticks L (sm_duration sm) (tk_clock_rate s)"
  define z1 where "z1 = skip_numbers L (unat (sm_prev_dropped sm)) z"
  define z2 where "z2 = (if sm_prev_dropped sm > 0 then rl_skip L (n * ucast (sm_prev_dropped sm)) z1 else z1)"
  obtain qs z' where p: "rl_packetize L (sm_data sm) n z2 = (qs, z')" by (cases "rl_packetize L (sm_data sm) n z2")
  define sent where "sent = map (send_packet L s level) qs"
  have w: "write_sample L sm level s = ((case concat (map fst sent) of [] \<Rightarrow> None | e # _ \<Rightarrow> Some e, concat (map snd sent)),
      s\<lparr> tk_packetizer := Some z', tk_last_ts := tk_last_ts s \<rparr>)"
    using assms(2,4) p[unfolded z2_def z1_def n_def]
    by (cases "sm_prev_dropped sm > 0") (simp_all add: write_sample_def n_def z1_def z2_def sent_def Let_def)
  then have ps: "ps = concat (map snd sent)" "concat (map fst sent) = []" and s': "tk_packetizer s' = Some z'"
    using assms(5) by (auto split: list.splits)
  have same: "map pk_seq ps = map pk_seq qs" "map pk_time ps = map pk_time qs"
    using send_all_ok[OF assms(1), of s level qs] ps unfolding sent_def by simp_all
  have z1: "num z1 = num z + sm_prev_dropped sm" "tm z1 = tm z"
    using skip_numbers_num[OF assms(1)] by (simp_all add: z1_def)
  have z2: "num z2 = num z1" "tm z2 = tm z1 + n * ucast (sm_prev_dropped sm)"
    using assms(1) by (auto simp: z2_def packetizes_def word_gt_0)
  have l: "length ps = length qs" using same(1) by (metis length_map)
  have k: "num z' = num z2 + of_nat (length qs)" "tm z' = tm z2 + n"
    "\<And>i. i < length qs \<Longrightarrow> pk_seq (qs ! i) = num z2 + of_nat (Suc i) \<and> pk_time (qs ! i) = tm z2"
    using assms(1,3) p unfolding packetizes_def by blast+
  have "pk_seq (ps ! i) = pk_seq (qs ! i) \<and> pk_time (ps ! i) = pk_time (qs ! i)" if "i < length ps" for i
    using same that l by (metis nth_map)
  then show ?thesis using s' k z1 z2 l by (simp add: n_def Let_def)
qed

lemma sample_numbers_and_time_witness:
  "\<exists>p s'. write_sample plain_rtp \<lparr> sm_data = [1], sm_duration = 33000000, sm_timestamp = 0, sm_prev_dropped = 2 \<rparr> None bound_track
     = ((None, [p]), s') \<and> pk_seq p = 1 \<and> pk_time p = 5644"
proof -
  let ?sm = "\<lparr> sm_data = [1], sm_duration = 33000000, sm_timestamp = 0, sm_prev_dropped = 2 \<rparr> :: sample"
  obtain p s' where w: "write_sample plain_rtp ?sm None bound_track = ((None, [p]), s')"
    by (simp add: write_sample_def plain_rtp_sel bound_track_def zero_track_def send_packet_def mark_level_def mark_stream_def plain_rtp_skip)
  have z: "tk_packetizer bound_track = Some (65534, 4294967000)" by (simp add: bound_track_def)
  have "pk_seq p = 65534 + 2 + of_nat (Suc 0) \<and> pk_time p = 4294967000 + rl_ticks plain_rtp 33000000 (tk_clock_rate bound_track) * ucast (2 :: 16 word)"
    using sample_numbers_and_time[OF plain_rtp_ok z _ _ w] by (auto simp: Let_def)
  then show ?thesis using w by (simp add: plain_rtp_sel bound_track_def)
qed

text \<open>Once a receiver has reported on the source of a track, no packet of the track
  carries the identifiers of its section and its stream any more, whatever else is
  read afterwards.\<close>

theorem reported_track_sends_plain:
  assumes "Receiver_Report reports \<in> set ps" "tk_ssrc s \<in> set reports" "tk_audio_level_id s = 0"
    and "write_sample L sm level (snd (rtcp_worker h (Inr ps # rs) s)) = ((e, qs), s')"
  shows "(\<exists>n z. qs = fst (rl_packetize L (sm_data sm) n z)) \<or> tk_packetizer s = None \<and> qs = []"
proof -
  let ?s = "fold rtcp_acks ps s"
  have a: "tk_ssrc_acked ?s" by (rule fold_acks_named[OF assms(1,2)])
  have f: "snd (rtcp_worker h (Inr ps # rs) s) = ?s" using rtcp_worker_acked[OF a, of h rs] by (cases "rtcp_worker h rs ?s") simp
  have l: "tk_audio_level_id ?s = 0" using assms(3) by (simp add: acks_frame)
  have "snd (send_packet L ?s level p) = [p]" for p
    using a l by (auto simp: send_packet_def mark_level_def mark_stream_def split: option.splits)
  then have m: "concat (map snd (map (send_packet L ?s level) xs)) = xs" for xs by (induction xs) auto
  show ?thesis
  proof (cases "tk_packetizer ?s")
    case None
    then show ?thesis using assms(4) f by (simp add: write_sample_def acks_frame)
  next
    case (Some z)
    then show ?thesis using assms(4) f m by (auto simp: write_sample_def Let_def split: prod.splits) (metis fst_conv)+
  qed
qed

lemma reported_track_sends_plain_witness:
  "\<exists>n z. snd (fst (write_sample plain_rtp \<lparr> sm_data = [1], sm_duration = 0, sm_timestamp = 0, sm_prev_dropped = 0 \<rparr> None
     (snd (rtcp_worker False [Inr [Other_Rtcp, Receiver_Report [5, 77]], Inl (Err ''EOF'')] bound_track)))) =
     fst (rl_packetize plain_rtp [1] n z)"
proof -
  let ?w = "write_sample plain_rtp \<lparr> sm_data = [1], sm_duration = 0, sm_timestamp = 0, sm_prev_dropped = 0 \<rparr> None
     (snd (rtcp_worker False [Inr [Other_Rtcp, Receiver_Report [5, 77]], Inl (Err ''EOF'')] bound_track))"
  obtain e qs s' where w: "?w = ((e, qs), s')" by (cases ?w) auto
  have "tk_ssrc bound_track \<in> set [5, 77]" "tk_audio_level_id bound_track = 0" "tk_packetizer bound_track \<noteq> None"
    by (simp_all add: bound_track_def zero_track_def)
  then have "\<exists>n z. qs = fst (rl_packetize plain_rtp [1] n z)"
    using reported_track_sends_plain[OF _ _ _ w, of "[5, 77]"] by auto
  then show ?thesis by (simp only: w fst_conv snd_conv)
qed

text \<open>The tracks made for the layers of one simulcast have the identifier of the
  simulcast as their own and as their stream's, and differ in their stream identifier
  in the packets for different qualities.\<close>

theorem simulcast_layers_share_track:
  assumes "new_local_track ns i k (opts @ [With_Simulcast sid (Some l)]) = Inr a"
    and "new_local_track ns i' k' (opts' @ [With_Simulcast sid (Some l')]) = Inr b" "sid \<noteq> []"
    and "sl_quality l \<in> {Quality_Low, Quality_Medium, Quality_High}" "sl_quality l' \<in> {Quality_Low, Quality_Medium, Quality_High}"
  shows "tk_id a = sid \<and> tk_stream a = sid \<and> tk_id b = sid \<and> tk_stream b = sid \<and>
    (tk_rid a = tk_rid b \<longleftrightarrow> sl_quality l = sl_quality l')"
  using assms by (auto simp: new_local_track_def Let_def zero_track_def rid_of_def split: option.splits if_splits)

lemma simulcast_layers_share_track_witness:
  "\<forall>n. \<exists>(a :: nat sample_track) (b :: nat sample_track). new_local_track (\<lambda>_ _. None) ''1'' ''2'' [With_Simulcast ''v'' (Some \<lparr> sl_quality = Quality_High, sl_width = n,
       sl_height = n, sl_bitrate = n, sl_ssrc = n \<rparr>)] = Inr a \<and>
     new_local_track (\<lambda>_ _. None) ''3'' ''4'' [With_Simulcast ''v'' (Some \<lparr> sl_quality = Quality_Low, sl_width = n,
       sl_height = n, sl_bitrate = n, sl_ssrc = n \<rparr>)] = Inr b \<and> tk_rid a \<noteq> tk_rid b"
proof (intro allI, goal_cases)
  case (1 n)
  let ?l = "\<lparr> sl_quality = Quality_High, sl_width = n, sl_height = n, sl_bitrate = n, sl_ssrc = n \<rparr>"
  let ?k = "\<lparr> sl_quality = Quality_Low, sl_width = n, sl_height = n, sl_bitrate = n, sl_ssrc = n \<rparr>"
  obtain a :: "nat sample_track" and b :: "nat sample_track" where t: "new_local_track (\<lambda>_ _. None) ''1'' ''2'' ([] @ [With_Simulcast ''v'' (Some ?l)]) = Inr a"
    "new_local_track (\<lambda>_ _. None) ''3'' ''4'' ([] @ [With_Simulcast ''v'' (Some ?k)]) = Inr b"
    by (simp add: new_local_track_def)
  have "tk_rid a \<noteq> tk_rid b" using simulcast_layers_share_track[OF t] by simp
  then show ?case using t unfolding append_Nil by blast
qed

end
