(* ===== verification/Sample_Source.thy ===== *)
theory Sample_Source
  imports Sample_Track
begin

text \<open>
  Where the samples come from: files that are played once
  (\<^verbatim>\<open>internal/sample/reader.go\<close>, \<^verbatim>\<open>local_file_track.go\<close>), the
  loopers that play a buffer for ever (\<^verbatim>\<open>audio_looper_opus.go\<close>,
  \<^verbatim>\<open>video_looper_h264.go\<close>, \<^verbatim>\<open>video_looper_vp8.go\<close>) and the choice
  of the embedded videos (\<^verbatim>\<open>looper.go\<close>, \<^verbatim>\<open>video_specs.go\<close>).  The
  container formats are read by pion; durations it takes floating point to compute are
  parameters.
\<close>

section \<open>The library and the file system\<close>

datatype nal_unit = Nal_Partition_A | Nal_Partition_B | Nal_Partition_C | Nal_Idr | Nal_Non_Idr | Nal_Other nat

definition is_frame :: "nal_unit \<Rightarrow> bool" where
  "is_frame u = (case u of Nal_Other _ \<Rightarrow> False | _ \<Rightarrow> True)"

record 'h media_lib =
  ml_h264 :: "bytes \<Rightarrow> 'h result"
  ml_nal :: "'h \<Rightarrow> (nal_unit \<times> bytes) result \<times> 'h"
  ml_ivf :: "bytes \<Rightarrow> ('h \<times> nat \<times> nat) result"
  ml_frame :: "'h \<Rightarrow> (bytes \<times> 64 word) result \<times> 'h"
  ml_ogg :: "bytes \<Rightarrow> 'h result"
  ml_page :: "'h \<Rightarrow> (bytes \<times> 64 word) result \<times> 'h"
  ml_ivf_millis :: "nat \<times> nat \<Rightarrow> 64 word \<Rightarrow> int"
  ml_ogg_millis :: "64 word \<Rightarrow> int"

record file_system =
  fs_stat :: "string \<Rightarrow> go_error option"
  fs_open :: "string \<Rightarrow> bytes result result"
  fs_read_at :: "string \<Rightarrow> nat \<Rightarrow> nat \<Rightarrow> bytes result"

definition err_eof :: go_error where "err_eof = Err ''EOF''"
definition err_unsupported_file_type :: go_error where "err_unsupported_file_type = Err ''unsupported file type''"
definition err_cannot_determine_mime :: go_error where "err_cannot_determine_mime = Err ''cannot determine mime''"

definition milliseconds :: "int \<Rightarrow> int" where "milliseconds n = n * 1000000"
definition default_h264_frame_duration :: int where "default_h264_frame_duration = milliseconds 33"
definition default_opus_frame_duration :: int where "default_opus_frame_duration = milliseconds 20"

definition plain_sample :: "bytes \<Rightarrow> int \<Rightarrow> sample" where
  "plain_sample d n = \<lparr> sm_data = d, sm_duration = n, sm_timestamp = 0, sm_prev_dropped = 0 \<rparr>"

section \<open>Reading a file once\<close>

record 'h reader =
  rd_mime :: string
  rd_frame_duration :: int
  rd_on_write_complete :: bool
  rd_audio_level :: "8 word"
  rd_track_opts :: "track_option list"
  rd_input :: bytes
  rd_closed :: bool
  rd_ivf :: "'h option"
  rd_timebase :: "nat \<times> nat"
  rd_last_timestamp :: "64 word"
  rd_h264 :: "'h option"
  rd_ogg :: "'h option"
  rd_last_granule :: "64 word"

datatype reader_option = With_Mime string | With_Frame_Duration int | With_On_Write_Complete | With_Reader_Rtcp

fun apply_reader_option :: "reader_option \<Rightarrow> 'h reader \<Rightarrow> 'h reader" where
  "apply_reader_option (With_Mime m) r = r\<lparr> rd_mime := m \<rparr>"
| "apply_reader_option (With_Frame_Duration d) r = r\<lparr> rd_frame_duration := d \<rparr>"
| "apply_reader_option With_On_Write_Complete r = r\<lparr> rd_on_write_complete := True \<rparr>"
| "apply_reader_option With_Reader_Rtcp r = r\<lparr> rd_track_opts := rd_track_opts r @ [With_Rtcp_Handler] \<rparr>"

text \<open>Binding the track starts writing from the reader.\<close>

definition new_local_reader_track ::
  "(string \<Rightarrow> string \<Rightarrow> go_error option) \<Rightarrow> string \<Rightarrow> string \<Rightarrow> bytes \<Rightarrow> string \<Rightarrow> reader_option list
     \<Rightarrow> ('z sample_track \<times> 'h reader) result" where
  "new_local_reader_track new_static new_id new_stream input mime options =
     (let r = fold apply_reader_option options
            \<lparr> rd_mime = mime, rd_frame_duration = 0, rd_on_write_complete = False, rd_audio_level = 15, rd_track_opts = [],
              rd_input = input, rd_closed = False, rd_ivf = None, rd_timebase = (0, 0), rd_last_timestamp = 0,
              rd_h264 = None, rd_ogg = None, rd_last_granule = 0 \<rparr> in
      if rd_mime r \<notin> {mime_type_h264, mime_type_opus, mime_type_vp8, mime_type_vp9} then Inl err_unsupported_file_type
      else case new_local_track new_static new_id new_stream (rd_track_opts r) of
          Inl e \<Rightarrow> Inl e | Inr t \<Rightarrow> Inr (on_bind t, r))"

definition reader_on_bind :: "'h media_lib \<Rightarrow> 'h reader \<Rightarrow> go_error option \<times> 'h reader" where
  "reader_on_bind L r =
     (if rd_ivf r \<noteq> None \<or> rd_h264 r \<noteq> None \<or> rd_ogg r \<noteq> None then (None, r)
      else let opened =
          (if rd_mime r = mime_type_h264
           then (case ml_h264 L (rd_input r) of Inl e \<Rightarrow> Inl e | Inr h \<Rightarrow> Inr (r\<lparr> rd_h264 := Some h \<rparr>))
           else if rd_mime r = mime_type_vp8 \<or> rd_mime r = mime_type_vp9
           then (case ml_ivf L (rd_input r) of Inl e \<Rightarrow> Inl e | Inr (h, tb) \<Rightarrow> Inr (r\<lparr> rd_ivf := Some h, rd_timebase := tb \<rparr>))
           else if rd_mime r = mime_type_opus
           then (case ml_ogg L (rd_input r) of Inl e \<Rightarrow> Inl e | Inr h \<Rightarrow> Inr (r\<lparr> rd_ogg := Some h \<rparr>))
           else Inl err_unsupported_file_type) in
        case opened of Inl e \<Rightarrow> (Some e, r\<lparr> rd_closed := True \<rparr>) | Inr r \<Rightarrow> (None, r))"

definition reader_on_unbind :: "'h reader \<Rightarrow> go_error option" where "reader_on_unbind r = None"
definition reader_close :: "'h reader \<Rightarrow> 'h reader" where "reader_close r = r\<lparr> rd_closed := True \<rparr>"
definition current_audio_level :: "'h reader \<Rightarrow> 8 word" where "current_audio_level r = rd_audio_level r"

definition opus_duration :: "'h media_lib \<Rightarrow> 64 word \<Rightarrow> int" where
  "opus_duration L count =
     (let d = milliseconds (ml_ogg_millis L count) in if d = 0 then default_opus_frame_duration else d)"

definition override_duration :: "'h reader \<Rightarrow> sample \<Rightarrow> sample" where
  "override_duration r sm = (if rd_frame_duration r > 0 then sm\<lparr> sm_duration := rd_frame_duration r \<rparr> else sm)"

definition reader_next_sample :: "'h media_lib \<Rightarrow> 'h reader \<Rightarrow> (sample result \<times> 'h reader) outcome" where
  "reader_next_sample L r =
     (if rd_mime r = mime_type_h264 then
        outcome_bind (deref (rd_h264 r)) (\<lambda>h. let (nal, h) = ml_nal L h; r = r\<lparr> rd_h264 := Some h \<rparr> in Ret (case nal of
            Inl e \<Rightarrow> (Inl e, r)
          | Inr (u, d) \<Rightarrow>
              if \<not> is_frame u then (Inr (plain_sample d 0), r)
              else (Inr (override_duration r (plain_sample d default_h264_frame_duration)), r)))
      else if rd_mime r = mime_type_vp8 \<or> rd_mime r = mime_type_vp9 then
        outcome_bind (deref (rd_ivf r)) (\<lambda>h. let (frame, h) = ml_frame L h; r = r\<lparr> rd_ivf := Some h \<rparr> in Ret (case frame of
            Inl e \<Rightarrow> (Inl e, r)
          | Inr (d, ts) \<Rightarrow>
              (let delta = ts - rd_last_timestamp r;
                   sm = plain_sample d (milliseconds (ml_ivf_millis L (rd_timebase r) delta))
               in (Inr (override_duration r sm), r\<lparr> rd_last_timestamp := ts \<rparr>))))
      else if rd_mime r = mime_type_opus then
        outcome_bind (deref (rd_ogg r)) (\<lambda>h. let (page, h) = ml_page L h; r = r\<lparr> rd_ogg := Some h \<rparr> in Ret (case page of
            Inl e \<Rightarrow> (Inl e, r)
          | Inr (d, g) \<Rightarrow>
              (Inr (override_duration r (plain_sample d (opus_duration L (g - rd_last_granule r)))), r\<lparr> rd_last_granule := g \<rparr>)))
      else Ret (Inr (override_duration r (plain_sample [] 0)), r))"

section \<open>Loopers\<close>

record 'h opus_looper =
  ol_buffer :: bytes
  ol_reader :: "'h option"
  ol_last_granule :: "64 word"

definition new_audio_looper_opus :: "bytes result \<Rightarrow> 'h opus_looper result" where
  "new_audio_looper_opus input =
     (case input of Inl e \<Rightarrow> Inl e | Inr b \<Rightarrow> Inr \<lparr> ol_buffer = b, ol_reader = None, ol_last_granule = 0 \<rparr>)"

text \<open>At the end of the buffer the reader is made anew, once.\<close>

function opus_next_sample :: "'h media_lib \<Rightarrow> bool \<Rightarrow> 'h opus_looper \<Rightarrow> sample result \<times> 'h opus_looper" where
  "opus_next_sample L rewind l =
     (let (opened, l) = (case ol_reader l of
            Some h \<Rightarrow> (Inr h, l)
          | None \<Rightarrow> (ml_ogg L (ol_buffer l), l\<lparr> ol_last_granule := 0 \<rparr>)) in
      case opened of
        Inl e \<Rightarrow> (Inl e, l)
      | Inr h \<Rightarrow>
          (let (page, h) = ml_page L h in
           if page = Inl err_eof \<and> rewind then opus_next_sample L False (l\<lparr> ol_reader := None \<rparr>)
           else case page of
               Inl e \<Rightarrow> (Inl e, l\<lparr> ol_reader := Some h \<rparr>)
             | Inr (d, g) \<Rightarrow> (Inr (plain_sample d (opus_duration L (g - ol_last_granule l))),
                 l\<lparr> ol_reader := Some h, ol_last_granule := g \<rparr>)))"
  by pat_completeness auto
termination by (relation "measure (\<lambda>(L, rewind, l). if rewind then 1 else 0)") auto

declare opus_next_sample.simps [simp del]

record video_spec =
  vs_codec :: string
  vs_prefix :: string
  vs_height :: int
  vs_width :: int
  vs_kbps :: int
  vs_fps :: int

record 'h h264_looper =
  hl_buffer :: bytes
  hl_frame_duration :: int
  hl_spec :: video_spec
  hl_reader :: "'h option"

record 'h vp8_looper =
  vl_buffer :: bytes
  vl_frame_duration :: int
  vl_spec :: video_spec
  vl_reader :: "'h option"
  vl_timebase :: "nat \<times> nat"
  vl_last_timestamp :: "64 word"

text \<open>Dividing by no frames a second panics.\<close>

definition frame_duration :: "video_spec \<Rightarrow> int outcome" where
  "frame_duration spec = (if vs_fps spec = 0 then Panic else Ret (1000000000 div vs_fps spec))"

definition new_video_looper_h264 :: "bytes result \<Rightarrow> video_spec \<Rightarrow> 'h h264_looper result outcome" where
  "new_video_looper_h264 input spec =
     outcome_bind (frame_duration spec) (\<lambda>n. Ret (case input of
       Inl e \<Rightarrow> Inl e | Inr b \<Rightarrow> Inr \<lparr> hl_buffer = b, hl_frame_duration = n, hl_spec = spec, hl_reader = None \<rparr>))"

definition new_video_looper_vp8 :: "bytes result \<Rightarrow> video_spec \<Rightarrow> 'h vp8_looper result outcome" where
  "new_video_looper_vp8 input spec =
     outcome_bind (frame_duration spec) (\<lambda>n. Ret (case input of
       Inl e \<Rightarrow> Inl e | Inr b \<Rightarrow> Inr \<lparr> vl_buffer = b, vl_frame_duration = n, vl_spec = spec, vl_reader = None,
         vl_timebase = (0, 0), vl_last_timestamp = 0 \<rparr>))"

function h264_next_sample :: "'h media_lib \<Rightarrow> bool \<Rightarrow> 'h h264_looper \<Rightarrow> sample result \<times> 'h h264_looper" where
  "h264_next_sample L rewind l =
     (case (case hl_reader l of Some h \<Rightarrow> Inr h | None \<Rightarrow> ml_h264 L (hl_buffer l)) of
        Inl e \<Rightarrow> (Inl e, l)
      | Inr h \<Rightarrow>
          (let (nal, h) = ml_nal L h in
           if nal = Inl err_eof \<and> rewind then h264_next_sample L False (l\<lparr> hl_reader := None \<rparr>)
           else (case nal of
               Inl e \<Rightarrow> Inl e
             | Inr (u, d) \<Rightarrow> Inr (plain_sample d (if is_frame u then hl_frame_duration l else 0)), l\<lparr> hl_reader := Some h \<rparr>)))"
  by pat_completeness auto
termination by (relation "measure (\<lambda>(L, rewind, l). if rewind then 1 else 0)") auto

declare h264_next_sample.simps [simp del]

text \<open>The duration computed from the times of the frames is replaced by the known one.\<close>

function vp8_next_sample :: "'h media_lib \<Rightarrow> bool \<Rightarrow> 'h vp8_looper \<Rightarrow> sample result \<times> 'h vp8_looper" where
  "vp8_next_sample L rewind l =
     (let (opened, l) = (case vl_reader l of
            Some h \<Rightarrow> (Inr h, l)
          | None \<Rightarrow> (case ml_ivf L (vl_buffer l) of Inl e \<Rightarrow> (Inl e, l) | Inr (h, tb) \<Rightarrow> (Inr h, l\<lparr> vl_timebase := tb \<rparr>))) in
      case opened of
        Inl e \<Rightarrow> (Inl e, l)
      | Inr h \<Rightarrow>
          (let (frame, h) = ml_frame L h in
           if frame = Inl err_eof \<and> rewind then vp8_next_sample L False (l\<lparr> vl_reader := None \<rparr>)
           else case frame of
               Inl e \<Rightarrow> (Inl e, l\<lparr> vl_reader := Some h \<rparr>)
             | Inr (d, ts) \<Rightarrow> (Inr (plain_sample d (vl_frame_duration l)),
                 l\<lparr> vl_reader := Some h, vl_last_timestamp := ts \<rparr>)))"
  by pat_completeness auto
termination by (relation "measure (\<lambda>(L, rewind, l). if rewind then 1 else 0)") auto

declare vp8_next_sample.simps [simp del]

section \<open>The embedded videos\<close>

definition h264_codec :: string where "h264_codec = ''h264''"
definition vp8_codec :: string where "vp8_codec = ''vp8''"

definition spec_name :: "video_spec \<Rightarrow> string" where
  "spec_name v =
     (let ext = (if vs_codec v = vp8_codec then ''ivf'' else ''h264'');
          size = (if vs_height v > vs_width v then ''p'' @ show_int (vs_width v) else show_int (vs_height v))
      in ''resources/'' @ vs_prefix v @ ''_'' @ size @ ''_'' @ show_int (vs_kbps v) @ ''.'' @ ext)"

definition spec_bitrate :: "video_spec \<Rightarrow> 32 word" where "spec_bitrate v = word_of_int (vs_kbps v * 1000)"

definition to_layer_of :: "video_spec \<Rightarrow> video_quality \<Rightarrow> simulcast_layer" where
  "to_layer_of v q = \<lparr> sl_quality = q, sl_width = word_of_int (vs_width v), sl_height = word_of_int (vs_height v),
     sl_bitrate = spec_bitrate v, sl_ssrc = 0 \<rparr>"

text \<open>The sizes are positive, so the division is the one of the integers.\<close>

definition circles_spec :: "int \<Rightarrow> int \<Rightarrow> int \<Rightarrow> video_spec" where
  "circles_spec width kbps fps = \<lparr> vs_codec = h264_codec, vs_prefix = ''circles'', vs_height = width * 4 div 3, vs_width = width,
     vs_kbps = kbps, vs_fps = fps \<rparr>"

fun create_specs_from :: "nat \<Rightarrow> string \<Rightarrow> string \<Rightarrow> int list \<Rightarrow> video_spec list outcome" where
  "create_specs_from i pre codec [] = Ret []"
| "create_specs_from i pre codec (b # bs) =
     (let video_fps = [15, 20, 30]; dim = 2 ^ i in
      if i < length video_fps then
        outcome_bind (create_specs_from (Suc i) pre codec bs) (\<lambda>vs. Ret (
          \<lparr> vs_codec = codec, vs_prefix = pre, vs_height = 180 * dim, vs_width = 180 * dim * 16 div 9,
            vs_kbps = b, vs_fps = video_fps ! i \<rparr> # vs))
      else Panic)"

definition create_specs :: "string \<Rightarrow> string \<Rightarrow> int list \<Rightarrow> video_spec list outcome" where
  "create_specs pre codec bitrates = create_specs_from 0 pre codec bitrates"

definition video_specs :: "video_spec list list outcome" where
  "video_specs =
     outcome_bind (create_specs ''butterfly'' h264_codec [150, 400, 2000]) (\<lambda>a.
     outcome_bind (create_specs ''cartoon'' h264_codec [120, 400, 1500]) (\<lambda>b.
     outcome_bind (create_specs ''crescent'' vp8_codec [150, 600, 2000]) (\<lambda>c.
     outcome_bind (create_specs ''neon'' vp8_codec [150, 600, 2000]) (\<lambda>d.
     outcome_bind (create_specs ''tunnel'' vp8_codec [150, 600, 2000]) (\<lambda>e.
       Ret [a, b, c, d, e, [circles_spec 180 200 15, circles_spec 360 700 20, circles_spec 540 2000 30]])))))"

definition audio_names :: "string list" where
  "audio_names = [''change-amelia'', ''change-benjamin'', ''change-elena'', ''change-clint'', ''change-emma'', ''change-ken'',
     ''change-sophie'']"

text \<open>The element a counter chooses: the remainder has the sign of the counter, and an
  index below zero or an empty list panics.\<close>

definition chosen :: "64 word \<Rightarrow> 'a list \<Rightarrow> 'a outcome" where
  "chosen n xs =
     (if xs = [] then Panic
      else if sint n < 0 \<and> \<not> int (length xs) dvd sint n then Panic
      else Ret (xs ! nat (sint n mod int (length xs))))"

text \<open>With the new value of the counter.\<close>

definition random_video_specs_for_codec :: "string \<Rightarrow> 64 word \<Rightarrow> video_spec list outcome \<times> 64 word" where
  "random_video_specs_for_codec codec index =
     (outcome_bind video_specs (\<lambda>families.
        chosen (index + 1) (filter (\<lambda>specs. codec = [] \<or> vs_codec (hd specs) = codec) families)), index + 1)"

definition create_spec :: "string \<Rightarrow> string \<Rightarrow> int \<Rightarrow> int \<Rightarrow> video_spec" where
  "create_spec pre codec fps bitrate = \<lparr> vs_codec = codec, vs_prefix = pre, vs_height = 1800, vs_width = 1800 * 16 div 9,
     vs_kbps = bitrate, vs_fps = fps \<rparr>"

datatype 'h video_looper = H264_Looper "'h h264_looper" | VP8_Looper "'h vp8_looper"

fun looper_spec :: "'h video_looper \<Rightarrow> video_spec" where
  "looper_spec (H264_Looper l) = hl_spec l"
| "looper_spec (VP8_Looper l) = vl_spec l"

fun loopers_of :: "file_system \<Rightarrow> video_spec list \<Rightarrow> 'h video_looper list result outcome" where
  "loopers_of F [] = Ret (Inr [])"
| "loopers_of F (spec # specs) =
     (case fs_open F (spec_name spec) of
        Inl e \<Rightarrow> Ret (Inl e)
      | Inr f \<Rightarrow>
          outcome_bind
            (if vs_codec spec = h264_codec
             then outcome_bind (new_video_looper_h264 f spec) (\<lambda>r. Ret (case r of Inl e \<Rightarrow> Inl e | Inr l \<Rightarrow> Inr [H264_Looper l]))
             else if vs_codec spec = vp8_codec
             then outcome_bind (new_video_looper_vp8 f spec) (\<lambda>r. Ret (case r of Inl e \<Rightarrow> Inl e | Inr l \<Rightarrow> Inr [VP8_Looper l]))
             else Ret (Inr []))
            (\<lambda>r. case r of
               Inl e \<Rightarrow> Ret (Inl e)
             | Inr ls \<Rightarrow> outcome_bind (loopers_of F specs) (\<lambda>rest. Ret (case rest of Inl e \<Rightarrow> Inl e | Inr ms \<Rightarrow> Inr (ls @ ms)))))"

definition create_video_loopers ::
  "file_system \<Rightarrow> string \<Rightarrow> string \<Rightarrow> bool \<Rightarrow> 64 word \<Rightarrow> 'h video_looper list result outcome" where
  "create_video_loopers F resolution codec_filter simulcast index =
     outcome_bind (fst (random_video_specs_for_codec codec_filter index)) (\<lambda>specs.
       let keep = (if resolution = ''medium'' then 2 else if resolution = ''low'' then 1 else 3) in
       if length specs < keep then Panic
       else let specs = take keep specs; specs = (if simulcast then specs else drop (keep - 1) specs)
            in loopers_of F specs)"

definition create_audio_looper :: "file_system \<Rightarrow> 64 word \<Rightarrow> 'h opus_looper result outcome \<times> 64 word" where
  "create_audio_looper F index =
     (outcome_bind (chosen index audio_names) (\<lambda>name. Ret (
        case fs_open F (''resources/'' @ name @ ''.ogg'') of Inl e \<Rightarrow> Inl e | Inr f \<Rightarrow> new_audio_looper_opus f)), index + 1)"

section \<open>Tracks of files\<close>

text \<open>\<^verbatim>\<open>filepath.Ext\<close>.\<close>

definition filepath_ext :: "string \<Rightarrow> string" where
  "filepath_ext p =
     (let base = takeWhile (\<lambda>c. c \<noteq> CHR ''/'') (rev p) in
      if CHR ''.'' \<in> set base then CHR ''.'' # rev (takeWhile (\<lambda>c. c \<noteq> CHR ''.'') base) else [])"

text \<open>The result, and whether a file was left open without being returned.\<close>

definition read_file :: "file_system \<Rightarrow> string \<Rightarrow> (bytes result \<times> string) result \<times> bool" where
  "read_file F file =
     (case fs_stat F file of
        Some e \<Rightarrow> (Inl e, False)
      | None \<Rightarrow>
          (case fs_open F file of
             Inl e \<Rightarrow> (Inl e, False)
           | Inr fp \<Rightarrow>
               if filepath_ext file = ''.h264'' then (Inr (fp, mime_type_h264), False)
               else if filepath_ext file = ''.ivf'' then
                 (case fs_read_at F file 8 3 of
                    Inl e \<Rightarrow> (Inl e, True)
                  | Inr buf \<Rightarrow>
                      if buf = bytes_of_string ''VP8'' then (Inr (fp, mime_type_vp8), False)
                      else if buf = bytes_of_string ''VP9'' then (Inr (fp, mime_type_vp9), False)
                      else (Inl err_cannot_determine_mime, False))
               else if filepath_ext file = ''.ogg'' then (Inr (fp, mime_type_opus), False)
               else (Inl err_cannot_determine_mime, False)))"

definition looped ::
  "(string \<Rightarrow> string \<Rightarrow> go_error option) \<Rightarrow> string \<Rightarrow> string \<Rightarrow> track_option list \<Rightarrow> 'l result \<Rightarrow> ('z sample_track \<times> 'l) result" where
  "looped new_static new_id new_stream opts looper =
     (case looper of
        Inl e \<Rightarrow> Inl e
      | Inr l \<Rightarrow> (case new_local_track new_static new_id new_stream opts of Inl e \<Rightarrow> Inl e | Inr t \<Rightarrow> Inr (on_bind t, l)))"

datatype 'h file_looper = Looping_H264 "'h h264_looper" | Looping_VP8 "'h vp8_looper" | Looping_Opus "'h opus_looper"

definition map_result :: "('a \<Rightarrow> 'b) \<Rightarrow> 'a result \<Rightarrow> 'b result" where
  "map_result f r = (case r of Inl e \<Rightarrow> Inl e | Inr x \<Rightarrow> Inr (f x))"

definition new_local_looper_h264_track ::
  "(string \<Rightarrow> string \<Rightarrow> go_error option) \<Rightarrow> string \<Rightarrow> string \<Rightarrow> bytes result \<Rightarrow> video_spec \<Rightarrow> track_option list
     \<Rightarrow> ('z sample_track \<times> 'h file_looper) result outcome" where
  "new_local_looper_h264_track new_static new_id new_stream input spec opts =
     outcome_bind (new_video_looper_h264 input spec) (\<lambda>l. Ret (looped new_static new_id new_stream opts (map_result Looping_H264 l)))"

definition new_local_looper_vp8_track ::
  "(string \<Rightarrow> string \<Rightarrow> go_error option) \<Rightarrow> string \<Rightarrow> string \<Rightarrow> bytes result \<Rightarrow> video_spec \<Rightarrow> track_option list
     \<Rightarrow> ('z sample_track \<times> 'h file_looper) result outcome" where
  "new_local_looper_vp8_track new_static new_id new_stream input spec opts =
     outcome_bind (new_video_looper_vp8 input spec) (\<lambda>l. Ret (looped new_static new_id new_stream opts (map_result Looping_VP8 l)))"

definition new_local_looper_opus_track ::
  "(string \<Rightarrow> string \<Rightarrow> go_error option) \<Rightarrow> string \<Rightarrow> string \<Rightarrow> bytes result \<Rightarrow> track_option list
     \<Rightarrow> ('z sample_track \<times> 'h file_looper) result" where
  "new_local_looper_opus_track new_static new_id new_stream input opts =
     looped new_static new_id new_stream opts (map_result Looping_Opus (new_audio_looper_opus input))"

definition new_local_file_looper_track ::
  "file_system \<Rightarrow> (string \<Rightarrow> string \<Rightarrow> go_error option) \<Rightarrow> string \<Rightarrow> string \<Rightarrow> string \<Rightarrow> track_option list
     \<Rightarrow> ('z sample_track \<times> 'h file_looper) result outcome" where
  "new_local_file_looper_track F new_static new_id new_stream file opts =
     (case fst (read_file F file) of
        Inl e \<Rightarrow> Ret (Inl e)
      | Inr (fp, mime) \<Rightarrow>
          if mime = mime_type_h264 then
            new_local_looper_h264_track new_static new_id new_stream fp (create_spec ''send-loop'' h264_codec 30 1500) opts
          else if mime = mime_type_vp8 then
            new_local_looper_vp8_track new_static new_id new_stream fp (create_spec ''send-loop'' h264_codec 30 1500) opts
          else if mime = mime_type_opus then Ret (new_local_looper_opus_track new_static new_id new_stream fp opts)
          else Ret (Inl err_unsupported_file_type))"

text \<open>A file whose track cannot be made is closed; of its contents a reader takes what can
  be read.\<close>

definition new_local_file_reader_track ::
  "file_system \<Rightarrow> (string \<Rightarrow> string \<Rightarrow> go_error option) \<Rightarrow> string \<Rightarrow> string \<Rightarrow> string \<Rightarrow> reader_option list
     \<Rightarrow> ('z sample_track \<times> 'h reader) result" where
  "new_local_file_reader_track F new_static new_id new_stream file options =
     (case fst (read_file F file) of
        Inl e \<Rightarrow> Inl e
      | Inr (fp, mime) \<Rightarrow>
          new_local_reader_track new_static new_id new_stream (case fp of Inl _ \<Rightarrow> [] | Inr b \<Rightarrow> b) mime options)"

section \<open>Looping\<close>

fun nth_step :: "('s \<Rightarrow> 'a \<times> 's) \<Rightarrow> nat \<Rightarrow> 's \<Rightarrow> 'a \<times> 's" where
  "nth_step f 0 s = f s"
| "nth_step f (Suc n) s = nth_step f n (snd (f s))"

text \<open>What the loopers have in common: standing before an element of a recording, a step
  gives it and stands before the next, and behind the last one gives the first again.\<close>

locale looping =
  fixes play :: "'e \<Rightarrow> 's \<Rightarrow> 'a \<times> 's"
    and stands :: "'e \<Rightarrow> 'p list \<Rightarrow> 's \<Rightarrow> nat \<Rightarrow> bool"
    and gives :: "'e \<Rightarrow> 'p list \<Rightarrow> nat \<Rightarrow> 'a"
  assumes plays: "ps \<noteq> [] \<Longrightarrow> stands e ps s i \<Longrightarrow>
    \<exists>s'. play e s = (gives e ps (i mod length ps), s') \<and> stands e ps s' (Suc (i mod length ps))"
begin

lemma nth_play:
  "ps \<noteq> [] \<Longrightarrow> stands e ps s i \<Longrightarrow> fst (nth_step (play e) n s) = gives e ps ((i + n) mod length ps)"
proof (induction n arbitrary: s i)
  case 0
  then show ?case using plays[of ps e s i] by auto
next
  case (Suc n)
  obtain s' where s': "play e s = (gives e ps (i mod length ps), s')" "stands e ps s' (Suc (i mod length ps))"
    using plays[OF Suc.prems] by blast
  have "fst (nth_step (play e) n s') = gives e ps ((Suc (i mod length ps) + n) mod length ps)"
    by (rule Suc.IH[OF Suc.prems(1) s'(2)])
  moreover have "(Suc (i mod length ps) + n) mod length ps = (i + Suc n) mod length ps"
    by (metis add_Suc_shift add_Suc mod_add_left_eq)
  ultimately show ?case using s' by simp
qed

lemma never_stops: "ps \<noteq> [] \<Longrightarrow> stands e ps s 0 \<Longrightarrow> k < length ps \<Longrightarrow>
    fst (nth_step (play e) (n * length ps + k) s) = gives e ps k"
  using nth_play[of ps e s 0 "n * length ps + k"] by simp

end

fun reads :: "('h \<Rightarrow> 'p result \<times> 'h) \<Rightarrow> 'h \<Rightarrow> 'p list \<Rightarrow> bool" where
  "reads f h [] = (fst (f h) = Inl err_eof)"
| "reads f h (p # ps) = (fst (f h) = Inr p \<and> reads f (snd (f h)) ps)"

lemma reads_drop:
  "reads f h (drop i ps) \<Longrightarrow> i < length ps \<Longrightarrow> \<exists>k. f h = (Inr (ps ! i), k) \<and> reads f k (drop (Suc i) ps)"
  by (cases "f h") (auto simp: Cons_nth_drop_Suc[symmetric])

lemma reads_end: "reads f h (drop i ps) \<Longrightarrow> i = length ps \<Longrightarrow> \<exists>k. f h = (Inl err_eof, k)"
  by (cases "f h") auto

text \<open>A looper has no reader, or its reader is at the end, or it has a next element.\<close>

lemma reader_cases [consumes 2, case_names fresh over more]:
  assumes "i \<le> length ps" "case r of None \<Rightarrow> i = 0 | Some h \<Rightarrow> reads f h (drop i ps)"
  obtains "r = None" "i = 0"
  | h k where "r = Some h" "i = length ps" "f h = (Inl err_eof, k)"
  | h k where "r = Some h" "i < length ps" "f h = (Inr (ps ! i), k)" "reads f k (drop (Suc i) ps)"
proof (cases r)
  case None
  then show thesis using that(1) assms(2) by simp
next
  case (Some h)
  then have r: "reads f h (drop i ps)" using assms(2) by simp
  show thesis
  proof (cases "i = length ps")
    case True
    then show thesis using reads_end[OF r True] by (elim exE) (rule that(2)[OF Some True])
  next
    case False
    then have i: "i < length ps" using assms(1) by simp
    then show thesis using reads_drop[OF r i] by (elim exE conjE) (rule that(3)[OF Some i])
  qed
qed

lemma reads_first:
  assumes "ps \<noteq> []" "reads f h ps"
  obtains k where "f h = (Inr (ps ! 0), k)" "reads f k (drop 1 ps)"
  using reads_drop[of f h 0 ps] assms that by auto

definition opus_stands :: "'h media_lib \<times> bytes \<Rightarrow> (bytes \<times> 64 word) list \<Rightarrow> 'h opus_looper \<Rightarrow> nat \<Rightarrow> bool" where
  "opus_stands e ps l i =
     (ol_buffer l = snd e \<and> i \<le> length ps \<and>
      (case ml_ogg (fst e) (snd e) of Inl _ \<Rightarrow> False | Inr h \<Rightarrow> reads (ml_page (fst e)) h ps) \<and>
      (case ol_reader l of None \<Rightarrow> i = 0
       | Some h \<Rightarrow> reads (ml_page (fst e)) h (drop i ps) \<and> ol_last_granule l = (if i = 0 then 0 else snd (ps ! (i - 1)))))"

definition opus_gives :: "'h media_lib \<times> bytes \<Rightarrow> (bytes \<times> 64 word) list \<Rightarrow> nat \<Rightarrow> sample result" where
  "opus_gives e ps i = Inr (plain_sample (fst (ps ! i)) (opus_duration (fst e) (snd (ps ! i) - (if i = 0 then 0 else snd (ps ! (i - 1))))))"

lemma opus_fresh:
  assumes "ps \<noteq> []" "ml_ogg L (ol_buffer l) = Inr h" "reads (ml_page L) h ps" "ol_reader l = None"
  shows "\<exists>l'. opus_next_sample L w l = (opus_gives (L, ol_buffer l) ps 0, l') \<and> opus_stands (L, ol_buffer l) ps l' 1"
proof -
  obtain k where p: "ml_page L h = (Inr (ps ! 0), k)" "reads (ml_page L) k (drop 1 ps)"
    using assms(1,3) by (rule reads_first)
  obtain d g where dg: "ps ! 0 = (d, g)" by (cases "ps ! 0")
  have "opus_next_sample L w l = (Inr (plain_sample d (opus_duration L (g - 0))),
      l\<lparr> ol_reader := Some k, ol_last_granule := g \<rparr>)"
    by (subst opus_next_sample.simps) (use assms p(1) dg in simp)
  then show ?thesis using p assms dg by (simp add: opus_gives_def opus_stands_def Suc_le_eq)
qed

lemma opus_plays:
  assumes "ps \<noteq> []" "opus_stands e ps l i"
  shows "\<exists>l'. opus_next_sample (fst e) True l = (opus_gives e ps (i mod length ps), l') \<and> opus_stands e ps l' (Suc (i mod length ps))"
proof -
  obtain L buf where e: "e = (L, buf)" by (cases e)
  have b: "ol_buffer l = buf" "i \<le> length ps" using assms(2) e by (simp_all add: opus_stands_def)
  obtain h0 where h0: "ml_ogg L buf = Inr h0" "reads (ml_page L) h0 ps"
    using assms(2) e by (auto simp: opus_stands_def split: sum.splits)
  have c: "case ol_reader l of None \<Rightarrow> i = 0 | Some h \<Rightarrow> reads (ml_page L) h (drop i ps)"
    using assms(2) e by (auto simp: opus_stands_def split: option.splits)
  from b(2) c show ?thesis
  proof (cases rule: reader_cases)
    case fresh
    then show ?thesis using opus_fresh[of ps L l h0 True] h0 b e assms(1) by simp
  next
    case (over h k)
    then have "opus_next_sample L True l = opus_next_sample L False (l\<lparr> ol_reader := None \<rparr>)"
      by (subst opus_next_sample.simps) simp
    then show ?thesis using opus_fresh[of ps L "l\<lparr> ol_reader := None \<rparr>" h0 False] h0 b e over(2) assms(1) by simp
  next
    case (more h k)
    obtain d g where dg: "ps ! i = (d, g)" by (cases "ps ! i")
    have g: "ol_last_granule l = (if i = 0 then 0 else snd (ps ! (i - 1)))" using assms(2) e more(1) by (simp add: opus_stands_def)
    have "opus_next_sample L True l = (Inr (plain_sample d (opus_duration L (g - ol_last_granule l))),
        l\<lparr> ol_reader := Some k, ol_last_granule := g \<rparr>)"
      by (subst opus_next_sample.simps) (use more(1,3) dg in simp)
    then show ?thesis using more dg e h0 b g by (simp add: opus_gives_def opus_stands_def)
  qed
qed

interpretation opus: looping "\<lambda>e. opus_next_sample (fst e) True" opus_stands opus_gives
  by unfold_locales (rule opus_plays)

definition vp8_stands :: "'h media_lib \<times> bytes \<times> int \<Rightarrow> (bytes \<times> 64 word) list \<Rightarrow> 'h vp8_looper \<Rightarrow> nat \<Rightarrow> bool" where
  "vp8_stands e ps l i =
     (vl_buffer l = fst (snd e) \<and> vl_frame_duration l = snd (snd e) \<and> i \<le> length ps \<and>
      (case ml_ivf (fst e) (fst (snd e)) of Inl _ \<Rightarrow> False | Inr (h, _) \<Rightarrow> reads (ml_frame (fst e)) h ps) \<and>
      (case vl_reader l of None \<Rightarrow> i = 0 | Some h \<Rightarrow> reads (ml_frame (fst e)) h (drop i ps)))"

definition vp8_gives :: "'h media_lib \<times> bytes \<times> int \<Rightarrow> (bytes \<times> 64 word) list \<Rightarrow> nat \<Rightarrow> sample result" where
  "vp8_gives e ps i = Inr (plain_sample (fst (ps ! i)) (snd (snd e)))"

lemma vp8_fresh:
  assumes "ps \<noteq> []" "ml_ivf L (vl_buffer l) = Inr (h, tb)" "reads (ml_frame L) h ps" "vl_reader l = None"
  shows "\<exists>l'. vp8_next_sample L w l = (vp8_gives (L, vl_buffer l, vl_frame_duration l) ps 0, l') \<and>
    vp8_stands (L, vl_buffer l, vl_frame_duration l) ps l' 1"
proof -
  obtain k where p: "ml_frame L h = (Inr (ps ! 0), k)" "reads (ml_frame L) k (drop 1 ps)"
    using assms(1,3) by (rule reads_first)
  obtain d g where dg: "ps ! 0 = (d, g)" by (cases "ps ! 0")
  have "vp8_next_sample L w l = (Inr (plain_sample d (vl_frame_duration l)),
      l\<lparr> vl_timebase := tb, vl_reader := Some k, vl_last_timestamp := g \<rparr>)"
    by (subst vp8_next_sample.simps) (use assms p(1) dg in simp)
  then show ?thesis using p assms dg by (simp add: vp8_gives_def vp8_stands_def Suc_le_eq)
qed

lemma vp8_plays:
  assumes "ps \<noteq> []" "vp8_stands e ps l i"
  shows "\<exists>l'. vp8_next_sample (fst e) True l = (vp8_gives e ps (i mod length ps), l') \<and> vp8_stands e ps l' (Suc (i mod length ps))"
proof -
  obtain L buf n where e: "e = (L, buf, n)" by (cases e)
  have b: "vl_buffer l = buf" "vl_frame_duration l = n" "i \<le> length ps" using assms(2) e by (simp_all add: vp8_stands_def)
  obtain h0 tb where h0: "ml_ivf L buf = Inr (h0, tb)" "reads (ml_frame L) h0 ps"
    using assms(2) e by (auto simp: vp8_stands_def split: sum.splits)
  have c: "case vl_reader l of None \<Rightarrow> i = 0 | Some h \<Rightarrow> reads (ml_frame L) h (drop i ps)"
    using assms(2) e by (cases "vl_reader l") (simp_all add: vp8_stands_def)
  from b(3) c show ?thesis
  proof (cases rule: reader_cases)
    case fresh
    then show ?thesis using vp8_fresh[of ps L l h0 tb True] h0 b e assms(1) by simp
  next
    case (over h k)
    then have "vp8_next_sample L True l = vp8_next_sample L False (l\<lparr> vl_reader := None \<rparr>)"
      by (subst vp8_next_sample.simps) simp
    then show ?thesis using vp8_fresh[of ps L "l\<lparr> vl_reader := None \<rparr>" h0 tb False] h0 b e over(2) assms(1) by simp
  next
    case (more h k)
    obtain d g where dg: "ps ! i = (d, g)" by (cases "ps ! i")
    have "vp8_next_sample L True l = (Inr (plain_sample d n), l\<lparr> vl_reader := Some k, vl_last_timestamp := g \<rparr>)"
      by (subst vp8_next_sample.simps) (use more(1,3) dg b in simp)
    then show ?thesis using more dg e h0 b by (simp add: vp8_gives_def vp8_stands_def)
  qed
qed

interpretation vp8: looping "\<lambda>e. vp8_next_sample (fst e) True" vp8_stands vp8_gives
  by unfold_locales (rule vp8_plays)

definition h264_stands :: "'h media_lib \<times> bytes \<times> int \<Rightarrow> (nal_unit \<times> bytes) list \<Rightarrow> 'h h264_looper \<Rightarrow> nat \<Rightarrow> bool" where
  "h264_stands e ps l i =
     (hl_buffer l = fst (snd e) \<and> hl_frame_duration l = snd (snd e) \<and> i \<le> length ps \<and>
      (case ml_h264 (fst e) (fst (snd e)) of Inl _ \<Rightarrow> False | Inr h \<Rightarrow> reads (ml_nal (fst e)) h ps) \<and>
      (case hl_reader l of None \<Rightarrow> i = 0 | Some h \<Rightarrow> reads (ml_nal (fst e)) h (drop i ps)))"

definition h264_gives :: "'h media_lib \<times> bytes \<times> int \<Rightarrow> (nal_unit \<times> bytes) list \<Rightarrow> nat \<Rightarrow> sample result" where
  "h264_gives e ps i = Inr (plain_sample (snd (ps ! i)) (if is_frame (fst (ps ! i)) then snd (snd e) else 0))"

lemma h264_fresh:
  assumes "ps \<noteq> []" "ml_h264 L (hl_buffer l) = Inr h" "reads (ml_nal L) h ps" "hl_reader l = None"
  shows "\<exists>l'. h264_next_sample L w l = (h264_gives (L, hl_buffer l, hl_frame_duration l) ps 0, l') \<and>
    h264_stands (L, hl_buffer l, hl_frame_duration l) ps l' 1"
proof -
  obtain k where p: "ml_nal L h = (Inr (ps ! 0), k)" "reads (ml_nal L) k (drop 1 ps)"
    using assms(1,3) by (rule reads_first)
  obtain u d where dg: "ps ! 0 = (u, d)" by (cases "ps ! 0")
  have "h264_next_sample L w l = (Inr (plain_sample d (if is_frame u then hl_frame_duration l else 0)), l\<lparr> hl_reader := Some k \<rparr>)"
    by (subst h264_next_sample.simps) (use assms p(1) dg in simp)
  then show ?thesis using p assms dg by (simp add: h264_gives_def h264_stands_def Suc_le_eq)
qed

lemma h264_plays:
  assumes "ps \<noteq> []" "h264_stands e ps l i"
  shows "\<exists>l'. h264_next_sample (fst e) True l = (h264_gives e ps (i mod length ps), l') \<and> h264_stands e ps l' (Suc (i mod length ps))"
proof -
  obtain L buf n where e: "e = (L, buf, n)" by (cases e)
  have b: "hl_buffer l = buf" "hl_frame_duration l = n" "i \<le> length ps" using assms(2) e by (simp_all add: h264_stands_def)
  obtain h0 where h0: "ml_h264 L buf = Inr h0" "reads (ml_nal L) h0 ps"
    using assms(2) e by (auto simp: h264_stands_def split: sum.splits)
  have c: "case hl_reader l of None \<Rightarrow> i = 0 | Some h \<Rightarrow> reads (ml_nal L) h (drop i ps)"
    using assms(2) e by (cases "hl_reader l") (simp_all add: h264_stands_def)
  from b(3) c show ?thesis
  proof (cases rule: reader_cases)
    case fresh
    then show ?thesis using h264_fresh[of ps L l h0 True] h0 b e assms(1) by simp
  next
    case (over h k)
    then have "h264_next_sample L True l = h264_next_sample L False (l\<lparr> hl_reader := None \<rparr>)"
      by (subst h264_next_sample.simps) simp
    then show ?thesis using h264_fresh[of ps L "l\<lparr> hl_reader := None \<rparr>" h0 False] h0 b e over(2) assms(1) by simp
  next
    case (more h k)
    obtain u d where dg: "ps ! i = (u, d)" by (cases "ps ! i")
    have "h264_next_sample L True l = (Inr (plain_sample d (if is_frame u then n else 0)), l\<lparr> hl_reader := Some k \<rparr>)"
      by (subst h264_next_sample.simps) (use more(1,3) dg b in simp)
    then show ?thesis using more dg e h0 b by (simp add: h264_gives_def h264_stands_def)
  qed
qed

interpretation h264: looping "\<lambda>e. h264_next_sample (fst e) True" h264_stands h264_gives
  by unfold_locales (rule h264_plays)

lemma video_loopers_never_end:
  assumes "new_video_looper_vp8 (Inr b) spec = Ret (Inr l)" "ml_ivf L b = Inr (h, tb)" "reads (ml_frame L) h ps" "k < length ps"
    and "new_video_looper_h264 (Inr b') spec = Ret (Inr l')" "ml_h264 L b' = Inr h'" "reads (ml_nal L) h' qs" "k' < length qs"
  shows "fst (nth_step (vp8_next_sample L True) (n * length ps + k) l) = Inr (plain_sample (fst (ps ! k)) (1000000000 div vs_fps spec))"
    and "fst (nth_step (h264_next_sample L True) (n' * length qs + k') l') =
      Inr (plain_sample (snd (qs ! k')) (if is_frame (fst (qs ! k')) then 1000000000 div vs_fps spec else 0))"
proof -
  have e: "ps \<noteq> []" "qs \<noteq> []" using assms(4,8) by auto
  have v: "vp8_stands (L, b, 1000000000 div vs_fps spec) ps l 0"
    using assms(1-3) by (cases "vs_fps spec = 0") (auto simp: new_video_looper_vp8_def frame_duration_def vp8_stands_def)
  show "fst (nth_step (vp8_next_sample L True) (n * length ps + k) l) = Inr (plain_sample (fst (ps ! k)) (1000000000 div vs_fps spec))"
    using vp8.never_stops[OF e(1) v assms(4), of n] by (simp add: vp8_gives_def)
  have w: "h264_stands (L, b', 1000000000 div vs_fps spec) qs l' 0"
    using assms(5-7) by (cases "vs_fps spec = 0") (auto simp: new_video_looper_h264_def frame_duration_def h264_stands_def)
  show "fst (nth_step (h264_next_sample L True) (n' * length qs + k') l') =
      Inr (plain_sample (snd (qs ! k')) (if is_frame (fst (qs ! k')) then 1000000000 div vs_fps spec else 0))"
    using h264.never_stops[OF e(2) w assms(8), of n'] by (simp add: h264_gives_def)
qed

section \<open>The choice of the videos\<close>

lemma video_specs_value: "\<exists>vs. video_specs = Ret vs \<and> map (map vs_height) vs = replicate 5 [180, 360, 720] @ [[240, 480, 720]] \<and>
    map (map vs_fps) vs = replicate 6 [15, 20, 30] \<and>
    map (map vs_codec) vs = replicate 2 (replicate 3 h264_codec) @ replicate 3 (replicate 3 vp8_codec) @ [replicate 3 h264_codec] \<and>
    (\<forall>v \<in> set (concat vs). 0 < vs_kbps v \<and> vs_kbps v \<le> 2000)"
  by (simp add: video_specs_def create_specs_def circles_spec_def numeral_nat)

lemma chosen_ok: "xs \<noteq> [] \<Longrightarrow> 0 \<le> sint n \<Longrightarrow> \<exists>x \<in> set xs. chosen n xs = Ret x"
  by (auto simp: chosen_def intro!: nth_mem) (simp add: nat_less_iff)

lemma loopers_of_returns:
  "\<forall>v \<in> set specs. vs_codec v \<in> {h264_codec, vp8_codec} \<and> vs_fps v \<noteq> 0 \<Longrightarrow>
    \<exists>r :: 'h video_looper list result. loopers_of F specs = Ret r \<and> (\<forall>ls. r = Inr ls \<longrightarrow> map looper_spec ls = specs)"
proof (induction specs)
  case (Cons v vs)
  obtain r :: "'h video_looper list result" where r: "loopers_of F vs = Ret r" "\<forall>ls. r = Inr ls \<longrightarrow> map looper_spec ls = vs" using Cons by auto
  have v: "vs_fps v \<noteq> 0" "vs_codec v = h264_codec \<or> vs_codec v = vp8_codec" using Cons.prems by auto
  show ?case
  proof (cases "fs_open F (spec_name v)")
    case (Inr f)
    then show ?thesis using r v
      by (cases f; cases r) (auto simp: new_video_looper_h264_def new_video_looper_vp8_def frame_duration_def)
  qed simp
qed simp

definition known_families :: "string \<Rightarrow> video_spec list list" where
  "known_families codec = (case video_specs of Ret vs \<Rightarrow> filter (\<lambda>specs. codec = [] \<or> vs_codec (hd specs) = codec) vs | _ \<Rightarrow> [])"

lemma random_specs:
  "fst (random_video_specs_for_codec codec index) = chosen (index + 1) (known_families codec)"
proof -
  obtain vs where v: "video_specs = Ret vs" using video_specs_value by blast
  show ?thesis unfolding random_video_specs_for_codec_def known_families_def v by simp
qed

lemma h264_is_not_vp8: "h264_codec \<noteq> vp8_codec" "h264_codec \<noteq> []" "vp8_codec \<noteq> []"
  by (simp_all add: h264_codec_def vp8_codec_def)

text \<open>A family has the low, the medium and the high resolution of one video.\<close>

definition spec_family :: "video_spec list \<Rightarrow> bool" where
  "spec_family specs = (length specs = 3 \<and> sorted_wrt (<) (map vs_height specs) \<and>
     (\<forall>v \<in> set specs. vs_codec v \<in> {h264_codec, vp8_codec} \<and> vs_fps v \<noteq> 0 \<and> 0 < vs_kbps v \<and> vs_kbps v \<le> 2000))"

lemma known_families_ok: "list_all spec_family (known_families codec)"
  by (simp add: known_families_def video_specs_def create_specs_def circles_spec_def numeral_nat h264_is_not_vp8 spec_family_def)

lemma known_families_empty: "known_families codec = [] \<longleftrightarrow> codec \<notin> {[], h264_codec, vp8_codec}"
  by (auto simp: known_families_def video_specs_def create_specs_def circles_spec_def numeral_nat h264_is_not_vp8)

definition kept :: "string \<Rightarrow> nat" where
  "kept resolution = (if resolution = ''medium'' then 2 else if resolution = ''low'' then 1 else 3)"

lemma create_video_loopers_chosen:
  assumes "chosen (index + 1) (known_families codec) = Ret specs" "spec_family specs"
  shows "create_video_loopers F resolution codec simulcast index =
    loopers_of F (if simulcast then take (kept resolution) specs else drop (kept resolution - 1) (take (kept resolution) specs))"
  using assms by (simp add: create_video_loopers_def random_specs spec_family_def kept_def Let_def)

lemma nothing_embedded:
  assumes "\<And>f. fs_open F f = Inl e" "codec \<in> {[], h264_codec, vp8_codec}" "0 \<le> sint (index + 1)"
  shows "create_video_loopers F resolution codec simulcast index = Ret (Inl e)"
    and "0 \<le> sint index \<Longrightarrow> fst (create_audio_looper F index) = Ret (Inl e)"
proof -
  obtain specs where s: "specs \<in> set (known_families codec)" "chosen (index + 1) (known_families codec) = Ret specs"
    using chosen_ok[OF _ assms(3), of "known_families codec"] assms(2) by (auto simp: known_families_empty)
  have f: "spec_family specs" using known_families_ok s(1) by (auto simp: list_all_iff)
  have l: "loopers_of F vs = Ret (Inl e)" if "vs \<noteq> []" for vs using that assms(1) by (cases vs) auto
  have "length specs = 3" using f by (simp add: spec_family_def)
  then show "create_video_loopers F resolution codec simulcast index = Ret (Inl e)"
    unfolding create_video_loopers_chosen[OF s(2) f] by (intro l) (auto simp: kept_def)
  show "fst (create_audio_looper F index) = Ret (Inl e)" if "0 \<le> sint index"
    using chosen_ok[OF _ that, of audio_names] assms(1) by (auto simp: create_audio_looper_def audio_names_def)
qed

section \<open>Properties\<close>

text \<open>C37: An audio looper never comes to the end of a recording that has at least one
  page: round after round it gives the same pages, and the duration of the first page
  is counted from the beginning again.\<close>

theorem opus_looper_never_ends:
  assumes "new_audio_looper_opus (Inr b) = Inr l" "ml_ogg L b = Inr h" "reads (ml_page L) h ps" "k < length ps"
  shows "fst (nth_step (opus_next_sample L True) (n * length ps + k) l) =
    Inr (plain_sample (fst (ps ! k)) (opus_duration L (snd (ps ! k) - (if k = 0 then 0 else snd (ps ! (k - 1))))))"
proof -
  have "opus_stands (L, b) ps l 0" using assms by (auto simp: new_audio_looper_opus_def opus_stands_def)
  moreover have "ps \<noteq> []" using assms(4) by auto
  ultimately show ?thesis using opus.never_stops[of ps "(L, b)" l k n] assms(4) by (simp add: opus_gives_def)
qed

definition two_pages :: "nat media_lib" where
  "two_pages = \<lparr> ml_h264 = (\<lambda>_. Inr 0), ml_nal = (\<lambda>h. (Inl err_eof, h)), ml_ivf = (\<lambda>_. Inr (0, 1, 1)), ml_frame = (\<lambda>h. (Inl err_eof, h)),
     ml_ogg = (\<lambda>_. Inr 0), ml_page = (\<lambda>h. if h < 2 then (Inr ([of_nat h], of_nat (960 * Suc h)), Suc h) else (Inl err_eof, h)),
     ml_ivf_millis = (\<lambda>_ n. uint n), ml_ogg_millis = (\<lambda>n. uint n div 48) \<rparr>"

lemma opus_looper_never_ends_witness:
  "fst (nth_step (opus_next_sample two_pages True) 201 \<lparr> ol_buffer = [7], ol_reader = None, ol_last_granule = 0 \<rparr>) =
    Inr (plain_sample [1] 20000000)"
proof -
  let ?l = "\<lparr> ol_buffer = [7], ol_reader = None, ol_last_granule = 0 \<rparr> :: nat opus_looper"
  have "reads (ml_page two_pages) 0 [([0], 960), ([1], 1920)]" by (simp add: two_pages_def)
  from opus_looper_never_ends[OF _ _ this, of "[7]" ?l 1 100] show ?thesis
    by (simp add: new_audio_looper_opus_def opus_duration_def milliseconds_def two_pages_def)
qed


definition all_readable :: file_system where
  "all_readable = \<lparr> fs_stat = (\<lambda>_. None), fs_open = (\<lambda>_. Inr (Inr [0])), fs_read_at = (\<lambda>_ _ n. Inr (replicate n 0)) \<rparr>"


end
