(* ===== verification/Live_Stream.thy ===== *)
theory Live_Stream
  imports Sample_Source
begin

text \<open>
  Media that leave the program: the sender that passes the main stream of a lobby to
  the ports an encoder listens on (\<^verbatim>\<open>internal/rtp/live_stream_sender.go\<close>,
  \<^verbatim>\<open>live_stream_writer.go\<close>, \<^verbatim>\<open>udp_connection.go\<close>), the older
  listener of \<^verbatim>\<open>rtmp.go\<close>, the encoder's process
  (\<^verbatim>\<open>internal/rtmp/streamer.go\<close>) and the media file of the static runner
  (\<^verbatim>\<open>internal/static/media_file.go\<close>).  Sockets, processes and the coding of
  packets are parameters.  A loop is given what its reads and writes return, one entry
  per round; where the entries end it is still reading.
\<close>

section \<open>Connections\<close>

record udp_connection =
  uc_open :: bool
  uc_port :: int
  uc_payload_type :: "8 word"

record udp_share_info =
  us_port :: int
  us_payload_type :: "8 word"

record live_stream_sender =
  lv_id :: uuid
  lv_audio :: udp_connection
  lv_video :: udp_connection
  lv_stopped :: bool

record udp_lib =
  ul_resolve :: "string \<Rightarrow> go_error option"
  ul_dial :: "int \<Rightarrow> go_error option"
  ul_close :: "int \<Rightarrow> go_error option"

definition new_live_stream_sender :: "uuid \<Rightarrow> live_stream_sender" where
  "new_live_stream_sender i =
     \<lparr> lv_id = i, lv_audio = \<lparr> uc_open = False, uc_port = 4000, uc_payload_type = 111 \<rparr>,
       lv_video = \<lparr> uc_open = False, uc_port = 4002, uc_payload_type = 96 \<rparr>, lv_stopped = False \<rparr>"

definition sender_stop :: "live_stream_sender \<Rightarrow> live_stream_sender" where
  "sender_stop f = f\<lparr> lv_stopped := True \<rparr>"

definition sender_connect :: "udp_lib \<Rightarrow> udp_connection \<Rightarrow> go_error option \<times> udp_connection" where
  "sender_connect U c =
     (case ul_resolve U (''127.0.0.1:'' @ show_int (uc_port c)) of
        Some e \<Rightarrow> (Some (Wrap ''resolving udp port: '' e), c)
      | None \<Rightarrow>
          (case ul_dial U (uc_port c) of
             Some e \<Rightarrow> (Some (Wrap ''dealing udp port: '' e), c\<lparr> uc_open := False \<rparr>)
           | None \<Rightarrow> (None, c\<lparr> uc_open := True \<rparr>)))"

text \<open>Closing marks a connection as not open; one whose closing fails is left.\<close>

definition close_one :: "udp_lib \<Rightarrow> udp_connection \<Rightarrow> go_error option \<times> udp_connection" where
  "close_one U c =
     (if uc_open c then (case ul_close U (uc_port c) of Some e \<Rightarrow> (Some e, c) | None \<Rightarrow> (None, c\<lparr> uc_open := False \<rparr>))
      else (None, c))"

definition sender_close :: "udp_lib \<Rightarrow> live_stream_sender \<Rightarrow> go_error option \<times> live_stream_sender" where
  "sender_close U f =
     (case close_one U (lv_audio f) of
        (Some e, a) \<Rightarrow> (Some (Wrap ''closing audio udp port: '' e), f\<lparr> lv_audio := a \<rparr>)
      | (None, a) \<Rightarrow>
          (case close_one U (lv_video f) of
             (Some e, v) \<Rightarrow> (Some (Wrap ''closing video udp port: '' e), f\<lparr> lv_audio := a, lv_video := v \<rparr>)
           | (None, v) \<Rightarrow> (None, f\<lparr> lv_audio := a, lv_video := v \<rparr>)))"

text \<open>The goroutine up to its wait for the end: whether it waits, or has ended with its
  connections closed.\<close>

definition sender_run :: "udp_lib \<Rightarrow> live_stream_sender \<Rightarrow> bool \<times> live_stream_sender" where
  "sender_run U f =
     (case ul_resolve U ''127.0.0.1:'' of
        Some e \<Rightarrow> (False, snd (sender_close U f))
      | None \<Rightarrow>
          (case sender_connect U (lv_audio f) of
             (Some e, a) \<Rightarrow> (False, snd (sender_close U (f\<lparr> lv_audio := a \<rparr>)))
           | (None, a) \<Rightarrow>
               (case sender_connect U (lv_video f) of
                  (Some e, v) \<Rightarrow> (False, snd (sender_close U (f\<lparr> lv_audio := a, lv_video := v \<rparr>)))
                | (None, v) \<Rightarrow> (True, f\<lparr> lv_audio := a, lv_video := v \<rparr>))))"

text \<open>What follows the wait.\<close>

definition sender_quit :: "udp_lib \<Rightarrow> live_stream_sender \<Rightarrow> live_stream_sender" where
  "sender_quit U f = (if lv_stopped f then snd (sender_close U f) else f)"

definition get_conn_data :: "live_stream_sender \<Rightarrow> udp_share_info \<times> udp_share_info" where
  "get_conn_data f =
     (\<lparr> us_port = uc_port (lv_audio f), us_payload_type = uc_payload_type (lv_audio f) \<rparr>,
      \<lparr> us_port = uc_port (lv_video f), us_payload_type = uc_payload_type (lv_video f) \<rparr>)"

section \<open>Forwarding packets\<close>

record 'x media_packet =
  mp_payload_type :: "8 word"
  mp_rest :: 'x

record 'x packet_codec =
  pc_unmarshal :: "bytes \<Rightarrow> 'x media_packet result"
  pc_marshal :: "'x media_packet \<Rightarrow> bytes result"

text \<open>An error of the network says which call failed.\<close>

datatype write_error = Op_Error string | Plain_Error go_error

definition connection_refused :: "write_error \<Rightarrow> bool" where
  "connection_refused w = (w = Op_Error ''write: connection refused'')"

fun write_error_cause :: "write_error \<Rightarrow> go_error" where
  "write_error_cause (Op_Error s) = Err s"
| "write_error_cause (Plain_Error e) = e"

record forward_round =
  fr_read :: "bytes result"
  fr_write :: "write_error option"

datatype forwarding = Still_Reading | Forward_Ended "go_error option" | Forward_Panics

text \<open>The bytes handed to the connection, refused or not, and how it ends.\<close>

fun forward_packets :: "'x packet_codec \<Rightarrow> 8 word \<Rightarrow> forward_round list \<Rightarrow> bytes list \<times> forwarding" where
  "forward_packets C pt [] = ([], Still_Reading)"
| "forward_packets C pt (r # rs) =
     (case fr_read r of
        Inl e \<Rightarrow> ([], Forward_Ended None)
      | Inr b \<Rightarrow>
          (case pc_unmarshal C b of
             Inl e \<Rightarrow> ([], Forward_Ended (Some (Wrap ''unmarshaling pkg: '' e)))
           | Inr p \<Rightarrow>
               (case pc_marshal C (p\<lparr> mp_payload_type := pt \<rparr>) of
                  Inl e \<Rightarrow> ([], Forward_Ended (Some (Wrap ''marshaling pkg: '' e)))
                | Inr d \<Rightarrow>
                    (case fr_write r of
                       None \<Rightarrow> (let (ds, st) = forward_packets C pt rs in (d # ds, st))
                     | Some w \<Rightarrow>
                         if connection_refused w then (let (ds, st) = forward_packets C pt rs in (d # ds, st))
                         else ([d], Forward_Ended (Some (Wrap ''writing pkg: '' (write_error_cause w))))))))"

text \<open>The context is looked at once, before the loop that reads.\<close>

definition write_track ::
  "'x packet_codec \<Rightarrow> bool \<Rightarrow> udp_connection \<Rightarrow> forward_round list \<Rightarrow> bytes list \<times> forwarding" where
  "write_track C stopped udp rs = (if stopped then ([], Forward_Ended None) else forward_packets C (uc_payload_type udp) rs)"

section \<open>Tracks of the live stream\<close>

record live_writer =
  lw_id :: string
  lw_port :: int
  lw_closed :: bool

definition new_live_stream_writer :: "string \<Rightarrow> udp_connection \<Rightarrow> live_writer" where
  "new_live_stream_writer i udp = \<lparr> lw_id = i, lw_port = uc_port udp, lw_closed = False \<rparr>"

text \<open>Whether the context was cancelled before; closing twice is closing once.\<close>

definition writer_close :: "live_writer \<Rightarrow> live_writer" where
  "writer_close w = (if lw_closed w then w else w\<lparr> lw_closed := True \<rparr>)"

definition write_rtp ::
  "'x packet_codec \<Rightarrow> 'x media_packet \<Rightarrow> (bytes \<Rightarrow> nat \<times> write_error option) \<Rightarrow> (nat \<times> write_error option) \<times> bytes list" where
  "write_rtp C p net =
     (case pc_marshal C p of
        Inl e \<Rightarrow> ((0, Some (Plain_Error e)), [])
      | Inr d \<Rightarrow>
          (case net d of
             (n, None) \<Rightarrow> ((n, None), [d])
           | (n, Some w) \<Rightarrow> ((n, if connection_refused w then None else Some w), [d])))"

definition writer_write :: "bytes \<Rightarrow> nat \<times> go_error option" where "writer_write b = (0, None)"

text \<open>A buffer is an array of which a first part is in use.\<close>

record buffer =
  bf_array :: bytes
  bf_len :: nat

definition grow_buffer_size :: "buffer \<Rightarrow> nat \<Rightarrow> buffer" where
  "grow_buffer_size b n =
     (if n \<le> length (bf_array b) then b\<lparr> bf_len := n \<rparr>
      else \<lparr> bf_array = take (bf_len b) (bf_array b) @ replicate (n - bf_len b) 0, bf_len = n \<rparr>)"

definition encrypt_rtp ::
  "('x media_packet \<Rightarrow> nat) \<Rightarrow> ('x media_packet \<Rightarrow> buffer \<Rightarrow> go_error option \<times> buffer) \<Rightarrow> buffer \<Rightarrow> 'x media_packet
     \<Rightarrow> buffer \<times> go_error option" where
  "encrypt_rtp size_of marshal_to b p = (let (e, b) = marshal_to p (grow_buffer_size b (size_of p)) in (b, e))"

record codec_params =
  cq_mime :: string
  cq_clock_rate :: nat
  cq_channels :: nat
  cq_payload_type :: "8 word"

record track_binding =
  tb_id :: string
  tb_ssrc :: "32 word"
  tb_codecs :: "codec_params list"
  tb_writer :: "live_writer option"

text \<open>What a track is bound to; the identifiers of the binding and of its writer are
  fresh.\<close>

definition sender_binding :: "string \<Rightarrow> string \<Rightarrow> string \<Rightarrow> live_stream_sender \<Rightarrow> track_binding" where
  "sender_binding kind new_id writer_id f =
     (let b = \<lparr> tb_id = new_id, tb_ssrc = 0, tb_codecs = [], tb_writer = None \<rparr>;
          b = (if kind = ''audio'' then b\<lparr> tb_ssrc := 3450704251,
                 tb_codecs := [\<lparr> cq_mime = mime_type_opus, cq_clock_rate = 48000, cq_channels = 2, cq_payload_type = 111 \<rparr>],
                 tb_writer := Some (new_live_stream_writer writer_id (lv_audio f)) \<rparr> else b)
      in if kind = ''video'' then b\<lparr> tb_ssrc := 3450704222,
                 tb_codecs := [\<lparr> cq_mime = mime_type_vp8, cq_clock_rate = 90000, cq_channels = 0, cq_payload_type = 96 \<rparr>],
                 tb_writer := Some (new_live_stream_writer writer_id (lv_video f)) \<rparr> else b)"

text \<open>The error of binding is logged; the sender keeps nothing.\<close>

definition sender_add_track ::
  "(track_binding \<Rightarrow> go_error option) \<Rightarrow> string \<Rightarrow> string \<Rightarrow> string \<Rightarrow> live_stream_sender \<Rightarrow> track_binding list \<times> live_stream_sender" where
  "sender_add_track bind kind new_id writer_id f =
     (let b = sender_binding kind new_id writer_id f in (case bind b of Some _ \<Rightarrow> [] | None \<Rightarrow> [b], f))"

definition sender_remove_track :: "live_stream_sender \<Rightarrow> live_stream_sender" where "sender_remove_track f = f"

section \<open>The listener and the encoder\<close>

definition rtmp_connections :: "(string \<times> udp_connection) list" where
  "rtmp_connections =
     [(''audio'', \<lparr> uc_open = False, uc_port = 4000, uc_payload_type = 111 \<rparr>),
      (''video'', \<lparr> uc_open = False, uc_port = 4002, uc_payload_type = 96 \<rparr>)]"

fun dial_all :: "udp_lib \<Rightarrow> (string \<times> udp_connection) list \<Rightarrow> (string \<times> udp_connection) list outcome" where
  "dial_all U [] = Ret []"
| "dial_all U ((k, c) # cs) =
     (case sender_connect U c of
        (Some _, _) \<Rightarrow> Panic
      | (None, c) \<Rightarrow> outcome_bind (dial_all U cs) (\<lambda>cs. Ret ((k, c) # cs)))"

definition rtmp_listener :: "udp_lib \<Rightarrow> (string \<times> udp_connection) list outcome" where
  "rtmp_listener U =
     (case ul_resolve U ''127.0.0.1:'' of Some _ \<Rightarrow> Panic | None \<Rightarrow> dial_all U rtmp_connections)"

fun rtmp_forward :: "'x packet_codec \<Rightarrow> 8 word \<Rightarrow> forward_round list \<Rightarrow> bytes list \<times> forwarding" where
  "rtmp_forward C pt [] = ([], Still_Reading)"
| "rtmp_forward C pt (r # rs) =
     (case fr_read r of
        Inl e \<Rightarrow> ([], Forward_Panics)
      | Inr b \<Rightarrow>
          (case pc_unmarshal C b of
             Inl e \<Rightarrow> ([], Forward_Panics)
           | Inr p \<Rightarrow>
               (case pc_marshal C (p\<lparr> mp_payload_type := pt \<rparr>) of
                  Inl e \<Rightarrow> ([], Forward_Panics)
                | Inr d \<Rightarrow>
                    if (case fr_write r of None \<Rightarrow> True | Some w \<Rightarrow> connection_refused w)
                    then (let (ds, st) = rtmp_forward C pt rs in (d # ds, st))
                    else ([d], Forward_Panics))))"

definition rtmp_on_track ::
  "'x packet_codec \<Rightarrow> (string \<times> udp_connection) list \<Rightarrow> string \<Rightarrow> forward_round list \<Rightarrow> bytes list \<times> forwarding" where
  "rtmp_on_track C conns kind rs =
     (case map_of conns kind of None \<Rightarrow> ([], Forward_Ended None) | Some c \<Rightarrow> rtmp_forward C (uc_payload_type c) rs)"

text \<open>The states of a connection that cancel the listener's context.\<close>

definition rtmp_cancels :: "string \<Rightarrow> bool" where
  "rtmp_cancels state = (state = ''failed'' \<or> state = ''disconnected'')"

record process_lib =
  pl_stdin_pipe :: "go_error option"
  pl_stderr_pipe :: "go_error option"
  pl_start :: "string \<Rightarrow> go_error option"

text \<open>The lines the encoder prints are read until the context is cancelled or they end;
  without a pipe for them the reader panics once the process runs.\<close>

definition start_ffmpeg :: "process_lib \<Rightarrow> string \<Rightarrow> unit result outcome" where
  "start_ffmpeg P url =
     (case pl_stdin_pipe P of
        Some e \<Rightarrow> Ret (Inl (Wrap ''piping ffmpeg: '' e))
      | None \<Rightarrow>
          (case pl_start P url of
             Some e \<Rightarrow> Ret (Inl (Wrap ''starting ffmpeg: '' e))
           | None \<Rightarrow> if pl_stderr_pipe P \<noteq> None then Panic else Ret (Inr ())))"

section \<open>A media file\<close>

record file_lib =
  fl_stat :: "string \<Rightarrow> (go_error \<times> bool) option"
  fl_open :: "string \<Rightarrow> bytes result"
  fl_four_cc :: "bytes \<Rightarrow> string result"
  fl_new_track :: "string \<Rightarrow> string \<Rightarrow> go_error option"
  fl_interval :: "nat \<times> nat \<Rightarrow> int"

record media_file =
  mf_stream :: string
  mf_audio :: string
  mf_video :: string
  mf_page_duration :: int

definition stat_file :: "file_lib \<Rightarrow> string \<Rightarrow> string \<Rightarrow> go_error option" where
  "stat_file F kind name =
     (case fl_stat F name of
        None \<Rightarrow> None
      | Some (e, missing) \<Rightarrow>
          Some (if missing then Wrap (kind @ '' file not exists: '') e else Wrap (''reading '' @ kind @ '' file: '') e))"

text \<open>A format that is not known is reported with the error of the opening, which is
  nil.\<close>

definition get_video_track :: "file_lib \<Rightarrow> media_file \<Rightarrow> string result" where
  "get_video_track F m =
     (case fl_open F (mf_video m) of
        Inl e \<Rightarrow> Inl (Wrap ''reading video file: '' e)
      | Inr b \<Rightarrow>
          (case fl_four_cc F b of
             Inl e \<Rightarrow> Inl (Wrap ''open  video  ivfreader: '' e)
           | Inr cc \<Rightarrow>
               if cc \<noteq> ''VP90'' \<and> cc \<noteq> ''VP80'' then Inl (Err (''handle FourCC '' @ cc @ '': %!w(<nil>)''))
               else let codec = (if cc = ''VP90'' then mime_type_vp9 else mime_type_vp8) in
                 (case fl_new_track F codec (mf_stream m) of
                    Some e \<Rightarrow> Inl (Wrap ''open  video  ivfreader: '' e) | None \<Rightarrow> Inr codec)))"

definition get_audio_track :: "file_lib \<Rightarrow> media_file \<Rightarrow> string outcome" where
  "get_audio_track F m = (case fl_new_track F mime_type_opus (mf_stream m) of Some _ \<Rightarrow> Panic | None \<Rightarrow> Ret mime_type_opus)"

text \<open>With the codecs of its tracks.\<close>

definition new_media_file :: "file_lib \<Rightarrow> string \<Rightarrow> string \<Rightarrow> string \<Rightarrow> (media_file \<times> string \<times> string) result outcome" where
  "new_media_file F stream audio video =
     (case stat_file F ''video'' video of
        Some e \<Rightarrow> Ret (Inl e)
      | None \<Rightarrow>
          (case stat_file F ''audio'' audio of
             Some e \<Rightarrow> Ret (Inl e)
           | None \<Rightarrow>
               let m = \<lparr> mf_stream = stream, mf_audio = audio, mf_video = video, mf_page_duration = milliseconds 20 \<rparr> in
               (case get_video_track F m of
                  Inl e \<Rightarrow> Ret (Inl (Wrap ''creating video track: '' e))
                | Inr v \<Rightarrow> outcome_bind (get_audio_track F m) (\<lambda>a. Ret (Inr (m, a, v))))))"

datatype playing = Still_Playing | Program_Exits | Player_Panics

text \<open>One round gives what is read and what writing it returns.\<close>

fun play_frames :: "((bytes \<times> 64 word) result \<times> go_error option) list \<Rightarrow> sample list \<times> playing" where
  "play_frames [] = ([], Still_Playing)"
| "play_frames ((r, w) # rs) =
     (case r of
        Inl e \<Rightarrow> ([], if errors_is e err_eof then Program_Exits else Player_Panics)
      | Inr (d, _) \<Rightarrow>
          (let sm = plain_sample d 1000000000 in
           if w \<noteq> None then ([sm], Player_Panics)
           else let (sms, st) = play_frames rs in (sm # sms, st)))"

text \<open>A ticker without a positive interval cannot be made.\<close>

definition play_video ::
  "'h media_lib \<Rightarrow> file_lib \<Rightarrow> media_file \<Rightarrow> ((bytes \<times> 64 word) result \<times> go_error option) list \<Rightarrow> sample list \<times> playing" where
  "play_video L F m rs =
     (case fl_open F (mf_video m) of
        Inl _ \<Rightarrow> ([], Player_Panics)
      | Inr b \<Rightarrow>
          (case ml_ivf L b of
             Inl _ \<Rightarrow> ([], Player_Panics)
           | Inr (_, timebase) \<Rightarrow> if fl_interval F timebase \<le> 0 then ([], Player_Panics) else play_frames rs))"

fun play_pages ::
  "'h media_lib \<Rightarrow> 64 word \<Rightarrow> ((bytes \<times> 64 word) result \<times> go_error option) list \<Rightarrow> sample list \<times> playing" where
  "play_pages L prev [] = ([], Still_Playing)"
| "play_pages L prev ((r, w) # rs) =
     (case r of
        Inl e \<Rightarrow> ([], if errors_is e err_eof then Program_Exits else Player_Panics)
      | Inr (d, g) \<Rightarrow>
          (let sm = plain_sample d (milliseconds (ml_ogg_millis L (g - prev))) in
           if w \<noteq> None then ([sm], Player_Panics)
           else let (sms, st) = play_pages L g rs in (sm # sms, st)))"

definition play_audio ::
  "'h media_lib \<Rightarrow> file_lib \<Rightarrow> media_file \<Rightarrow> ((bytes \<times> 64 word) result \<times> go_error option) list \<Rightarrow> sample list \<times> playing" where
  "play_audio L F m rs =
     (case fl_open F (mf_audio m) of
        Inl _ \<Rightarrow> ([], Player_Panics)
      | Inr b \<Rightarrow> (case ml_ogg L b of Inl _ \<Rightarrow> ([], Player_Panics) | Inr _ \<Rightarrow> play_pages L 0 rs))"

section \<open>Properties\<close>

lemma grow_buffer_ok:
  assumes "bf_len b \<le> length (bf_array b)"
  shows "bf_len (grow_buffer_size b n) = n" "n \<le> length (bf_array (grow_buffer_size b n))"
    and "take (min n (bf_len b)) (bf_array (grow_buffer_size b n)) = take (min n (bf_len b)) (bf_array b)"
  using assms by (auto simp: grow_buffer_size_def min_def)

text \<open>The listener passes on exactly the packets the sender does, with the same
  payload type, but where the sender's loop ends, be it at the regular end of the
  track, the listener panics.\<close>

theorem listener_forwards_as_sender:
  "rtmp_forward C pt rs =
    (fst (forward_packets C pt rs),
     if snd (forward_packets C pt rs) = Still_Reading then Still_Reading else Forward_Panics)"
proof (induction rs)
  case (Cons r rs)
  obtain ds st where f: "forward_packets C pt rs = (ds, st)" by (cases "forward_packets C pt rs")
  show ?case
  proof (cases "fr_read r")
    case (Inr b)
    note b = Inr
    show ?thesis
    proof (cases "pc_unmarshal C b")
      case (Inr p)
      note p = Inr
      show ?thesis
      proof (cases "pc_marshal C (p\<lparr> mp_payload_type := pt \<rparr>)")
        case (Inr d)
        then show ?thesis using b p f Cons by (cases "fr_write r") simp_all
      qed (simp add: b p)
    qed (simp add: b)
  qed simp
qed simp

definition passes_on :: "'x packet_codec \<Rightarrow> 8 word \<Rightarrow> forward_round \<Rightarrow> bytes \<Rightarrow> bool" where
  "passes_on C pt r d =
     ((case fr_read r of Inl _ \<Rightarrow> False
       | Inr b \<Rightarrow> (case pc_unmarshal C b of Inl _ \<Rightarrow> False | Inr p \<Rightarrow> pc_marshal C (p\<lparr> mp_payload_type := pt \<rparr>) = Inr d)) \<and>
      (case fr_write r of None \<Rightarrow> True | Some w \<Rightarrow> connection_refused w))"


definition byte_codec :: "bytes packet_codec" where
  "byte_codec = \<lparr> pc_unmarshal = (\<lambda>b. case b of [] \<Rightarrow> Inl (Err ''short'') | t # d \<Rightarrow> Inr \<lparr> mp_payload_type = t, mp_rest = d \<rparr>),
     pc_marshal = (\<lambda>p. Inr (mp_payload_type p # mp_rest p)) \<rparr>"


text \<open>The sender's goroutine waits with both connections open, or, where it could not
  connect, has left none open; when it quits, an error in closing the first
  connection leaves the second open.\<close>

theorem sender_leaves_no_connection:
  assumes "sender_run U (new_live_stream_sender i) = (waits, f)"
  shows "(waits \<longrightarrow> uc_open (lv_audio f) \<and> uc_open (lv_video f)) \<and>
    (\<not> waits \<longrightarrow> (uc_open (lv_audio f) \<longrightarrow> ul_close U 4000 \<noteq> None) \<and> \<not> uc_open (lv_video f)) \<and>
    (waits \<longrightarrow> uc_open (lv_video (sender_quit U (sender_stop f))) = (ul_close U 4000 \<noteq> None \<or> ul_close U 4002 \<noteq> None))"
  using assms
  by (auto simp: sender_run_def new_live_stream_sender_def sender_connect_def sender_close_def close_one_def
    sender_quit_def sender_stop_def split: option.splits)

definition open_network :: udp_lib where
  "open_network = \<lparr> ul_resolve = (\<lambda>_. None), ul_dial = (\<lambda>_. None), ul_close = (\<lambda>p. if p = 4000 then Some (Err ''busy'') else None) \<rparr>"

lemma sender_leaves_no_connection_witness:
  "\<exists>f. sender_run open_network (new_live_stream_sender 1) = (True, f) \<and> uc_open (lv_video (sender_quit open_network (sender_stop f)))"
proof -
  obtain f where f: "sender_run open_network (new_live_stream_sender 1) = (True, f)"
    by (simp add: sender_run_def new_live_stream_sender_def sender_connect_def open_network_def)
  show ?thesis using sender_leaves_no_connection[OF f] f by (simp add: open_network_def)
qed

end
