(* ===== verification/Legacy_Endpoint.thy ===== *)
theory Legacy_Endpoint
  imports Endpoint Live_Stream
begin

text \<open>
  The endpoints and connections of the deprecated interface of the engine
  (\<^verbatim>\<open>establish_ingress_endpoint.go\<close>, \<^verbatim>\<open>establish_egress_endpoint.go\<close>,
  \<^verbatim>\<open>establish_static_*.go\<close>, \<^verbatim>\<open>engine.go\<close>, \<^verbatim>\<open>connection.go\<close>), and
  their agreement with \<^verbatim>\<open>EstablishEndpoint\<close>.  Besides what an endpoint asks of
  the peer connection, data channels, tracks of samples and transceivers are asked for.
\<close>

record 'pc channel_lib =
  ch_create :: "string \<Rightarrow> 'pc \<Rightarrow> go_error option \<times> 'pc"
  ch_add_sample_track :: "string \<Rightarrow> 'pc \<Rightarrow> go_error option \<times> 'pc"
  ch_add_transceiver :: "string \<Rightarrow> 'pc \<Rightarrow> go_error option \<times> 'pc"

text \<open>The channel that was made is handed to the callback.\<close>

definition creat_dc :: "'pc channel_lib \<Rightarrow> 'pc \<Rightarrow> go_error option \<times> 'pc" where
  "creat_dc C pc =
     (case ch_create C ''data'' pc of
        (Some e, pc) \<Rightarrow> (Some (Wrap ''creating data channel: '' e), pc)
      | (None, pc) \<Rightarrow> (None, pc))"

section \<open>Ingress and egress\<close>

definition establish_ingress_endpoint ::
  "'pc lib \<Rightarrow> (nat \<Rightarrow> uuid) \<Rightarrow> uuid \<Rightarrow> uuid \<Rightarrow> session_description \<Rightarrow> endpoint_option list \<Rightarrow> graph
     \<Rightarrow> 'pc endpoint result \<times> graph" where
  "establish_ingress_endpoint L new_id session_id live_stream offer opts g =
     (let sid = lb_uuid_str L session_id;
          lid = lb_uuid_str L live_stream;
          g1 = snd (graph_node_update (build_node sid lid ''ingress'') g);
          e = new_endpoint sid lid ingress_endpoint opts
      in case get_ingress_track_sdp_info (lb_unmarshal L) new_id offer session_id (ep_repo e) of
           Inl err \<Rightarrow> (Inl (Wrap ''parsing track info: '' err), g1)
         | Inr rep \<Rightarrow>
             if ep_dispatcher e = None then (Inl (Err ''no track dispatcher found''), g1)
             else case create_api L True of
                 Inl err \<Rightarrow> (Inl (Wrap ''creating api: '' err), g1)
               | Inr _ \<Rightarrow>
                   (case lb_new_pc L of
                      Inl err \<Rightarrow> (Inl (Wrap ''create egress peer connection: '' err), g1)
                    | Inr pc \<Rightarrow>
                        (case lb_set_remote L offer pc of
                           (Some err, _) \<Rightarrow> (Inl err, g1)
                         | (None, pc) \<Rightarrow>
                             (case lb_create_answer L pc of
                                Inl err \<Rightarrow> (Inl err, g1)
                              | Inr answer \<Rightarrow>
                                  (case lb_set_local L answer pc of
                                     (Some err, _) \<Rightarrow> (Inl err, g1)
                                   | (None, pc) \<Rightarrow>
                                       (Inr (e\<lparr> ep_repo := rep, ep_receiver := Some (new_receiver session_id live_stream),
                                          ep_stats := Some (new_registry sid), ep_gather := True, ep_pc := Some pc \<rparr>), g1))))))"

definition establish_egress_endpoint ::
  "'pc lib \<Rightarrow> 'pc channel_lib \<Rightarrow> uuid \<Rightarrow> uuid \<Rightarrow> endpoint_option list \<Rightarrow> graph \<Rightarrow> 'pc endpoint result \<times> graph" where
  "establish_egress_endpoint L C session_id live_stream opts g =
     (let sid = lb_uuid_str L session_id;
          lid = lb_uuid_str L live_stream;
          g1 = snd (graph_node_update (build_node sid lid ''egress'') g);
          e = new_endpoint sid lid egress_endpoint opts
      in case create_api L True of
           Inl err \<Rightarrow> (Inl (Wrap ''creating api: '' err), g1)
         | Inr _ \<Rightarrow>
             (case lb_new_pc L of
                Inl err \<Rightarrow> (Inl (Wrap ''create sender peer connection: '' err), g1)
              | Inr pc \<Rightarrow>
                  (case (if ep_on_channel e = None then (None, pc) else creat_dc C pc) of
                     (Some err, _) \<Rightarrow> (Inl (Wrap ''creating data channel: '' err), g1)
                   | (None, pc) \<Rightarrow>
                       (case lb_create_offer L pc of
                          Inl err \<Rightarrow> (Inl (Wrap ''creating offer: '' err), g1)
                        | Inr offer \<Rightarrow>
                            (case lb_set_local L offer pc of
                               (Some err, _) \<Rightarrow> (Inl err, g1)
                             | (None, pc) \<Rightarrow>
                                 (Inr (e\<lparr> ep_stats := Some (new_registry sid), ep_pc := Some pc, ep_gather := True,
                                    ep_init := False \<rparr>), g1))))))"

section \<open>Endpoints written as struct literals\<close>

text \<open>They have no session context, no repository of descriptions and no channel for the
  end of the initialisation.  A context is known by whether it is done.\<close>

record 'pc bare_endpoint =
  ba_fields :: "'pc endpoint"
  ba_context :: "bool option"

definition bare_endpoint :: "endpoint_type \<Rightarrow> string \<Rightarrow> string \<Rightarrow> 'pc \<Rightarrow> endpoint_option list \<Rightarrow> 'pc bare_endpoint" where
  "bare_endpoint ty sid lid pc opts =
     \<lparr> ba_fields = fold apply_option opts ((empty_endpoint sid lid ty)\<lparr> ep_pc := Some pc \<rparr>), ba_context = None \<rparr>"

definition bare_gathering :: "'pc \<Rightarrow> 'pc bare_endpoint \<Rightarrow> 'pc bare_endpoint" where
  "bare_gathering pc b = b\<lparr> ba_fields := (ba_fields b)\<lparr> ep_pc := Some pc, ep_gather := True \<rparr> \<rparr>"

text \<open>Waiting for the local description asks the session context for its channel before
  any of the channels is waited for.\<close>

definition bare_local_description :: "'pc lib \<Rightarrow> wait_event \<Rightarrow> 'pc bare_endpoint \<Rightarrow> session_description result outcome" where
  "bare_local_description L ev b =
     (case ba_context b of
        None \<Rightarrow> Panic
      | Some _ \<Rightarrow> outcome_bind (get_local_description L ev (ba_fields b)) (\<lambda>(r, _). Ret r))"

definition bare_set_answer :: "'pc lib \<Rightarrow> session_description \<Rightarrow> 'pc bare_endpoint \<Rightarrow> (unit result \<times> 'pc bare_endpoint) outcome" where
  "bare_set_answer L sdp b = outcome_bind (set_answer L sdp (ba_fields b)) (\<lambda>(r, e). Ret (r, b\<lparr> ba_fields := e \<rparr>))"

definition new_connection :: "'pc lib \<Rightarrow> 'pc result" where
  "new_connection L =
     (case create_api L False of
        Inl e \<Rightarrow> Inl (Wrap ''creating api: '' e)
      | Inr _ \<Rightarrow> wrap_err ''create receiver peer connection: '' (lb_new_pc L))"

text \<open>Both sides of an exchange, on a connection that is ready.\<close>

definition answering :: "'pc lib \<Rightarrow> session_description \<Rightarrow> 'pc \<Rightarrow> 'pc result" where
  "answering L offer pc =
     (case lb_set_remote L offer pc of
        (Some e, _) \<Rightarrow> Inl e
      | (None, pc) \<Rightarrow>
          (case lb_create_answer L pc of
             Inl e \<Rightarrow> Inl e
           | Inr answer \<Rightarrow> (case lb_set_local L answer pc of (Some e, _) \<Rightarrow> Inl e | (None, pc) \<Rightarrow> Inr pc)))"

definition offering :: "'pc lib \<Rightarrow> 'pc channel_lib \<Rightarrow> 'pc \<Rightarrow> 'pc result" where
  "offering L C pc =
     (case creat_dc C pc of
        (Some e, _) \<Rightarrow> Inl (Wrap ''creating data channel: '' e)
      | (None, pc) \<Rightarrow>
          (case lb_create_offer L pc of
             Inl e \<Rightarrow> Inl (Wrap ''creating offer: '' e)
           | Inr offer \<Rightarrow> (case lb_set_local L offer pc of (Some e, _) \<Rightarrow> Inl e | (None, pc) \<Rightarrow> Inr pc)))"

definition establish_static_egress_endpoint ::
  "'pc lib \<Rightarrow> uuid \<Rightarrow> uuid \<Rightarrow> session_description \<Rightarrow> endpoint_option list \<Rightarrow> 'pc bare_endpoint result" where
  "establish_static_egress_endpoint L session_id live_stream offer opts =
     (case new_connection L of
        Inl e \<Rightarrow> Inl e
      | Inr pc \<Rightarrow>
          let b = bare_endpoint egress_endpoint (lb_uuid_str L session_id) (lb_uuid_str L live_stream) pc opts in
          (case answering L offer pc of Inl e \<Rightarrow> Inl e | Inr pc \<Rightarrow> Inr (bare_gathering pc b)))"

fun add_sample_tracks :: "'pc channel_lib \<Rightarrow> string list \<Rightarrow> 'pc \<Rightarrow> 'pc result" where
  "add_sample_tracks C [] pc = Inr pc"
| "add_sample_tracks C (t # ts) pc =
     (case ch_add_sample_track C t pc of (Some e, _) \<Rightarrow> Inl e | (None, pc) \<Rightarrow> add_sample_tracks C ts pc)"

definition establish_static_ingress_endpoint ::
  "'pc lib \<Rightarrow> 'pc channel_lib \<Rightarrow> string list \<Rightarrow> endpoint_option list \<Rightarrow> 'pc bare_endpoint result" where
  "establish_static_ingress_endpoint L C sending_tracks opts =
     (case new_connection L of
        Inl e \<Rightarrow> Inl e
      | Inr pc \<Rightarrow>
          let b = bare_endpoint ingress_endpoint [] [] pc opts in
          (case add_sample_tracks C sending_tracks pc of
             Inl e \<Rightarrow> Inl e
           | Inr pc \<Rightarrow> (case offering L C pc of Inl e \<Rightarrow> Inl e | Inr pc \<Rightarrow> Inr (bare_gathering pc b))))"

text \<open>The callback of a signalling state.\<close>

definition static_signaling_change :: "string \<Rightarrow> 'pc bare_endpoint \<Rightarrow> callback list" where
  "static_signaling_change state b =
     (if state = ''stable'' then (case ep_on_established (ba_fields b) of None \<Rightarrow> [] | Some c \<Rightarrow> [c]) else [])"

datatype player = Video_Player | Audio_Player

text \<open>With the players that were started, which a later error leaves running.\<close>

definition new_static_media_sender_endpoint ::
  "'pc lib \<Rightarrow> 'pc channel_lib \<Rightarrow> string \<Rightarrow> string \<Rightarrow> 'pc bare_endpoint result \<times> player list" where
  "new_static_media_sender_endpoint L C audio video =
     (case new_connection L of
        Inl e \<Rightarrow> (Inl e, [])
      | Inr pc \<Rightarrow>
          (case ch_add_sample_track C video pc of
             (Some e, _) \<Rightarrow> (Inl (Wrap ''add video track to peer connection: '' e), [])
           | (None, pc) \<Rightarrow>
               (case ch_add_sample_track C audio pc of
                  (Some e, _) \<Rightarrow> (Inl (Wrap ''add audio track to peer connection: '' e), [Video_Player])
                | (None, pc) \<Rightarrow>
                    (case offering L C pc of
                       Inl e \<Rightarrow> Inl e
                     | Inr pc \<Rightarrow> Inr (bare_gathering pc (bare_endpoint 0 [] [] pc [])), [Video_Player, Audio_Player]))))"

section \<open>Connections\<close>

record 'pc connection =
  cn_pc :: 'pc
  cn_gather :: bool

definition connection_local_description :: "'pc lib \<Rightarrow> bool \<Rightarrow> 'pc connection \<Rightarrow> session_description result" where
  "connection_local_description L gathered c = (if gathered then Inr (lb_local_desc L (cn_pc c)) else Inl err_ice_gathering)"

definition new_signal_connection :: "'pc lib \<Rightarrow> 'pc channel_lib \<Rightarrow> 'pc connection result" where
  "new_signal_connection L C =
     (case new_connection L of
        Inl e \<Rightarrow> Inl e
      | Inr pc \<Rightarrow> (case offering L C pc of Inl e \<Rightarrow> Inl e | Inr pc \<Rightarrow> Inr \<lparr> cn_pc = pc, cn_gather = True \<rparr>))"

text \<open>The second transceiver is asked for when the first was added; an error of either is
  logged.  The listener is started beside, before the offer is looked at.\<close>

definition new_receiver_connection ::
  "'pc lib \<Rightarrow> 'pc channel_lib \<Rightarrow> udp_lib \<Rightarrow> session_description
     \<Rightarrow> 'pc connection result \<times> (string \<times> udp_connection) list outcome option" where
  "new_receiver_connection L C U offer =
     (case new_connection L of
        Inl e \<Rightarrow> (Inl e, None)
      | Inr pc \<Rightarrow>
          (let (err, pc) = ch_add_transceiver C ''audio'' pc;
               pc = (if err = None then snd (ch_add_transceiver C ''video'' pc) else pc)
           in (case answering L offer pc of Inl e \<Rightarrow> Inl e | Inr pc \<Rightarrow> Inr \<lparr> cn_pc = pc, cn_gather = True \<rparr>, Some (rtmp_listener U))))"

section \<open>Properties\<close>

definition established :: "'a result \<Rightarrow> 'a option" where
  "established r = (case r of Inl _ \<Rightarrow> None | Inr x \<Rightarrow> Some x)"

lemma option_fields:
  "ep_stats (apply_option p e) = ep_stats e" "ep_init (apply_option p e) = ep_init e" "ep_repo (apply_option p e) = ep_repo e"
  by (cases p; auto split: option.splits)+

lemma options_fields:
  "ep_init (fold apply_option ps e) = ep_init e" "ep_repo (fold apply_option ps e) = ep_repo e"
  by (induction ps arbitrary: e) (simp_all add: option_fields)

text \<open>C32: the deprecated way to an ingress endpoint succeeds for the same offers as the
  new one, counts the same node and gives the same endpoint, except that it never
  marks the endpoint as initialised.\<close>

theorem legacy_ingress_agrees:
  "established (fst (establish_endpoint L new_id session_done sid lid offer ingress_endpoint opts g)) =
     map_option (set_init_complete session_done) (established (fst (establish_ingress_endpoint L new_id sid lid offer opts g))) \<and>
   snd (establish_endpoint L new_id session_done sid lid offer ingress_endpoint opts g) =
     snd (establish_ingress_endpoint L new_id sid lid offer opts g)"
  by (auto simp: establish_endpoint_def establish_ingress_endpoint_def setup_ingress_def negotiate_answer_def established_def
      Let_def endpoint_type_to_string_def split: sum.splits option.splits prod.splits)

text \<open>An egress endpoint made the deprecated way adds no track before its
  initialisation is declared complete, which neither it nor the engine does: the
  goroutine that adds the tracks waits for ever, or for the end of the session.\<close>

theorem legacy_egress_waits:
  assumes "fst (establish_egress_endpoint L C sid lid opts g) = Inr e" "ep_get_tracks e \<noteq> None"
  shows "setup_tracks L False tracks e = Block \<and> setup_tracks L True tracks e = Ret e"
proof -
  have "\<not> ep_init e"
    using assms(1) by (auto simp: establish_egress_endpoint_def Let_def split: sum.splits prod.splits option.splits if_splits)
  then show ?thesis using assms(2) by (auto simp: setup_tracks_def)
qed

definition channels :: "local_track list channel_lib" where
  "channels = \<lparr> ch_create = (\<lambda>_ pc. (None, pc)), ch_add_sample_track = (\<lambda>_ pc. (None, pc)), ch_add_transceiver = (\<lambda>_ pc. (None, pc)) \<rparr>"

lemma legacy_egress_waits_witness:
  "\<exists>e. fst (establish_egress_endpoint list_lib channels 1 2 [With_Get_Current_Track_Cbk Hub_Track_List] \<lparr> gr_on = False, gr_calls = [] \<rparr>) = Inr e \<and>
     setup_tracks list_lib False (Inr [sample_track]) e = Block"
proof -
  let ?r = "establish_egress_endpoint list_lib channels 1 2 [With_Get_Current_Track_Cbk Hub_Track_List] \<lparr> gr_on = False, gr_calls = [] \<rparr>"
  obtain e where e: "fst ?r = Inr e" "ep_get_tracks e = Some Hub_Track_List"
    by (simp add: establish_egress_endpoint_def create_api_def list_lib_def Let_def new_endpoint_def empty_endpoint_def)
  then show ?thesis using legacy_egress_waits[OF e(1), of "Inr [sample_track]"] by blast
qed

lemma static_endpoints_without_context:
  "establish_static_egress_endpoint L sid lid offer opts = Inr b \<Longrightarrow> bare_local_description L ev b = Panic"
  "establish_static_ingress_endpoint L C ts opts = Inr b \<Longrightarrow> bare_local_description L ev b = Panic"
  "fst (new_static_media_sender_endpoint L C audio video) = Inr b \<Longrightarrow> bare_local_description L ev b = Panic"
  by (auto simp: establish_static_egress_endpoint_def establish_static_ingress_endpoint_def new_static_media_sender_endpoint_def
    bare_local_description_def bare_gathering_def bare_endpoint_def Let_def split: sum.splits prod.splits option.splits)

end
