(* ===== verification/Media_Client.thy ===== *)
theory Media_Client
  imports Client Messenger Legacy_Endpoint
begin

text \<open>
  The messenger of the client's side (\<^verbatim>\<open>pkg/media/messenger.go\<close>,
  \<^verbatim>\<open>media_state_handler.go\<close>), its agreement with the messenger of a lobby, and
  the program that receives a stream and passes it to an encoder
  (\<^verbatim>\<open>cmd/media_streamer\<close>).  Messages and their codec are those of
  \<^theory_text>\<open>Messenger\<close>; here, too, the queue is unbuffered and of the worker the
  model keeps whether it runs.
\<close>

section \<open>The messenger\<close>

record media_messenger =
  mm_observers :: "(uuid, unit) gomap"
  mm_worker :: bool
  mm_quit :: bool
  mm_sent :: "bytes list"

definition media_new_messenger :: media_messenger where
  "media_new_messenger = \<lparr> mm_observers = [], mm_worker = False, mm_quit = False, mm_sent = [] \<rparr>"

text \<open>What an observer is told; a mute that cannot be decoded is passed on as nil.\<close>

datatype media_call =
    Told_Answer "session_description option" "32 word" "32 word"
  | Told_Offer "session_description option" "32 word" "32 word"
  | Told_Mute "mute option"

definition media_observers :: "media_messenger \<Rightarrow> uuid list" where
  "media_observers m = map fst (mm_observers m)"

definition media_register :: "uuid \<Rightarrow> media_messenger \<Rightarrow> media_messenger" where
  "media_register i m = (case map_of (mm_observers m) i of
      None \<Rightarrow> m\<lparr> mm_observers := AList.update i () (mm_observers m) \<rparr> | Some _ \<Rightarrow> m)"

definition media_deregister :: "uuid \<Rightarrow> media_messenger \<Rightarrow> media_messenger" where
  "media_deregister i m = (case map_of (mm_observers m) i of
      Some _ \<Rightarrow> m\<lparr> mm_observers := AList.delete i (mm_observers m) \<rparr> | None \<Rightarrow> m)"

definition media_unmarshal_sdp :: "codec \<Rightarrow> channel_msg \<Rightarrow> sdp_msg result" where
  "media_unmarshal_sdp C msg = wrap_err ''unmarshal sdp of mesge: '' (sdp_unmarshal C (cm_data msg))"

definition media_unmarshal_mute :: "codec \<Rightarrow> channel_msg \<Rightarrow> mute result" where
  "media_unmarshal_mute C msg = wrap_err ''unmarshal mute of message: '' (mute_unmarshal C (cm_data msg))"

definition media_handle_answer :: "codec \<Rightarrow> channel_msg \<Rightarrow> media_messenger \<Rightarrow> (uuid \<times> media_call) list outcome" where
  "media_handle_answer C msg m =
     (case media_unmarshal_sdp C msg of
        Inl _ \<Rightarrow> (if media_observers m = [] then Ret [] else Panic)
      | Inr a \<Rightarrow> Ret (map (\<lambda>i. (i, Told_Answer (sm_sdp a) (cm_id msg) (sm_number a))) (media_observers m)))"

definition media_handle_offer :: "codec \<Rightarrow> channel_msg \<Rightarrow> media_messenger \<Rightarrow> (uuid \<times> media_call) list outcome" where
  "media_handle_offer C msg m =
     (case media_unmarshal_sdp C msg of
        Inl _ \<Rightarrow> (if media_observers m = [] then Ret [] else Panic)
      | Inr a \<Rightarrow> Ret (map (\<lambda>i. (i, Told_Offer (sm_sdp a) (cm_id msg) (sm_number a))) (media_observers m)))"

definition media_handle_mute :: "codec \<Rightarrow> channel_msg \<Rightarrow> media_messenger \<Rightarrow> (uuid \<times> media_call) list outcome" where
  "media_handle_mute C msg m =
     Ret (map (\<lambda>i. (i, Told_Mute (case media_unmarshal_mute C msg of Inl _ \<Rightarrow> None | Inr x \<Rightarrow> Some x))) (media_observers m))"

definition media_notify_all :: "codec \<Rightarrow> channel_msg \<Rightarrow> media_messenger \<Rightarrow> (uuid \<times> media_call) list outcome" where
  "media_notify_all C msg m =
     (if cm_type msg = answer_msg then media_handle_answer C msg m
      else if cm_type msg = offer_msg then media_handle_offer C msg m
      else if cm_type msg = mute_msg then media_handle_mute C msg m
      else Ret [])"

definition media_on_messages :: "codec \<Rightarrow> bool \<Rightarrow> bytes \<Rightarrow> media_messenger \<Rightarrow> (uuid \<times> media_call) list outcome" where
  "media_on_messages C is_string b m =
     (if is_string then Ret []
      else case msg_unmarshal C b of Inl _ \<Rightarrow> Panic | Inr msg \<Rightarrow> media_notify_all C msg m)"

definition media_enqueue :: "bytes \<Rightarrow> media_messenger \<Rightarrow> media_messenger outcome" where
  "media_enqueue b m =
     (if mm_quit m then Ret m
      else if mm_worker m then Ret (m\<lparr> mm_sent := mm_sent m @ [b] \<rparr>)
      else Block)"

definition media_send_sdp ::
  "codec \<Rightarrow> session_description option \<Rightarrow> 32 word \<Rightarrow> 32 word \<Rightarrow> media_messenger
     \<Rightarrow> (32 word result \<times> media_messenger) outcome" where
  "media_send_sdp C sdp i number m =
     outcome_bind (deref sdp) (\<lambda>d.
       let ty = (case sd_type d of SdpOffer \<Rightarrow> offer_msg | SdpAnswer \<Rightarrow> answer_msg | _ \<Rightarrow> 0) in
       case msg_marshal C \<lparr> cm_id = i, cm_data = Sdp_Data \<lparr> sm_number = number, sm_sdp = sdp \<rparr>, cm_type = ty \<rparr> of
         Inl e \<Rightarrow> Ret (Inl (Wrap (''marshaling offer message (msgId '' @ show_nat (unat i) @ '' offer '' @
                    show_nat (unat number) @ ''): '') e), m)
       | Inr b \<Rightarrow> outcome_bind (media_enqueue b m) (\<lambda>m. Ret (Inr i, m)))"

definition media_send_mute :: "codec \<Rightarrow> mute \<Rightarrow> media_messenger \<Rightarrow> (unit result \<times> media_messenger) outcome" where
  "media_send_mute C mu m =
     (case msg_marshal C \<lparr> cm_id = 123, cm_data = Mute_Data mu, cm_type = mute_msg \<rparr> of
        Inl e \<Rightarrow> Ret (Inl (Wrap ''marshaling mute message: '' e), m)
      | Inr b \<Rightarrow> outcome_bind (media_enqueue b m) (\<lambda>m. Ret (Inr (), m)))"

section \<open>The state handler\<close>

text \<open>When the channel opens its worker starts; it ends when the handler is closed, the
  messenger stays.\<close>

record media_handler =
  mh_messenger :: media_messenger
  mh_closed :: bool

definition new_media_state_event_handler :: "media_messenger \<Rightarrow> media_handler" where
  "new_media_state_event_handler m = \<lparr> mh_messenger = m, mh_closed = False \<rparr>"

definition handler_on_open :: "media_handler \<Rightarrow> media_handler" where
  "handler_on_open h = (if mh_closed h then h else h\<lparr> mh_messenger := (mh_messenger h)\<lparr> mm_worker := True \<rparr> \<rparr>)"

definition handler_close :: "media_handler \<Rightarrow> media_handler" where
  "handler_close h =
     (if mh_closed h then h else h\<lparr> mh_closed := True, mh_messenger := (mh_messenger h)\<lparr> mm_worker := False \<rparr> \<rparr>)"

section \<open>The receiving program\<close>

text \<open>An offer of the lobby is answered over the messenger; every error is logged.  The
  flag says whether the gathering ended.\<close>

definition observer_on_offer ::
  "'pc lib \<Rightarrow> codec \<Rightarrow> session_description option \<Rightarrow> 32 word \<Rightarrow> 32 word \<Rightarrow> bool \<Rightarrow> 'pc connection \<Rightarrow> media_messenger
     \<Rightarrow> ('pc connection \<times> media_messenger) outcome" where
  "observer_on_offer L C sdp i number gathered c m =
     outcome_bind (deref sdp) (\<lambda>d.
       case lb_set_remote L d (cn_pc c) of
         (Some _, pc) \<Rightarrow> Ret (c\<lparr> cn_pc := pc \<rparr>, m)
       | (None, pc) \<Rightarrow>
           (let c = c\<lparr> cn_pc := pc, cn_gather := True \<rparr> in
            case lb_create_answer L pc of
              Inl _ \<Rightarrow> Ret (c, m)
            | Inr answer \<Rightarrow>
                (case lb_set_local L answer pc of
                   (Some _, pc) \<Rightarrow> Ret (c\<lparr> cn_pc := pc \<rparr>, m)
                 | (None, pc) \<Rightarrow>
                     (let c = c\<lparr> cn_pc := pc \<rparr> in
                      case connection_local_description L gathered c of
                        Inl _ \<Rightarrow> Ret (c, m)
                      | Inr ldc \<Rightarrow> outcome_bind (media_send_sdp C (Some ldc) i number m) (\<lambda>(_, m). Ret (c, m))))))"

definition observer_on_answer :: "session_description option \<Rightarrow> 32 word \<Rightarrow> 32 word \<Rightarrow> unit outcome" where
  "observer_on_answer sdp i number = Ret ()"

text \<open>Muting is not implemented and panics.\<close>

definition observer_on_mute :: "mute option \<Rightarrow> unit outcome" where "observer_on_mute mu = Panic"

definition or_panic :: "'a result \<Rightarrow> 'a outcome" where
  "or_panic r = (case r of Inl _ \<Rightarrow> Panic | Inr x \<Rightarrow> Ret x)"

text \<open>What the program has set up when it starts to wait: the signalling connection, the
  receiving one, the client.\<close>

definition run_media_streamer ::
  "'pc lib \<Rightarrow> 'pc channel_lib \<Rightarrow> udp_lib \<Rightarrow> web \<Rightarrow> bool \<Rightarrow> string \<Rightarrow> bool \<Rightarrow> bool \<Rightarrow> uuid
     \<Rightarrow> ('pc connection \<times> 'pc connection \<times> client \<times> media_messenger) outcome" where
  "run_media_streamer L C U W config_ok bearer gathered gathered2 observer =
     (let space = ''live_stream_channel@localhost:9000''; stream = ''33ccbfbc-d07c-4ed4-abd6-077ba9cb9e65'' in
      if \<not> config_ok then Panic
      else outcome_bind (or_panic (new_signal_connection L C)) (\<lambda>signal.
      outcome_bind (or_panic (connection_local_description L gathered signal)) (\<lambda>signal_offer.
      let whip = new_client []; whip = whip\<lparr> ct_session := session_set_bearer bearer (ct_session whip) \<rparr> in
      outcome_bind (whip_get_answer W space stream signal_offer whip) (\<lambda>(r, whip).
      outcome_bind (or_panic r) (\<lambda>signal_answer.
      outcome_bind (case lb_set_remote L signal_answer (cn_pc signal) of (Some _, _) \<Rightarrow> Panic | (None, pc) \<Rightarrow> Ret (signal\<lparr> cn_pc := pc \<rparr>)) (\<lambda>signal.
      outcome_bind (whep_get_offer W space stream (new_client [With_Session (ct_session whip)])) (\<lambda>(r, whep).
      outcome_bind (or_panic r) (\<lambda>offer.
      outcome_bind (or_panic (fst (new_receiver_connection L C U offer))) (\<lambda>receiving.
      outcome_bind (or_panic (connection_local_description L gathered2 receiving)) (\<lambda>answer.
      outcome_bind (whep_send_answer W space stream bearer answer whep) (\<lambda>(e, whep).
        if e \<noteq> None then Panic else Ret (signal, receiving, whep, media_register observer media_new_messenger))))))))))))"

section \<open>Properties\<close>

text \<open>The messenger of a lobby seen as one of the client's side: the counter is forgotten.\<close>

definition as_media :: "messenger \<Rightarrow> media_messenger" where
  "as_media m = \<lparr> mm_observers = mg_observers m, mm_worker = mg_worker m, mm_quit = mg_quit m, mm_sent = mg_sent m \<rparr>"

fun told :: "uuid \<times> media_call \<Rightarrow> uuid \<times> observer_call \<Rightarrow> bool" where
  "told (i, Told_Answer d k n) (j, On_Answer d' n') = (i = j \<and> d = d' \<and> n = n')"
| "told (i, Told_Offer d k n) (j, On_Offer d' k' n') = (i = j \<and> d = d' \<and> k = k' \<and> n = n')"
| "told (i, Told_Mute (Some mu)) (j, On_Mute mu') = (i = j \<and> mu = mu')"
| "told _ _ = False"

fun same_calls :: "(uuid \<times> media_call) list outcome \<Rightarrow> (uuid \<times> observer_call) list outcome \<Rightarrow> bool" where
  "same_calls (Ret xs) (Ret ys) = list_all2 told xs ys"
| "same_calls Panic Panic = True"
| "same_calls Block Block = True"
| "same_calls _ _ = False"

lemma told_map: "(\<And>i. told (i, f i) (i, g i)) \<Longrightarrow> list_all2 told (map (\<lambda>i. (i, f i)) xs) (map (\<lambda>i. (i, g i)) xs)"
  by (induction xs) auto

text \<open>C35: on every message that is not a mute which cannot be decoded, the client's
  messenger does what the lobby's messenger does: it tells the same observers the same
  descriptions and numbers, and panics where the other does.\<close>

theorem media_messenger_agrees:
  assumes "\<And>msg. msg_unmarshal C b = Inr msg \<Longrightarrow> cm_type msg = mute_msg \<Longrightarrow> is_ok (mute_unmarshal C (cm_data msg))"
  shows "same_calls (media_on_messages C is_string b (as_media m)) (on_messages C is_string b m)"
proof (cases "is_string")
  case False
  have o: "media_observers (as_media m) = observers m" by (simp add: media_observers_def observers_def as_media_def)
  show ?thesis
  proof (cases "msg_unmarshal C b")
    case (Inr msg)
    have s: "media_unmarshal_sdp C msg = unmarshal_sdp C msg" by (simp add: media_unmarshal_sdp_def unmarshal_sdp_def)
    have a: "same_calls (media_handle_answer C msg (as_media m)) (handle_answer_msg C msg m)"
      by (cases "unmarshal_sdp C msg") (simp_all add: media_handle_answer_def handle_answer_msg_def s o told_map)
    have f: "same_calls (media_handle_offer C msg (as_media m)) (handle_offer_msg C msg m)"
      by (cases "unmarshal_sdp C msg") (simp_all add: media_handle_offer_def handle_offer_msg_def s o told_map)
    have u: "same_calls (media_handle_mute C msg (as_media m)) (handle_mute_msg C msg m)" if "cm_type msg = mute_msg"
    proof -
      have "is_ok (mute_unmarshal C (cm_data msg))" by (rule assms[OF Inr that])
      then obtain mu where "mute_unmarshal C (cm_data msg) = Inr mu" by (auto simp: is_ok_iff)
      then show ?thesis by (simp add: media_handle_mute_def handle_mute_msg_def media_unmarshal_mute_def o told_map)
    qed
    show ?thesis using a f u by (simp add: media_on_messages_def on_messages_def False Inr media_notify_all_def notify_all_def)
  qed (simp add: media_on_messages_def on_messages_def False)
qed (simp add: media_on_messages_def on_messages_def)

lemma media_messenger_agrees_witness:
  "same_calls (media_on_messages (mute_codec \<lparr> mu_mid = ''1'', mu_mute = True \<rparr>) False [1] (as_media (register 5 new_messenger)))
     (on_messages (mute_codec \<lparr> mu_mid = ''1'', mu_mute = True \<rparr>) False [1] (register 5 new_messenger))"
  by (rule media_messenger_agrees) (auto simp: mute_codec_def mute_unmarshal_def msg_unmarshal_def)

text \<open>Once the handler is closed nobody takes from the queue, and the messenger cannot be
  told: every further message waits for ever.\<close>

lemma closed_handler_blocks_senders:
  assumes "\<not> mm_quit m" "\<not> mm_worker m" "\<And>msg. is_ok (msg_marshal C msg)"
  shows "media_send_sdp C (Some d) i n (mh_messenger (handler_close (handler_on_open (new_media_state_event_handler m)))) = Block"
    and "media_send_mute C mu (mh_messenger (handler_close (handler_on_open (new_media_state_event_handler m)))) = Block"
proof -
  let ?m = "mh_messenger (handler_close (handler_on_open (new_media_state_event_handler m)))"
  have m: "\<not> mm_quit ?m" "\<not> mm_worker ?m"
    using assms(1) by (simp_all add: handler_close_def handler_on_open_def new_media_state_event_handler_def)
  obtain b where "msg_marshal C \<lparr> cm_id = i, cm_data = Sdp_Data \<lparr> sm_number = n, sm_sdp = Some d \<rparr>,
      cm_type = (case sd_type d of SdpOffer \<Rightarrow> offer_msg | SdpAnswer \<Rightarrow> answer_msg | _ \<Rightarrow> 0) \<rparr> = Inr b"
    using assms(3) by (auto simp: is_ok_iff)
  then show "media_send_sdp C (Some d) i n ?m = Block" using m by (simp add: media_send_sdp_def deref_def Let_def media_enqueue_def)
  obtain b where "msg_marshal C \<lparr> cm_id = 123, cm_data = Mute_Data mu, cm_type = mute_msg \<rparr> = Inr b"
    using assms(3) by (auto simp: is_ok_iff)
  then show "media_send_mute C mu ?m = Block" using m by (simp add: media_send_mute_def media_enqueue_def)
qed

end
