(* ===== verification/Runner.thy ===== *)
theory Runner
  imports Media_Client Config
begin

text \<open>
  The programs that send media into a lobby: the sender of the command line tool
  (\<^verbatim>\<open>internal/runner/static_sender.go\<close>, \<^verbatim>\<open>internal/cmd/send.go\<close>) and the
  older runner (\<^verbatim>\<open>cmd/media_runner\<close>).  The flags of the command line and the
  reading of its configuration are the libraries' and arguments here.
\<close>

section \<open>The sender\<close>

record static_sender =
  st_audio :: string
  st_video :: string
  st_space :: string
  st_stream :: string
  st_session :: client_session
  st_main :: bool

definition new_static_sender :: "string \<Rightarrow> string \<Rightarrow> string \<Rightarrow> string \<Rightarrow> client_session \<Rightarrow> bool \<Rightarrow> static_sender" where
  "new_static_sender audio video space stream session is_main =
     \<lparr> st_audio = audio, st_video = video, st_space = space, st_stream = stream, st_session = session, st_main = is_main \<rparr>"

text \<open>A step of the sender that fails ends it with the error; the requests that were made
  before are kept beside.\<close>

definition or_stop ::
  "string \<Rightarrow> 'a result outcome \<Rightarrow> ('a \<Rightarrow> (go_error option outcome \<times> 'r list)) \<Rightarrow> go_error option outcome \<times> 'r list" where
  "or_stop what r k =
     (case r of
        Panic \<Rightarrow> (Panic, []) | Block \<Rightarrow> (Block, [])
      | Ret (Inl e) \<Rightarrow> (Ret (Some (Wrap what e)), [])
      | Ret (Inr x) \<Rightarrow> k x)"

definition noting :: "'r \<Rightarrow> go_error option outcome \<times> 'r list \<Rightarrow> go_error option outcome \<times> 'r list" where
  "noting x r = (fst r, x # snd r)"

text \<open>It waits for the end of its context once the exchange is done; how the gathering
  ended is an argument.  The descriptions sent to the server are kept.\<close>

definition static_sender_run ::
  "'pc lib \<Rightarrow> 'pc channel_lib \<Rightarrow> file_system \<Rightarrow> web \<Rightarrow> (string \<Rightarrow> string \<Rightarrow> go_error option) \<Rightarrow> (nat \<Rightarrow> string) \<Rightarrow> wait_event \<Rightarrow> bool
     \<Rightarrow> 'h itself \<Rightarrow> static_sender \<Rightarrow> go_error option outcome \<times> session_description list" where
  "static_sender_run L C F W new_static new_id ev ctx_done T mr =
     (let stream_id = new_id 0 in
      or_stop ''creating video track: ''
        (new_local_file_looper_track F new_static (new_id 1) (new_id 2) (st_video mr) [With_Stream_Id stream_id]
           :: (unit sample_track \<times> 'h file_looper) result outcome) (\<lambda>(video, _).
      or_stop ''creating audio track: ''
        (new_local_file_looper_track F new_static (new_id 3) (new_id 4) (st_audio mr) [With_Stream_Id stream_id]
           :: (unit sample_track \<times> 'h file_looper) result outcome) (\<lambda>(audio, _).
      or_stop ''building new webrtc endpoint: ''
        (Ret (establish_static_ingress_endpoint L C [tk_id video, tk_id audio] [With_On_Established (Other_Callback 0)])) (\<lambda>endpoint.
      or_stop ''creating local offer: '' (bare_local_description L ev endpoint) (\<lambda>offer.
      or_stop ''marking straem as main stream: ''
        (Ret (if st_main mr then mark_stream_as_main (lb_unmarshal L) (lb_marshal L) offer stream_id else Inr offer)) (\<lambda>offer.
      noting offer
        (or_stop ''getting answer from whip endpoint: ''
          (outcome_bind (whip_get_answer W (st_space mr) (st_stream mr) offer (new_client [With_Session (st_session mr)])) (\<lambda>(r, _). Ret r)) (\<lambda>answer.
        or_stop ''creating setting answer: '' (outcome_bind (bare_set_answer L answer endpoint) (\<lambda>(r, _). Ret r)) (\<lambda>_.
          (if ctx_done then Ret None else Block, []))))))))))"

section \<open>The command\<close>

text \<open>What the command prints last, with the calls on the lobby it made; the sender runs
  beside it, and the main stream is started once the sender's connection is
  established.\<close>

datatype lobby_call = Login_Call | Start_Call | Stop_Call

text \<open>How the race between the sender's end and the connection ended.\<close>

datatype established_event = Sender_Finished | Connection_Established

record send_config =
  sc_user :: string
  sc_register_token :: string
  sc_info :: live_stream_info

definition send_command ::
  "(string \<Rightarrow> url result) \<Rightarrow> web \<Rightarrow> send_config \<Rightarrow> string \<Rightarrow> bool \<Rightarrow> established_event \<Rightarrow> client_session
     \<Rightarrow> go_error option outcome \<Rightarrow> unit outcome \<times> lobby_call list" where
  "send_command parse W cfg url is_main ev session_then sender =
     (case new_shig_params_by_url parse url of
        Inl _ \<Rightarrow> (Ret (), [])
      | Inr params \<Rightarrow>
          let (r, lobby) = lobby_login W (new_lobby_api (sc_user cfg) (sc_register_token cfg) (sp_url params) []) in
          (case r of
             Inl _ \<Rightarrow> (Ret (), [Login_Call])
           | Inr _ \<Rightarrow>
               if sender = Panic then (Panic, [Login_Call])
               else if is_main \<and> ev = Sender_Finished
               then (if sender = Block then (Block, [Login_Call]) else (Ret (), [Login_Call]))
               else
                 (let lobby = la_set_session session_then lobby;
                      (started, lobby, calls) =
                        (if is_main then
                           (case lobby_start W (sp_space params) (sp_stream params) (sc_info cfg) lobby of
                              Ret (_, l) \<Rightarrow> (Ret (), l, [Login_Call, Start_Call])
                            | Panic \<Rightarrow> (Panic, lobby, [Login_Call, Start_Call])
                            | Block \<Rightarrow> (Block, lobby, [Login_Call, Start_Call]))
                         else (Ret (), lobby, [Login_Call])) in
                  case started of
                    Panic \<Rightarrow> (Panic, calls)
                  | Block \<Rightarrow> (Block, calls)
                  | Ret _ \<Rightarrow>
                      if sender = Block then (Block, calls)
                      else if is_main then
                        (outcome_bind (lobby_stop W (sp_space params) (sp_stream params) lobby) (\<lambda>_. Ret ()), calls @ [Stop_Call])
                      else (Ret (), calls))))"

section \<open>The older runner\<close>

definition media_runner ::
  "'pc lib \<Rightarrow> 'pc channel_lib \<Rightarrow> file_lib \<Rightarrow> web \<Rightarrow> string \<Rightarrow> string \<Rightarrow> string \<Rightarrow> string \<Rightarrow> bool \<Rightarrow> wait_event \<Rightarrow> unit outcome" where
  "media_runner L C F W stream_id audio video bearer config_ok ev =
     outcome_bind (new_media_file F stream_id audio video) (\<lambda>r.
     outcome_bind (or_panic r) (\<lambda>(media, a, v).
     if \<not> config_ok then Panic
     else
     outcome_bind (or_panic (fst (new_static_media_sender_endpoint L C a v))) (\<lambda>endpoint.
     outcome_bind (bare_local_description L ev endpoint) (\<lambda>r.
     outcome_bind (or_panic r) (\<lambda>offer.
     let whip = new_client []; whip = whip\<lparr> ct_session := session_set_bearer bearer (ct_session whip) \<rparr> in
     outcome_bind (whip_get_answer W ''123'' ''value'' offer whip) (\<lambda>(r, _).
     outcome_bind (or_panic r) (\<lambda>answer.
     outcome_bind (bare_set_answer L answer endpoint) (\<lambda>(r, _).
     outcome_bind (or_panic r) (\<lambda>_. Block)))))))))"

section \<open>Properties\<close>

text \<open>A step that fails sends nothing and does not let the sender wait.\<close>

definition silent :: "go_error option outcome \<times> 'r list \<Rightarrow> bool" where
  "silent r = (snd r = [] \<and> (fst r = Panic \<or> (\<exists>e. fst r = Ret (Some e))))"

lemma or_stop_silent:
  "r \<noteq> Block \<Longrightarrow> (\<And>x. r = Ret (Inr x) \<Longrightarrow> silent (k x)) \<Longrightarrow> silent (or_stop what r k)"
  by (auto simp: or_stop_def silent_def split: outcome.splits sum.splits)

lemma file_looper_never_blocks: "new_local_file_looper_track F ns i k file opts \<noteq> Block"
  by (simp add: new_local_file_looper_track_def new_local_looper_h264_track_def new_local_looper_vp8_track_def
      new_video_looper_h264_def new_video_looper_vp8_def frame_duration_def split: sum.splits prod.splits)

lemma silent_sender: "silent (static_sender_run L C F W new_static new_id ev ctx_done T mr)"
  unfolding static_sender_run_def Let_def
proof (intro or_stop_silent file_looper_never_blocks, goal_cases)
  case (1 video)
  show ?case
  proof (cases video, simp only: prod.case, intro or_stop_silent file_looper_never_blocks, goal_cases)
    case (1 _ _ audio)
    show ?case
    proof (cases audio, simp only: prod.case, rule or_stop_silent, goal_cases)
      case (2 _ _ endpoint)
      then show ?case
        by (auto simp: static_endpoints_without_context(2) or_stop_def silent_def)
    qed simp
  qed
qed

text \<open>C31: the sender never offers anything to a lobby: it ends with an error or panics,
  at the latest when it asks its endpoint for the local description, and no
  description is sent.\<close>

theorem static_sender_never_sends:
  "snd (static_sender_run L C F W new_static new_id ev ctx_done T mr) = [] \<and>
   (fst (static_sender_run L C F W new_static new_id ev ctx_done T mr) = Panic \<or>
    (\<exists>e. fst (static_sender_run L C F W new_static new_id ev ctx_done T mr) = Ret (Some e)))"
  using silent_sender unfolding silent_def .

lemma media_file_never_blocks: "new_media_file F i audio video \<noteq> Block"
  by (auto simp: new_media_file_def Let_def get_audio_track_def split: option.splits sum.splits)

text \<open>The older runner panics on every input, at its endpoint's description if not before.\<close>

lemma media_runner_panics: "media_runner L C F W stream_id audio video bearer config_ok ev = Panic"
proof (cases "new_media_file F stream_id audio video")
  case (Ret r)
  show ?thesis
  proof (cases r)
    case (Inr x)
    obtain media a v where x: "x = (media, a, v)" by (cases x)
    show ?thesis
    proof (cases "fst (new_static_media_sender_endpoint L C a v)")
      case (Inr b)
      have "bare_local_description L ev b = Panic" by (rule static_endpoints_without_context(3)[OF Inr])
      then show ?thesis using Ret \<open>r = Inr x\<close> x Inr by (simp add: media_runner_def or_panic_def)
    qed (simp add: media_runner_def or_panic_def Ret Inr x)
  qed (simp add: media_runner_def or_panic_def Ret)
next
  case Block
  then show ?thesis using media_file_never_blocks by blast
qed (simp add: media_runner_def)

end
