(* ===== verification/Command_Line.thy ===== *)
theory Command_Line
  imports Runner
begin

text \<open>
  The command lines: the flags of the older runner (\<^verbatim>\<open>internal/runner/cli.go\<close>) and
  the configuration of the command line tool (\<^verbatim>\<open>internal/cmd/command.go\<close>,
  \<^verbatim>\<open>config.go\<close>) with what its \<^verbatim>\<open>send\<close> command does with it.  How flags
  and files are read is the libraries'; what was read is an argument.
\<close>

section \<open>The older runner\<close>

record cli =
  ci_audio :: string
  ci_video :: string
  ci_config :: string

definition new_cli :: cli where "new_cli = \<lparr> ci_audio = [], ci_video = [], ci_config = [] \<rparr>"

definition audio_file_name :: string where "audio_file_name = ''output.ogg''"
definition video_file_name :: string where "video_file_name = ''output.ivf''"
definition config_toml :: string where "config_toml = ''config.toml''"

text \<open>The flags that were given; the others have their defaults.\<close>

record cli_flags =
  cg_config :: "string option"
  cg_audio :: "string option"
  cg_video :: "string option"
  cg_help :: bool

definition flag_value :: "string option \<Rightarrow> string \<Rightarrow> string" where
  "flag_value given usual = (case given of Some s \<Rightarrow> s | None \<Rightarrow> usual)"

definition cli_parse :: "cli_flags \<Rightarrow> cli \<Rightarrow> bool \<times> cli" where
  "cli_parse g c =
     (let conf = flag_value (cg_config g) config_toml; audio = flag_value (cg_audio g) audio_file_name;
          video = flag_value (cg_video g) video_file_name
      in if cg_help g then (False, c) else (True, \<lparr> ci_audio = audio, ci_video = video, ci_config = conf \<rparr>))"

text \<open>The program does not look at whether help was asked for; the configuration named is
  read, or not, by the parser of the server's configuration.\<close>

definition media_runner_main ::
  "'pc lib \<Rightarrow> 'pc channel_lib \<Rightarrow> file_lib \<Rightarrow> web \<Rightarrow> string \<Rightarrow> string \<Rightarrow> (string \<Rightarrow> bool) \<Rightarrow> wait_event \<Rightarrow> cli_flags \<Rightarrow> unit outcome" where
  "media_runner_main L C F W stream_id bearer config_ok ev g =
     (let (_, c) = cli_parse g new_cli
      in media_runner L C F W stream_id (ci_audio c) (ci_video c) bearer (config_ok (ci_config c)) ev)"

section \<open>The command line tool\<close>

record shig_config =
  hc_user :: string
  hc_pass :: string
  hc_register_token :: string

record rtmp_config =
  mc_stream_key :: string
  mc_rtmp_url :: string

text \<open>Each section is a pointer that stays nil when the file does not have it.\<close>

record clt_config =
  tc_shig :: "shig_config option"
  tc_rtmp :: "rtmp_config option"
  tc_rtp :: "rtp_config option"

definition empty_config :: clt_config where "empty_config = \<lparr> tc_shig = None, tc_rtmp = None, tc_rtp = None \<rparr>"

text \<open>What the configuration library is told.  A file that is set explicitly is the one it
  reads: the paths are for a search that then does not take place.\<close>

record config_search =
  co_file :: string
  co_paths :: "string list"
  co_type :: "string option"

definition config_search :: "string \<Rightarrow> string result \<Rightarrow> config_search result" where
  "config_search cfg_file home =
     (if cfg_file \<noteq> [] then Inr \<lparr> co_file = cfg_file, co_paths = [], co_type = None \<rparr>
      else case home of
             Inl e \<Rightarrow> Inl e
           | Inr h \<Rightarrow> Inr \<lparr> co_file = ''.shigClt'', co_paths = [h, ''.''], co_type = Some ''toml'' \<rparr>)"

text \<open>Without a home the program ends.  That the file cannot be read is only not reported,
  and then there is nothing to decode; what could be decoded before an error stays.\<close>

record clt_viper =
  cv_read :: "config_search \<Rightarrow> string result"
  cv_decode :: "string \<Rightarrow> go_error option \<times> clt_config"

datatype init_result = Program_Ends go_error | Configured clt_config

definition init_config :: "clt_viper \<Rightarrow> string \<Rightarrow> string result \<Rightarrow> init_result" where
  "init_config V cfg_file home =
     (case config_search cfg_file home of
        Inl e \<Rightarrow> Program_Ends e
      | Inr q \<Rightarrow>
          (case cv_read V q of
             Inl _ \<Rightarrow> Configured empty_config
           | Inr text \<Rightarrow> Configured (snd (cv_decode V text))))"

text \<open>The command reads the user and the token once the address of the stream is read,
  and the address and the key of the RTMP server when it starts the stream.  How the
  sender ends, and which of two waits ends first, are arguments.\<close>

definition clt_send ::
  "(string \<Rightarrow> url result) \<Rightarrow> web \<Rightarrow> clt_config \<Rightarrow> string \<Rightarrow> bool \<Rightarrow> established_event \<Rightarrow> client_session
     \<Rightarrow> go_error option outcome \<Rightarrow> unit outcome \<times> lobby_call list" where
  "clt_send parse W c url is_main ev session_then sender =
     (case new_shig_params_by_url parse url of
        Inl _ \<Rightarrow> (Ret (), [])
      | Inr _ \<Rightarrow>
          (case tc_shig c of
             None \<Rightarrow> (Panic, [])
           | Some h \<Rightarrow>
               (case tc_rtmp c of
                  Some m \<Rightarrow>
                    send_command parse W \<lparr> sc_user = hc_user h, sc_register_token = hc_register_token h,
                        sc_info = \<lparr> li_stream_key = mc_stream_key m, li_rtmp_url = mc_rtmp_url m \<rparr> \<rparr>
                      url is_main ev session_then sender
                | None \<Rightarrow>
                    (let r = send_command parse W \<lparr> sc_user = hc_user h, sc_register_token = hc_register_token h,
                               sc_info = \<lparr> li_stream_key = [], li_rtmp_url = [] \<rparr> \<rparr> url is_main ev session_then sender
                     in if Start_Call \<in> set (snd r) then (Panic, [Login_Call]) else r))))"

section \<open>Properties\<close>

text \<open>Whatever flags it is given, help included, the older runner panics; asked for help it
  first looks for files without a name.\<close>

theorem runner_always_panics: "media_runner_main L C F W stream_id bearer config_ok ev g = Panic"
  by (simp add: media_runner_main_def media_runner_panics split_beta Let_def)

text \<open>With no file given the tool never looks into the home directory for its
  configuration: it reads \<^verbatim>\<open>.shigClt\<close> where it was started.\<close>

lemma home_not_searched: "config_search [] (Inr h) = Inr q \<Longrightarrow> co_file q = ''.shigClt'' \<and> co_file q \<noteq> h @ ''/.shigClt.toml''"
  by (cases h rule: rev_cases) (auto simp: config_search_def)

text \<open>A configuration that cannot be read is not noticed before it is used: the command
  panics on every address it can read, before it asks the server for anything.\<close>

theorem unread_config_panics:
  assumes "config_search cfg_file home = Inr q" "cv_read V q = Inl e" "parse url = Inr u"
  shows "\<exists>c. init_config V cfg_file home = Configured c \<and>
    clt_send parse W c url is_main ev session_then sender = (Panic, [])"
  using assms by (simp add: init_config_def clt_send_def empty_config_def new_shig_params_by_url_def)

text \<open>Without the section of the RTMP server a main stream is never started: either the
  sender ends first, or the command panics when it reads the address.\<close>

lemma send_command_starts:
  assumes "\<not> is_main \<or> ev = Sender_Finished"
  shows "Start_Call \<notin> set (snd (send_command parse W cfg url is_main ev session_then sender))"
  using assms by (auto simp: send_command_def Let_def split: sum.splits prod.splits)

theorem start_needs_rtmp_section:
  assumes "tc_rtmp c = None"
  shows "Start_Call \<notin> set (snd (clt_send parse W c url is_main ev session_then sender))"
  using assms by (auto simp: clt_send_def Let_def split: sum.splits option.splits)

end
