(* ===== verification/Spec2Isabelle.thy ===== *)
theory Spec2Isabelle
  imports Media_Stream Federation_Http Remote_Objects Media_Http Server Command_Line
begin

text \<open>
  Verification of the SFU \<^verbatim>\<open>shig\<close> (a federated selective forwarding
  unit for live streams).  Paths are relative to the repository's source tree.

  \<^bold>\<open>The program.\<close>  A user of an instance enters a live stream through the
  HTTP interface (\<^verbatim>\<open>internal/media\<close>, guarded by \<^verbatim>\<open>internal/auth\<close>).
  The lobby manager finds or creates the stream's lobby
  (\<^verbatim>\<open>internal/lobby\<close>); a lobby creates and removes sessions and runs
  commands one after the other.  A session (\<^verbatim>\<open>internal/lobby/sessions\<close>)
  owns an ingress endpoint, which receives the user's media, and an egress
  endpoint, which sends the media of the others; the lobby's hub passes every
  arriving, departing and muted track to the other sessions.  An endpoint
  (\<^verbatim>\<open>internal/rtp\<close>) is a peer connection with the descriptions of its
  tracks, carried in the titles of the SDP media sections, and offers
  renegotiations over a messenger (\<^verbatim>\<open>internal/lobby/clients\<close>).  A lobby
  whose stream belongs to another instance opens a pipe to it
  (\<^verbatim>\<open>internal/lobby/federation\<close>).  Streams come into being through the
  ActivityPub federation (\<^verbatim>\<open>internal/activitypub\<close>): an instance
  registers with another one, follows it, and receives the announcements, updates
  and deletions of its videos in a signed inbox; the video service turns them into
  streams, spaces and accounts (\<^verbatim>\<open>internal/stream\<close>).

  \<^bold>\<open>Theories.\<close>
  \<^item> \<^theory_text>\<open>Shig_Prelude\<close>: Go errors, outcomes of calls (a call returns,
    panics or blocks), maps in iteration order, the interface of keyed tables.
  \<^item> \<^theory_text>\<open>Go_Strings\<close>: the functions of the standard library the
    program parses with.
  \<^item> \<^theory_text>\<open>Track_Info\<close>, \<^theory_text>\<open>Sdp\<close>, \<^theory_text>\<open>Stats_Registry\<close>,
    \<^theory_text>\<open>Media_Stream\<close>, \<^theory_text>\<open>Endpoint\<close>: \<^verbatim>\<open>internal/rtp\<close> and
    \<^verbatim>\<open>internal/rtp/stats\<close>, that is \<^verbatim>\<open>track_info.go\<close>,
    \<^verbatim>\<open>track_sdp_info*.go\<close>; \<^verbatim>\<open>sdp.go\<close>; \<^verbatim>\<open>registry.go\<close> and
    \<^verbatim>\<open>worker.go\<close>; \<^verbatim>\<open>media_writer.go\<close>, \<^verbatim>\<open>media_stream.go\<close> and
    \<^verbatim>\<open>receiver.go\<close>; \<^verbatim>\<open>endpoint*.go\<close>, \<^verbatim>\<open>establish_endpoint.go\<close>
    and \<^verbatim>\<open>engine.go\<close>.
  \<^item> \<^theory_text>\<open>Messenger\<close>: \<^verbatim>\<open>pkg/message\<close> and
    \<^verbatim>\<open>internal/lobby/clients/messenger.go\<close>.
  \<^item> \<^theory_text>\<open>Session\<close>, \<^theory_text>\<open>Session_Repository\<close>, \<^theory_text>\<open>Hub\<close>:
    \<^verbatim>\<open>session.go\<close>, \<^verbatim>\<open>signal*.go\<close>, \<^verbatim>\<open>session_repository.go\<close> and
    \<^verbatim>\<open>hub*.go\<close> of \<^verbatim>\<open>internal/lobby/sessions\<close>.
  \<^item> \<^theory_text>\<open>Commands\<close>, \<^theory_text>\<open>Federation\<close>, \<^theory_text>\<open>Lobby\<close>,
    \<^theory_text>\<open>Lobby_Repository\<close>: \<^verbatim>\<open>internal/lobby/commands\<close>,
    \<^verbatim>\<open>internal/lobby/federation\<close> with the API client, \<^verbatim>\<open>lobby.go\<close>, and
    \<^verbatim>\<open>lobby_repository.go\<close> with \<^verbatim>\<open>lobby_manager.go\<close>.
  \<^item> \<^theory_text>\<open>Http\<close>, \<^theory_text>\<open>Auth\<close>, \<^theory_text>\<open>Memory_Store\<close>,
    \<^theory_text>\<open>Metric_Graph\<close>: handlers and replies, \<^verbatim>\<open>internal/auth\<close>,
    \<^verbatim>\<open>internal/storage/memory.go\<close> and \<^verbatim>\<open>internal/metric/node_graph.go\<close>.

  \<^item> \<^theory_text>\<open>Lobby_Api\<close>, \<^theory_text>\<open>Stream\<close>: \<^verbatim>\<open>internal/stream\<close>, the
    interface of the lobby manager and what its clients rely on (a locale,
    interpreted in \<^theory_text>\<open>Lobby_Repository\<close>), streams and spaces.
  \<^item> \<^theory_text>\<open>Media_Http\<close>: \<^verbatim>\<open>internal/media\<close>, the handlers
    of streams and lobbies with their router.
  \<^item> \<^theory_text>\<open>Iri\<close>, \<^theory_text>\<open>Actors\<close>, \<^theory_text>\<open>Outbox\<close>,
    \<^theory_text>\<open>Actor_Document\<close>, \<^theory_text>\<open>Video_Service\<close>, \<^theory_text>\<open>Inbox\<close>,
    \<^theory_text>\<open>Federation_Http\<close>, \<^theory_text>\<open>Remote_Objects\<close>:
    \<^verbatim>\<open>internal/activitypub\<close>, that is
    \<^verbatim>\<open>instance\<close>; \<^verbatim>\<open>models\<close>; \<^verbatim>\<open>crypto\<close>, \<^verbatim>\<open>outbox\<close> and
    \<^verbatim>\<open>remote/account.go\<close>; \<^verbatim>\<open>models/application_actor.go\<close>;
    \<^verbatim>\<open>parser\<close> and \<^verbatim>\<open>services\<close>; \<^verbatim>\<open>inbox\<close>; \<^verbatim>\<open>handler\<close>,
    \<^verbatim>\<open>request\<close>, \<^verbatim>\<open>webfinger\<close> and \<^verbatim>\<open>router.go\<close>; notes,
    activities and actors of other instances, \<^verbatim>\<open>federating_protocol.go\<close>.
  \<^item> \<^theory_text>\<open>Config\<close>, \<^theory_text>\<open>Gauges\<close>, \<^theory_text>\<open>Server\<close>: the
    configuration and its validation (\<^verbatim>\<open>internal/config\<close>), the metrics of
    \<^verbatim>\<open>internal/metric\<close>, and the start of an instance with its migration
    (\<^verbatim>\<open>internal/sfu\<close>, \<^verbatim>\<open>internal/migration\<close>,
    \<^verbatim>\<open>cmd/server\<close>).
  \<^item> \<^theory_text>\<open>Sample_Track\<close>, \<^theory_text>\<open>Sample_Source\<close>:
    \<^verbatim>\<open>internal/sample\<close> with \<^verbatim>\<open>simulcast_layer.go\<close>, the tracks the
    command line tools send on, the readers and loopers their samples come from.
  \<^item> \<^theory_text>\<open>Live_Stream\<close>, \<^theory_text>\<open>Legacy_Endpoint\<close>: the sender of
    the main stream, the RTMP listener and media files (\<^verbatim>\<open>live_stream_*.go\<close>,
    \<^verbatim>\<open>rtmp.go\<close>, \<^verbatim>\<open>internal/rtmp\<close>, \<^verbatim>\<open>internal/static\<close>), and
    the deprecated endpoints (\<^verbatim>\<open>establish_*.go\<close>, the rest of
    \<^verbatim>\<open>engine.go\<close>).
  \<^item> \<^theory_text>\<open>Client\<close>, \<^theory_text>\<open>Media_Client\<close>, \<^theory_text>\<open>Runner\<close>,
    \<^theory_text>\<open>Command_Line\<close>:
    \<^verbatim>\<open>pkg/client\<close>, \<^verbatim>\<open>pkg/media\<close> with \<^verbatim>\<open>cmd/media_streamer\<close>, and
    the programs that send files (\<^verbatim>\<open>internal/runner\<close>, \<^verbatim>\<open>internal/cmd\<close>,
    \<^verbatim>\<open>cmd/media_runner\<close>).

  \<^bold>\<open>Conventions.\<close>  A Go struct is a record, an enumeration a datatype, a
  pointer that may be nil an option.  An error is a value of
  \<^typ>\<open>go_error\<close>, a method that changes its receiver returns the new value.
  A call that may dereference nil or wait for a channel for ever returns an
  \<^typ>\<open>'a outcome\<close>, so that a panic and a block are values.  A goroutine that
  serves a channel is a function from a request and the state to the new state;
  where requests race, the theorem names the order in which they are served.
  What the code asks of a library (pion's peer connections and SDP, the JSON
  codec, the database, the HTTP client, the metrics) is a record of functions,
  an argument of the definitions that use it; where a \<^verbatim>\<open>select\<close> has several
  ready cases the case taken is an argument too.  Locks are part of the state
  only where a path leaves them held.

  \<^bold>\<open>What the lemmas show.\<close>  Each component has an invariant that its operations
  keep (sessions, lobbies, endpoints, the registry), the result of each operation
  on its branches, and the contract its clients use: sessions by user and
  lobbies by identifier are interpretations of the prelude's table interfaces.
  The memory store and the hub refine an abstract store and an abstract set of
  subscribed tracks; SDP titles and messages have round trips.  Several
  theorems establish that the program, as written, does not reach its purpose:
  an egress resource is never granted, the pipe to a hosting instance never
  opens, a refused lobby stays in the repository.  The accesses of videos to streams
  refine a counter per identifier; the actor an instance publishes is read back by
  another; and the checks the federation lacks are stated as what a sender can do.

  \<^bold>\<open>Bounds.\<close>  No definition has fuel: loops are structural on lists (packets
  read until the error that ends a track, the requests of a goroutine) and the
  step relation of a lobby speaks of finite sequences of steps; a looper that reads
  a recording again does so once per call.  Counters are words where the code's
  integers have a width (packet numbers, timestamps, message identifiers).

  \<^bold>\<open>Not modelled.\<close>  The exporters of the telemetry that are never chosen; how flags
  and configuration files are read, which is the libraries'; the host controller of
  the federation, which is commented out; test helpers and mocks.
\<close>

section \<open>A lobby for the stream of another instance\<close>

lemma connect_without_scheme:
  assumes "new_lobby L N f entity home token g0 = Ret (l0, g1)" "client_needs_scheme N"
    and "nt_parse_url N (le_host entity) = Some iri" "CHR ''/'' \<notin> set (ur_host iri)"
  shows "connect_to_live_stream_host_instance L N E Seq_Taken sev ev sid gid l0 g1 =
    Ret (snd (seq_create sid gid ((new_item (get_instance_id (ly_connector l0)))\<lparr> it_type := instance_session \<rparr>) l0), g1)"
proof -
  let ?i = "get_instance_id (ly_connector l0)"
  obtain ok l1 where c: "seq_create sid gid ((new_item ?i)\<lparr> it_type := instance_session \<rparr>) l0 = (ok, l1)"
    by (cases "seq_create sid gid ((new_item ?i)\<lparr> it_type := instance_session \<rparr>) l0")
  have cn: "ly_connector l0 = new_connector f home iri (le_space entity) (lb_uuid_str L (le_stream entity)) token"
    using assms(1,3) by (auto simp: new_lobby_def Let_def)
  have "ly_connector l1 = ly_connector l0"
    using c by (auto simp: seq_create_def split: if_splits prod.splits)
  moreover obtain e where "build_ingress N (ly_connector l0) = (Inl e, ly_connector l0)"
    using build_without_scheme(1)[OF assms(2,4)] unfolding cn by blast
  ultimately show ?thesis
    using c by (simp add: connect_to_live_stream_host_instance_def lobby_new_session_def run_built_def)
qed

text \<open>The lobby once the instance has its session and a user joined.\<close>

lemma joined_lobby:
  assumes "new_lobby L N f entity home token g0 = Ret (l0, g1)"
    and "l1 = snd (seq_create sid gid ((new_item inst)\<lparr> it_type := instance_session \<rparr>) l0)"
    and "seq_create sid2 gid2 (new_item u) l1 = (True, l2)" "sid2 \<noteq> sid" "u \<noteq> inst"
  shows "lobby_inv l2 \<and> \<not> ly_done l2 \<and> ly_id l2 = le_uuid entity \<and>
    (\<exists>s. find_by_user_id (ly_sessions l2) inst = Some s \<and> ss_type s = instance_session) \<and>
    (\<forall>x s. find_by_user_id (ly_sessions l2) x = Some s \<longrightarrow> x = u \<or> x = inst)"
proof -
  let ?si = "new_session sid gid inst (hb_live (ly_hub l0)) instance_session :: 'a session"
  let ?su = "new_session sid2 gid2 u (hb_live (ly_hub l1)) user_session :: 'a session"
  have l0: "ly_sessions l0 = []" "\<not> ly_done l0" "ly_id l0 = le_uuid entity" "lobby_inv l0"
    using assms(1) new_lobby_inv(1)[OF assms(1)]
    by (auto simp: new_lobby_def new_hub_def new_session_repository_def Let_def split_beta split: option.splits)
  have c: "seq_create sid gid ((new_item inst)\<lparr> it_type := instance_session \<rparr>) l0 = (True, l1)"
    and l1: "l1 = l0\<lparr> ly_sessions := [(sid, ?si)] \<rparr>"
    using l0 assms(2) by (simp_all add: seq_create_def sr_new_def new_item_def new_session_def)
  have inv1: "lobby_inv l1" by (rule create_keeps[OF l0(4) _ c]) (simp add: l0(1) find_by_id_def)
  have inv2: "lobby_inv l2"
    by (rule create_keeps[OF inv1 _ assms(3)]) (use assms(4) in \<open>simp add: l1 find_by_id_def\<close>)
  obtain r where n: "sr_new ?su (ly_sessions l1) = (r, True)" and l2: "l2 = l1\<lparr> ly_sessions := r \<rparr>"
    using assms(3) l0(2) by (auto simp: seq_create_def new_item_def l1 split: prod.splits)
  have "fresh_for (ly_sessions l1) ?su"
    using assms(4) by (simp add: fresh_for_def l1 new_session_def)
  from sr_new_spec[OF inv_table(1)[OF inv1] this n]
  have f: "find_by_user_id r = (find_by_user_id (ly_sessions l1))(u \<mapsto> ?su)" by (simp add: new_session_def)
  have f1: "find_by_user_id (ly_sessions l1) x = (if x = inst then Some ?si else None)" for x
    by (auto simp: l1 find_by_user_id_def new_session_def)
  have "ss_type ?si = instance_session" by (simp add: new_session_def)
  then show ?thesis using inv2 assms(5) l0(2,3) f f1 by (auto simp: l2 l1 split: if_splits)
qed

section \<open>Properties that span components\<close>



end
